(* ===== verification/Prelude.thy ===== *)
theory Prelude
  imports Main "HOL-Library.AList" "HOL-Library.Char_ord" "HOL-Library.List_Lexorder"
begin

section \<open>Shared vocabulary of the model\<close>

text \<open>
  This theory holds what every component theory uses: the exceptions of the program as a
  datatype, computations that may raise as sums, Python text operations, insertion-ordered
  dictionaries, and the lemma collections the component proofs draw on.

  Text.  A Python \<open>str\<close> is a \<open>string\<close> holding its UTF-8 encoding, one \<open>char\<close> per byte.
  The ASCII operations of the program (prefix tests, splitting at ASCII separators, the
  blank-stripping of \<open>str.strip\<close> on ASCII blanks, case folding of ASCII letters) act on
  bytes as they act on code points.  Blanks and case pairs outside ASCII are not folded.

  Dictionaries.  A Python \<open>dict\<close> is an association list with distinct keys in insertion
  order; storing is \<open>AList.update\<close>, which overwrites in place or appends, and reading is
  \<open>map_of\<close>.
\<close>

named_theorems resultE \<comment> \<open>inversion of raising computations\<close>
named_theorems wf_intros \<comment> \<open>well-formedness is preserved\<close>

subsection \<open>Exceptions and computations that may raise\<close>

text \<open>
  One constructor for each exception class the program raises or distinguishes, with its
  message.  \<open>ProviderError\<close> stands for any exception raised by code outside the repository
  (model provider, MCP session), with the HTTP status code it may carry.
\<close>

datatype exn =
    ValueError string
  | TypeError string
  | KeyError string
  | IndexError
  | RuntimeError string
  | NameError string
  | LineProtocolError string
  | PlanningValidationError string
  | TaskAnalysisValidationError string
  | RecoveryDecisionError string
  | ConfigurationError string
  | PersistenceVersionMismatchError string
  | PersistenceError string
  | CompletionJudgeProviderError string
  | ContextMaintenanceError string
  | ObservationProviderError string
  | ObservationValidationError string
  | RunBusyError string
  | ConfigurationMismatchError string
  | ConversationError string
  | ConversationNotFoundError string
  | ConversationBusyError string string int string
  | MigrationConfigurationError string
  | IntegrityError
  | ProviderError string "int option"
  | CancelledError

text \<open>The classes derived from \<open>ValueError\<close>: what an \<open>except ValueError\<close> clause catches.\<close>

fun is_value_error :: "exn \<Rightarrow> bool" where
  "is_value_error (ValueError _) = True"
| "is_value_error (LineProtocolError _) = True"
| "is_value_error (PlanningValidationError _) = True"
| "is_value_error (TaskAnalysisValidationError _) = True"
| "is_value_error (RecoveryDecisionError _) = True"
| "is_value_error (ConfigurationError _) = True"
| "is_value_error _ = False"

fun is_line_protocol_error :: "exn \<Rightarrow> bool" where
  "is_line_protocol_error (LineProtocolError _) = True"
| "is_line_protocol_error _ = False"

text \<open>
  \<open>except Exception\<close> catches everything but \<open>asyncio.CancelledError\<close>, which derives from
  \<open>BaseException\<close>.
\<close>

definition is_exception :: "exn \<Rightarrow> bool" where
  "is_exception e \<longleftrightarrow> e \<noteq> CancelledError"

text \<open>\<open>str(error)\<close>.\<close>

fun exn_str :: "exn \<Rightarrow> string" where
  "exn_str (ValueError m) = m"
| "exn_str (TypeError m) = m"
| "exn_str (KeyError m) = m"
| "exn_str IndexError = ''list index out of range''"
| "exn_str (RuntimeError m) = m"
| "exn_str (NameError m) = m"
| "exn_str (LineProtocolError m) = m"
| "exn_str (PlanningValidationError m) = m"
| "exn_str (TaskAnalysisValidationError m) = m"
| "exn_str (RecoveryDecisionError m) = m"
| "exn_str (ConfigurationError m) = m"
| "exn_str (PersistenceVersionMismatchError m) = m"
| "exn_str (PersistenceError m) = m"
| "exn_str (CompletionJudgeProviderError m) = m"
| "exn_str (ContextMaintenanceError m) = m"
| "exn_str (ObservationProviderError m) = m"
| "exn_str (ObservationValidationError m) = m"
| "exn_str (RunBusyError m) = m"
| "exn_str (ConfigurationMismatchError m) = m"
| "exn_str (ConversationError m) = m"
| "exn_str (ConversationNotFoundError m) = m"
| "exn_str (ConversationBusyError m _ _ _) = m"
| "exn_str (MigrationConfigurationError m) = m"
| "exn_str IntegrityError = []"
| "exn_str (ProviderError m _) = m"
| "exn_str CancelledError = []"

type_synonym 'a result = "exn + 'a"

text \<open>Sequencing: an exception skips the rest, as it does in the source.\<close>

fun bindE :: "'a result \<Rightarrow> ('a \<Rightarrow> 'b result) \<Rightarrow> 'b result" where
  "bindE (Inl e) f = Inl e"
| "bindE (Inr x) f = f x"

fun mapE :: "('a \<Rightarrow> 'b result) \<Rightarrow> 'a list \<Rightarrow> 'b list result" where
  "mapE f [] = Inr []"
| "mapE f (x # xs) = bindE (f x) (\<lambda>y. bindE (mapE f xs) (\<lambda>ys. Inr (y # ys)))"

text \<open>
  Computations that also act on the world outside the program (providers, tool sessions,
  clocks): the world is threaded explicitly, and an exception keeps the world it left behind.
\<close>

fun bindW :: "'w \<times> 'a result \<Rightarrow> ('w \<Rightarrow> 'a \<Rightarrow> 'w \<times> 'b result) \<Rightarrow> 'w \<times> 'b result" where
  "bindW (w, Inl e) f = (w, Inl e)"
| "bindW (w, Inr x) f = f w x"

definition liftW :: "'w \<Rightarrow> 'a result \<Rightarrow> 'w \<times> 'a result" where
  "liftW w m = (w, m)"

lemma bindW_InrE [elim!]:
  assumes "bindW m f = (w', Inr y)"
  obtains w x where "m = (w, Inr x)" and "f w x = (w', Inr y)"
  using assms by (cases m; cases "snd m") auto

lemma bindW_cong [fundef_cong]:
  "m = m' \<Longrightarrow> (\<And>w x. m' = (w, Inr x) \<Longrightarrow> f w x = f' w x) \<Longrightarrow> bindW m f = bindW m' f'"
  by (cases m'; cases "snd m'") auto

lemma bindW_liftW [simp]: "bindW (liftW w (Inr x)) f = f w x"
  by (simp add: liftW_def)

lemma liftW_Inr [simp]: "liftW w m = (w', Inr y) \<longleftrightarrow> w' = w \<and> m = Inr y"
  by (auto simp: liftW_def)

text \<open>\<open>a or b\<close> on optional text: empty text counts as absent.\<close>

definition or_str :: "string option \<Rightarrow> string \<Rightarrow> string" where
  "or_str x dflt = (case x of None \<Rightarrow> dflt | Some s \<Rightarrow> if s = [] then dflt else s)"

lemma bindE_Inr [resultE]: "bindE m f = Inr y \<longleftrightarrow> (\<exists>x. m = Inr x \<and> f x = Inr y)"
  by (cases m) auto

lemma bindE_InrE [elim!]:
  assumes "bindE m f = Inr y"
  obtains x where "m = Inr x" and "f x = Inr y"
  using assms by (cases m) auto

lemma if_InrE [elim!]:
  assumes "(if b then Inl e else m) = Inr y"
  obtains "\<not> b" and "m = Inr y"
  using assms by (cases b) auto

lemma bindE_Inl [resultE]:
  "bindE m f = Inl e \<longleftrightarrow> m = Inl e \<or> (\<exists>x. m = Inr x \<and> f x = Inl e)"
  by (cases m) auto

lemma if_Inr [resultE]:
  "(if b then Inl e else m) = Inr y \<longleftrightarrow> \<not> b \<and> m = Inr y"
  "(if b then m else Inl e) = Inr y \<longleftrightarrow> b \<and> m = Inr y"
  by auto

lemma bindE_cong [fundef_cong]:
  "m = m' \<Longrightarrow> (\<And>x. m' = Inr x \<Longrightarrow> f x = f' x) \<Longrightarrow> bindE m f = bindE m' f'"
  by (cases m') auto

lemma mapE_cong [fundef_cong]:
  "xs = ys \<Longrightarrow> (\<And>x. x \<in> set ys \<Longrightarrow> f x = g x) \<Longrightarrow> mapE f xs = mapE g ys"
  by (induction ys arbitrary: xs) auto

lemma mapE_length [resultE]: "mapE f xs = Inr ys \<Longrightarrow> length ys = length xs"
  by (induction xs arbitrary: ys) (auto simp: bindE_Inr)

lemma mapE_set: "mapE f xs = Inr ys \<Longrightarrow> y \<in> set ys \<Longrightarrow> \<exists>x\<in>set xs. f x = Inr y"
  by (induction xs arbitrary: ys) (auto simp: bindE_Inr)

lemma mapE_map: "(\<And>x. x \<in> set xs \<Longrightarrow> f (g x) = Inr x) \<Longrightarrow> mapE f (map g xs) = Inr xs"
  by (induction xs) auto

subsection \<open>Text\<close>

definition nl :: char where "nl = CHR 0x0A"

definition is_space :: "char \<Rightarrow> bool" where
  "is_space c \<longleftrightarrow> c \<in> set [CHR 0x09, CHR 0x0A, CHR 0x0B, CHR 0x0C, CHR 0x0D,
     CHR 0x1C, CHR 0x1D, CHR 0x1E, CHR 0x1F, CHR '' '']"

definition strip :: "string \<Rightarrow> string" where
  "strip s = rev (dropWhile is_space (rev (dropWhile is_space s)))"

definition blank :: "string \<Rightarrow> bool" where
  "blank s \<longleftrightarrow> strip s = []"

lemma blank_iff: "blank s \<longleftrightarrow> (\<forall>c\<in>set s. is_space c)"
proof -
  have "blank s \<longleftrightarrow> (\<forall>c\<in>set (dropWhile is_space s). is_space c)"
    by (simp add: blank_def strip_def)
  also have "\<dots> \<longleftrightarrow> (\<forall>c\<in>set s. is_space c)"
    by (metis dropWhile_eq_Nil_conv hd_dropWhile hd_in_set set_dropWhileD)
  finally show ?thesis .
qed

lemma strip_edges:
  assumes "s \<noteq> []" and "\<not> is_space (hd s)" and "\<not> is_space (last s)"
  shows "strip s = s"
proof -
  have "dropWhile is_space s = s"
    using assms by (cases s) auto
  moreover have "dropWhile is_space (rev s) = rev s"
    using assms by (cases s rule: rev_cases) auto
  ultimately show ?thesis by (simp add: strip_def)
qed

lemma strip_hd_last:
  assumes "strip s \<noteq> []"
  shows "\<not> is_space (hd (strip s)) \<and> \<not> is_space (last (strip s))"
proof -
  define t where "t = dropWhile is_space s"
  define u where "u = dropWhile is_space (rev t)"
  have st: "strip s = rev u" by (simp add: strip_def t_def u_def)
  have une: "u \<noteq> []" using assms by (simp add: st)
  then have l: "\<not> is_space (last (strip s))"
    by (metis hd_dropWhile last_rev st u_def)
  obtain v where v: "rev t = v @ u"
    by (metis takeWhile_dropWhile_id u_def)
  then have "t = rev u @ rev v"
    by (metis rev_append rev_rev_ident)
  then have "hd t = hd (rev u)" and "t \<noteq> []"
    using une by (auto simp: hd_append)
  then have "\<not> is_space (hd (strip s))"
    by (metis hd_dropWhile st t_def)
  with l show ?thesis by simp
qed

lemma strip_Nil [simp]: "strip [] = []"
  by (simp add: strip_def)

lemma strip_idem [simp]: "strip (strip s) = strip s"
  by (cases "strip s = []") (auto intro: strip_edges dest: strip_hd_last)

lemma blank_strip [simp]: "blank (strip s) = blank s"
  by (simp add: blank_def)

definition upper_char :: "char \<Rightarrow> char" where
  "upper_char c =
     (if 97 \<le> (of_char c :: nat) \<and> (of_char c :: nat) \<le> 122
      then char_of ((of_char c :: nat) - 32) else c)"

definition upper :: "string \<Rightarrow> string" where
  "upper s = map upper_char s"

definition lower_char :: "char \<Rightarrow> char" where
  "lower_char c =
     (if 65 \<le> (of_char c :: nat) \<and> (of_char c :: nat) \<le> 90
      then char_of ((of_char c :: nat) + 32) else c)"

definition lower :: "string \<Rightarrow> string" where
  "lower s = map lower_char s"

text \<open>\<open>s.startswith(p)\<close>, \<open>sep.join(xs)\<close> for a one-character separator, \<open>s.split(sep)\<close>.\<close>

fun startswith :: "string \<Rightarrow> string \<Rightarrow> bool" where
  "startswith s [] = True"
| "startswith [] (p # ps) = False"
| "startswith (c # s) (p # ps) = (c = p \<and> startswith s ps)"

text \<open>\<open>t in s\<close>.\<close>

fun contains :: "string \<Rightarrow> string \<Rightarrow> bool" where
  "contains t [] = (t = [])"
| "contains t (c # s) = (startswith (c # s) t \<or> contains t s)"

lemma startswith_length: "startswith s t \<Longrightarrow> length t \<le> length s"
  by (induction s t rule: startswith.induct) auto

lemma contains_length: "contains t s \<Longrightarrow> length t \<le> length s"
  by (induction s) (auto dest: startswith_length)

fun split_at :: "char \<Rightarrow> string \<Rightarrow> string list" where
  "split_at sep [] = [[]]"
| "split_at sep (c # s) =
     (if c = sep then [] # split_at sep s
      else (case split_at sep s of [] \<Rightarrow> [[c]] | w # ws \<Rightarrow> (c # w) # ws))"

fun join :: "string \<Rightarrow> string list \<Rightarrow> string" where
  "join sep [] = []"
| "join sep [w] = w"
| "join sep (w # v # ws) = w @ sep @ join sep (v # ws)"

lemma split_at_ne [simp]: "split_at sep s \<noteq> []"
  by (induction s) (auto split: list.splits)

lemma split_at_nosep: "sep \<notin> set w \<Longrightarrow> split_at sep w = [w]"
  by (induction w) auto

lemma split_at_append:
  "sep \<notin> set w \<Longrightarrow> split_at sep (w @ sep # s) = w # split_at sep s"
  by (induction w) auto

lemma split_at_parts: "w \<in> set (split_at sep s) \<Longrightarrow> sep \<notin> set w"
  by (induction s arbitrary: w) (auto split: list.splits if_splits)

lemma split_join:
  "ws \<noteq> [] \<Longrightarrow> \<forall>w\<in>set ws. sep \<notin> set w \<Longrightarrow> split_at sep (join [sep] ws) = ws"
proof (induction "[sep]" ws rule: join.induct)
  case (3 w v ws)
  then show ?case by (simp add: split_at_append)
qed (auto simp: split_at_nosep)

lemma join_split [simp]: "join [sep] (split_at sep s) = s"
proof (induction s)
  case (Cons c s)
  obtain w ws where w: "split_at sep s = w # ws"
    by (cases "split_at sep s") auto
  have j: "join [sep] ((c # w) # ws) = c # join [sep] (w # ws)"
    by (cases ws) auto
  show ?case
    using Cons.IH w j by (cases "c = sep") auto
qed simp

text \<open>Decimal rendering of integers, \<open>str(n)\<close>.\<close>

definition digit_char :: "nat \<Rightarrow> char" where
  "digit_char d = char_of (48 + d)"

fun show_nat :: "nat \<Rightarrow> string" where
  "show_nat n = (if n < 10 then [digit_char n] else show_nat (n div 10) @ [digit_char (n mod 10)])"

declare show_nat.simps [simp del]

definition show_int :: "int \<Rightarrow> string" where
  "show_int i = (if i < 0 then CHR ''-'' # show_nat (nat (- i)) else show_nat (nat i))"

definition show_bool_lower :: "bool \<Rightarrow> string" where
  "show_bool_lower b = (if b then ''true'' else ''false'')"

subsection \<open>Ordered dictionaries and duplicate-free appends\<close>

text \<open>A dictionary display: later entries overwrite earlier ones of the same key.\<close>

definition dict_literal :: "('k \<times> 'v) list \<Rightarrow> ('k \<times> 'v) list" where
  "dict_literal kvs = fold (\<lambda>(k, v) d. AList.update k v d) kvs []"

definition dict_keys :: "('k \<times> 'v) list \<Rightarrow> 'k list" where
  "dict_keys d = map fst d"

text \<open>\<open>list(dict.fromkeys(xs))\<close>: the first occurrence of every element, in order.\<close>

definition from_keys :: "'a list \<Rightarrow> 'a list" where
  "from_keys xs = rev (fold (\<lambda>x acc. if x \<in> set acc then acc else x # acc) xs [])"

definition append_unique :: "'a list \<Rightarrow> 'a list \<Rightarrow> 'a list" where
  "append_unique xs ys = fold (\<lambda>y acc. if y \<in> set acc then acc else acc @ [y]) ys xs"

lemma append_unique_Nil [simp]: "append_unique xs [] = xs"
  by (simp add: append_unique_def)

lemma append_unique_Cons:
  "append_unique xs (y # ys) = append_unique (if y \<in> set xs then xs else xs @ [y]) ys"
  by (simp add: append_unique_def)

lemma append_unique_append:
  "append_unique xs (ys @ zs) = append_unique (append_unique xs ys) zs"
  by (simp add: append_unique_def)

lemma set_append_unique [simp]: "set (append_unique xs ys) = set xs \<union> set ys"
  by (induction ys arbitrary: xs) (auto simp: append_unique_Cons)

lemma distinct_append_unique: "distinct xs \<Longrightarrow> distinct (append_unique xs ys)"
  by (induction ys arbitrary: xs) (auto simp: append_unique_Cons)

lemma append_unique_prefix: "\<exists>zs. append_unique xs ys = xs @ zs"
proof (induction ys arbitrary: xs)
  case (Cons y ys)
  then show ?case by (cases "y \<in> set xs") (auto simp: append_unique_Cons, metis append_assoc)
qed simp

lemma from_keys_conv: "from_keys xs = append_unique [] xs"
proof -
  have "rev (fold (\<lambda>x acc. if x \<in> set acc then acc else x # acc) xs acc)
      = append_unique (rev acc) xs" for acc
    by (induction xs arbitrary: acc) (auto simp: append_unique_Cons)
  from this [of "[]"] show ?thesis by (simp add: from_keys_def)
qed

lemma set_from_keys [simp]: "set (from_keys xs) = set xs"
  by (simp add: from_keys_conv)

lemma distinct_from_keys [simp]: "distinct (from_keys xs)"
  by (simp add: from_keys_conv distinct_append_unique)

text \<open>\<open>next((x for x in xs if p x), None)\<close> is \<open>List.find\<close>.\<close>

lemma find_cong_filter: "List.find p xs = (case filter p xs of [] \<Rightarrow> None | x # _ \<Rightarrow> Some x)"
  by (induction xs) auto

lemma find_Some_in: "List.find p xs = Some x \<Longrightarrow> x \<in> set xs \<and> p x"
  by (auto simp: find_Some_iff)

lemma find_None_all: "List.find p xs = None \<longleftrightarrow> (\<forall>x\<in>set xs. \<not> p x)"
  by (auto simp: find_None_iff)

lemma find_append:
  "List.find p (xs @ ys) = (case List.find p xs of None \<Rightarrow> List.find p ys | Some x \<Rightarrow> Some x)"
  by (induction xs) auto

end
