(* ===== verification/PyValue.thy ===== *)
theory PyValue
  imports Prelude
begin

section \<open>Dynamically typed values\<close>

text \<open>
  The JSON-shaped Python values the program handles without a class of its own: decoded
  protocol literals, checkpoint payloads, tool arguments and results, YAML documents.
  Dictionaries have string keys and keep insertion order.  A float is carried as a decimal
  literal that denotes it.
\<close>

datatype pyval =
    PNone
  | PBool bool
  | PInt int
  | PFloat string
  | PStr string
  | PList "pyval list"
  | PDict "(string \<times> pyval) list"

text \<open>\<open>isinstance(v, str)\<close> and \<open>isinstance(v, dict)\<close> (also \<open>Mapping\<close>) as views.\<close>

fun as_str :: "pyval \<Rightarrow> string option" where
  "as_str (PStr s) = Some s"
| "as_str _ = None"

fun as_dict :: "pyval \<Rightarrow> (string \<times> pyval) list option" where
  "as_dict (PDict d) = Some d"
| "as_dict _ = None"

definition is_str :: "pyval \<Rightarrow> bool" where
  "is_str v \<longleftrightarrow> as_str v \<noteq> None"

lemma is_str_simps [simp]:
  "is_str (PStr s)" "\<not> is_str PNone" "\<not> is_str (PBool b)" "\<not> is_str (PInt i)"
  "\<not> is_str (PFloat f)" "\<not> is_str (PList xs)" "\<not> is_str (PDict d)"
  by (simp_all add: is_str_def)

lemma is_str_conv: "is_str v \<longleftrightarrow> (\<exists>s. v = PStr s)"
  by (cases v) auto

text \<open>\<open>isinstance(v, str) and v.strip()\<close>: the text of a value, when it is non-blank text.\<close>

fun nonblank_str :: "pyval \<Rightarrow> string option" where
  "nonblank_str (PStr s) = (if blank s then None else Some s)"
| "nonblank_str _ = None"

lemma nonblank_str_Some: "nonblank_str v = Some s \<longleftrightarrow> v = PStr s \<and> \<not> blank s"
  by (cases v) auto

text \<open>Python truth of a value.  Floats are false when all their mantissa digits are zero.\<close>

fun truthy :: "pyval \<Rightarrow> bool" where
  "truthy PNone = False"
| "truthy (PBool b) = b"
| "truthy (PInt i) = (i \<noteq> 0)"
| "truthy (PFloat f) = (\<exists>c\<in>set (takeWhile (\<lambda>c. c \<noteq> CHR ''e'' \<and> c \<noteq> CHR ''E'') f).
     c \<in> set ''123456789'')"
| "truthy (PStr s) = (s \<noteq> [])"
| "truthy (PList xs) = (xs \<noteq> [])"
| "truthy (PDict d) = (d \<noteq> [])"

text \<open>Lists and dictionaries cannot be members of a set or keys of a dictionary.\<close>

fun hashable :: "pyval \<Rightarrow> bool" where
  "hashable (PList _) = False"
| "hashable (PDict _) = False"
| "hashable _ = True"

text \<open>\<open>v[k]\<close> for a string key, \<open>v.get(k)\<close>, and iteration over a value.\<close>

fun get_item :: "pyval \<Rightarrow> string \<Rightarrow> pyval result" where
  "get_item (PDict d) k = (case map_of d k of None \<Rightarrow> Inl (KeyError k) | Some v \<Rightarrow> Inr v)"
| "get_item _ k = Inl (TypeError ''not subscriptable by a string'')"

fun dict_get :: "pyval \<Rightarrow> string \<Rightarrow> pyval \<Rightarrow> pyval result" where
  "dict_get (PDict d) k dflt = Inr (case map_of d k of None \<Rightarrow> dflt | Some v \<Rightarrow> v)"
| "dict_get _ k dflt = Inl (TypeError ''no attribute get'')"

fun iter_items :: "pyval \<Rightarrow> pyval list result" where
  "iter_items (PList xs) = Inr xs"
| "iter_items (PDict d) = Inr (map (PStr \<circ> fst) d)"
| "iter_items (PStr s) = Inr (map (\<lambda>c. PStr [c]) s)"
| "iter_items _ = Inl (TypeError ''object is not iterable'')"

text \<open>Optional text as a value.\<close>

fun opt_str :: "string option \<Rightarrow> pyval" where
  "opt_str None = PNone"
| "opt_str (Some s) = PStr s"

fun str_or_none :: "string \<Rightarrow> pyval \<Rightarrow> string option result" where
  "str_or_none message PNone = Inr None"
| "str_or_none message (PStr s) = Inr (Some s)"
| "str_or_none message _ = Inl (TypeError message)"

lemma str_or_none_opt_str [simp]: "str_or_none m (opt_str x) = Inr x"
  by (cases x) auto

end
