(* ===== verification/State.thy ===== *)
theory State
  imports PyValue
begin

section \<open>The domain state of Plan-Execute coordination\<close>

text \<open>
  \<open>memory/state.py\<close>: plans, Step executions, Step context, the Agent state, and the payload
  codec.  A dataclass is a record; its \<open>__post_init__\<close> is a constructor function \<open>mk_...\<close>
  that raises or returns the record.  The well-formedness predicates say what a value that
  exists satisfies, and each \<open>mk_..._iff\<close> lemma that the constructor accepts exactly that.
\<close>

subsection \<open>Data\<close>

datatype execution_status = Pending | Running | Interrupted | Completed | Failed | Skipped

record plan_step =
  ps_id :: string
  ps_intent :: string
  ps_criterion :: string

record plan =
  pl_revision :: int
  pl_goal :: string
  pl_steps :: "plan_step list"

record step_execution =
  se_revision :: int
  se_step_id :: string
  se_status :: execution_status
  se_result :: "string option"
  se_error :: "string option"
  se_evidence :: "string option"

record step_context =
  sc_files_read :: "string list"
  sc_files_modified :: "string list"
  sc_observations :: "string list"

record execution_outcome =
  oc_execution :: step_execution
  oc_context :: "step_context option"

record agent_state =
  as_goal :: string
  as_plans :: "plan list"
  as_execs :: "step_execution list"
  as_memory :: "string option"

text \<open>The association key of an execution.\<close>

definition exec_key :: "step_execution \<Rightarrow> int \<times> string" where
  "exec_key e = (se_revision e, se_step_id e)"

lemma exec_key_simps [simp]:
  "exec_key \<lparr>se_revision = r, se_step_id = i, se_status = s, se_result = a, se_error = b,
     se_evidence = c\<rparr> = (r, i)"
  by (simp add: exec_key_def)

subsection \<open>Validation\<close>

definition require_text :: "pyval \<Rightarrow> string \<Rightarrow> string result" where
  "require_text value field =
     (case nonblank_str value of
        None \<Rightarrow> Inl (ValueError (field @ '' must be a non-empty string''))
      | Some s \<Rightarrow> Inr s)"

fun require_revision :: "pyval \<Rightarrow> string \<Rightarrow> int result" where
  "require_revision (PInt i) field =
     (if 1 \<le> i \<and> i \<le> 3 then Inr i else Inl (ValueError (field @ '' must be between 1 and 3'')))"
| "require_revision _ field = Inl (ValueError (field @ '' must be between 1 and 3''))"

lemma require_text_Inr [resultE]: "require_text v f = Inr s \<longleftrightarrow> v = PStr s \<and> \<not> blank s"
  by (cases v) (auto simp: require_text_def split: option.splits if_splits)

lemma require_revision_Inr [resultE]:
  "require_revision v f = Inr i \<longleftrightarrow> v = PInt i \<and> 1 \<le> i \<and> i \<le> 3"
  by (cases v) auto

definition plan_step_of_values :: "pyval \<Rightarrow> pyval \<Rightarrow> pyval \<Rightarrow> plan_step result" where
  "plan_step_of_values i n c =
     bindE (require_text i ''step id'') (\<lambda>i.
     bindE (require_text n ''step intent'') (\<lambda>n.
     bindE (require_text c ''completion criterion'') (\<lambda>c.
     Inr \<lparr>ps_id = i, ps_intent = n, ps_criterion = c\<rparr>)))"

definition mk_plan_step :: "string \<Rightarrow> string \<Rightarrow> string \<Rightarrow> plan_step result" where
  "mk_plan_step i n c = plan_step_of_values (PStr i) (PStr n) (PStr c)"

definition plan_of_values :: "pyval \<Rightarrow> pyval \<Rightarrow> plan_step list \<Rightarrow> plan result" where
  "plan_of_values revision goal steps =
     bindE (require_revision revision ''plan revision'') (\<lambda>revision.
     bindE (require_text goal ''plan goal'') (\<lambda>goal.
     if steps = [] then Inl (ValueError ''plan must contain at least one step'')
     else if \<not> distinct (map ps_id steps) then Inl (ValueError ''plan step IDs must be unique'')
     else Inr \<lparr>pl_revision = revision, pl_goal = goal, pl_steps = steps\<rparr>))"

definition mk_plan :: "int \<Rightarrow> string \<Rightarrow> plan_step list \<Rightarrow> plan result" where
  "mk_plan revision goal steps = plan_of_values (PInt revision) (PStr goal) steps"

fun status_of_value :: "pyval \<Rightarrow> execution_status result" where
  "status_of_value (PStr s) =
     (if s = ''pending'' then Inr Pending
      else if s = ''running'' then Inr Running
      else if s = ''interrupted'' then Inr Interrupted
      else if s = ''completed'' then Inr Completed
      else if s = ''failed'' then Inr Failed
      else if s = ''skipped'' then Inr Skipped
      else Inl (ValueError ''step execution status is invalid''))"
| "status_of_value v =
     (if hashable v then Inl (ValueError ''step execution status is invalid'')
      else Inl (TypeError ''unhashable type''))"

fun status_str :: "execution_status \<Rightarrow> string" where
  "status_str Pending = ''pending''"
| "status_str Running = ''running''"
| "status_str Interrupted = ''interrupted''"
| "status_str Completed = ''completed''"
| "status_str Failed = ''failed''"
| "status_str Skipped = ''skipped''"

lemma status_of_status_str [simp]: "status_of_value (PStr (status_str s)) = Inr s"
  by (cases s) auto

declare status_of_value.simps [simp del]

lemma status_str_Completed [simp]: "status_str s = ''completed'' \<longleftrightarrow> s = Completed"
  by (cases s) auto

definition step_execution_of_values ::
  "pyval \<Rightarrow> pyval \<Rightarrow> pyval \<Rightarrow> pyval \<Rightarrow> pyval \<Rightarrow> pyval \<Rightarrow> step_execution result" where
  "step_execution_of_values revision step_id status result error evidence =
     bindE (require_revision revision ''step execution revision'') (\<lambda>revision.
     bindE (require_text step_id ''step execution step ID'') (\<lambda>step_id.
     bindE (status_of_value status) (\<lambda>status.
     bindE (str_or_none ''step execution result must be a string or None'' result) (\<lambda>result.
     bindE (str_or_none ''step execution error must be a string or None'' error) (\<lambda>error.
     bindE (str_or_none ''step completion evidence must be a string or None'' evidence) (\<lambda>evidence.
     if status = Completed \<and> (case evidence of None \<Rightarrow> False | Some t \<Rightarrow> blank t)
     then Inl (ValueError ''completed step evidence must be non-empty'')
     else Inr \<lparr>se_revision = revision, se_step_id = step_id, se_status = status,
            se_result = result, se_error = error, se_evidence = evidence\<rparr>))))))"

definition mk_step_execution ::
  "int \<Rightarrow> string \<Rightarrow> execution_status \<Rightarrow> string option \<Rightarrow> string option \<Rightarrow> string option
     \<Rightarrow> step_execution result" where
  "mk_step_execution revision step_id status result error evidence =
     step_execution_of_values (PInt revision) (PStr step_id) (PStr (status_str status))
       (opt_str result) (opt_str error) (opt_str evidence)"

text \<open>
  A context path is a normalised relative POSIX path: not absolute, equal to its own
  \<open>PurePosixPath.as_posix()\<close>, none of its parts \<open>..\<close>, without NUL or backslash, and without a
  drive prefix (the second code point is not a colon).
\<close>

definition path_parts :: "string \<Rightarrow> string list" where
  "path_parts value = filter (\<lambda>p. p \<noteq> [] \<and> p \<noteq> ''.'') (split_at (CHR ''/'') value)"

definition as_posix :: "string \<Rightarrow> string" where
  "as_posix value = (if path_parts value = [] then ''.'' else join ''/'' (path_parts value))"

definition is_continuation :: "char \<Rightarrow> bool" where
  "is_continuation c \<longleftrightarrow> 128 \<le> (of_char c :: nat) \<and> (of_char c :: nat) < 192"

definition second_code_point_is :: "char \<Rightarrow> string \<Rightarrow> bool" where
  "second_code_point_is c s =
     (case s of [] \<Rightarrow> False
      | _ # r \<Rightarrow> (case dropWhile is_continuation r of [] \<Rightarrow> False | d # _ \<Rightarrow> d = c))"

definition unsafe_path :: "string \<Rightarrow> bool" where
  "unsafe_path value \<longleftrightarrow>
     startswith value ''/'' \<or> value \<noteq> as_posix value \<or> value \<in> {''.'', ''..''}
     \<or> CHR 0x00 \<in> set value \<or> CHR 0x5C \<in> set value
     \<or> second_code_point_is (CHR '':'') value \<or> ''..'' \<in> set (path_parts value)"

fun context_paths :: "string list \<Rightarrow> string \<Rightarrow> string list result" where
  "context_paths [] field = Inr []"
| "context_paths (value # rest) field =
     (if value = [] then Inl (ValueError (field @ '' must contain non-empty strings''))
      else if unsafe_path value then Inl (ValueError (field @ '' contains an unsafe path''))
      else bindE (context_paths rest field) (\<lambda>vs. Inr (value # vs)))"

definition context_observations :: "string list \<Rightarrow> string list result" where
  "context_observations values =
     (if \<exists>v\<in>set values. blank v then Inl (ValueError ''observations must contain non-empty strings'')
      else Inr values)"

definition mk_step_context ::
  "string list \<Rightarrow> string list \<Rightarrow> string list \<Rightarrow> step_context result" where
  "mk_step_context files_read files_modified observations =
     bindE (context_paths files_read ''files_read'') (\<lambda>fr.
     bindE (context_paths files_modified ''files_modified'') (\<lambda>fm.
     bindE (context_observations observations) (\<lambda>obs.
     Inr \<lparr>sc_files_read = fr, sc_files_modified = fm, sc_observations = obs\<rparr>)))"

definition empty_context :: step_context where
  "empty_context = \<lparr>sc_files_read = [], sc_files_modified = [], sc_observations = []\<rparr>"

definition mk_outcome :: "step_execution \<Rightarrow> step_context option \<Rightarrow> execution_outcome result" where
  "mk_outcome execution context_update =
     (if se_status execution = Completed \<and> context_update = None
      then Inl (ValueError ''a completed execution requires a ContextUpdate'')
      else if se_status execution \<noteq> Completed \<and> context_update \<noteq> None
      then Inl (ValueError ''only a completed execution may contain a ContextUpdate'')
      else Inr \<lparr>oc_execution = execution, oc_context = context_update\<rparr>)"

definition plan_step_keys :: "plan list \<Rightarrow> (int \<times> string) list" where
  "plan_step_keys plans = concat (map (\<lambda>p. map (\<lambda>s. (pl_revision p, ps_id s)) (pl_steps p)) plans)"

definition agent_state_of_values ::
  "pyval \<Rightarrow> plan list \<Rightarrow> step_execution list \<Rightarrow> pyval \<Rightarrow> agent_state result" where
  "agent_state_of_values goal plans executions memory =
     bindE (require_text goal ''agent state goal'') (\<lambda>goal.
     if map pl_revision plans \<noteq> map int [1..<length plans + 1]
     then Inl (ValueError ''plan revisions must be sequential'')
     else if \<exists>p\<in>set plans. pl_goal p \<noteq> goal
     then Inl (ValueError ''plan goal must match agent state goal'')
     else if \<not> distinct (map exec_key executions)
     then Inl (ValueError ''step executions must be uniquely associated'')
     else if \<exists>e\<in>set executions. exec_key e \<notin> set (plan_step_keys plans)
     then Inl (ValueError ''step execution must be associated with a plan step'')
     else bindE (str_or_none ''memory summary must be a string or None'' memory) (\<lambda>memory.
     Inr \<lparr>as_goal = goal, as_plans = plans, as_execs = executions, as_memory = memory\<rparr>))"

definition mk_agent_state ::
  "string \<Rightarrow> plan list \<Rightarrow> step_execution list \<Rightarrow> string option \<Rightarrow> agent_state result" where
  "mk_agent_state goal plans executions memory =
     agent_state_of_values (PStr goal) plans executions (opt_str memory)"

subsection \<open>Operations\<close>

definition with_plan :: "agent_state \<Rightarrow> plan \<Rightarrow> agent_state result" where
  "with_plan s p = mk_agent_state (as_goal s) (as_plans s @ [p]) (as_execs s) (as_memory s)"

definition with_step_execution :: "agent_state \<Rightarrow> step_execution \<Rightarrow> agent_state result" where
  "with_step_execution s e =
     mk_agent_state (as_goal s) (as_plans s)
       (filter (\<lambda>item. exec_key item \<noteq> exec_key e) (as_execs s) @ [e]) (as_memory s)"

text \<open>\<open>_execution_for\<close> of \<open>agent/agent.py\<close>: the recorded execution of a plan step.\<close>

definition execution_for :: "agent_state \<Rightarrow> int \<Rightarrow> string \<Rightarrow> step_execution option" where
  "execution_for s revision step_id =
     List.find (\<lambda>e. exec_key e = (revision, step_id)) (as_execs s)"

subsection \<open>Well-formed values\<close>

definition wf_step :: "plan_step \<Rightarrow> bool" where
  "wf_step s \<longleftrightarrow> \<not> blank (ps_id s) \<and> \<not> blank (ps_intent s) \<and> \<not> blank (ps_criterion s)"

definition wf_plan :: "plan \<Rightarrow> bool" where
  "wf_plan p \<longleftrightarrow> 1 \<le> pl_revision p \<and> pl_revision p \<le> 3 \<and> \<not> blank (pl_goal p)
     \<and> pl_steps p \<noteq> [] \<and> distinct (map ps_id (pl_steps p)) \<and> (\<forall>s\<in>set (pl_steps p). wf_step s)"

definition wf_exec :: "step_execution \<Rightarrow> bool" where
  "wf_exec e \<longleftrightarrow> 1 \<le> se_revision e \<and> se_revision e \<le> 3 \<and> \<not> blank (se_step_id e)
     \<and> (se_status e = Completed \<longrightarrow> (\<forall>t. se_evidence e = Some t \<longrightarrow> \<not> blank t))"

definition wf_context :: "step_context \<Rightarrow> bool" where
  "wf_context c \<longleftrightarrow>
     (\<forall>v\<in>set (sc_files_read c) \<union> set (sc_files_modified c). v \<noteq> [] \<and> \<not> unsafe_path v)
     \<and> (\<forall>v\<in>set (sc_observations c). \<not> blank v)"

definition wf_outcome :: "execution_outcome \<Rightarrow> bool" where
  "wf_outcome o' \<longleftrightarrow> wf_exec (oc_execution o') \<and> (\<forall>c. oc_context o' = Some c \<longrightarrow> wf_context c)
     \<and> (oc_context o' \<noteq> None \<longleftrightarrow> se_status (oc_execution o') = Completed)"

definition coherent :: "agent_state \<Rightarrow> bool" where
  "coherent s \<longleftrightarrow> \<not> blank (as_goal s)
     \<and> map pl_revision (as_plans s) = map int [1..<length (as_plans s) + 1]
     \<and> (\<forall>p\<in>set (as_plans s). pl_goal p = as_goal s)
     \<and> distinct (map exec_key (as_execs s))
     \<and> (\<forall>e\<in>set (as_execs s). exec_key e \<in> set (plan_step_keys (as_plans s)))"

definition wf_state :: "agent_state \<Rightarrow> bool" where
  "wf_state s \<longleftrightarrow> coherent s \<and> (\<forall>p\<in>set (as_plans s). wf_plan p) \<and> (\<forall>e\<in>set (as_execs s). wf_exec e)"

lemma mk_plan_step_Inr [resultE]:
  "mk_plan_step i n c = Inr s \<longleftrightarrow> s = \<lparr>ps_id = i, ps_intent = n, ps_criterion = c\<rparr> \<and> wf_step s"
  by (auto simp: mk_plan_step_def plan_step_of_values_def wf_step_def resultE)

lemma mk_plan_Inr [resultE]:
  "(\<forall>s\<in>set steps. wf_step s) \<Longrightarrow>
   mk_plan r g steps = Inr p \<longleftrightarrow>
     p = \<lparr>pl_revision = r, pl_goal = g, pl_steps = steps\<rparr> \<and> wf_plan p"
  by (auto simp: mk_plan_def plan_of_values_def wf_plan_def resultE)

lemma mk_step_execution_Inr [resultE]:
  "mk_step_execution r i st res err ev = Inr e \<longleftrightarrow>
     e = \<lparr>se_revision = r, se_step_id = i, se_status = st, se_result = res, se_error = err,
          se_evidence = ev\<rparr> \<and> wf_exec e"
  by (cases ev) (auto simp: mk_step_execution_def step_execution_of_values_def wf_exec_def
      bindE_Inr require_revision_Inr require_text_Inr)

lemma context_paths_Inr [resultE]:
  "context_paths vs f = Inr ws \<longleftrightarrow> ws = vs \<and> (\<forall>v\<in>set vs. v \<noteq> [] \<and> \<not> unsafe_path v)"
  by (induction vs arbitrary: ws) (auto simp: resultE)

lemma mk_step_context_Inr [resultE]:
  "mk_step_context fr fm obs = Inr c \<longleftrightarrow>
     c = \<lparr>sc_files_read = fr, sc_files_modified = fm, sc_observations = obs\<rparr> \<and> wf_context c"
  by (auto simp: mk_step_context_def context_observations_def wf_context_def resultE)

lemma mk_outcome_Inr [resultE]:
  "wf_exec e \<Longrightarrow> (\<And>u. c = Some u \<Longrightarrow> wf_context u) \<Longrightarrow>
   mk_outcome e c = Inr oc \<longleftrightarrow> oc = \<lparr>oc_execution = e, oc_context = c\<rparr> \<and> wf_outcome oc"
  by (auto simp: mk_outcome_def wf_outcome_def)

lemma mk_agent_state_Inr [resultE]:
  "mk_agent_state g ps es m = Inr s \<longleftrightarrow>
     s = \<lparr>as_goal = g, as_plans = ps, as_execs = es, as_memory = m\<rparr> \<and> coherent s"
  by (auto simp: mk_agent_state_def agent_state_of_values_def coherent_def resultE)

lemma agent_state_eta: "\<lparr>as_goal = as_goal s, as_plans = as_plans s, as_execs = as_execs s,
    as_memory = as_memory s\<rparr> = s"
  by simp

subsection \<open>What the operations keep\<close>

lemma plan_step_keys_append [simp]:
  "plan_step_keys (ps @ qs) = plan_step_keys ps @ plan_step_keys qs"
  by (simp add: plan_step_keys_def)

lemma plan_step_keys_single [simp]:
  "plan_step_keys [p] = map (\<lambda>s. (pl_revision p, ps_id s)) (pl_steps p)"
  by (simp add: plan_step_keys_def)

lemma with_plan_Inr:
  assumes "wf_state s" and "wf_plan p"
  shows "with_plan s p = Inr s' \<longleftrightarrow>
     pl_revision p = int (length (as_plans s)) + 1 \<and> pl_goal p = as_goal s
     \<and> s' = s\<lparr>as_plans := as_plans s @ [p]\<rparr>"
  using assms by (auto simp: with_plan_def mk_agent_state_Inr wf_state_def coherent_def)

lemma with_plan_wf [wf_intros]:
  assumes "wf_state s" and "wf_plan p" and "with_plan s p = Inr s'"
  shows "wf_state s'"
  using assms with_plan_Inr [OF assms(1,2), of s']
  by (auto simp: wf_state_def coherent_def)

lemma with_step_execution_Inr:
  assumes "wf_state s"
  shows "with_step_execution s e = Inr s' \<longleftrightarrow>
     exec_key e \<in> set (plan_step_keys (as_plans s))
     \<and> s' = s\<lparr>as_execs := filter (\<lambda>item. exec_key item \<noteq> exec_key e) (as_execs s) @ [e]\<rparr>"
  using assms
  by (auto simp: with_step_execution_def mk_agent_state_Inr wf_state_def coherent_def
      distinct_map_filter)

lemma with_step_execution_wf [wf_intros]:
  assumes "wf_state s" and "wf_exec e" and "with_step_execution s e = Inr s'"
  shows "wf_state s'"
  using assms with_step_execution_Inr [OF assms(1), of e s']
  by (auto simp: wf_state_def coherent_def distinct_map_filter)

lemma find_filter_other:
  "key \<noteq> k \<Longrightarrow> List.find (\<lambda>e. f e = k) (filter (\<lambda>e. f e \<noteq> key) xs) = List.find (\<lambda>e. f e = k) xs"
  by (induction xs) auto

lemma find_filter_same: "List.find (\<lambda>e. f e = key) (filter (\<lambda>e. f e \<noteq> key) xs) = None"
  by (induction xs) auto

lemma execution_for_updated:
  "execution_for (s\<lparr>as_execs := filter (\<lambda>item. exec_key item \<noteq> exec_key e) (as_execs s) @ [e]\<rparr>) r i =
     (if exec_key e = (r, i) then Some e else execution_for s r i)"
  using find_filter_other [of "exec_key e" "(r, i)" exec_key "as_execs s"]
    find_filter_same [of exec_key "exec_key e" "as_execs s"]
  by (auto simp: execution_for_def find_append split: option.splits)

lemma execution_for_with:
  assumes "wf_state s" and "with_step_execution s e = Inr s'"
  shows "execution_for s' r i = (if exec_key e = (r, i) then Some e else execution_for s r i)"
proof -
  have "s' = s\<lparr>as_execs := filter (\<lambda>item. exec_key item \<noteq> exec_key e) (as_execs s) @ [e]\<rparr>"
    using assms with_step_execution_Inr [of s e s'] by blast
  then show ?thesis by (simp only: execution_for_updated)
qed

lemma execution_for_in:
  "execution_for s r i = Some e \<Longrightarrow> e \<in> set (as_execs s) \<and> exec_key e = (r, i)"
  by (auto simp: execution_for_def dest: find_Some_in)

lemma execution_for_Some:
  assumes "wf_state s" and "e \<in> set (as_execs s)"
  shows "execution_for s (se_revision e) (se_step_id e) = Some e"
proof -
  obtain e' where e': "execution_for s (se_revision e) (se_step_id e) = Some e'"
    using assms(2) by (cases "execution_for s (se_revision e) (se_step_id e)")
      (auto simp: execution_for_def find_None_all exec_key_def)
  with execution_for_in have "e' \<in> set (as_execs s)" and "exec_key e' = exec_key e"
    by (fastforce simp: exec_key_def)+
  with assms e' show ?thesis
    by (auto simp: wf_state_def coherent_def distinct_map dest: inj_onD)
qed

lemma wf_state_revision:
  assumes "wf_state s" and "as_plans s \<noteq> []"
  shows "pl_revision (last (as_plans s)) = int (length (as_plans s))"
proof -
  have "last (map pl_revision (as_plans s)) = last (map int [1..<length (as_plans s) + 1])"
    using assms by (simp add: wf_state_def coherent_def)
  moreover have "Suc 0 \<le> length (as_plans s)"
    using assms(2) by (simp add: Suc_le_eq)
  ultimately show ?thesis
    using assms(2) by (simp add: last_map)
qed

lemma wf_state_budget: "wf_state s \<Longrightarrow> length (as_plans s) \<le> 3"
proof (cases "as_plans s = []")
  case False
  assume s: "wf_state s"
  with False have "wf_plan (last (as_plans s))" by (simp add: wf_state_def)
  with wf_state_revision [OF s False] show ?thesis by (simp add: wf_plan_def)
qed simp

end
