(* ===== verification/Contracts.thy ===== *)
theory Contracts
  imports State
begin

section \<open>The interfaces between the coordinator, the Planner and the Executor\<close>

text \<open>
  \<open>PlannerLike\<close> and \<open>ExecutorLike\<close> of \<open>agent/agent.py\<close>: what a coordinator relies on when it
  asks for a Plan or for one Step execution.  Both act on the world \<open>'w\<close> (model providers,
  tool sessions).  The Planner and Executor theories discharge the laws for the modelled
  components; the coordinators (\<open>Agent.run\<close> and the durable graph) are verified inside.
\<close>

type_synonym 'w planner = "'w \<Rightarrow> agent_state \<Rightarrow> 'w \<times> plan result"
type_synonym 'w executor = "'w \<Rightarrow> agent_state \<Rightarrow> int \<Rightarrow> string \<Rightarrow> 'w \<times> execution_outcome result"

definition fresh_plan :: "agent_state \<Rightarrow> plan \<Rightarrow> bool" where
  "fresh_plan s p \<longleftrightarrow>
     wf_plan p \<and> pl_revision p = int (length (as_plans s)) + 1 \<and> pl_goal p = as_goal s"

definition settled_outcome :: "int \<Rightarrow> string \<Rightarrow> execution_outcome \<Rightarrow> bool" where
  "settled_outcome r i oc \<longleftrightarrow> wf_outcome oc \<and> exec_key (oc_execution oc) = (r, i)
     \<and> se_status (oc_execution oc) \<in> {Completed, Failed}"

locale planner_contract =
  fixes planner :: "'w planner"
  assumes planner_fresh: "wf_state s \<Longrightarrow> planner w s = (w', Inr p) \<Longrightarrow> fresh_plan s p"

locale executor_contract =
  fixes executor :: "'w executor"
  assumes executor_settles:
    "wf_state s \<Longrightarrow> (r, i) \<in> set (plan_step_keys (as_plans s)) \<Longrightarrow>
     executor w s r i = (w', Inr oc) \<Longrightarrow> settled_outcome r i oc"

locale agent_env = planner_contract planner + executor_contract executor
  for planner :: "'w planner" and executor :: "'w executor"

lemma fresh_plan_budget: "fresh_plan s p \<Longrightarrow> length (as_plans s) \<le> 2"
  by (auto simp: fresh_plan_def wf_plan_def)

lemma fresh_plan_with:
  assumes "wf_state s" and "fresh_plan s p"
  shows "with_plan s p = Inr (s\<lparr>as_plans := as_plans s @ [p]\<rparr>)
     \<and> wf_state (s\<lparr>as_plans := as_plans s @ [p]\<rparr>)"
proof -
  have w: "with_plan s p = Inr (s\<lparr>as_plans := as_plans s @ [p]\<rparr>)"
    using assms by (simp add: with_plan_Inr fresh_plan_def)
  with assms show ?thesis by (auto simp: fresh_plan_def intro: with_plan_wf)
qed

text \<open>A new revision has no executions yet.\<close>

lemma fresh_plan_no_execution:
  assumes "wf_state s" and "fresh_plan s p"
  shows "execution_for (s\<lparr>as_plans := as_plans s @ [p]\<rparr>) (pl_revision p) i = None"
proof -
  have "pl_revision q \<noteq> pl_revision p" if "q \<in> set (as_plans s)" for q
  proof -
    have "pl_revision q \<in> set (map pl_revision (as_plans s))" using that by simp
    also have "\<dots> = set (map int [1..<length (as_plans s) + 1])"
      using assms(1) by (simp only: wf_state_def coherent_def)
    finally have "pl_revision q \<le> int (length (as_plans s))" by auto
    with assms(2) show ?thesis by (simp add: fresh_plan_def)
  qed
  then have "(pl_revision p, i) \<notin> set (plan_step_keys (as_plans s))"
    by (fastforce simp: plan_step_keys_def)
  with assms(1) show ?thesis
    by (auto simp: execution_for_def find_None_all wf_state_def coherent_def)
qed

lemma settled_with:
  assumes "wf_state s" and "(r, i) \<in> set (plan_step_keys (as_plans s))" and "settled_outcome r i oc"
  obtains s' where "with_step_execution s (oc_execution oc) = Inr s'" and "wf_state s'"
    and "as_plans s' = as_plans s" and "as_goal s' = as_goal s"
    and "execution_for s' r i = Some (oc_execution oc)"
    and "\<And>r' i'. (r', i') \<noteq> (r, i) \<Longrightarrow> execution_for s' r' i' = execution_for s r' i'"
    and "last (as_execs s') = oc_execution oc" and "as_execs s' \<noteq> []"
proof -
  let ?e = "oc_execution oc"
  let ?s = "s\<lparr>as_execs := filter (\<lambda>item. exec_key item \<noteq> exec_key ?e) (as_execs s) @ [?e]\<rparr>"
  have w: "with_step_execution s ?e = Inr ?s"
    using assms by (simp add: with_step_execution_Inr settled_outcome_def)
  have e: "wf_exec ?e" using assms(3) by (simp add: settled_outcome_def wf_outcome_def)
  show ?thesis
  proof
    show "with_step_execution s ?e = Inr ?s" by (rule w)
    show "wf_state ?s" by (rule with_step_execution_wf [OF assms(1) e w])
    show "execution_for ?s r i = Some ?e"
      using execution_for_with [OF assms(1) w, of r i] assms(3) by (simp add: settled_outcome_def)
    show "\<And>r' i'. (r', i') \<noteq> (r, i) \<Longrightarrow> execution_for ?s r' i' = execution_for s r' i'"
      using execution_for_with [OF assms(1) w] assms(3) by (auto simp: settled_outcome_def)
  qed simp_all
qed

end
