(* ===== verification/Agent_Loop.thy ===== *)
theory Agent_Loop
  imports Contracts
begin

section \<open>The top-level Agent\<close>

text \<open>
  \<open>agent/agent.py\<close>: the recovery policy for interrupted work, and the serial Plan-Execute loop
  \<open>Agent.run\<close>.  The loop is a \<open>partial_function\<close>: \<open>None\<close> is "does not return"; the theorems
  below show that under the Planner and Executor contracts it always returns.
\<close>

subsection \<open>Recovery decisions\<close>

definition mark_stale_execution_interrupted :: "agent_state \<Rightarrow> agent_state result" where
  "mark_stale_execution_interrupted s =
     (case List.find (\<lambda>item. se_status item = Running) (as_execs s) of
        None \<Rightarrow> Inr s
      | Some running \<Rightarrow>
          bindE (mk_step_execution (se_revision running) (se_step_id running) Interrupted None
                   (Some (or_str (se_error running)
                      ''Step execution was interrupted before recovery'')) None)
                (with_step_execution s))"

definition apply_recovery_decision ::
  "agent_state \<Rightarrow> string option \<Rightarrow> (agent_state \<times> bool) result" where
  "apply_recovery_decision s recovery =
     bindE (mark_stale_execution_interrupted s) (\<lambda>s.
     case List.find (\<lambda>item. se_status item = Interrupted) (as_execs s) of
       None \<Rightarrow> Inr (s, False)
     | Some interrupted \<Rightarrow>
         (case recovery of
            None \<Rightarrow> Inl (RecoveryDecisionError
                      ''an interrupted Step execution requires --recovery'')
          | Some r \<Rightarrow>
              if r = ''abort'' then Inr (s, True)
              else if r \<noteq> ''fail''
              then Inl (RecoveryDecisionError (''invalid recovery decision: '' @ r))
              else bindE (mk_step_execution (se_revision interrupted) (se_step_id interrupted)
                            Failed None
                            (Some (or_str (se_error interrupted)
                               ''Step execution was interrupted'')) None) (\<lambda>e.
                   bindE (with_step_execution s e) (\<lambda>s. Inr (s, False)))))"

subsection \<open>The loop\<close>

datatype agent_status = AgentCompleted | AgentBlocked

record agent_result =
  ar_status :: agent_status
  ar_state :: agent_state

definition plan_failed :: "agent_state \<Rightarrow> plan \<Rightarrow> bool" where
  "plan_failed s p \<longleftrightarrow>
     (\<exists>step\<in>set (pl_steps p). case execution_for s (pl_revision p) (ps_id step) of
        None \<Rightarrow> False | Some e \<Rightarrow> se_status e = Failed)"

definition plan_completed :: "agent_state \<Rightarrow> plan \<Rightarrow> bool" where
  "plan_completed s p \<longleftrightarrow>
     (\<forall>step\<in>set (pl_steps p). case execution_for s (pl_revision p) (ps_id step) of
        None \<Rightarrow> False | Some e \<Rightarrow> se_status e = Completed)"

lemma plan_failed_iff: "plan_failed s p \<longleftrightarrow> (\<exists>step\<in>set (pl_steps p). \<exists>e.
    execution_for s (pl_revision p) (ps_id step) = Some e \<and> se_status e = Failed)"
  by (auto simp: plan_failed_def split: option.splits)

lemma plan_completed_iff: "plan_completed s p \<longleftrightarrow> (\<forall>step\<in>set (pl_steps p). \<exists>e.
    execution_for s (pl_revision p) (ps_id step) = Some e \<and> se_status e = Completed)"
  by (fastforce simp: plan_completed_def split: option.splits)

text \<open>
  The \<open>for step in plan.steps\<close> loop.  The boolean is the local \<open>failed\<close> when the loop ends.
\<close>

fun run_steps ::
  "'w executor \<Rightarrow> int \<Rightarrow> plan_step list \<Rightarrow> 'w \<Rightarrow> agent_state \<Rightarrow> 'w \<times> (bool \<times> agent_state) result"
where
  "run_steps executor revision [] w s = (w, Inr (False, s))"
| "run_steps executor revision (step # steps) w s =
     (case execution_for s revision (ps_id step) of
        Some e \<Rightarrow>
          if se_status e = Completed then run_steps executor revision steps w s
          else if se_status e = Failed then (w, Inr (True, s))
          else bindW (executor w s revision (ps_id step)) (\<lambda>w oc.
               bindW (liftW w (with_step_execution s (oc_execution oc))) (\<lambda>w s.
               if se_status (oc_execution oc) = Failed then (w, Inr (True, s))
               else run_steps executor revision steps w s))
      | None \<Rightarrow>
          bindW (executor w s revision (ps_id step)) (\<lambda>w oc.
          bindW (liftW w (with_step_execution s (oc_execution oc))) (\<lambda>w s.
          if se_status (oc_execution oc) = Failed then (w, Inr (True, s))
          else run_steps executor revision steps w s)))"

definition ensure_plan :: "'w planner \<Rightarrow> 'w \<Rightarrow> agent_state \<Rightarrow> 'w \<times> agent_state result" where
  "ensure_plan planner w s =
     (if as_plans s = [] then bindW (planner w s) (\<lambda>w p. liftW w (with_plan s p)) else (w, Inr s))"

text \<open>\<open>_replan_after_failure\<close>: either the blocked result or the state with a new revision.\<close>

definition replan_after_failure ::
  "'w planner \<Rightarrow> 'w \<Rightarrow> agent_state \<Rightarrow> plan \<Rightarrow> 'w \<times> (agent_result + agent_state) result" where
  "replan_after_failure planner w s p =
     (if pl_revision p = 3 then (w, Inr (Inl \<lparr>ar_status = AgentBlocked, ar_state = s\<rparr>))
      else bindW (planner w s) (\<lambda>w p'.
           bindW (liftW w (with_plan s p')) (\<lambda>w s. (w, Inr (Inr s)))))"

text \<open>
  One pass of the \<open>while True\<close> body: \<open>Inl\<close> is a \<open>return\<close>, \<open>Inr\<close> the state the loop
  continues with.
\<close>

definition agent_pass ::
  "'w planner \<Rightarrow> 'w executor \<Rightarrow> 'w \<Rightarrow> agent_state \<Rightarrow> 'w \<times> (agent_result + agent_state) result"
where
  "agent_pass planner executor w s =
     bindW (ensure_plan planner w s) (\<lambda>w s.
     let p = last (as_plans s) in
     if plan_failed s p then replan_after_failure planner w s p
     else bindW (run_steps executor (pl_revision p) (pl_steps p) w s) (\<lambda>w fs.
          if fst fs then replan_after_failure planner w (snd fs) p
          else if plan_completed (snd fs) p
          then (w, Inr (Inl \<lparr>ar_status = AgentCompleted, ar_state = snd fs\<rparr>))
          else (w, Inr (Inr (snd fs)))))"

partial_function (option) agent_while ::
  "'w planner \<Rightarrow> 'w executor \<Rightarrow> 'w \<Rightarrow> agent_state \<Rightarrow> ('w \<times> agent_result result) option"
where
  "agent_while planner executor w s =
     (case agent_pass planner executor w s of
        (w', Inl e) \<Rightarrow> Some (w', Inl e)
      | (w', Inr (Inl r)) \<Rightarrow> Some (w', Inr r)
      | (w', Inr (Inr s')) \<Rightarrow> agent_while planner executor w' s')"

definition agent_run ::
  "'w planner \<Rightarrow> 'w executor \<Rightarrow> 'w \<Rightarrow> agent_state \<Rightarrow> string option
     \<Rightarrow> ('w \<times> agent_result result) option" where
  "agent_run planner executor w s recovery =
     (case apply_recovery_decision s recovery of
        Inl e \<Rightarrow> Some (w, Inl e)
      | Inr (s, abort) \<Rightarrow>
          if abort then Some (w, Inr \<lparr>ar_status = AgentBlocked, ar_state = s\<rparr>)
          else agent_while planner executor w s)"

subsection \<open>Recovery: what is kept\<close>

definition settle_as :: "step_execution \<Rightarrow> execution_status \<Rightarrow> string \<Rightarrow> step_execution" where
  "settle_as e st err = \<lparr>se_revision = se_revision e, se_step_id = se_step_id e, se_status = st,
     se_result = None, se_error = Some err, se_evidence = None\<rparr>"

definition settled_state ::
  "agent_state \<Rightarrow> step_execution \<Rightarrow> execution_status \<Rightarrow> string \<Rightarrow> agent_state" where
  "settled_state s e st err =
     s\<lparr>as_execs := filter (\<lambda>item. exec_key item \<noteq> exec_key e) (as_execs s) @ [settle_as e st err]\<rparr>"

lemma settle_as_simps [simp]:
  "exec_key (settle_as e st err) = exec_key e" "se_status (settle_as e st err) = st"
  "as_plans (settled_state s e st err) = as_plans s" "as_goal (settled_state s e st err) = as_goal s"
  "as_memory (settled_state s e st err) = as_memory s"
  by (simp_all add: settle_as_def settled_state_def exec_key_def)

lemma settle_status:
  assumes "wf_state s" and "e \<in> set (as_execs s)" and "st \<noteq> Completed"
  shows "mk_step_execution (se_revision e) (se_step_id e) st None (Some err) None
           = Inr (settle_as e st err)"
    and "with_step_execution s (settle_as e st err) = Inr (settled_state s e st err)"
    and "wf_state (settled_state s e st err)"
proof -
  have wf: "wf_exec (settle_as e st err)" and key: "exec_key e \<in> set (plan_step_keys (as_plans s))"
    using assms by (auto simp: wf_state_def wf_exec_def coherent_def settle_as_def)
  show "mk_step_execution (se_revision e) (se_step_id e) st None (Some err) None
           = Inr (settle_as e st err)"
    using wf by (simp add: mk_step_execution_Inr settle_as_def)
  show w: "with_step_execution s (settle_as e st err) = Inr (settled_state s e st err)"
    using with_step_execution_Inr [OF assms(1), of "settle_as e st err"] key
    by (simp add: settled_state_def)
  show "wf_state (settled_state s e st err)" by (rule with_step_execution_wf [OF assms(1) wf w])
qed

lemma mark_stale_conv:
  assumes "wf_state s"
  shows "mark_stale_execution_interrupted s = Inr
     (case List.find (\<lambda>item. se_status item = Running) (as_execs s) of
        None \<Rightarrow> s
      | Some e \<Rightarrow> settled_state s e Interrupted
          (or_str (se_error e) ''Step execution was interrupted before recovery''))"
  using assms by (auto simp: mark_stale_execution_interrupted_def settle_status
      dest!: find_Some_in split: option.split)

lemma mark_stale_total:
  assumes "wf_state s"
  obtains s' where "mark_stale_execution_interrupted s = Inr s'" and "wf_state s'"
    and "as_plans s' = as_plans s" and "as_goal s' = as_goal s" and "as_memory s' = as_memory s"
  using assms that
  by (cases "List.find (\<lambda>item. se_status item = Running) (as_execs s)")
    (auto simp: mark_stale_conv settle_status(3) dest!: find_Some_in)

text \<open>
  At most one execution runs at a time (\<open>serial\<close>); then marking leaves none running.
\<close>

definition serial :: "agent_state \<Rightarrow> bool" where
  "serial s \<longleftrightarrow> length (filter (\<lambda>e. se_status e = Running) (as_execs s)) \<le> 1"

lemma mark_stale_none_running:
  assumes "wf_state s" and "serial s" and "mark_stale_execution_interrupted s = Inr s'"
  shows "\<forall>e\<in>set (as_execs s'). se_status e \<noteq> Running"
proof (cases "List.find (\<lambda>item. se_status item = Running) (as_execs s)")
  case None
  with assms(3) show ?thesis
    by (auto simp: mark_stale_execution_interrupted_def find_None_all)
next
  case (Some e)
  then have e: "e \<in> set (as_execs s)" "se_status e = Running" by (auto dest: find_Some_in)
  have only: "x = e" if "x \<in> set (as_execs s)" and "se_status x = Running" for x
  proof -
    have "x \<in> set (filter (\<lambda>e. se_status e = Running) (as_execs s))"
      and "e \<in> set (filter (\<lambda>e. se_status e = Running) (as_execs s))"
      using that e by auto
    with assms(2) show ?thesis
      by (cases "filter (\<lambda>e. se_status e = Running) (as_execs s)") (auto simp: serial_def)
  qed
  from Some assms(1,3) have "as_execs s' = filter (\<lambda>item. exec_key item \<noteq> exec_key e) (as_execs s) @
      [settle_as e Interrupted
         (or_str (se_error e) ''Step execution was interrupted before recovery'')]"
    by (auto simp: mark_stale_conv settled_state_def)
  moreover have "se_status x \<noteq> Running" if "x \<in> set (as_execs s)" "exec_key x \<noteq> exec_key e" for x
    using only [OF that(1)] that(2) by blast
  ultimately show ?thesis by auto
qed

text \<open>
  The recovery policy: interrupted work needs a decision; \<open>abort\<close> keeps the state and blocks,
  \<open>fail\<close> records the execution as failed.
\<close>

lemma apply_recovery_conv:
  assumes "wf_state s" and "mark_stale_execution_interrupted s = Inr s1"
  shows "apply_recovery_decision s recovery =
     (case List.find (\<lambda>item. se_status item = Interrupted) (as_execs s1) of
        None \<Rightarrow> Inr (s1, False)
      | Some e \<Rightarrow>
          (case recovery of
             None \<Rightarrow> Inl (RecoveryDecisionError ''an interrupted Step execution requires --recovery'')
           | Some r \<Rightarrow>
               if r = ''abort'' then Inr (s1, True)
               else if r \<noteq> ''fail'' then Inl (RecoveryDecisionError (''invalid recovery decision: '' @ r))
               else Inr (settled_state s1 e Failed
                      (or_str (se_error e) ''Step execution was interrupted''), False)))"
proof -
  have "wf_state s1" using mark_stale_total [OF assms(1)] assms(2) by auto
  then show ?thesis
    using assms(2)
    by (auto simp: apply_recovery_decision_def settle_status dest!: find_Some_in
        split: option.split)
qed

lemma apply_recovery_cases:
  assumes "wf_state s"
  shows "(\<exists>s' b. apply_recovery_decision s recovery = Inr (s', b) \<and> wf_state s'
            \<and> as_plans s' = as_plans s \<and> as_goal s' = as_goal s)
       \<or> (\<exists>m. apply_recovery_decision s recovery = Inl (RecoveryDecisionError m))"
proof -
  obtain s1 where s1: "mark_stale_execution_interrupted s = Inr s1" "wf_state s1"
    "as_plans s1 = as_plans s" "as_goal s1 = as_goal s"
    using mark_stale_total [OF assms] by metis
  show ?thesis
    unfolding apply_recovery_conv [OF assms s1(1)]
    by (cases "List.find (\<lambda>item. se_status item = Interrupted) (as_execs s1)"; cases recovery)
      (use s1 in \<open>auto simp: settle_status(3) dest!: find_Some_in\<close>)
qed

subsection \<open>The loop under the contracts\<close>

text \<open>What one pass over the steps of a plan guarantees.\<close>

definition steps_result :: "int \<Rightarrow> plan_step list \<Rightarrow> agent_state \<Rightarrow> bool \<Rightarrow> agent_state \<Rightarrow> bool" where
  "steps_result r steps s failed s' \<longleftrightarrow>
     wf_state s' \<and> as_plans s' = as_plans s \<and> as_goal s' = as_goal s
     \<and> (\<forall>r' i. (r' \<noteq> r \<or> i \<notin> ps_id ` set steps) \<longrightarrow> execution_for s' r' i = execution_for s r' i)
     \<and> (\<forall>i e. execution_for s r i = Some e \<longrightarrow> se_status e = Completed \<longrightarrow>
           execution_for s' r i = Some e)
     \<and> (if failed then \<exists>st\<in>set steps. \<exists>e. execution_for s' r (ps_id st) = Some e \<and> se_status e = Failed
        else \<forall>st\<in>set steps. \<exists>e. execution_for s' r (ps_id st) = Some e \<and> se_status e = Completed)"

lemma steps_result_Nil: "wf_state s \<Longrightarrow> steps_result r [] s False s"
  by (simp add: steps_result_def)

lemma steps_result_skip:
  assumes "steps_result r steps s failed s'" and "execution_for s r (ps_id st) = Some e"
    and "se_status e = Completed"
  shows "steps_result r (st # steps) s failed s'"
  using assms by (cases failed) (auto simp: steps_result_def)

lemma steps_result_stop:
  assumes "wf_state s" and "execution_for s r (ps_id st) = Some e" and "se_status e = Failed"
  shows "steps_result r (st # steps) s True s"
  using assms by (auto simp: steps_result_def)

context executor_contract
begin

lemma executed_step:
  assumes "wf_state s" and "(r, i) \<in> set (plan_step_keys (as_plans s))"
    and "executor w s r i = (w', Inr oc)"
    and "with_step_execution s (oc_execution oc) = Inr s'"
  shows "wf_state s' \<and> as_plans s' = as_plans s \<and> as_goal s' = as_goal s
     \<and> execution_for s' r i = Some (oc_execution oc)
     \<and> (\<forall>r' i'. (r', i') \<noteq> (r, i) \<longrightarrow> execution_for s' r' i' = execution_for s r' i')
     \<and> se_status (oc_execution oc) \<in> {Completed, Failed}"
proof -
  have so: "settled_outcome r i oc" by (rule executor_settles [OF assms(1-3)])
  obtain t where t: "with_step_execution s (oc_execution oc) = Inr t" "wf_state t"
    "as_plans t = as_plans s" "as_goal t = as_goal s"
    "execution_for t r i = Some (oc_execution oc)"
    "\<And>r' i'. (r', i') \<noteq> (r, i) \<Longrightarrow> execution_for t r' i' = execution_for s r' i'"
    using settled_with [OF assms(1,2) so] by metis
  from t(1) assms(4) have "s' = t" by simp
  with t so show ?thesis by (simp add: settled_outcome_def)
qed

lemma steps_result_exec:
  assumes "wf_state s" and "(r, ps_id st) \<in> set (plan_step_keys (as_plans s))"
    and "executor w s r (ps_id st) = (w', Inr oc)"
    and "with_step_execution s (oc_execution oc) = Inr s1"
    and "ps_id st \<notin> ps_id ` set steps"
    and "\<forall>e. execution_for s r (ps_id st) = Some e \<longrightarrow> se_status e \<noteq> Completed"
    and "if se_status (oc_execution oc) = Failed then failed \<and> s' = s1
         else steps_result r steps s1 failed s'"
  shows "steps_result r (st # steps) s failed s'"
proof -
  note ex = executed_step [OF assms(1-4)]
  have nc: "i \<noteq> ps_id st" if "execution_for s r i = Some e" "se_status e = Completed" for i e
    using that assms(6) by auto
  show ?thesis
  proof (cases "se_status (oc_execution oc) = Failed")
    case True
    with assms(7) ex nc show ?thesis by (auto simp: steps_result_def)
  next
    case False
    with assms(7) have r: "steps_result r steps s1 failed s'" by simp
    have "execution_for s' r (ps_id st) = Some (oc_execution oc)"
      using r ex assms(5) by (auto simp: steps_result_def)
    moreover have "se_status (oc_execution oc) = Completed" using ex False by simp
    ultimately show ?thesis
      using r ex nc by (cases failed) (auto simp: steps_result_def)
  qed
qed

lemma run_steps_result:
  assumes "run_steps executor r steps w s = (w', Inr (failed, s'))"
    and "wf_state s" and "distinct (map ps_id steps)"
    and "\<forall>st\<in>set steps. (r, ps_id st) \<in> set (plan_step_keys (as_plans s))"
  shows "steps_result r steps s failed s'"
  using assms
proof (induction steps arbitrary: w s)
  case Nil
  then show ?case by (simp add: steps_result_Nil)
next
  case (Cons st steps)
  have key: "(r, ps_id st) \<in> set (plan_step_keys (as_plans s))"
    and fresh: "ps_id st \<notin> ps_id ` set steps" using Cons.prems by auto
  have execute: ?case
    if none: "\<forall>e. execution_for s r (ps_id st) = Some e \<longrightarrow> se_status e \<noteq> Completed"
      and run: "bindW (executor w s r (ps_id st)) (\<lambda>w oc.
          bindW (liftW w (with_step_execution s (oc_execution oc))) (\<lambda>w s.
          if se_status (oc_execution oc) = Failed then (w, Inr (True, s))
          else run_steps executor r steps w s)) = (w', Inr (failed, s'))"
  proof -
    from run obtain w1 oc s1 where oc: "executor w s r (ps_id st) = (w1, Inr oc)"
      and s1: "with_step_execution s (oc_execution oc) = Inr s1"
      and rest: "(if se_status (oc_execution oc) = Failed then (w1, Inr (True, s1))
          else run_steps executor r steps w1 s1) = (w', Inr (failed, s'))"
      by auto
    note ex = executed_step [OF Cons.prems(2) key oc s1]
    have "if se_status (oc_execution oc) = Failed then failed \<and> s' = s1
         else steps_result r steps s1 failed s'"
      using rest ex Cons.IH [of w1 s1] Cons.prems(3,4) by (auto split: if_splits)
    from steps_result_exec [OF Cons.prems(2) key oc s1 fresh none this] show ?thesis .
  qed
  show ?case
  proof (cases "execution_for s r (ps_id st)")
    case None
    with Cons.prems(1) show ?thesis by (intro execute) simp_all
  next
    case (Some e)
    consider "se_status e = Completed" | "se_status e = Failed"
      | "se_status e \<noteq> Completed" "se_status e \<noteq> Failed" by blast
    then show ?thesis
    proof cases
      case 1
      with Some Cons.prems Cons.IH [of w s] have "steps_result r steps s failed s'" by simp
      from steps_result_skip [OF this Some 1] show ?thesis .
    next
      case 2
      with Some Cons.prems(1) have "failed" and "s' = s" by simp_all
      with steps_result_stop [OF Cons.prems(2) Some 2] show ?thesis by simp
    next
      case 3
      with Some Cons.prems(1) show ?thesis by (intro execute) simp_all
    qed
  qed
qed

end

text \<open>What a pass of the coordinator's loop promises, and the whole loop with it.\<close>

definition pass_ok :: "agent_state \<Rightarrow> agent_result + agent_state \<Rightarrow> bool" where
  "pass_ok s x \<longleftrightarrow>
     (case x of
        Inl res \<Rightarrow> wf_state (ar_state res) \<and> as_goal (ar_state res) = as_goal s
          \<and> as_plans (ar_state res) \<noteq> []
          \<and> (let p = last (as_plans (ar_state res)) in
             if ar_status res = AgentCompleted then plan_completed (ar_state res) p
             else pl_revision p = 3 \<and> plan_failed (ar_state res) p)
      | Inr s' \<Rightarrow> wf_state s' \<and> as_goal s' = as_goal s \<and> length (as_plans s) < length (as_plans s'))"

lemma last_plan_keys:
  "as_plans s \<noteq> [] \<Longrightarrow> st \<in> set (pl_steps (last (as_plans s))) \<Longrightarrow>
   (pl_revision (last (as_plans s)), ps_id st) \<in> set (plan_step_keys (as_plans s))"
  by (auto simp: plan_step_keys_def)

context agent_env
begin

lemma ensure_plan_ok:
  assumes "wf_state s" and "ensure_plan planner w s = (w', Inr s')"
  shows "wf_state s' \<and> as_goal s' = as_goal s \<and> as_plans s' \<noteq> []
     \<and> length (as_plans s) \<le> length (as_plans s')"
proof (cases "as_plans s = []")
  case True
  with assms(2) obtain w1 p where "planner w s = (w1, Inr p)" and p: "with_plan s p = Inr s'"
    by (auto simp: ensure_plan_def)
  then have "fresh_plan s p" using planner_fresh [OF assms(1)] by blast
  from fresh_plan_with [OF assms(1) this] p show ?thesis by auto
next
  case False
  with assms show ?thesis by (simp add: ensure_plan_def)
qed

lemma replan_ok:
  assumes "wf_state s" and "as_plans s \<noteq> []" and "plan_failed s (last (as_plans s))"
    and "replan_after_failure planner w s (last (as_plans s)) = (w', Inr x)"
  shows "pass_ok s x"
proof (cases "pl_revision (last (as_plans s)) = 3")
  case True
  with assms show ?thesis by (auto simp: replan_after_failure_def pass_ok_def Let_def)
next
  case False
  with assms(4) obtain w1 p s' where p: "planner w s = (w1, Inr p)"
    and s': "with_plan s p = Inr s'" and x: "x = Inr s'"
    by (auto simp: replan_after_failure_def)
  have "fresh_plan s p" using planner_fresh [OF assms(1) p] .
  from fresh_plan_with [OF assms(1) this] s' x show ?thesis by (auto simp: pass_ok_def)
qed

lemma pass_ok_mono:
  "pass_ok s1 x \<Longrightarrow> as_goal s1 = as_goal s \<Longrightarrow> length (as_plans s) \<le> length (as_plans s1) \<Longrightarrow> pass_ok s x"
  by (auto simp: pass_ok_def Let_def split: sum.splits)

lemma agent_pass_ok:
  assumes "wf_state s" and "agent_pass planner executor w s = (w', Inr x)"
  shows "pass_ok s x"
proof -
  from assms(2) obtain w1 s1 where s1: "ensure_plan planner w s = (w1, Inr s1)"
    and pass: "(let p = last (as_plans s1) in
       if plan_failed s1 p then replan_after_failure planner w1 s1 p
       else bindW (run_steps executor (pl_revision p) (pl_steps p) w1 s1) (\<lambda>w fs.
          if fst fs then replan_after_failure planner w (snd fs) p
          else if plan_completed (snd fs) p
          then (w, Inr (Inl \<lparr>ar_status = AgentCompleted, ar_state = snd fs\<rparr>))
          else (w, Inr (Inr (snd fs))))) = (w', Inr x)"
    unfolding agent_pass_def by blast
  note en = ensure_plan_ok [OF assms(1) s1]
  let ?p = "last (as_plans s1)"
  have "pass_ok s1 x"
  proof (cases "plan_failed s1 ?p")
    case True
    with pass en show ?thesis by (auto simp: Let_def intro: replan_ok)
  next
    case False
    with pass obtain w2 fs where
      steps0: "run_steps executor (pl_revision ?p) (pl_steps ?p) w1 s1 = (w2, Inr fs)"
      and rest0: "(if fst fs then replan_after_failure planner w2 (snd fs) ?p
          else if plan_completed (snd fs) ?p
          then (w2, Inr (Inl \<lparr>ar_status = AgentCompleted, ar_state = snd fs\<rparr>))
          else (w2, Inr (Inr (snd fs)))) = (w', Inr x)"
      unfolding Let_def by (simp only: if_False) blast
    obtain failed s2 where "fs = (failed, s2)" by (cases fs)
    with steps0 rest0 have steps: "run_steps executor (pl_revision ?p) (pl_steps ?p) w1 s1 = (w2, Inr (failed, s2))"
      and rest: "(if failed then replan_after_failure planner w2 s2 ?p
          else if plan_completed s2 ?p
          then (w2, Inr (Inl \<lparr>ar_status = AgentCompleted, ar_state = s2\<rparr>))
          else (w2, Inr (Inr s2))) = (w', Inr x)"
      by (auto split: if_splits)
    have "wf_plan ?p" using en by (simp add: wf_state_def)
    then have r: "steps_result (pl_revision ?p) (pl_steps ?p) s1 failed s2"
      using steps en last_plan_keys by (intro run_steps_result) (auto simp: wf_plan_def)
    have s2: "wf_state s2" "as_plans s2 = as_plans s1" "as_goal s2 = as_goal s1"
      using r by (simp_all add: steps_result_def)
    show ?thesis
    proof (cases failed)
      case True
      with r s2 have "plan_failed s2 (last (as_plans s2))"
        by (simp add: steps_result_def plan_failed_iff)
      with True s2 rest en have "pass_ok s2 x" by (intro replan_ok) auto
      then show ?thesis by (rule pass_ok_mono) (simp_all add: s2)
    next
      case False
      with r have c: "plan_completed s2 ?p" by (simp add: steps_result_def plan_completed_iff)
      with False rest have "x = Inl \<lparr>ar_status = AgentCompleted, ar_state = s2\<rparr>" by simp
      with c s2 en show ?thesis by (simp add: pass_ok_def)
    qed
  qed
  then show ?thesis by (rule pass_ok_mono) (simp_all add: en)
qed

text \<open>Every pass that does not return adds a revision, and there are at most three.\<close>

lemma agent_while_returns:
  assumes "wf_state s"
  shows "\<exists>w' x. agent_while planner executor w s = Some (w', x)
     \<and> (\<forall>res. x = Inr res \<longrightarrow> pass_ok s (Inl res))"
  using assms
proof (induction "4 - length (as_plans s)" arbitrary: w s rule: less_induct)
  case less
  obtain w1 x where x: "agent_pass planner executor w s = (w1, x)" by fastforce
  show ?case
  proof (cases x)
    case (Inl e)
    with x show ?thesis by (simp add: agent_while.simps)
  next
    case (Inr y)
    with x have ok: "pass_ok s y" using agent_pass_ok [OF less.prems] by blast
    show ?thesis
    proof (cases y)
      case (Inl res)
      with x Inr ok show ?thesis by (simp add: agent_while.simps)
    next
      case (Inr s')
      with ok have s': "wf_state s'" "as_goal s' = as_goal s"
        "length (as_plans s) < length (as_plans s')" by (simp_all add: pass_ok_def)
      then have "4 - length (as_plans s') < 4 - length (as_plans s)"
        using wf_state_budget [OF s'(1)] by simp
      from less.hyps [OF this s'(1)] obtain w' z where
        "agent_while planner executor w1 s' = Some (w', z)"
        and "\<forall>res. z = Inr res \<longrightarrow> pass_ok s' (Inl res)" by blast
      moreover have "agent_while planner executor w s = agent_while planner executor w1 s'"
        using x \<open>x = Inr y\<close> Inr by (subst agent_while.simps) simp
      ultimately show ?thesis using s' by (auto simp: pass_ok_def)
    qed
  qed
qed

end

end
