(* ===== verification/State_Codec.thy ===== *)
theory State_Codec
  imports State
begin

section \<open>The checkpoint payload of the Agent state\<close>

text \<open>
  \<open>serialize_agent_state\<close> and \<open>deserialize_agent_state\<close> of \<open>memory/state.py\<close>.  The payload is
  a dynamically typed value; reading it back repeats every validation of the constructors.
\<close>

definition serialize_step :: "plan_step \<Rightarrow> pyval" where
  "serialize_step s = PDict
     [(''id'', PStr (ps_id s)), (''intent'', PStr (ps_intent s)),
      (''completion_criterion'', PStr (ps_criterion s))]"

definition serialize_plan :: "plan \<Rightarrow> pyval" where
  "serialize_plan p = PDict
     [(''revision'', PInt (pl_revision p)), (''goal'', PStr (pl_goal p)),
      (''steps'', PList (map serialize_step (pl_steps p)))]"

definition serialize_execution :: "step_execution \<Rightarrow> pyval" where
  "serialize_execution e = PDict
     ([(''revision'', PInt (se_revision e)), (''step_id'', PStr (se_step_id e)),
       (''status'', PStr (status_str (se_status e))), (''result'', opt_str (se_result e)),
       (''error'', opt_str (se_error e))]
      @ (case se_evidence e of
           Some t \<Rightarrow> if se_status e = Completed then [(''completion_evidence'', PStr t)] else []
         | None \<Rightarrow> []))"

definition serialize_agent_state :: "agent_state \<Rightarrow> pyval" where
  "serialize_agent_state s = PDict
     [(''goal'', PStr (as_goal s)), (''memory_summary'', opt_str (as_memory s)),
      (''plan_history'', PList (map serialize_plan (as_plans s))),
      (''step_executions'', PList (map serialize_execution (as_execs s)))]"

definition deserialize_step :: "pyval \<Rightarrow> plan_step result" where
  "deserialize_step item =
     bindE (get_item item ''id'') (\<lambda>i.
     bindE (get_item item ''intent'') (\<lambda>n.
     bindE (get_item item ''completion_criterion'') (\<lambda>c.
     plan_step_of_values i n c)))"

definition deserialize_plan :: "pyval \<Rightarrow> plan result" where
  "deserialize_plan item =
     bindE (get_item item ''revision'') (\<lambda>r.
     bindE (get_item item ''goal'') (\<lambda>g.
     bindE (get_item item ''steps'') (\<lambda>ss.
     bindE (iter_items ss) (\<lambda>items.
     bindE (mapE deserialize_step items) (\<lambda>steps.
     plan_of_values r g steps)))))"

definition deserialize_execution :: "pyval \<Rightarrow> step_execution result" where
  "deserialize_execution item =
     bindE (get_item item ''revision'') (\<lambda>r.
     bindE (get_item item ''step_id'') (\<lambda>i.
     bindE (get_item item ''status'') (\<lambda>st.
     bindE (dict_get item ''result'' PNone) (\<lambda>res.
     bindE (dict_get item ''error'' PNone) (\<lambda>err.
     bindE (if st = PStr ''completed'' then dict_get item ''completion_evidence'' PNone
            else Inr PNone) (\<lambda>ev.
     step_execution_of_values r i st res err ev))))))"

definition deserialize_agent_state :: "pyval \<Rightarrow> agent_state result" where
  "deserialize_agent_state payload =
     bindE (dict_get payload ''plan_history'' (PList [])) (\<lambda>ph.
     bindE (iter_items ph) (\<lambda>ps.
     bindE (mapE deserialize_plan ps) (\<lambda>plans.
     bindE (dict_get payload ''step_executions'' (PList [])) (\<lambda>eh.
     bindE (iter_items eh) (\<lambda>es.
     bindE (mapE deserialize_execution es) (\<lambda>executions.
     bindE (get_item payload ''goal'') (\<lambda>goal.
     bindE (dict_get payload ''memory_summary'' PNone) (\<lambda>memory.
     agent_state_of_values goal plans executions memory))))))))"

text \<open>
  Evidence a judge gave to an attempt that did not complete is not carried over: the payload
  keeps \<open>completion_evidence\<close> of completed executions only.
\<close>

definition durable_evidence :: "step_execution \<Rightarrow> step_execution" where
  "durable_evidence e = (if se_status e = Completed then e else e\<lparr>se_evidence := None\<rparr>)"

definition durable_state :: "agent_state \<Rightarrow> agent_state" where
  "durable_state s = s\<lparr>as_execs := map durable_evidence (as_execs s)\<rparr>"

lemma exec_key_durable [simp]: "exec_key (durable_evidence e) = exec_key e"
  by (simp add: durable_evidence_def exec_key_def)

lemma wf_exec_durable [wf_intros]: "wf_exec e \<Longrightarrow> wf_exec (durable_evidence e)"
  by (simp add: durable_evidence_def wf_exec_def)

lemma coherent_durable [simp]: "coherent (durable_state s) = coherent s"
  by (simp add: coherent_def durable_state_def comp_def)

lemma durable_state_idem [simp]: "durable_state (durable_state s) = durable_state s"
  by (simp add: durable_state_def durable_evidence_def)

subsection \<open>Round trip\<close>

lemma deserialize_step_serialize:
  "wf_step s \<Longrightarrow> deserialize_step (serialize_step s) = Inr s"
  by (simp add: deserialize_step_def serialize_step_def plan_step_of_values_def require_text_def
      wf_step_def)

lemma deserialize_plan_serialize:
  assumes "wf_plan p"
  shows "deserialize_plan (serialize_plan p) = Inr p"
proof -
  have "mapE deserialize_step (map serialize_step (pl_steps p)) = Inr (pl_steps p)"
    using assms by (intro mapE_map deserialize_step_serialize) (simp add: wf_plan_def)
  with assms show ?thesis
    by (simp add: deserialize_plan_def serialize_plan_def plan_of_values_def require_text_def
        wf_plan_def)
qed

lemma deserialize_execution_serialize:
  assumes "wf_exec e"
  shows "deserialize_execution (serialize_execution e) = Inr (durable_evidence e)"
proof (cases "se_status e = Completed")
  case True
  with assms show ?thesis
    by (cases "se_evidence e") (simp_all add: deserialize_execution_def serialize_execution_def
        step_execution_of_values_def require_text_def wf_exec_def durable_evidence_def
        status_of_value.simps)
next
  case False
  with assms show ?thesis
    by (cases "se_evidence e") (simp_all add: deserialize_execution_def serialize_execution_def
        step_execution_of_values_def require_text_def wf_exec_def durable_evidence_def)
qed

lemma deserialize_serialize:
  assumes "wf_state s"
  shows "deserialize_agent_state (serialize_agent_state s) = Inr (durable_state s)"
proof -
  have p: "mapE deserialize_plan (map serialize_plan (as_plans s)) = Inr (as_plans s)"
    using assms by (intro mapE_map deserialize_plan_serialize) (simp add: wf_state_def)
  have es: "mapE f (map g xs) = Inr (map h xs)"
    if "\<And>x. x \<in> set xs \<Longrightarrow> f (g x) = Inr (h x)"
    for f :: "pyval \<Rightarrow> step_execution result" and g and h and xs :: "step_execution list"
    using that by (induction xs) auto
  have e: "mapE deserialize_execution (map serialize_execution (as_execs s))
      = Inr (map durable_evidence (as_execs s))"
    using assms by (intro es deserialize_execution_serialize) (simp add: wf_state_def)
  have "coherent s" using assms by (simp add: wf_state_def)
  then have "coherent (durable_state s)" by simp
  then have "mk_agent_state (as_goal s) (as_plans s) (map durable_evidence (as_execs s)) (as_memory s)
      = Inr (durable_state s)"
    by (simp add: mk_agent_state_Inr durable_state_def)
  with p e show ?thesis
    by (simp add: deserialize_agent_state_def serialize_agent_state_def mk_agent_state_def)
qed

text \<open>
  Reading any payload either raises or yields a well-formed state: no checkpoint can
  introduce a state the constructors would have refused.
\<close>

lemma plan_step_of_values_Inr:
  "plan_step_of_values i n c = Inr s \<Longrightarrow> wf_step s"
  by (auto simp: plan_step_of_values_def wf_step_def resultE)

lemma deserialize_step_wf: "deserialize_step v = Inr s \<Longrightarrow> wf_step s"
  by (auto simp: deserialize_step_def bindE_Inr dest: plan_step_of_values_Inr)

lemma plan_of_values_wf:
  "plan_of_values r g steps = Inr p \<Longrightarrow> (\<And>s. s \<in> set steps \<Longrightarrow> wf_step s) \<Longrightarrow> wf_plan p"
  unfolding plan_of_values_def
  by (elim bindE_InrE if_InrE) (auto simp: wf_plan_def require_revision_Inr require_text_Inr)

lemma deserialize_plan_wf:
  assumes "deserialize_plan v = Inr p"
  shows "wf_plan p"
proof -
  from assms obtain r g items steps where
    ss: "mapE deserialize_step items = Inr steps" and p: "plan_of_values r g steps = Inr p"
    unfolding deserialize_plan_def bindE_Inr by blast
  from mapE_set [OF ss] deserialize_step_wf have "\<And>s. s \<in> set steps \<Longrightarrow> wf_step s" by blast
  with p show ?thesis by (rule plan_of_values_wf)
qed

lemma step_execution_of_values_wf:
  "step_execution_of_values r i st res err ev = Inr e \<Longrightarrow> wf_exec e"
  unfolding step_execution_of_values_def
  by (elim bindE_InrE if_InrE) (auto simp: wf_exec_def require_revision_Inr require_text_Inr)

lemma deserialize_execution_wf: "deserialize_execution v = Inr e \<Longrightarrow> wf_exec e"
  unfolding deserialize_execution_def
  by (elim bindE_InrE) (rule step_execution_of_values_wf)

lemma agent_state_of_values_coherent:
  "agent_state_of_values g ps es m = Inr s \<Longrightarrow> coherent s \<and> as_plans s = ps \<and> as_execs s = es"
  unfolding agent_state_of_values_def
  by (elim bindE_InrE if_InrE) (auto simp: coherent_def require_text_Inr)

lemma deserialize_wf:
  assumes "deserialize_agent_state v = Inr s"
  shows "wf_state s"
proof -
  from assms obtain ps plans es execs g m where
    ps: "mapE deserialize_plan ps = Inr plans" and es: "mapE deserialize_execution es = Inr execs"
    and st: "agent_state_of_values g plans execs m = Inr s"
    unfolding deserialize_agent_state_def bindE_Inr by blast
  have "\<forall>p\<in>set plans. wf_plan p"
    using mapE_set [OF ps] deserialize_plan_wf by blast
  moreover have "\<forall>e\<in>set execs. wf_exec e"
    using mapE_set [OF es] deserialize_execution_wf by blast
  ultimately show ?thesis
    using agent_state_of_values_coherent [OF st] by (simp add: wf_state_def)
qed

end
