(* ===== verification/Recovery.thy ===== *)
theory Recovery
  imports State_Codec
begin

section \<open>Step recovery records\<close>

text \<open>
  \<open>agent/recovery.py\<close>: the immutable, per-run sequence of Step execution attempts and the
  projection that rebuilds the latest executions and the trustworthy Step context.  The
  in-memory store keeps a list; the MySQL store is modelled over its table
  \<open>step_recovery_attempts\<close>, a list of rows in \<open>record_id\<close> order, with the statements of the
  source: the unique key \<open>(run_id, revision, step_id, attempt, status)\<close> refuses an insert.
\<close>

record recovery_attempt =
  ra_run_id :: string
  ra_revision :: int
  ra_step_id :: string
  ra_attempt :: nat
  ra_execution :: step_execution
  ra_context :: "step_context option"
  ra_recovery :: bool
  ra_version :: int

record recovery_snapshot =
  rs_attempts :: "recovery_attempt list"
  rs_latest :: "step_execution list"
  rs_context :: step_context
  rs_version :: int

text \<open>\<open>_durable_execution\<close>.\<close>

definition durable_execution :: "step_execution \<Rightarrow> step_execution result" where
  "durable_execution e =
     (if se_status e = Completed then Inr e
      else if se_evidence e = None then Inr e
      else mk_step_execution (se_revision e) (se_step_id e) (se_status e) (se_result e)
             (se_error e) None)"

lemma durable_execution_conv: "wf_exec e \<Longrightarrow> durable_execution e = Inr (durable_evidence e)"
  by (cases e) (auto simp: durable_execution_def durable_evidence_def mk_step_execution_Inr wf_exec_def)

definition attempt_key :: "recovery_attempt \<Rightarrow> int \<times> string" where
  "attempt_key a = (ra_revision a, ra_step_id a)"

definition unsettled :: "execution_status \<Rightarrow> bool" where
  "unsettled st \<longleftrightarrow> st = Pending \<or> st = Running"

subsection \<open>The in-memory store\<close>

definition prior_attempts ::
  "recovery_attempt list \<Rightarrow> string \<Rightarrow> step_execution \<Rightarrow> recovery_attempt list" where
  "prior_attempts store run_id e =
     filter (\<lambda>a. ra_run_id a = run_id \<and> attempt_key a = exec_key e) store"

definition mem_attempt_number :: "recovery_attempt list \<Rightarrow> nat" where
  "mem_attempt_number prior =
     (if prior \<noteq> [] \<and> unsettled (se_status (ra_execution (last prior)))
      then ra_attempt (last prior)
      else card (ra_attempt ` set prior) + 1)"

definition mem_record ::
  "recovery_attempt list \<Rightarrow> string \<Rightarrow> step_execution \<Rightarrow> step_context option \<Rightarrow> bool \<Rightarrow> int
     \<Rightarrow> (recovery_attempt list \<times> recovery_attempt) result" where
  "mem_record store run_id e ctx recovery version =
     bindE (durable_execution e) (\<lambda>d.
     let a = \<lparr>ra_run_id = run_id, ra_revision = se_revision d, ra_step_id = se_step_id d,
              ra_attempt = mem_attempt_number (prior_attempts store run_id e),
              ra_execution = d, ra_context = ctx, ra_recovery = recovery, ra_version = version\<rparr>
     in Inr (store @ [a], a))"

text \<open>\<open>_append_unique\<close> and \<open>_snapshot\<close>.\<close>

fun snapshot_step ::
  "recovery_attempt \<Rightarrow> ((int \<times> string) \<times> step_execution) list \<times> step_context
     \<Rightarrow> ((int \<times> string) \<times> step_execution) list \<times> step_context" where
  "snapshot_step a (latest, ctx) =
     (AList.update (attempt_key a) (ra_execution a) latest,
      (if se_status (ra_execution a) \<noteq> Completed then ctx
       else (case ra_context a of
               None \<Rightarrow> ctx
             | Some u \<Rightarrow>
                 \<lparr>sc_files_read = append_unique (sc_files_read ctx) (sc_files_read u),
                  sc_files_modified = append_unique (sc_files_modified ctx) (sc_files_modified u),
                  sc_observations = append_unique (sc_observations ctx) (sc_observations u)\<rparr>)))"

definition snapshot :: "recovery_attempt list \<Rightarrow> int \<Rightarrow> recovery_snapshot result" where
  "snapshot attempts version =
     (let (latest, ctx) = fold snapshot_step attempts ([], empty_context) in
      bindE (mk_step_context (sc_files_read ctx) (sc_files_modified ctx) (sc_observations ctx)) (\<lambda>c.
      Inr \<lparr>rs_attempts = attempts, rs_latest = map snd latest, rs_context = c, rs_version = version\<rparr>))"

definition mem_restore ::
  "recovery_attempt list \<Rightarrow> string \<Rightarrow> int \<Rightarrow> recovery_snapshot result" where
  "mem_restore store run_id checkpoint_version =
     (let attempts = sort_key ra_version (filter (\<lambda>a. ra_run_id a = run_id) store) in
      if attempts = []
      then Inr \<lparr>rs_attempts = [], rs_latest = [], rs_context = empty_context,
                rs_version = checkpoint_version\<rparr>
      else if ra_version (last attempts) \<noteq> checkpoint_version
      then Inl (PersistenceVersionMismatchError
             ''checkpoint and recovery records have no common persistence version'')
      else snapshot attempts checkpoint_version)"

definition mem_history :: "recovery_attempt list \<Rightarrow> string \<Rightarrow> recovery_attempt list" where
  "mem_history store run_id = filter (\<lambda>a. ra_run_id a = run_id) store"

subsection \<open>The MySQL store\<close>

text \<open>
  A row holds the columns of the table; \<open>context_update\<close> is the JSON document of a
  \<open>ContextUpdate\<close>, decoded again by \<open>_row_to_attempt\<close>, which the model carries decoded.
\<close>

record recovery_row =
  rr_run_id :: string
  rr_revision :: int
  rr_step_id :: string
  rr_attempt :: nat
  rr_status :: execution_status
  rr_result :: "string option"
  rr_error :: "string option"
  rr_evidence :: "string option"
  rr_context :: "step_context option"
  rr_recovery :: bool
  rr_version :: int

definition row_key :: "recovery_row \<Rightarrow> string \<times> int \<times> string \<times> nat \<times> execution_status" where
  "row_key r = (rr_run_id r, rr_revision r, rr_step_id r, rr_attempt r, rr_status r)"

text \<open>\<open>SELECT attempt, status ... ORDER BY record_id DESC LIMIT 1\<close>.\<close>

definition latest_row :: "recovery_row list \<Rightarrow> string \<Rightarrow> int \<Rightarrow> string \<Rightarrow> recovery_row option" where
  "latest_row table run_id revision step_id =
     List.find (\<lambda>r. rr_run_id r = run_id \<and> rr_revision r = revision \<and> rr_step_id r = step_id)
       (rev table)"

definition sql_attempt_number :: "recovery_row option \<Rightarrow> nat" where
  "sql_attempt_number latest =
     (case latest of
        None \<Rightarrow> 1
      | Some r \<Rightarrow> if unsettled (rr_status r) then rr_attempt r else rr_attempt r + 1)"

definition insert_row :: "recovery_row list \<Rightarrow> recovery_row \<Rightarrow> recovery_row list result" where
  "insert_row table r = (if row_key r \<in> row_key ` set table then Inl IntegrityError else Inr (table @ [r]))"

definition sql_record ::
  "recovery_row list \<Rightarrow> string \<Rightarrow> step_execution \<Rightarrow> step_context option \<Rightarrow> bool \<Rightarrow> int
     \<Rightarrow> (recovery_row list \<times> recovery_attempt) result" where
  "sql_record table run_id e ctx recovery version =
     (let attempt = sql_attempt_number (latest_row table run_id (se_revision e) (se_step_id e)) in
      bindE (durable_execution e) (\<lambda>d.
      bindE (insert_row table
              \<lparr>rr_run_id = run_id, rr_revision = se_revision e, rr_step_id = se_step_id e,
               rr_attempt = attempt, rr_status = se_status e, rr_result = se_result e,
               rr_error = se_error e, rr_evidence = se_evidence d, rr_context = ctx,
               rr_recovery = recovery, rr_version = version\<rparr>) (\<lambda>table'.
      Inr (table',
           \<lparr>ra_run_id = run_id, ra_revision = se_revision e, ra_step_id = se_step_id e,
            ra_attempt = attempt, ra_execution = d, ra_context = ctx, ra_recovery = recovery,
            ra_version = version\<rparr>))))"

definition row_to_attempt :: "recovery_row \<Rightarrow> recovery_attempt result" where
  "row_to_attempt r =
     bindE (mk_step_execution (rr_revision r) (rr_step_id r) (rr_status r) (rr_result r)
              (rr_error r) (rr_evidence r)) (\<lambda>e.
     bindE (durable_execution e) (\<lambda>d.
     Inr \<lparr>ra_run_id = rr_run_id r, ra_revision = rr_revision r, ra_step_id = rr_step_id r,
          ra_attempt = rr_attempt r, ra_execution = d, ra_context = rr_context r,
          ra_recovery = rr_recovery r, ra_version = rr_version r\<rparr>))"

text \<open>\<open>ORDER BY common_version, record_id\<close>: a stable sort of the rows of the run.\<close>

definition sql_restore :: "recovery_row list \<Rightarrow> string \<Rightarrow> int \<Rightarrow> recovery_snapshot result" where
  "sql_restore table run_id checkpoint_version =
     bindE (mapE row_to_attempt (sort_key rr_version (filter (\<lambda>r. rr_run_id r = run_id) table))) (\<lambda>attempts.
     if attempts \<noteq> [] \<and> ra_version (last attempts) \<noteq> checkpoint_version
     then Inl (PersistenceVersionMismatchError
            ''checkpoint and recovery records have no common persistence version'')
     else snapshot attempts checkpoint_version)"

definition sql_latest_version :: "recovery_row list \<Rightarrow> string \<Rightarrow> int" where
  "sql_latest_version table run_id =
     (case map rr_version (filter (\<lambda>r. rr_run_id r = run_id) table) of
        [] \<Rightarrow> 0 | v # vs \<Rightarrow> Max (set (v # vs)))"

definition sql_history :: "recovery_row list \<Rightarrow> string \<Rightarrow> recovery_attempt list result" where
  "sql_history table run_id =
     bindE (sql_restore table run_id (sql_latest_version table run_id)) (\<lambda>snap. Inr (rs_attempts snap))"

end
