(* ===== verification/Durable.thy ===== *)
theory Durable
  imports Agent_Loop Recovery
begin

section \<open>The durable Agent graph\<close>

text \<open>
  \<open>agent/durable.py\<close>: the LangGraph nodes and edges of \<open>DurableAgent._graph\<close>, and the run,
  resume and interrupt operations around it.  The nodes are functions on the graph state; the
  engine runs one node at a time, merges its update into the state and follows the edge, and
  raises when a run needs more node visits than its recursion limit (LangGraph's documented
  behaviour; the limit is a parameter).  Tracing is left out: it only observes.
\<close>

record graph_state =
  gs_agent_state :: "agent_state option"
  gs_status :: "string option"
  gs_run_id :: string
  gs_files_modified :: "string list"
  gs_files_read :: "string list"
  gs_observations :: "string list"
  gs_version :: int
  gs_attempt :: "nat option"
  gs_recovery_active :: bool
  gs_conversation :: "pyval option"

text \<open>The collaborators of a \<open>DurableAgent\<close>; the recovery store is optional.\<close>

record 'w recovery_ops =
  op_record :: "'w \<Rightarrow> string \<Rightarrow> step_execution \<Rightarrow> step_context option \<Rightarrow> bool \<Rightarrow> int
     \<Rightarrow> 'w \<times> recovery_attempt result"
  op_restore :: "'w \<Rightarrow> string \<Rightarrow> int \<Rightarrow> 'w \<times> recovery_snapshot result"
  op_history :: "'w \<Rightarrow> string \<Rightarrow> 'w \<times> recovery_attempt list result"

record 'w durable_agent =
  da_plan :: "pyval option \<Rightarrow> 'w planner"
  da_execute :: "step_context \<Rightarrow> bool \<Rightarrow> nat option \<Rightarrow> 'w executor"
  da_store :: "'w recovery_ops option"

datatype node = NPlan | NMarkRunning | NExecute | NReplan | NComplete | NBlocked | NInterrupted | NEnd

subsection \<open>Progress through the current plan\<close>

definition next_step :: "agent_state \<Rightarrow> (int \<times> string) option" where
  "next_step s =
     (if as_plans s = [] then None
      else let p = last (as_plans s) in
        map_option (\<lambda>step. (pl_revision p, ps_id step))
          (List.find (\<lambda>step. case execution_for s (pl_revision p) (ps_id step) of
                        None \<Rightarrow> True | Some e \<Rightarrow> se_status e \<noteq> Completed) (pl_steps p)))"

text \<open>\<open>_step_progress\<close>: one-based position and plan size.\<close>

fun position_of :: "string \<Rightarrow> plan_step list \<Rightarrow> nat \<Rightarrow> nat option" where
  "position_of i [] n = None"
| "position_of i (st # sts) n = (if ps_id st = i then Some n else position_of i sts (n + 1))"

definition step_progress :: "agent_state \<Rightarrow> int \<Rightarrow> string \<Rightarrow> (nat \<times> nat) option" where
  "step_progress s revision step_id =
     (case List.find (\<lambda>p. pl_revision p = revision) (as_plans s) of
        None \<Rightarrow> None
      | Some p \<Rightarrow> map_option (\<lambda>n. (n, length (pl_steps p))) (position_of step_id (pl_steps p) 1))"

definition merge_context :: "graph_state \<Rightarrow> step_context \<Rightarrow> int \<Rightarrow> string \<Rightarrow> graph_state" where
  "merge_context gs u revision step_id = gs\<lparr>
     gs_files_read := append_unique (gs_files_read gs) (sc_files_read u),
     gs_files_modified := append_unique (gs_files_modified gs) (sc_files_modified u),
     gs_observations := gs_observations gs @
       map (\<lambda>observation. ''revision '' @ show_int revision @ '', step '' @ step_id @ '': '' @ observation)
         (sc_observations u)\<rparr>"

subsection \<open>Nodes\<close>

definition need_state :: "graph_state \<Rightarrow> agent_state result" where
  "need_state gs = (case gs_agent_state gs of None \<Rightarrow> Inl (KeyError ''agent_state'') | Some s \<Rightarrow> Inr s)"

definition store_record ::
  "'w durable_agent \<Rightarrow> 'w \<Rightarrow> string \<Rightarrow> step_execution \<Rightarrow> step_context option \<Rightarrow> bool \<Rightarrow> int
     \<Rightarrow> 'w \<times> unit result" where
  "store_record A w run_id e ctx recovery version =
     (case da_store A of
        None \<Rightarrow> (w, Inr ())
      | Some st \<Rightarrow> bindW (op_record st w run_id e ctx recovery version) (\<lambda>w _. (w, Inr ())))"

definition node_plan :: "'w durable_agent \<Rightarrow> 'w \<Rightarrow> graph_state \<Rightarrow> 'w \<times> graph_state result" where
  "node_plan A w gs =
     bindW (liftW w (need_state gs)) (\<lambda>w s.
     if as_plans s \<noteq> [] then (w, Inr gs)
     else bindW (da_plan A (gs_conversation gs) w s) (\<lambda>w p.
          bindW (liftW w (with_plan s p)) (\<lambda>w s. (w, Inr (gs\<lparr>gs_agent_state := Some s\<rparr>)))))"

definition node_mark_running ::
  "'w durable_agent \<Rightarrow> 'w \<Rightarrow> graph_state \<Rightarrow> 'w \<times> graph_state result" where
  "node_mark_running A w gs =
     bindW (liftW w (need_state gs)) (\<lambda>w s.
     case next_step s of
       None \<Rightarrow> (w, Inr (gs\<lparr>gs_status := Some ''completed''\<rparr>))
     | Some (revision, step_id) \<Rightarrow>
         if (case execution_for s revision step_id of None \<Rightarrow> False | Some e \<Rightarrow> se_status e = Failed)
         then (w, Inr gs)
         else bindW (liftW w (mk_step_execution revision step_id Running None None None)) (\<lambda>w e.
              bindW (liftW w (with_step_execution s e)) (\<lambda>w updated.
              bindW (store_record A w (gs_run_id gs) (last (as_execs updated)) None False
                       (gs_version gs + 1)) (\<lambda>w _.
              (w, Inr (gs\<lparr>gs_agent_state := Some updated, gs_version := gs_version gs + 1\<rparr>))))))"

definition node_execute ::
  "'w durable_agent \<Rightarrow> 'w \<Rightarrow> graph_state \<Rightarrow> 'w \<times> graph_state result" where
  "node_execute A w gs =
     bindW (liftW w (need_state gs)) (\<lambda>w s.
     case next_step s of
       None \<Rightarrow> (w, Inr (gs\<lparr>gs_status := Some ''completed''\<rparr>))
     | Some (revision, step_id) \<Rightarrow>
         bindW (liftW w (mk_step_context (gs_files_read gs) (gs_files_modified gs)
                           (gs_observations gs))) (\<lambda>w ctx.
         bindW (da_execute A ctx (gs_recovery_active gs) (gs_attempt gs) w s revision step_id) (\<lambda>w oc.
         bindW (liftW w (with_step_execution s (oc_execution oc))) (\<lambda>w s'.
         let gs' = (case oc_context oc of
                      None \<Rightarrow> gs\<lparr>gs_agent_state := Some s'\<rparr>
                    | Some u \<Rightarrow> merge_context (gs\<lparr>gs_agent_state := Some s'\<rparr>) u revision step_id);
             version = gs_version gs + 1
         in bindW (store_record A w (gs_run_id gs) (oc_execution oc) (oc_context oc)
                     (gs_status gs = Some ''resuming'') version) (\<lambda>w _.
            (w, Inr (gs'\<lparr>gs_version := version, gs_recovery_active := False\<rparr>)))))))"

definition node_replan ::
  "'w durable_agent \<Rightarrow> 'w \<Rightarrow> graph_state \<Rightarrow> 'w \<times> graph_state result" where
  "node_replan A w gs =
     bindW (liftW w (need_state gs)) (\<lambda>w s.
     if as_plans s = [] then (w, Inl IndexError)
     else if pl_revision (last (as_plans s)) = 3
     then (w, Inr (gs\<lparr>gs_status := Some ''blocked''\<rparr>))
     else bindW (da_plan A (gs_conversation gs) w s) (\<lambda>w p.
          bindW (liftW w (with_plan s p)) (\<lambda>w s. (w, Inr (gs\<lparr>gs_agent_state := Some s\<rparr>)))))"

subsection \<open>Edges\<close>

definition start_node :: "graph_state \<Rightarrow> node" where
  "start_node gs =
     (if gs_status gs = Some ''blocked'' then NBlocked
      else if gs_status gs = Some ''interrupted'' then NInterrupted
      else NPlan)"

definition after_plan :: "graph_state \<Rightarrow> node result" where
  "after_plan gs = bindE (need_state gs) (\<lambda>s.
     Inr (if next_step s = None then NComplete else NMarkRunning))"

definition after_mark_running :: "graph_state \<Rightarrow> node result" where
  "after_mark_running gs = bindE (need_state gs) (\<lambda>s.
     Inr (if as_execs s \<noteq> [] \<and> se_status (last (as_execs s)) = Failed then NReplan
          else if next_step s = None then NComplete else NExecute))"

definition after_execute :: "graph_state \<Rightarrow> node result" where
  "after_execute gs = bindE (need_state gs) (\<lambda>s.
     if as_execs s = [] then Inl IndexError
     else Inr (if se_status (last (as_execs s)) = Failed then NReplan
               else if next_step s = None then NComplete else NMarkRunning))"

definition after_replan :: "graph_state \<Rightarrow> node" where
  "after_replan gs = (if gs_status gs = Some ''blocked'' then NEnd else NMarkRunning)"

subsection \<open>The compiled graph\<close>

fun graph_step ::
  "'w durable_agent \<Rightarrow> node \<Rightarrow> 'w \<Rightarrow> graph_state \<Rightarrow> 'w \<times> (node \<times> graph_state) result" where
  "graph_step A NPlan w gs =
     bindW (node_plan A w gs) (\<lambda>w gs. bindW (liftW w (after_plan gs)) (\<lambda>w n. (w, Inr (n, gs))))"
| "graph_step A NMarkRunning w gs =
     bindW (node_mark_running A w gs) (\<lambda>w gs.
     bindW (liftW w (after_mark_running gs)) (\<lambda>w n. (w, Inr (n, gs))))"
| "graph_step A NExecute w gs =
     bindW (node_execute A w gs) (\<lambda>w gs.
     bindW (liftW w (after_execute gs)) (\<lambda>w n. (w, Inr (n, gs))))"
| "graph_step A NReplan w gs =
     bindW (node_replan A w gs) (\<lambda>w gs. (w, Inr (after_replan gs, gs)))"
| "graph_step A NComplete w gs = (w, Inr (NEnd, gs\<lparr>gs_status := Some ''completed''\<rparr>))"
| "graph_step A NBlocked w gs = (w, Inr (NEnd, gs\<lparr>gs_status := Some ''blocked''\<rparr>))"
| "graph_step A NInterrupted w gs = (w, Inr (NEnd, gs\<lparr>gs_status := Some ''interrupted''\<rparr>))"
| "graph_step A NEnd w gs = (w, Inr (NEnd, gs))"

text \<open>\<open>graph_run\<close> answers \<open>Inr None\<close> when the recursion limit stops it.\<close>

fun graph_run ::
  "'w durable_agent \<Rightarrow> nat \<Rightarrow> node \<Rightarrow> 'w \<Rightarrow> graph_state \<Rightarrow> 'w \<times> graph_state option result" where
  "graph_run A limit NEnd w gs = (w, Inr (Some gs))"
| "graph_run A 0 n w gs = (w, Inr None)"
| "graph_run A (Suc limit) n w gs =
     bindW (graph_step A n w gs) (\<lambda>w (n', gs'). graph_run A limit n' w gs')"

definition graph_invoke ::
  "'w durable_agent \<Rightarrow> nat \<Rightarrow> 'w \<Rightarrow> graph_state \<Rightarrow> 'w \<times> graph_state result" where
  "graph_invoke A limit w gs =
     bindW (graph_run A limit (start_node gs) w gs) (\<lambda>w r.
       (w, case r of None \<Rightarrow> Inl (RuntimeError ''GraphRecursionError'') | Some gs \<Rightarrow> Inr gs))"

subsection \<open>Run, resume, interrupt\<close>

record run_answer =
  rn_run_id :: string
  rn_status :: string
  rn_state :: "agent_state option"

fun restore_recovery_state :: "agent_state \<Rightarrow> step_execution list \<Rightarrow> agent_state result" where
  "restore_recovery_state s [] = Inr s"
| "restore_recovery_state s (e # es) = bindE (with_step_execution s e) (\<lambda>s. restore_recovery_state s es)"

definition next_attempt :: "recovery_attempt list \<Rightarrow> step_execution \<Rightarrow> nat" where
  "next_attempt attempts e =
     (let prior = filter (\<lambda>a. attempt_key a = exec_key e) attempts in
      if prior = [] then 1 else ra_attempt (last prior) + 1)"

definition interrupted_of :: "step_execution list \<Rightarrow> step_execution option" where
  "interrupted_of es = List.find (\<lambda>e. se_status e = Interrupted) es"

text \<open>
  The first half of \<open>run\<close> with \<open>state=None\<close>: overlay the recovery projection on the checkpoint.
  The result holds the channels the run starts from: the checkpoint's own, with the input's
  \<open>recovery_active\<close>, \<open>recovery_attempt\<close> (kept from the checkpoint when the input omits it) and
  restored context.
\<close>

definition load_checkpoint ::
  "'w durable_agent \<Rightarrow> 'w \<Rightarrow> string \<Rightarrow> graph_state \<Rightarrow> 'w \<times> graph_state result" where
  "load_checkpoint A w run_id cp =
     (case da_store A of
        None \<Rightarrow> (w, Inr (cp\<lparr>gs_recovery_active := False\<rparr>))
      | Some st \<Rightarrow>
          bindW (op_restore st w run_id (gs_version cp)) (\<lambda>w snap.
          case gs_agent_state cp of
            None \<Rightarrow> (w, Inr cp)
          | Some restored \<Rightarrow>
              if rs_latest snap = [] then (w, Inr (cp\<lparr>gs_recovery_active := False\<rparr>))
              else bindW (liftW w (restore_recovery_state restored (rs_latest snap))) (\<lambda>w s.
                let values = cp\<lparr>gs_agent_state := Some s,
                      gs_files_read := sc_files_read (rs_context snap),
                      gs_files_modified := sc_files_modified (rs_context snap),
                      gs_observations := sc_observations (rs_context snap)\<rparr>
                in case interrupted_of (rs_latest snap) of
                     None \<Rightarrow> (w, Inr (values\<lparr>gs_recovery_active := False\<rparr>))
                   | Some i \<Rightarrow> (w, Inr (values\<lparr>gs_recovery_active := True,
                        gs_attempt := Some (next_attempt (rs_attempts snap) i)\<rparr>)))))"

text \<open>
  The disposition of interrupted work, from a graph state that holds an Agent state: the
  boolean is \<open>abort\<close>.  First the decision, then the record of an execution found running.
\<close>

definition decide_interrupted ::
  "'w durable_agent \<Rightarrow> 'w \<Rightarrow> string \<Rightarrow> string option \<Rightarrow> agent_state \<Rightarrow> graph_state
     \<Rightarrow> 'w \<times> (bool \<times> graph_state) result" where
  "decide_interrupted A w run_id recovery stale gs =
     (let decided = bindW (liftW w (apply_recovery_decision stale recovery)) (\<lambda>w (s, abort).
            (w, Inr (abort, gs\<lparr>gs_agent_state := Some s\<rparr>)))
      in case interrupted_of (as_execs stale) of
           None \<Rightarrow> decided
         | Some i \<Rightarrow>
             if recovery \<noteq> None then decided
             else (case da_store A of
                     None \<Rightarrow> (w, Inr (False, gs\<lparr>gs_agent_state := Some stale, gs_recovery_active := True\<rparr>))
                   | Some st \<Rightarrow>
                       bindW (op_history st w run_id) (\<lambda>w history.
                       (w, Inr (False, gs\<lparr>gs_agent_state := Some stale, gs_recovery_active := True,
                                 gs_attempt := Some (next_attempt history i)\<rparr>)))))"

definition record_interruption ::
  "'w durable_agent \<Rightarrow> 'w \<Rightarrow> string \<Rightarrow> string option \<Rightarrow> agent_state \<Rightarrow> agent_state \<Rightarrow> graph_state
     \<Rightarrow> 'w \<times> graph_state result" where
  "record_interruption A w run_id recovery s stale gs =
     (case (interrupted_of (as_execs stale), da_store A) of
        (Some i, Some st) \<Rightarrow>
          if \<exists>e\<in>set (as_execs s). se_status e = Running
          then bindW (op_history st w run_id) (\<lambda>w history.
               bindW (op_record st w run_id i None False
                        (if history = [] then 1 else ra_version (last history) + 1)) (\<lambda>w a.
               (w, Inr (gs\<lparr>gs_recovery_active := (recovery = None),
                           gs_attempt := Some (ra_attempt a + 1)\<rparr>))))
          else (w, Inr gs)
      | _ \<Rightarrow> (w, Inr gs))"

definition settle_interrupted ::
  "'w durable_agent \<Rightarrow> 'w \<Rightarrow> string \<Rightarrow> string option \<Rightarrow> agent_state \<Rightarrow> graph_state
     \<Rightarrow> 'w \<times> (bool \<times> graph_state) result" where
  "settle_interrupted A w run_id recovery s gs =
     bindW (liftW w (mark_stale_execution_interrupted s)) (\<lambda>w stale.
     bindW (decide_interrupted A w run_id recovery stale gs) (\<lambda>w (abort, gs).
     bindW (record_interruption A w run_id recovery s stale gs) (\<lambda>w gs.
     (w, Inr (abort, gs)))))"

text \<open>
  The second half of \<open>run\<close>: \<open>gs\<close> is what the resuming input makes of the checkpoint \<open>cp\<close>; an
  abort writes only the state and the status over the checkpoint.
\<close>

definition durable_start ::
  "'w durable_agent \<Rightarrow> nat \<Rightarrow> 'w \<Rightarrow> graph_state \<Rightarrow> string \<Rightarrow> string option \<Rightarrow> pyval option
     \<Rightarrow> graph_state \<Rightarrow> 'w \<times> run_answer result" where
  "durable_start A limit w cp run_id recovery conv gs =
     (case gs_agent_state gs of
        None \<Rightarrow>
          bindW (graph_invoke A limit w (gs\<lparr>gs_run_id := run_id\<rparr>)) (\<lambda>w r.
          (w, Inr \<lparr>rn_run_id = run_id, rn_status = (case gs_status r of None \<Rightarrow> ''completed'' | Some x \<Rightarrow> x),
                   rn_state = gs_agent_state r\<rparr>))
      | Some s \<Rightarrow>
          bindW (settle_interrupted A w run_id recovery s gs) (\<lambda>w (abort, gs).
          if abort
          then bindW (graph_invoke A limit w
                        (cp\<lparr>gs_agent_state := gs_agent_state gs, gs_status := Some ''blocked''\<rparr>)) (\<lambda>w r.
               (w, Inr \<lparr>rn_run_id = run_id, rn_status = ''blocked'', rn_state = gs_agent_state r\<rparr>))
          else bindW (graph_invoke A limit w
                        (gs\<lparr>gs_status := Some ''resuming'', gs_run_id := run_id,
                            gs_conversation := (case conv of None \<Rightarrow> gs_conversation gs | Some c \<Rightarrow> Some c)\<rparr>)) (\<lambda>w r.
               (w, Inr \<lparr>rn_run_id = run_id,
                        rn_status = (case gs_status r of None \<Rightarrow> ''completed'' | Some x \<Rightarrow> x),
                        rn_state = gs_agent_state r\<rparr>))))"

text \<open>
  \<open>DurableAgent.run\<close>: \<open>cp\<close> is the latest checkpoint of the thread (an empty graph state when
  there is none), into which the engine merges the invocation's input.
\<close>

definition durable_run ::
  "'w durable_agent \<Rightarrow> nat \<Rightarrow> 'w \<Rightarrow> graph_state \<Rightarrow> string \<Rightarrow> agent_state option \<Rightarrow> string option
     \<Rightarrow> pyval option \<Rightarrow> 'w \<times> run_answer result" where
  "durable_run A limit w cp run_id state recovery conv =
     (case state of
        Some s \<Rightarrow> durable_start A limit w cp run_id recovery conv
                    (cp\<lparr>gs_agent_state := Some s, gs_recovery_active := False\<rparr>)
      | None \<Rightarrow>
          bindW (load_checkpoint A w run_id cp) (\<lambda>w gs.
          if gs_agent_state gs \<noteq> None \<and> gs_status gs \<in> {Some ''completed'', Some ''blocked''}
          then (w, Inr \<lparr>rn_run_id = run_id, rn_status = the (gs_status gs),
                        rn_state = gs_agent_state gs\<rparr>)
          else durable_start A limit w cp run_id recovery conv gs))"

text \<open>\<open>DurableAgent.interrupt\<close>: mark in-progress work uncertain and checkpoint it.\<close>

definition durable_interrupt ::
  "'w durable_agent \<Rightarrow> nat \<Rightarrow> 'w \<Rightarrow> graph_state \<Rightarrow> string \<Rightarrow> 'w \<times> graph_state option result" where
  "durable_interrupt A limit w cp run_id =
     (case gs_agent_state cp of
        None \<Rightarrow> (w, Inr None)
      | Some s \<Rightarrow>
          bindW (liftW w (mark_stale_execution_interrupted s)) (\<lambda>w stale.
          let version = gs_version cp + 1 in
          bindW (if da_store A \<noteq> None \<and> (\<exists>e\<in>set (as_execs s). se_status e = Running)
                 then (case interrupted_of (as_execs stale) of
                         None \<Rightarrow> (w, Inl (RuntimeError ''StopIteration''))
                       | Some i \<Rightarrow> store_record A w run_id i None False version)
                 else (w, Inr ())) (\<lambda>w _.
          bindW (graph_invoke A limit w
                   (cp\<lparr>gs_agent_state := Some stale, gs_status := Some ''interrupted'',
                       gs_run_id := run_id, gs_version := version\<rparr>)) (\<lambda>w r. (w, Inr (Some r))))))"

end
