(* ===== verification/Durable_Correct.thy ===== *)
theory Durable_Correct
  imports Durable "HOL-Library.Sublist"
begin

section \<open>The durable graph under the Planner and Executor contracts\<close>

text \<open>
  The node invariant \<open>node_inv\<close> of the graph of \<open>agent/durable.py\<close>, the measure that decreases
  at every node visit, and what a run that ends has established.
\<close>

lemma next_step_None:
  "next_step s = None \<longleftrightarrow> as_plans s = [] \<or> plan_completed s (last (as_plans s))"
  by (auto simp: next_step_def Let_def find_None_all plan_completed_def split: option.splits)

lemma next_step_Some:
  assumes "next_step s = Some (r, i)"
  obtains st where "as_plans s \<noteq> []" "r = pl_revision (last (as_plans s))"
    "st \<in> set (pl_steps (last (as_plans s)))" "ps_id st = i"
    "\<forall>e. execution_for s r i = Some e \<longrightarrow> se_status e \<noteq> Completed"
  using assms
  by (auto simp: next_step_def Let_def dest!: find_Some_in split: if_splits option.splits)

definition incomplete :: "agent_state \<Rightarrow> nat" where
  "incomplete s = (if as_plans s = [] then 0 else
     length (filter (\<lambda>st. \<not> (\<exists>e. execution_for s (pl_revision (last (as_plans s))) (ps_id st) = Some e
        \<and> se_status e = Completed)) (pl_steps (last (as_plans s)))))"

definition graph_context_ok :: "graph_state \<Rightarrow> bool" where
  "graph_context_ok gs \<longleftrightarrow>
     (\<forall>v\<in>set (gs_files_read gs) \<union> set (gs_files_modified gs). v \<noteq> [] \<and> \<not> unsafe_path v)
     \<and> (\<forall>v\<in>set (gs_observations gs). \<not> blank v)"

text \<open>
  What holds on arrival at a node.  \<open>NBlocked\<close> and \<open>NInterrupted\<close> are entered from the start
  only, with the status they then report.
\<close>

fun node_inv :: "node \<Rightarrow> graph_state \<Rightarrow> agent_state \<Rightarrow> bool" where
  "node_inv NPlan gs s = (gs_status gs \<notin> {Some ''blocked'', Some ''completed''})"
| "node_inv NMarkRunning gs s =
     (gs_status gs \<notin> {Some ''blocked'', Some ''completed''} \<and> next_step s \<noteq> None)"
| "node_inv NExecute gs s =
     (gs_status gs \<notin> {Some ''blocked'', Some ''completed''} \<and> next_step s \<noteq> None)"
| "node_inv NReplan gs s =
     (gs_status gs \<notin> {Some ''blocked'', Some ''completed''} \<and> as_plans s \<noteq> []
        \<and> plan_failed s (last (as_plans s)))"
| "node_inv NComplete gs s = (as_plans s \<noteq> [] \<and> plan_completed s (last (as_plans s)))"
| "node_inv NBlocked gs s = False"
| "node_inv NInterrupted gs s = False"
| "node_inv NEnd gs s = (as_plans s \<noteq> [] \<and>
     (gs_status gs = Some ''completed'' \<and> plan_completed s (last (as_plans s)) \<or>
      gs_status gs = Some ''blocked'' \<and> pl_revision (last (as_plans s)) = 3
        \<and> plan_failed s (last (as_plans s))))"

definition graph_inv :: "node \<Rightarrow> graph_state \<Rightarrow> bool" where
  "graph_inv n gs \<longleftrightarrow> graph_context_ok gs
     \<and> (\<exists>s. gs_agent_state gs = Some s \<and> wf_state s \<and> node_inv n gs s)"

text \<open>Progress from one graph state to a later one: nothing that was completed is lost.\<close>

definition kept :: "agent_state \<Rightarrow> agent_state \<Rightarrow> bool" where
  "kept s t \<longleftrightarrow> as_goal t = as_goal s \<and> prefix (as_plans s) (as_plans t)
     \<and> (\<forall>r i e. execution_for s r i = Some e \<longrightarrow> se_status e = Completed \<longrightarrow>
            execution_for t r i = Some e)"

definition grows :: "graph_state \<Rightarrow> graph_state \<Rightarrow> bool" where
  "grows a b \<longleftrightarrow> rel_option kept (gs_agent_state a) (gs_agent_state b)
     \<and> gs_version a \<le> gs_version b
     \<and> prefix (gs_files_read a) (gs_files_read b)
     \<and> prefix (gs_files_modified a) (gs_files_modified b)
     \<and> prefix (gs_observations a) (gs_observations b)"

lemma kept_refl [simp]: "kept s s"
  by (simp add: kept_def)

lemma kept_trans: "kept s t \<Longrightarrow> kept t u \<Longrightarrow> kept s u"
  unfolding kept_def by (metis prefix_order.trans)

lemma grows_refl: "grows a a"
  by (cases "gs_agent_state a") (auto simp: grows_def)

lemma grows_trans: "grows a b \<Longrightarrow> grows b c \<Longrightarrow> grows a c"
  unfolding grows_def
  by (cases "gs_agent_state a"; cases "gs_agent_state b"; cases "gs_agent_state c")
    (auto intro: kept_trans prefix_order.trans)

definition node_rank :: "node \<Rightarrow> nat" where
  "node_rank n = (case n of NPlan \<Rightarrow> 5 | NMarkRunning \<Rightarrow> 4 | NExecute \<Rightarrow> 3 | NReplan \<Rightarrow> 2
     | NComplete \<Rightarrow> 1 | NBlocked \<Rightarrow> 1 | NInterrupted \<Rightarrow> 1 | NEnd \<Rightarrow> 0)"

definition progress :: "((node \<times> graph_state) \<times> (node \<times> graph_state)) set" where
  "progress = inv_image (less_than <*lex*> less_than <*lex*> less_than)
     (\<lambda>(n, gs). (case gs_agent_state gs of None \<Rightarrow> 0 | Some s \<Rightarrow> 3 - length (as_plans s),
                 case gs_agent_state gs of None \<Rightarrow> 0 | Some s \<Rightarrow> incomplete s, node_rank n))"

lemma wf_progress: "wf progress"
  by (auto simp: progress_def)

lemma execution_for_plans [simp]: "execution_for (s\<lparr>as_plans := x\<rparr>) r i = execution_for s r i"
  by (simp add: execution_for_def)

lemma merge_context_simps [simp]:
  "gs_agent_state (merge_context gs u r i) = gs_agent_state gs"
  "gs_status (merge_context gs u r i) = gs_status gs"
  "gs_version (merge_context gs u r i) = gs_version gs"
  "gs_run_id (merge_context gs u r i) = gs_run_id gs"
  by (simp_all add: merge_context_def)

lemma need_state_Inr [simp]: "need_state gs = Inr s \<longleftrightarrow> gs_agent_state gs = Some s"
  by (auto simp: need_state_def split: option.splits)

lemma filter_shrinks:
  assumes "\<And>x. x \<in> set xs \<Longrightarrow> Q x \<Longrightarrow> P x" and "y \<in> set xs" and "P y" and "\<not> Q y"
  shows "length (filter Q xs) < length (filter P xs)"
proof -
  have "filter Q xs = filter Q (filter P xs)" using assms(1) by (induction xs) auto
  moreover have "y \<in> set (filter P xs)" using assms by simp
  then have "length (filter Q (filter P xs)) < length (filter P xs)"
    using assms(4) by (intro length_filter_less) auto
  ultimately show ?thesis by simp
qed

lemma merge_context_ok:
  assumes "graph_context_ok gs" and "wf_context u"
  shows "graph_context_ok (merge_context gs u r i)"
proof -
  have "\<not> blank (''revision '' @ x)" for x :: string
    by (simp add: blank_iff is_space_def)
  then show ?thesis
    using assms by (auto simp: graph_context_ok_def merge_context_def wf_context_def)
qed

lemma graph_context_ok_with: "graph_context_ok (gs\<lparr>gs_agent_state := x\<rparr>) = graph_context_ok gs"
  by (simp add: graph_context_ok_def)

lemma merge_context_grows:
  "prefix (gs_files_read b) (gs_files_read (merge_context b u r i))
   \<and> prefix (gs_files_modified b) (gs_files_modified (merge_context b u r i))
   \<and> prefix (gs_observations b) (gs_observations (merge_context b u r i))"
  using append_unique_prefix by (fastforce simp: merge_context_def prefix_def)

lemma fresh_plan_kept: "wf_state s \<Longrightarrow> kept s (s\<lparr>as_plans := as_plans s @ [p]\<rparr>)"
  by (simp add: kept_def)

lemma fresh_plan_next:
  assumes "wf_state s" and "fresh_plan s p"
  shows "next_step (s\<lparr>as_plans := as_plans s @ [p]\<rparr>) \<noteq> None"
proof -
  have "pl_steps p \<noteq> []" using assms(2) by (simp add: fresh_plan_def wf_plan_def)
  then obtain st where "st \<in> set (pl_steps p)" by (cases "pl_steps p") auto
  moreover have "execution_for (s\<lparr>as_plans := as_plans s @ [p]\<rparr>) (pl_revision p) (ps_id st) = None"
    by (rule fresh_plan_no_execution [OF assms])
  ultimately have "\<not> plan_completed (s\<lparr>as_plans := as_plans s @ [p]\<rparr>) p"
    unfolding plan_completed_iff by force
  then show ?thesis by (simp add: next_step_None)
qed

text \<open>Recording an execution of the next step under its own key.\<close>

lemma record_next:
  assumes "wf_state s" and "next_step s = Some (r, i)" and "wf_exec e" and "exec_key e = (r, i)"
    and "with_step_execution s e = Inr t"
  shows "wf_state t \<and> kept s t \<and> as_plans t = as_plans s \<and> as_execs t \<noteq> [] \<and> last (as_execs t) = e
     \<and> execution_for t r i = Some e
     \<and> (if se_status e = Completed then incomplete t < incomplete s
        else incomplete t = incomplete s \<and> next_step t \<noteq> None)
     \<and> (se_status e = Failed \<longrightarrow> plan_failed t (last (as_plans t)))"
proof -
  obtain st where st: "as_plans s \<noteq> []" "r = pl_revision (last (as_plans s))"
    "st \<in> set (pl_steps (last (as_plans s)))" "ps_id st = i"
    "\<forall>e. execution_for s r i = Some e \<longrightarrow> se_status e \<noteq> Completed"
    by (rule next_step_Some [OF assms(2)])
  have t: "t = s\<lparr>as_execs := filter (\<lambda>item. exec_key item \<noteq> exec_key e) (as_execs s) @ [e]\<rparr>"
    using with_step_execution_Inr [OF assms(1)] assms(5) by blast
  have ex: "execution_for t r' i' = (if (r, i) = (r', i') then Some e else execution_for s r' i')" for r' i'
    using execution_for_with [OF assms(1,5)] assms(4) by simp
  have plans: "as_plans t = as_plans s" and goal: "as_goal t = as_goal s" using t by simp_all
  have "kept s t"
    using ex st(5) plans goal by (auto simp: kept_def)
  moreover have "wf_state t" by (rule with_step_execution_wf [OF assms(1,3,5)])
  moreover have "execution_for t r i = Some e" using ex by simp
  moreover have "if se_status e = Completed then incomplete t < incomplete s
        else incomplete t = incomplete s \<and> next_step t \<noteq> None"
  proof (cases "se_status e = Completed")
    case True
    have "incomplete t < incomplete s"
      unfolding incomplete_def using st plans True
      by (auto simp: ex intro!: filter_shrinks [where y = st])
    with True show ?thesis by simp
  next
    case False
    have "incomplete t = incomplete s"
      unfolding incomplete_def using st plans False
      by (auto simp: ex intro!: arg_cong [where f = length] filter_cong)
    moreover have "next_step t \<noteq> None"
      using st False plans ex by (auto simp: next_step_None plan_completed_iff)
    ultimately show ?thesis using False by simp
  qed
  moreover have "se_status e = Failed \<longrightarrow> plan_failed t (last (as_plans t))"
    using st ex plans by (auto simp: plan_failed_iff)
  ultimately show ?thesis using t plans by simp
qed

definition advances :: "node \<Rightarrow> graph_state \<Rightarrow> node \<Rightarrow> graph_state \<Rightarrow> bool" where
  "advances n gs n' gs' \<longleftrightarrow>
     graph_inv n' gs' \<and> grows gs gs' \<and> ((n', gs'), (n, gs)) \<in> progress"

lemma advancesI:
  assumes "gs_agent_state gs = Some s" and "gs_agent_state gs' = Some t"
    and "wf_state t" and "graph_context_ok gs'" and "node_inv n' gs' t"
    and "kept s t" and "gs_version gs \<le> gs_version gs'"
    and "prefix (gs_files_read gs) (gs_files_read gs')"
    and "prefix (gs_files_modified gs) (gs_files_modified gs')"
    and "prefix (gs_observations gs) (gs_observations gs')"
    and "length (as_plans s) < length (as_plans t)
       \<or> length (as_plans t) = length (as_plans s) \<and> (incomplete t < incomplete s
          \<or> incomplete t = incomplete s \<and> node_rank n' < node_rank n)"
  shows "advances n gs n' gs'"
proof -
  have "length (as_plans t) \<le> 3" by (rule wf_state_budget [OF assms(3)])
  with assms(11) have "((n', gs'), (n, gs)) \<in> progress"
    using assms(1,2) by (auto simp: progress_def)
  with assms show ?thesis by (auto simp: advances_def graph_inv_def grows_def)
qed

text \<open>The collaborators of a durable agent, under every conversation input and attempt.\<close>

locale durable_env =
  fixes A :: "'w durable_agent"
  assumes planners: "planner_contract (da_plan A conv)"
    and executors: "executor_contract (da_execute A ctx rec att)"
begin

lemma plan_fresh: "wf_state s \<Longrightarrow> da_plan A conv w s = (w', Inr p) \<Longrightarrow> fresh_plan s p"
  using planner_contract.planner_fresh [OF planners] .

lemma execute_settles:
  "wf_state s \<Longrightarrow> (r, i) \<in> set (plan_step_keys (as_plans s)) \<Longrightarrow>
   da_execute A ctx rec att w s r i = (w', Inr oc) \<Longrightarrow> settled_outcome r i oc"
  using executor_contract.executor_settles [OF executors] .

lemma plan_advances:
  assumes "graph_inv NPlan gs" and "graph_step A NPlan w gs = (w', Inr (n', gs'))"
  shows "advances NPlan gs n' gs'"
proof -
  obtain s where s: "gs_agent_state gs = Some s" "wf_state s" "graph_context_ok gs"
    "gs_status gs \<notin> {Some ''blocked'', Some ''completed''}"
    using assms(1) by (auto simp: graph_inv_def)
  from assms(2) obtain w1 where node: "node_plan A w gs = (w1, Inr gs')"
    and edge: "after_plan gs' = Inr n'" by auto
  show ?thesis
  proof (cases "as_plans s = []")
    case True
    with node s(1) obtain w2 p t where p: "da_plan A (gs_conversation gs) w s = (w2, Inr p)"
      and t: "with_plan s p = Inr t" and gs': "gs' = gs\<lparr>gs_agent_state := Some t\<rparr>"
      by (auto simp: node_plan_def)
    note fresh = plan_fresh [OF s(2) p]
    have "t = s\<lparr>as_plans := as_plans s @ [p]\<rparr>" and "wf_state t"
      using fresh_plan_with [OF s(2) fresh] t by auto
    moreover have "n' = NMarkRunning"
      using edge gs' fresh_plan_next [OF s(2) fresh] calculation by (auto simp: after_plan_def)
    ultimately show ?thesis
      using s gs' fresh_plan_kept [OF s(2)] fresh_plan_next [OF s(2) fresh]
      by (intro advancesI [of _ s _ t]) (auto simp: graph_context_ok_def)
  next
    case False
    with node s(1) have "gs' = gs" by (auto simp: node_plan_def)
    with edge s False show ?thesis
      by (intro advancesI [of _ s _ s])
        (auto simp: after_plan_def next_step_None node_rank_def split: if_splits)
  qed
qed

lemma mark_running_advances:
  assumes "graph_inv NMarkRunning gs" and "graph_step A NMarkRunning w gs = (w', Inr (n', gs'))"
  shows "advances NMarkRunning gs n' gs'"
proof -
  obtain s r i where s: "gs_agent_state gs = Some s" "wf_state s" "graph_context_ok gs"
    "gs_status gs \<notin> {Some ''blocked'', Some ''completed''}" and next_: "next_step s = Some (r, i)"
    using assms(1) by (auto simp: graph_inv_def)
  from assms(2) obtain w1 where node: "node_mark_running A w gs = (w1, Inr gs')"
    and edge: "after_mark_running gs' = Inr n'" by auto
  obtain st where st: "as_plans s \<noteq> []" "r = pl_revision (last (as_plans s))"
    "st \<in> set (pl_steps (last (as_plans s)))" "ps_id st = i"
    by (rule next_step_Some [OF next_])
  show ?thesis
  proof (cases "\<exists>e. execution_for s r i = Some e \<and> se_status e = Failed")
    case True
    with node s(1) next_ have "gs' = gs" by (auto simp: node_mark_running_def)
    moreover have "plan_failed s (last (as_plans s))" using True st by (auto simp: plan_failed_iff)
    moreover have "n' = NReplan \<or> n' = NExecute"
      using edge s(1) next_ \<open>gs' = gs\<close> by (auto simp: after_mark_running_def split: if_splits)
    ultimately show ?thesis
      using s st next_ by (intro advancesI [of _ s _ s]) (auto simp: node_rank_def)
  next
    case False
    with node s(1) next_ obtain e t where e: "mk_step_execution r i Running None None None = Inr e"
      and t: "with_step_execution s e = Inr t"
      and gs': "gs' = gs\<lparr>gs_agent_state := Some t, gs_version := gs_version gs + 1\<rparr>"
      unfolding node_mark_running_def by (auto split: option.splits if_splits)
    have e': "wf_exec e" "exec_key e = (r, i)" "se_status e = Running"
      using e by (auto simp: mk_step_execution_Inr exec_key_def)
    note rn = record_next [OF s(2) next_ e'(1,2) t]
    have "n' = NExecute"
      using edge gs' rn e' by (auto simp: after_mark_running_def split: if_splits)
    with gs' rn e' s show ?thesis
      by (intro advancesI [of _ s _ t]) (auto simp: graph_context_ok_def node_rank_def)
  qed
qed

lemma execute_advances:
  assumes "graph_inv NExecute gs" and "graph_step A NExecute w gs = (w', Inr (n', gs'))"
  shows "advances NExecute gs n' gs'"
proof -
  obtain s r i where s: "gs_agent_state gs = Some s" "wf_state s" "graph_context_ok gs"
    "gs_status gs \<notin> {Some ''blocked'', Some ''completed''}" and next_: "next_step s = Some (r, i)"
    using assms(1) by (auto simp: graph_inv_def)
  from assms(2) obtain w1 where node: "node_execute A w gs = (w1, Inr gs')"
    and edge: "after_execute gs' = Inr n'" by auto
  obtain st where st: "as_plans s \<noteq> []" "r = pl_revision (last (as_plans s))"
    "st \<in> set (pl_steps (last (as_plans s)))" "ps_id st = i"
    by (rule next_step_Some [OF next_])
  define merged where "merged oc t = (case oc_context oc of
      None \<Rightarrow> gs\<lparr>gs_agent_state := Some t\<rparr>
    | Some u \<Rightarrow> merge_context (gs\<lparr>gs_agent_state := Some t\<rparr>) u r i)" for oc :: execution_outcome and t
  from node s(1) next_ obtain w2 ctx w3 oc t where
    oc: "da_execute A ctx (gs_recovery_active gs) (gs_attempt gs) w2 s r i = (w3, Inr oc)"
    and t: "with_step_execution s (oc_execution oc) = Inr t"
    and gs': "gs' = (merged oc t)\<lparr>gs_version := gs_version gs + 1, gs_recovery_active := False\<rparr>"
    unfolding node_execute_def merged_def by (auto simp: Let_def)
  have key: "(r, i) \<in> set (plan_step_keys (as_plans s))" using last_plan_keys st by auto
  have so: "settled_outcome r i oc" by (rule execute_settles [OF s(2) key oc])
  then have e: "wf_exec (oc_execution oc)" "exec_key (oc_execution oc) = (r, i)"
    "se_status (oc_execution oc) \<in> {Completed, Failed}"
    "\<And>u. oc_context oc = Some u \<Longrightarrow> wf_context u"
    by (auto simp: settled_outcome_def wf_outcome_def)
  note rn = record_next [OF s(2) next_ e(1,2) t]
  have m: "gs_agent_state (merged oc t) = Some t" "gs_status (merged oc t) = gs_status gs"
    "graph_context_ok (merged oc t)"
    "prefix (gs_files_read gs) (gs_files_read (merged oc t))"
    "prefix (gs_files_modified gs) (gs_files_modified (merged oc t))"
    "prefix (gs_observations gs) (gs_observations (merged oc t))"
    using s(3) e(4)
    by (cases "oc_context oc"; simp add: merged_def graph_context_ok_with merge_context_ok
        merge_context_grows [of "gs\<lparr>gs_agent_state := Some t\<rparr>", simplified])+
  have len: "length (as_plans t) = length (as_plans s)" using rn by simp
  have "node_inv n' gs' t \<and> (incomplete t < incomplete s \<or> incomplete t = incomplete s \<and> n' = NReplan)"
    using edge gs' rn e(3) m(1,2) s(4) st(1) next_step_None [of t]
    by (auto simp: after_execute_def split: if_splits)
  with m gs' s rn len show ?thesis
    by (intro advancesI [of _ s _ t]) (auto simp: graph_context_ok_def node_rank_def)
qed

lemma replan_advances:
  assumes "graph_inv NReplan gs" and "graph_step A NReplan w gs = (w', Inr (n', gs'))"
  shows "advances NReplan gs n' gs'"
proof -
  obtain s where s: "gs_agent_state gs = Some s" "wf_state s" "graph_context_ok gs"
    "gs_status gs \<notin> {Some ''blocked'', Some ''completed''}" "as_plans s \<noteq> []"
    "plan_failed s (last (as_plans s))"
    using assms(1) by (auto simp: graph_inv_def)
  from assms(2) have node: "node_replan A w gs = (w', Inr gs')"
    and edge: "n' = after_replan gs'" by auto
  show ?thesis
  proof (cases "pl_revision (last (as_plans s)) = 3")
    case True
    with node s have gs': "gs' = gs\<lparr>gs_status := Some ''blocked''\<rparr>" by (auto simp: node_replan_def)
    with edge s True show ?thesis
      by (intro advancesI [of _ s _ s]) (auto simp: after_replan_def graph_context_ok_def node_rank_def)
  next
    case False
    with node s obtain w2 p t where p: "da_plan A (gs_conversation gs) w s = (w2, Inr p)"
      and t: "with_plan s p = Inr t" and gs': "gs' = gs\<lparr>gs_agent_state := Some t\<rparr>"
      by (auto simp: node_replan_def)
    note fresh = plan_fresh [OF s(2) p]
    have t': "t = s\<lparr>as_plans := as_plans s @ [p]\<rparr>" and wf: "wf_state t"
      using fresh_plan_with [OF s(2) fresh] t by auto
    have kt: "kept s t" and nt: "next_step t \<noteq> None"
      using fresh_plan_kept [OF s(2)] fresh_plan_next [OF s(2) fresh] t' by simp_all
    have n: "n' = NMarkRunning" using edge gs' s(4) by (simp add: after_replan_def)
    from t' have "length (as_plans s) < length (as_plans t)" by simp
    with gs' kt nt wf n s(1-4) show ?thesis
      by (intro advancesI [of _ s _ t]) (auto simp: graph_context_ok_def)
  qed
qed

lemma complete_advances:
  assumes "graph_inv NComplete gs" and "graph_step A NComplete w gs = (w', Inr (n', gs'))"
  shows "advances NComplete gs n' gs'"
  using assms
  by (auto simp: graph_inv_def graph_context_ok_def node_rank_def intro!: advancesI)

lemma node_advances:
  assumes "graph_inv n gs" and "n \<noteq> NEnd" and "graph_step A n w gs = (w', Inr (n', gs'))"
  shows "advances n gs n' gs'"
proof (cases n)
  case NPlan
  with assms plan_advances show ?thesis by blast
next
  case NMarkRunning
  with assms mark_running_advances show ?thesis by blast
next
  case NExecute
  with assms execute_advances show ?thesis by blast
next
  case NReplan
  with assms replan_advances show ?thesis by blast
next
  case NComplete
  with assms complete_advances show ?thesis by blast
qed (use assms in \<open>auto simp: graph_inv_def\<close>)

text \<open>Every run of the graph ends within some number of node visits.\<close>

lemma graph_run_ends:
  assumes "graph_inv n gs"
  shows "\<exists>k w' r. (\<forall>limit\<ge>k. graph_run A limit n w gs = (w', r)) \<and> r \<noteq> Inr None
     \<and> (\<forall>gs'. r = Inr (Some gs') \<longrightarrow> graph_inv NEnd gs' \<and> grows gs gs')"
  using assms
proof (induction "(n, gs)" arbitrary: n gs w rule: wf_induct_rule [OF wf_progress])
  case 1
  show ?case
  proof (cases "n = NEnd")
    case True
    with 1(2) have "\<forall>limit\<ge>0. graph_run A limit n w gs = (w, Inr (Some gs))" by simp
    with True 1(2) grows_refl show ?thesis by blast
  next
    case False
    then have unfold: "graph_run A (Suc limit) n w gs =
      bindW (graph_step A n w gs) (\<lambda>w (n', gs'). graph_run A limit n' w gs')" for limit
      by (cases n) simp_all
    obtain w1 y where step: "graph_step A n w gs = (w1, y)" by fastforce
    show ?thesis
    proof (cases y)
      case (Inl e)
      with unfold step have "graph_run A limit n w gs = (w1, Inl e)" if "limit \<ge> 1" for limit
        using that by (cases limit) simp_all
      then show ?thesis by (intro exI [of _ 1] exI [of _ w1] exI [of _ "Inl e"]) simp
    next
      case (Inr ngs)
      obtain n' gs' where ngs: "ngs = (n', gs')" by (cases ngs)
      with step Inr 1(2) False have adv: "advances n gs n' gs'" by (auto intro: node_advances)
      then obtain k w' r where k: "\<forall>limit\<ge>k. graph_run A limit n' w1 gs' = (w', r)" "r \<noteq> Inr None"
        "\<forall>u. r = Inr (Some u) \<longrightarrow> graph_inv NEnd u \<and> grows gs' u"
        using 1(1) [of n' gs'] unfolding advances_def by blast
      have "graph_run A limit n w gs = (w', r)" if "limit \<ge> Suc k" for limit
        using that unfold step Inr ngs k(1) by (cases limit) simp_all
      with k adv show ?thesis unfolding advances_def by (metis grows_trans)
    qed
  qed
qed

end

end
