(* ===== verification/Json.thy ===== *)
theory Json
  imports PyValue
begin

section \<open>JSON texts\<close>

text \<open>
  The uses the program makes of Python's \<open>json\<close> module: \<open>json.loads\<close> on text (with and without
  the \<open>parse_constant\<close> hook that rejects \<open>NaN\<close> and \<open>Infinity\<close>) and
  \<open>json.dumps(v, ensure_ascii=False)\<close> (with and without \<open>sort_keys\<close>).  Text is UTF-8, so an
  escape \<open>\u....\<close> yields the encoded bytes.  A number with a fraction or an exponent keeps its
  literal.  Python's recursion limit is not modelled; its limit of 4300 digits of an integer is.
\<close>

definition is_digit :: "char \<Rightarrow> bool" where
  "is_digit c \<longleftrightarrow> 48 \<le> (of_char c :: nat) \<and> (of_char c :: nat) \<le> 57"

definition digit_val :: "char \<Rightarrow> nat" where
  "digit_val c = of_char c - 48"

definition read_nat :: "string \<Rightarrow> nat" where
  "read_nat ds = foldl (\<lambda>n c. 10 * n + digit_val c) 0 ds"

definition json_space :: "char \<Rightarrow> bool" where
  "json_space c \<longleftrightarrow> c \<in> set [CHR '' '', CHR 0x09, CHR 0x0A, CHR 0x0D]"

definition skip_ws :: "string \<Rightarrow> string" where
  "skip_ws s = dropWhile json_space s"

definition hex_val :: "char \<Rightarrow> nat option" where
  "hex_val c = (let n = (of_char c :: nat) in
     if 48 \<le> n \<and> n \<le> 57 then Some (n - 48)
     else if 97 \<le> n \<and> n \<le> 102 then Some (n - 87)
     else if 65 \<le> n \<and> n \<le> 70 then Some (n - 55)
     else None)"

text \<open>Four hexadecimal digits and the text after them.\<close>

definition hex4 :: "string \<Rightarrow> (nat \<times> string) option" where
  "hex4 s = (case s of
       a # b # c # d # r \<Rightarrow>
         (case (hex_val a, hex_val b, hex_val c, hex_val d) of
            (Some i, Some j, Some k, Some l) \<Rightarrow> Some (((i * 16 + j) * 16 + k) * 16 + l, r)
          | _ \<Rightarrow> None)
     | _ \<Rightarrow> None)"

lemma hex4_length [termination_simp]: "hex4 s = Some (n, r) \<Longrightarrow> length r < length s"
  by (auto simp: hex4_def split: list.splits option.splits)

text \<open>The UTF-8 bytes of a code point.\<close>

definition utf8 :: "nat \<Rightarrow> string" where
  "utf8 n =
     (if n < 128 then [char_of n]
      else if n < 2048 then [char_of (192 + n div 64), char_of (128 + n mod 64)]
      else if n < 65536 then
        [char_of (224 + n div 4096), char_of (128 + n div 64 mod 64), char_of (128 + n mod 64)]
      else [char_of (240 + n div 262144), char_of (128 + n div 4096 mod 64),
            char_of (128 + n div 64 mod 64), char_of (128 + n mod 64)])"

definition simple_escape :: "char \<Rightarrow> char option" where
  "simple_escape c = map_of [(CHR 0x22, CHR 0x22), (CHR 0x5C, CHR 0x5C), (CHR ''/'', CHR ''/''),
     (CHR ''b'', CHR 0x08), (CHR ''f'', CHR 0x0C), (CHR ''n'', CHR 0x0A), (CHR ''r'', CHR 0x0D),
     (CHR ''t'', CHR 0x09)] c"

text \<open>The second half of a surrogate pair, when the text goes on with one.\<close>

definition low_surrogate :: "string \<Rightarrow> (nat \<times> string) option" where
  "low_surrogate s =
     (if startswith s [CHR 0x5C, CHR ''u'']
      then (case hex4 (drop 2 s) of
              Some (n, r) \<Rightarrow> if 56320 \<le> n \<and> n \<le> 57343 then Some (n, r) else None
            | None \<Rightarrow> None)
      else None)"

lemma low_surrogate_length [termination_simp]:
  "low_surrogate s = Some (n, r) \<Longrightarrow> length r < length s"
  by (auto simp: low_surrogate_def dest!: hex4_length split: if_splits option.splits)

text \<open>A string after its opening quote: its value and the text after the closing quote.\<close>

function scan_string :: "string \<Rightarrow> (string \<times> string) option" where
  "scan_string [] = None"
| "scan_string (c # s) =
     (if c = CHR 0x22 then Some ([], s)
      else if c = CHR 0x5C then
        (case s of
           [] \<Rightarrow> None
         | e # s' \<Rightarrow>
             if e = CHR ''u'' then
               (case hex4 s' of
                  None \<Rightarrow> None
                | Some (n, r) \<Rightarrow>
                    (case (if 55296 \<le> n \<and> n \<le> 56319 then low_surrogate r else None) of
                       Some (m, r') \<Rightarrow>
                         map_option (\<lambda>(t, z). (utf8 (65536 + (n - 55296) * 1024 + (m - 56320)) @ t, z))
                           (scan_string r')
                     | None \<Rightarrow> map_option (\<lambda>(t, z). (utf8 n @ t, z)) (scan_string r)))
             else (case simple_escape e of
                     None \<Rightarrow> None
                   | Some d \<Rightarrow> map_option (\<lambda>(t, z). (d # t, z)) (scan_string s')))
      else if (of_char c :: nat) < 32 then None
      else map_option (\<lambda>(t, z). (c # t, z)) (scan_string s))"
  by pat_completeness auto
termination scan_string
  by (relation "measure length")
    (force dest!: hex4_length low_surrogate_length split: if_splits)+

text \<open>The numeral a text begins with, the text after it, and whether it is an integer.\<close>

definition fraction_part :: "string \<Rightarrow> string" where
  "fraction_part s = (case s of
       c # r \<Rightarrow> if c = CHR ''.'' \<and> takeWhile is_digit r \<noteq> [] then c # takeWhile is_digit r else []
     | [] \<Rightarrow> [])"

definition exponent_part :: "string \<Rightarrow> string" where
  "exponent_part s = (case s of
       c # r \<Rightarrow>
         if c = CHR ''e'' \<or> c = CHR ''E'' then
           (let sign = (case r of d # _ \<Rightarrow> if d = CHR ''+'' \<or> d = CHR ''-'' then [d] else [] | [] \<Rightarrow> []);
                ds = takeWhile is_digit (drop (length sign) r)
            in if ds = [] then [] else c # sign @ ds)
         else []
     | [] \<Rightarrow> [])"

definition scan_number :: "string \<Rightarrow> (pyval \<times> string) option" where
  "scan_number s =
     (let neg = startswith s ''-'';
          s1 = (if neg then drop 1 s else s);
          run = takeWhile is_digit s1;
          ds = (if startswith run ''0'' then ''0'' else run);
          s2 = drop (length ds) s1;
          fr = fraction_part s2;
          ex = exponent_part (drop (length fr) s2)
      in if ds = [] then None
         else if fr = [] \<and> ex = [] then
           (if length ds > 4300 then None
            else Some (PInt (if neg then - int (read_nat ds) else int (read_nat ds)), s2))
         else Some (PFloat ((if neg then ''-'' else []) @ ds @ fr @ ex),
                    drop (length fr + length ex) s2))"

definition scan_constant :: "bool \<Rightarrow> string \<Rightarrow> (pyval \<times> string) option" where
  "scan_constant allow s =
     (if startswith s ''null'' then Some (PNone, drop 4 s)
      else if startswith s ''true'' then Some (PBool True, drop 4 s)
      else if startswith s ''false'' then Some (PBool False, drop 5 s)
      else case scan_number s of
        Some x \<Rightarrow> Some x
      | None \<Rightarrow>
          if allow \<and> startswith s ''NaN'' then Some (PFloat ''NaN'', drop 3 s)
          else if allow \<and> startswith s ''Infinity'' then Some (PFloat ''Infinity'', drop 8 s)
          else if allow \<and> startswith s ''-Infinity'' then Some (PFloat ''-Infinity'', drop 9 s)
          else None)"

text \<open>
  The recursive-descent scanner, with a bound on the nesting of its calls: between two calls
  that read no character there is one that does, so twice the length of the text is enough.
\<close>

fun scan_value :: "bool \<Rightarrow> nat \<Rightarrow> string \<Rightarrow> (pyval \<times> string) option"
and scan_items :: "bool \<Rightarrow> nat \<Rightarrow> string \<Rightarrow> (pyval list \<times> string) option"
and scan_pairs :: "bool \<Rightarrow> nat \<Rightarrow> string \<Rightarrow> ((string \<times> pyval) list \<times> string) option" where
  "scan_value allow 0 s = None"
| "scan_value allow (Suc n) s = (case s of
       [] \<Rightarrow> None
     | c # r \<Rightarrow>
         if c = CHR 0x22 then map_option (\<lambda>(t, z). (PStr t, z)) (scan_string r)
         else if c = CHR ''['' then
           (if startswith (skip_ws r) '']'' then Some (PList [], drop 1 (skip_ws r))
            else map_option (\<lambda>(xs, z). (PList xs, z)) (scan_items allow n (skip_ws r)))
         else if c = CHR 0x7B then
           (if startswith (skip_ws r) [CHR 0x7D] then Some (PDict [], drop 1 (skip_ws r))
            else map_option (\<lambda>(kvs, z). (PDict (dict_literal kvs), z)) (scan_pairs allow n (skip_ws r)))
         else scan_constant allow s)"
| "scan_items allow 0 s = None"
| "scan_items allow (Suc n) s = (case scan_value allow n s of
       None \<Rightarrow> None
     | Some (v, r) \<Rightarrow> (case skip_ws r of
           [] \<Rightarrow> None
         | c # z \<Rightarrow>
             if c = CHR '']'' then Some ([v], z)
             else if c = CHR '','' then map_option (\<lambda>(vs, z). (v # vs, z)) (scan_items allow n (skip_ws z))
             else None))"
| "scan_pairs allow 0 s = None"
| "scan_pairs allow (Suc n) s = (case s of
       [] \<Rightarrow> None
     | q # s1 \<Rightarrow> if q \<noteq> CHR 0x22 then None else (case scan_string s1 of
           None \<Rightarrow> None
         | Some (k, r) \<Rightarrow> (case skip_ws r of
               [] \<Rightarrow> None
             | c # z \<Rightarrow> if c \<noteq> CHR '':'' then None else (case scan_value allow n (skip_ws z) of
                   None \<Rightarrow> None
                 | Some (v, r) \<Rightarrow> (case skip_ws r of
                       [] \<Rightarrow> None
                     | c # z \<Rightarrow>
                         if c = CHR 0x7D then Some ([(k, v)], z)
                         else if c = CHR '','' then
                           map_option (\<lambda>(kvs, z). ((k, v) # kvs, z)) (scan_pairs allow n (skip_ws z))
                         else None)))))"

definition json_loads :: "bool \<Rightarrow> string \<Rightarrow> pyval option" where
  "json_loads allow s = (case scan_value allow (2 * length s + 2) (skip_ws s) of
       Some (v, r) \<Rightarrow> if skip_ws r = [] then Some v else None
     | None \<Rightarrow> None)"

subsection \<open>Encoding\<close>

definition hex_digit :: "nat \<Rightarrow> char" where
  "hex_digit n = (if n < 10 then char_of (48 + n) else char_of (87 + n))"

definition escape_char :: "char \<Rightarrow> string" where
  "escape_char c =
     (if c = CHR 0x22 \<or> c = CHR 0x5C then [CHR 0x5C, c]
      else if c = CHR 0x0A then [CHR 0x5C, CHR ''n'']
      else if c = CHR 0x0D then [CHR 0x5C, CHR ''r'']
      else if c = CHR 0x09 then [CHR 0x5C, CHR ''t'']
      else if c = CHR 0x0C then [CHR 0x5C, CHR ''f'']
      else if c = CHR 0x08 then [CHR 0x5C, CHR ''b'']
      else if (of_char c :: nat) < 32 then
        [CHR 0x5C, CHR ''u'', CHR ''0'', CHR ''0'', hex_digit (of_char c div 16),
         hex_digit (of_char c mod 16)]
      else [c])"

definition json_string :: "string \<Rightarrow> string" where
  "json_string s = CHR 0x22 # concat (map escape_char s) @ [CHR 0x22]"

lemma size_dict_value [termination_simp]: "(k, v) \<in> set d \<Longrightarrow> size v < Suc (size_list (size_prod (\<lambda>_. 0) size) d)"
  by (induction d) auto

fun json_dumps :: "bool \<Rightarrow> pyval \<Rightarrow> string" where
  "json_dumps srt PNone = ''null''"
| "json_dumps srt (PBool b) = show_bool_lower b"
| "json_dumps srt (PInt i) = show_int i"
| "json_dumps srt (PFloat f) = f"
| "json_dumps srt (PStr s) = json_string s"
| "json_dumps srt (PList xs) = ''['' @ join '', '' (map (json_dumps srt) xs) @ '']''"
| "json_dumps srt (PDict d) =
     (let items = map (\<lambda>(k, v). (k, json_dumps srt v)) d;
          sorted = (if srt then sort_key fst items else items)
      in [CHR 0x7B] @ join '', '' (map (\<lambda>(k, t). json_string k @ '': '' @ t) sorted) @ [CHR 0x7D])"

text \<open>
  \<open>ensure_ascii=True\<close>: everything outside the printable ASCII range becomes an escape of its code
  point, a surrogate pair above \<open>0xFFFF\<close>.
\<close>

definition u_escape :: "nat \<Rightarrow> string" where
  "u_escape n = [CHR 0x5C, CHR ''u'', hex_digit (n div 4096), hex_digit (n div 256 mod 16),
     hex_digit (n div 16 mod 16), hex_digit (n mod 16)]"

definition ascii_code_point :: "nat \<Rightarrow> string" where
  "ascii_code_point n =
     (if n < 65536 then u_escape n
      else u_escape (55296 + (n - 65536) div 1024) @ u_escape (56320 + (n - 65536) mod 1024))"

definition utf8_tail :: "char \<Rightarrow> nat" where
  "utf8_tail c = of_char c mod 64"

fun ascii_escape :: "string \<Rightarrow> string" where
  "ascii_escape [] = []"
| "ascii_escape (a # s) =
     (let n = (of_char a :: nat) in
      if n < 127 then a # ascii_escape s
      else if n < 192 then u_escape n @ ascii_escape s
      else if n < 224 then (case s of b # s \<Rightarrow>
        ascii_code_point (n mod 32 * 64 + utf8_tail b) @ ascii_escape s | _ \<Rightarrow> [])
      else if n < 240 then (case s of b # c # s \<Rightarrow>
        ascii_code_point ((n mod 16 * 64 + utf8_tail b) * 64 + utf8_tail c) @ ascii_escape s | _ \<Rightarrow> [])
      else (case s of b # c # d # s \<Rightarrow>
        ascii_code_point (((n mod 8 * 64 + utf8_tail b) * 64 + utf8_tail c) * 64 + utf8_tail d) @ ascii_escape s
      | _ \<Rightarrow> []))"

definition json_ascii :: "bool \<Rightarrow> pyval \<Rightarrow> string" where
  "json_ascii srt v = ascii_escape (json_dumps srt v)"

subsection \<open>Decoding what was encoded\<close>

lemma of_char_digit [simp]: "d < 10 \<Longrightarrow> (of_char (digit_char d) :: nat) = 48 + d"
  by (simp add: digit_char_def)

lemma digit_char_ok [simp]: "d < 10 \<Longrightarrow> is_digit (digit_char d)" "d < 10 \<Longrightarrow> digit_val (digit_char d) = d"
  by (simp_all add: is_digit_def digit_val_def)

lemma read_nat_append: "read_nat (xs @ [c]) = 10 * read_nat xs + digit_val c"
  by (simp add: read_nat_def)

lemma show_nat_digits: "\<forall>c\<in>set (show_nat n). is_digit c"
proof (induction n rule: show_nat.induct)
  case (1 n)
  show ?case
  proof (cases "n < 10")
    case False
    then show ?thesis using 1 by (subst show_nat.simps) auto
  qed (simp add: show_nat.simps)
qed

lemma read_show_nat [simp]: "read_nat (show_nat n) = n"
proof (induction n rule: show_nat.induct)
  case (1 n)
  show ?case
  proof (cases "n < 10")
    case True
    then show ?thesis by (simp add: show_nat.simps read_nat_def)
  next
    case False
    then show ?thesis using 1 by (subst show_nat.simps) (simp add: read_nat_append)
  qed
qed

lemma show_nat_ne [simp]: "show_nat n \<noteq> []"
  by (subst show_nat.simps) simp

lemma show_nat_small: "n < 10 \<Longrightarrow> show_nat n = [digit_char n]"
  by (subst show_nat.simps) simp

lemma show_nat_0: "show_nat 0 = ''0''"
  by code_simp

lemma digit_zero: "d < 10 \<Longrightarrow> digit_char d = CHR ''0'' \<Longrightarrow> d = 0"
  using of_char_digit [of d] by simp

lemma hd_show_nat: "hd (show_nat n) = CHR ''0'' \<Longrightarrow> n = 0"
proof (induction n rule: show_nat.induct)
  case (1 n)
  show ?case
  proof (cases "n < 10")
    case True
    with 1(2) digit_zero show ?thesis by (simp add: show_nat.simps [of n])
  next
    case False
    have "hd (show_nat n) = hd (show_nat (n div 10))"
      using False by (subst show_nat.simps) (simp add: hd_append)
    with 1 False have "n div 10 = 0" by simp
    with False show ?thesis by simp
  qed
qed

text \<open>What may follow a value: nothing that continues a numeral.\<close>

definition ends_value :: "string \<Rightarrow> bool" where
  "ends_value r \<longleftrightarrow> (case r of [] \<Rightarrow> True
     | c # _ \<Rightarrow> \<not> is_digit c \<and> c \<noteq> CHR ''.'' \<and> c \<noteq> CHR ''e'' \<and> c \<noteq> CHR ''E'')"

lemma takeWhile_run: "\<forall>c\<in>set ds. P c \<Longrightarrow> (r = [] \<or> \<not> P (hd r)) \<Longrightarrow> takeWhile P (ds @ r) = ds"
  by (induction ds) (cases r; auto)+

lemma startswith_Cons: "startswith s [c] \<longleftrightarrow> (\<exists>r. s = c # r)"
  by (cases s) auto

lemma scan_digits:
  assumes "ends_value r" and "length (show_nat n) \<le> 4300"
  shows "scan_number (show_nat n @ r) = Some (PInt (int n), r)"
    and "scan_number (CHR ''-'' # show_nat n @ r) = Some (PInt (- int n), r)"
proof -
  have stop: "r = [] \<or> \<not> is_digit (hd r)" using assms(1) by (cases r) (auto simp: ends_value_def)
  have run: "takeWhile is_digit (show_nat n @ r) = show_nat n"
    by (rule takeWhile_run) (use show_nat_digits stop in auto)
  have ds: "(if startswith (show_nat n) ''0'' then ''0'' else show_nat n) = show_nat n"
  proof (cases "startswith (show_nat n) ''0''")
    case True
    then have "hd (show_nat n) = CHR ''0''" by (cases "show_nat n") auto
    then have "n = 0" by (rule hd_show_nat)
    then show ?thesis by (simp add: show_nat_0)
  qed simp
  have fr: "fraction_part r = []" and ex: "exponent_part r = []"
    using assms(1) by (cases r; auto simp: ends_value_def fraction_part_def exponent_part_def)+
  have "hd (show_nat n) \<noteq> CHR ''-''"
    using show_nat_digits [of n] by (cases "show_nat n") (auto simp: is_digit_def)
  then have neg: "\<not> startswith (show_nat n @ r) ''-''"
    by (cases "show_nat n") auto
  have minus: "startswith (CHR ''-'' # show_nat n @ r) ''-'' = True"
    "drop 1 (CHR ''-'' # show_nat n @ r) = show_nat n @ r" "(if True then x else y) = x" for x y :: string
    by simp_all
  show "scan_number (show_nat n @ r) = Some (PInt (int n), r)"
    unfolding scan_number_def Let_def if_not_P [OF neg] run ds using neg fr ex assms(2) by simp
  show "scan_number (CHR ''-'' # show_nat n @ r) = Some (PInt (- int n), r)"
    unfolding scan_number_def Let_def minus run ds using fr ex assms(2) by simp
qed

lemma hex_val_digit: "n < 16 \<Longrightarrow> hex_val (hex_digit n) = Some n"
  by (auto simp: hex_val_def hex_digit_def Let_def)

lemma scan_escape:
  "scan_string (escape_char c @ s) = map_option (\<lambda>(t, z). (c # t, z)) (scan_string s)"
proof (cases "escape_char c = [CHR 0x5C, CHR ''u'', CHR ''0'', CHR ''0'', hex_digit (of_char c div 16),
         hex_digit (of_char c mod 16)] \<and> (of_char c :: nat) < 32")
  case True
  then have n: "(of_char c :: nat) div 16 < 16" by linarith
  have z: "hex_val CHR ''0'' = Some 0" by (simp add: hex_val_def)
  have "utf8 (of_char c) = [c]" using True by (simp add: utf8_def)
  moreover have "hex4 (CHR ''0'' # CHR ''0'' # hex_digit (of_char c div 16) #
         hex_digit (of_char c mod 16) # s) = Some (of_char c, s)"
    using n by (simp add: hex4_def z hex_val_digit)
  ultimately show ?thesis using True by simp
next
  case False
  then show ?thesis
    by (auto simp: escape_char_def simple_escape_def split: if_splits)
qed

lemma scan_json_string:
  "scan_string (concat (map escape_char s) @ CHR 0x22 # r) = Some (s, r)"
  by (induction s) (simp_all add: scan_escape)

lemma skip_ws_other: "\<not> json_space c \<Longrightarrow> skip_ws (c # s) = c # s"
  by (simp add: skip_ws_def)

lemma dict_literal_distinct: "distinct (map fst d) \<Longrightarrow> dict_literal d = d"
proof -
  have upd: "k \<notin> fst ` set d \<Longrightarrow> AList.update k v d = d @ [(k, v)]" for k :: 'a and v :: 'b and d
    by (induction d) auto
  have "distinct (map fst (a @ d)) \<Longrightarrow> fold (\<lambda>(k, v) d. AList.update k v d) d a = a @ d"
    for a d :: "('a \<times> 'b) list"
    by (induction d arbitrary: a) (auto simp: upd)
  from this [of "[]" d] show "distinct (map fst d) \<Longrightarrow> dict_literal d = d"
    by (simp add: dict_literal_def)
qed

text \<open>
  The values whose encoding is read back: no floats, integers within the digit limit, distinct
  keys in every dictionary.
\<close>

fun plain :: "pyval \<Rightarrow> bool" where
  "plain PNone = True"
| "plain (PBool b) = True"
| "plain (PInt i) = (length (show_nat (nat \<bar>i\<bar>)) \<le> 4300)"
| "plain (PFloat f) = False"
| "plain (PStr s) = True"
| "plain (PList xs) = (\<forall>x\<in>set xs. plain x)"
| "plain (PDict d) = (distinct (map fst d) \<and> (\<forall>(k, v)\<in>set d. plain v))"

text \<open>How an encoded value begins, and that it is read back whatever ends it.\<close>

definition value_head :: "string \<Rightarrow> bool" where
  "value_head t \<longleftrightarrow> (\<exists>c r. t = c # r \<and> \<not> json_space c \<and> c \<noteq> CHR '']'' \<and> c \<noteq> CHR 0x7D)"

definition reads_back :: "bool \<Rightarrow> string \<Rightarrow> pyval \<Rightarrow> bool" where
  "reads_back allow t v \<longleftrightarrow> value_head t \<and>
     (\<forall>n r. ends_value r \<longrightarrow> 2 * length t \<le> n \<longrightarrow> scan_value allow n (t @ r) = Some (v, r))"

lemma value_head_skip: "value_head t \<Longrightarrow> skip_ws (t @ r) = t @ r"
  by (auto simp: value_head_def skip_ws_other)

lemma value_head_sp: "value_head t \<Longrightarrow> skip_ws (CHR '' '' # t @ r) = t @ r"
  using value_head_skip [of t r] by (simp add: skip_ws_def json_space_def)

lemma ends_value_sep [simp]: "ends_value []"
  "ends_value (CHR '','' # r)" "ends_value (CHR '']'' # r)" "ends_value (CHR 0x7D # r)"
  by (simp_all add: ends_value_def is_digit_def)

lemma reads_back_scan:
  "reads_back allow t v \<Longrightarrow> ends_value r \<Longrightarrow> 2 * length t \<le> n \<Longrightarrow> scan_value allow n (t @ r) = Some (v, r)"
  by (simp add: reads_back_def)

lemma value_head_join: "xs \<noteq> [] \<Longrightarrow> value_head (hd xs) \<Longrightarrow> value_head (join sep xs)"
  by (cases "(sep, xs)" rule: join.cases) (auto simp: value_head_def)

lemma scan_items_back:
  assumes "vs \<noteq> []" and "\<forall>v\<in>set vs. reads_back allow (f v) v"
    and "2 * length (join '', '' (map f vs)) + 1 \<le> n"
  shows "scan_items allow n (join '', '' (map f vs) @ CHR '']'' # r) = Some (vs, r)"
  using assms
proof (induction vs arbitrary: n)
  case (Cons v vs)
  obtain m where n: "n = Suc m" using Cons.prems(3) by (cases n) auto
  show ?case
  proof (cases "vs = []")
    case True
    with Cons.prems n have "scan_value allow m (f v @ CHR '']'' # r) = Some (v, CHR '']'' # r)"
      by (intro reads_back_scan) auto
    then show ?thesis using True n by (simp add: skip_ws_other json_space_def)
  next
    case False
    then have j: "join '', '' (map f (v # vs)) = f v @ '', '' @ join '', '' (map f vs)"
      by (cases vs) auto
    let ?r = "join '', '' (map f vs) @ CHR '']'' # r"
    have "scan_value allow m (f v @ CHR '','' # CHR '' '' # ?r) = Some (v, CHR '','' # CHR '' '' # ?r)"
      using Cons.prems n j by (intro reads_back_scan) auto
    moreover have "value_head (join '', '' (map f vs))"
      using False Cons.prems(2) by (cases vs) (auto simp: reads_back_def intro!: value_head_join)
    then have "skip_ws (CHR '' '' # ?r) = ?r" by (rule value_head_sp)
    moreover have "scan_items allow m ?r = Some (vs, r)"
      using False Cons.prems n j by (intro Cons.IH) auto
    ultimately show ?thesis using n j by (simp add: skip_ws_other json_space_def)
  qed
qed simp

lemma scan_pairs_back:
  assumes "d \<noteq> []" and "\<forall>(k, v)\<in>set d. reads_back allow (f v) v"
    and "2 * length (join '', '' (map (\<lambda>(k, v). json_string k @ '': '' @ f v) d)) + 1 \<le> n"
  shows "scan_pairs allow n (join '', '' (map (\<lambda>(k, v). json_string k @ '': '' @ f v) d) @ CHR 0x7D # r)
     = Some (d, r)"
  using assms
proof (induction d arbitrary: n)
  case (Cons kv d)
  obtain k v where kv: "kv = (k, v)" by (cases kv)
  obtain m where n: "n = Suc m" using Cons.prems(3) by (cases n) auto
  have key: "scan_string (concat (map escape_char k) @ CHR 0x22 # CHR '':'' # CHR '' '' # z) =
    Some (k, CHR '':'' # CHR '' '' # z)" for z by (rule scan_json_string)
  have v: "reads_back allow (f v) v" using Cons.prems(2) kv by simp
  then have vh: "skip_ws (CHR '' '' # f v @ z) = f v @ z" for z
    by (intro value_head_sp) (simp add: reads_back_def)
  let ?f = "\<lambda>(k, v). json_string k @ '': '' @ f v"
  show ?case
  proof (cases "d = []")
    case True
    with Cons.prems n kv v have "scan_value allow m (f v @ CHR 0x7D # r) = Some (v, CHR 0x7D # r)"
      by (intro reads_back_scan) (auto simp: json_string_def)
    then show ?thesis using True n kv
      by (simp add: skip_ws_other json_space_def json_string_def key vh)
  next
    case False
    then have j: "join '', '' (map ?f (kv # d)) = ?f kv @ '', '' @ join '', '' (map ?f d)"
      by (cases d) auto
    let ?r = "join '', '' (map ?f d) @ CHR 0x7D # r"
    have "scan_value allow m (f v @ CHR '','' # CHR '' '' # ?r) = Some (v, CHR '','' # CHR '' '' # ?r)"
      using Cons.prems n j v kv by (intro reads_back_scan) auto
    moreover have "value_head (join '', '' (map ?f d))"
      by (rule value_head_join) (use False in \<open>auto simp: hd_map value_head_def json_string_def
            json_space_def split: prod.split\<close>)
    then have "skip_ws (CHR '' '' # ?r) = ?r" by (rule value_head_sp)
    moreover have "scan_pairs allow m ?r = Some (d, r)"
      using False Cons.prems n j by (intro Cons.IH) auto
    ultimately show ?thesis using n j kv
      by (simp add: skip_ws_other json_space_def json_string_def key vh)
  qed
qed simp

lemma scan_int_back:
  assumes "length (show_nat (nat \<bar>i\<bar>)) \<le> 4300" and "ends_value r"
  shows "scan_number (show_int i @ r) = Some (PInt i, r)"
  using scan_digits [OF assms(2), of "nat \<bar>i\<bar>"] assms(1) by (auto simp: show_int_def)

lemma hd_show_int: "\<exists>c t. show_int i = c # t \<and> (is_digit c \<or> c = CHR ''-'')"
proof -
  have "\<exists>c t. show_nat n = c # t \<and> is_digit c" for n
    using show_nat_digits [of n] by (cases "show_nat n") auto
  then have "\<exists>c t. show_nat (nat i) = c # t \<and> (is_digit c \<or> c = CHR ''-'')" by blast
  then show ?thesis by (simp add: show_int_def)
qed

lemma reads_backI:
  assumes "value_head t"
    and "\<And>m r. ends_value r \<Longrightarrow> 2 * length t \<le> Suc m \<Longrightarrow> scan_value allow (Suc m) (t @ r) = Some (v, r)"
  shows "reads_back allow t v"
  unfolding reads_back_def
proof (intro conjI allI impI)
  fix n r
  assume r: "ends_value r" and n: "2 * length t \<le> n"
  from assms(1) have "t \<noteq> []" by (auto simp: value_head_def)
  with n obtain m where "n = Suc m" by (cases n) auto
  with assms(2) r n show "scan_value allow n (t @ r) = Some (v, r)" by simp
qed (rule assms(1))

lemma dumps_reads_back: "plain v \<Longrightarrow> reads_back allow (json_dumps False v) v"
proof (induction v)
  case (PInt i)
  obtain c t where c: "show_int i = c # t" "is_digit c \<or> c = CHR ''-''" using hd_show_int by blast
  have cs: "\<not> json_space c" "c \<notin> set [CHR '']'', CHR 0x7D, CHR 0x22, CHR ''['', CHR 0x7B, CHR ''n'', CHR ''t'', CHR ''f'']"
    using c(2) by (auto simp: is_digit_def json_space_def)
  have "scan_value allow (Suc m) (show_int i @ r) = Some (PInt i, r)"
    if "ends_value r" for m r
    using scan_int_back [of i r] PInt that c cs by (auto simp: scan_constant_def)
  then show ?case using c cs by (intro reads_backI) (auto simp: value_head_def)
next
  case (PBool b)
  then show ?case
    by (intro reads_backI; cases b)
      (auto simp: value_head_def json_space_def show_bool_lower_def scan_constant_def)
next
  case PNone
  then show ?case
    by (intro reads_backI) (auto simp: value_head_def json_space_def scan_constant_def)
next
  case (PStr s)
  then show ?case
    by (intro reads_backI) (simp_all add: value_head_def json_string_def json_space_def scan_json_string)
next
  case (PList xs)
  then have xs: "\<forall>v\<in>set xs. reads_back allow (json_dumps False v) v" by simp
  show ?case
  proof (cases "xs = []")
    case True
    then show ?thesis
      by (intro reads_backI) (simp_all add: value_head_def json_space_def skip_ws_def)
  next
    case False
    let ?j = "join '', '' (map (json_dumps False) xs)"
    have "value_head ?j"
      by (rule value_head_join) (use False xs in \<open>auto simp: hd_map reads_back_def\<close>)
    then have "skip_ws (?j @ z) = ?j @ z" "\<not> startswith (?j @ z) '']''" for z
      by (auto intro: value_head_skip simp: value_head_def)
    then show ?thesis
      using scan_items_back [OF False xs]
      by (intro reads_backI) (simp_all add: value_head_def json_space_def)
  qed
next
  case (PDict d)
  then have d: "\<forall>(k, v)\<in>set d. reads_back allow (json_dumps False v) v" by fastforce
  have dl: "dict_literal d = d" using PDict.prems by (simp add: dict_literal_distinct)
  show ?case
  proof (cases "d = []")
    case True
    then show ?thesis
      by (intro reads_backI) (simp_all add: value_head_def json_space_def skip_ws_def)
  next
    case False
    let ?j = "join '', '' (map (\<lambda>(k, v). json_string k @ '': '' @ json_dumps False v) d)"
    have m: "map (\<lambda>(k, t). json_string k @ '': '' @ t) (map (\<lambda>(k, v). (k, json_dumps False v)) d)
      = map (\<lambda>(k, v). json_string k @ '': '' @ json_dumps False v) d" by auto
    have "value_head ?j"
      by (rule value_head_join) (use False in \<open>auto simp: hd_map value_head_def json_string_def
            json_space_def split: prod.split\<close>)
    then have "skip_ws (?j @ z) = ?j @ z" "\<not> startswith (?j @ z) [CHR 0x7D]" for z
      by (auto intro: value_head_skip simp: value_head_def)
    then show ?thesis
      using scan_pairs_back [OF False d] dl
      by (intro reads_backI) (simp_all only: json_dumps.simps Let_def if_False m,
          simp_all add: value_head_def json_space_def)
  qed
qed simp

lemma loads_dumps:
  assumes "plain v"
  shows "json_loads allow (json_dumps False v) = Some v"
proof -
  have rb: "reads_back allow (json_dumps False v) v" by (rule dumps_reads_back [OF assms])
  then have "skip_ws (json_dumps False v) = json_dumps False v"
    using value_head_skip [of _ "[]"] by (simp add: reads_back_def)
  moreover have "scan_value allow (2 * length (json_dumps False v) + 2) (json_dumps False v @ []) = Some (v, [])"
    by (rule reads_back_scan [OF rb]) simp_all
  ultimately show ?thesis
    unfolding json_loads_def append_Nil2 by (simp only: option.case prod.case) (simp add: skip_ws_def)
qed

lemma loads_json_string [simp]: "json_loads allow (json_string s) = Some (PStr s)"
  using loads_dumps [of "PStr s"] by simp

end
