(* ===== verification/Line_Protocol.thy ===== *)
theory Line_Protocol
  imports Json
begin

section \<open>The Line Protocol\<close>

text \<open>
  \<open>llm/line_protocol.py\<close>: the parser of one protocol document, the codec registry and the
  validation of a parsed block against it.
\<close>

datatype block = Block (bk_type: string) (bk_fields: "(string \<times> pyval list) list") (bk_children: "block list")

subsection \<open>The registry\<close>

record codec =
  cd_fields :: "string list"
  cd_arrays :: "string list"
  cd_children :: "string list"

definition codec_registry :: "(string \<times> codec) list" where
  "codec_registry = dict_literal
    [(''PLAN'', \<lparr>cd_fields = [''REVISION'', ''GOAL''], cd_arrays = [], cd_children = [''STEP'']\<rparr>),
     (''STEP'', \<lparr>cd_fields = [''ID'', ''INTENT'', ''COMPLETION_CRITERION''], cd_arrays = [],
        cd_children = []\<rparr>),
     (''NO_TOOL'', \<lparr>cd_fields = [], cd_arrays = [], cd_children = []\<rparr>),
     (''ANSWER'', \<lparr>cd_fields = [''TEXT''], cd_arrays = [], cd_children = []\<rparr>),
     (''REACT_DECISION'', \<lparr>cd_fields = [''STATUS'', ''ANSWER'', ''ERROR''], cd_arrays = [],
        cd_children = []\<rparr>),
     (''GOAL_JUDGMENT'', \<lparr>cd_fields = [''COMPLETED'', ''EVIDENCE'', ''GAP''], cd_arrays = [],
        cd_children = []\<rparr>),
     (''COMPLETION_PROGRESS'', \<lparr>cd_fields = [''ALL_COMPLETED'', ''ANSWER''], cd_arrays = [],
        cd_children = [''CRITERION_VERDICT'']\<rparr>),
     (''CRITERION_VERDICT'', \<lparr>cd_fields = [''NUMBER'', ''VERIFIED'', ''EVIDENCE'', ''GAP''],
        cd_arrays = [], cd_children = []\<rparr>),
     (''GOAL_COMPLETION'', \<lparr>cd_fields = [''ANSWER'', ''GOAL_SATISFIED''], cd_arrays = [],
        cd_children = []\<rparr>),
     (''COMPLETION_PROGRESS'', \<lparr>cd_fields = [''ALL_COMPLETED'', ''ANSWER''], cd_arrays = [],
        cd_children = [''CRITERION_VERDICT'', ''COMPLETED_CRITERION'']\<rparr>),
     (''STEP_COMPLETION_PROGRESS'', \<lparr>cd_fields = [''ALL_COMPLETED''], cd_arrays = [],
        cd_children = [''COMPLETED_CRITERION'']\<rparr>),
     (''COMPLETED_CRITERION'', \<lparr>cd_fields = [''NUMBER'', ''EVIDENCE''], cd_arrays = [],
        cd_children = []\<rparr>),
     (''STEP_COMPLETION'', \<lparr>cd_fields = [''COMPLETED'', ''COMPLETION_CRITERION_MET'', ''RESULT'',
          ''FILES_READ'', ''FILES_MODIFIED'', ''OBSERVATIONS''],
        cd_arrays = [''FILES_READ'', ''FILES_MODIFIED'', ''OBSERVATIONS''], cd_children = []\<rparr>),
     (''TASK_ANALYSIS'', \<lparr>cd_fields = [''TASK_TYPE'', ''GOAL_CLARITY'', ''NEEDS_TOOLS'',
          ''EXPECTED_STEPS'', ''EXPECTED_HORIZON'', ''REASONING_SUMMARY'', ''COMPLETION_CRITERION''],
        cd_arrays = [''COMPLETION_CRITERION''], cd_children = []\<rparr>),
     (''OBSERVATION'', \<lparr>cd_fields = [''ROUND'', ''SOURCE_ROUND_START'', ''SOURCE_ROUND_END'',
          ''AFFECTS_CURRENT_DECISION'', ''AFFECTED_TARGETS''],
        cd_arrays = [''AFFECTED_TARGETS''], cd_children = [''EVIDENCE'']\<rparr>),
     (''EVIDENCE'', \<lparr>cd_fields = [''CATEGORY'', ''TEXT'', ''TOOL_CALL_ID''],
        cd_arrays = [''TOOL_CALL_ID''], cd_children = []\<rparr>)]"

subsection \<open>Lines\<close>

definition is_letter :: "char \<Rightarrow> bool" where
  "is_letter c \<longleftrightarrow> (let n = (of_char (upper_char c) :: nat) in 65 \<le> n \<and> n \<le> 90)"

text \<open>\<open>[A-Z][A-Z0-9_]*\<close>, ignoring case.\<close>

definition is_name :: "string \<Rightarrow> bool" where
  "is_name s = (case s of
       [] \<Rightarrow> False
     | c # r \<Rightarrow> is_letter c \<and> (\<forall>d\<in>set r. is_letter d \<or> is_digit d \<or> d = CHR ''_''))"

datatype boundary = Begin string | End string

text \<open>\<open>_BOUNDARY\<close>, with the name in upper case.\<close>

definition match_boundary :: "string \<Rightarrow> boundary option" where
  "match_boundary line =
     (let sep = (\<lambda>r. r \<noteq> [] \<and> (hd r = CHR '' '' \<or> hd r = CHR ''_'') \<and> is_name (tl r)) in
      if upper (take 5 line) = ''BEGIN'' \<and> sep (drop 5 line)
      then Some (Begin (upper (drop 6 line)))
      else if upper (take 3 line) = ''END'' \<and> sep (drop 3 line)
      then Some (End (upper (drop 4 line)))
      else None)"

text \<open>\<open>_SCALAR\<close>: the path in upper case and the literal.\<close>

definition match_scalar :: "string \<Rightarrow> (string \<times> string) option" where
  "match_scalar line =
     (let path = takeWhile (\<lambda>c. c \<noteq> CHR ''='') line;
          literal = drop (length path + 1) line
      in if (\<forall>p\<in>set (split_at CHR ''.'' path). is_name p) \<and> literal \<noteq> []
         then Some (upper path, literal) else None)"

fun unify_newlines :: "string \<Rightarrow> string" where
  "unify_newlines [] = []"
| "unify_newlines (c # s) =
     (if c = CHR 0x0D then
        (case s of d # s' \<Rightarrow> if d = CHR 0x0A then CHR 0x0A # unify_newlines s' else CHR 0x0A # unify_newlines s
         | [] \<Rightarrow> [CHR 0x0A])
      else c # unify_newlines s)"

definition protocol_lines :: "string \<Rightarrow> string list" where
  "protocol_lines document =
     (let ls = split_at CHR 0x0A (unify_newlines document)
      in if last ls = [] then butlast ls else ls)"

definition add_field :: "string \<Rightarrow> pyval \<Rightarrow> (string \<times> pyval list) list \<Rightarrow> (string \<times> pyval list) list" where
  "add_field path v fs =
     AList.update path ((case map_of fs path of None \<Rightarrow> [] | Some vs \<Rightarrow> vs) @ [v]) fs"

subsection \<open>The parser\<close>

text \<open>
  One line: the stack holds the open blocks, innermost first; a block is handed to the one
  below it, or becomes the root, when it is closed.
\<close>

type_synonym parser = "block list \<times> block option"

definition parse_line :: "string \<Rightarrow> parser \<Rightarrow> parser result" where
  "parse_line line st =
     (let (stack, root) = st in
      if line = [] \<or> hd line = CHR ''#''
      then Inl (LineProtocolError ''blank lines and comments are not permitted'')
      else case match_boundary line of
        Some (Begin name) \<Rightarrow>
          if stack = [] \<and> root \<noteq> None then Inl (LineProtocolError ''multiple top-level blocks'')
          else Inr (Block name [] [] # stack, root)
      | Some (End name) \<Rightarrow>
          (case stack of
             [] \<Rightarrow> Inl (LineProtocolError ''mismatched block boundary'')
           | b # below \<Rightarrow>
               if bk_type b \<noteq> name then Inl (LineProtocolError ''mismatched block boundary'')
               else (case below of
                       [] \<Rightarrow> Inr ([], Some b)
                     | p # ps \<Rightarrow> Inr (Block (bk_type p) (bk_fields p) (bk_children p @ [b]) # ps, root)))
      | None \<Rightarrow>
          (case (match_scalar line, stack) of
             (Some (path, literal), b # below) \<Rightarrow>
               if literal \<noteq> strip literal
               then Inl (LineProtocolError (''whitespace around JSON literal for '' @ path))
               else (case json_loads False literal of
                       None \<Rightarrow> Inl (LineProtocolError (''invalid JSON literal for '' @ path))
                     | Some v \<Rightarrow> Inr (Block (bk_type b) (add_field path v (bk_fields b)) (bk_children b) # below, root))
           | _ \<Rightarrow> Inl (LineProtocolError ''invalid line or text outside a block'')))"

fun parse_lines :: "string list \<Rightarrow> parser \<Rightarrow> parser result" where
  "parse_lines [] st = Inr st"
| "parse_lines (line # ls) st = bindE (parse_line line st) (parse_lines ls)"

text \<open>\<open>_validate_registered_fields\<close>.\<close>

fun validate_registered_fields :: "block \<Rightarrow> unit result" where
  "validate_registered_fields (Block type fs children) =
     (case map_of codec_registry type of
        None \<Rightarrow> Inl (KeyError type)
      | Some decl \<Rightarrow>
          if \<exists>(p, vs)\<in>set fs. p \<notin> set (cd_fields decl)
          then Inl (LineProtocolError (type @ '' contains undeclared fields''))
          else if \<exists>(p, vs)\<in>set fs. length vs > 1 \<and> p \<notin> set (cd_arrays decl)
          then Inl (LineProtocolError (type @ '' contains a repeated non-array field''))
          else if \<exists>c\<in>set children. bk_type c \<notin> set (cd_children decl)
          then Inl (LineProtocolError (type @ '' contains an undeclared child block''))
          else bindE (mapE validate_registered_fields children) (\<lambda>_. Inr ()))"

definition parse_line_protocol :: "string \<Rightarrow> block result" where
  "parse_line_protocol document =
     (let ls = protocol_lines document in
      if ls = [] then Inl (LineProtocolError ''protocol response is empty'')
      else bindE (parse_lines ls ([], None)) (\<lambda>(stack, root).
        case (stack, root) of
          ([], Some r) \<Rightarrow>
            if bk_type r \<notin> set (map fst codec_registry)
            then Inl (LineProtocolError (''unregistered block type '' @ bk_type r))
            else if bk_type r = ''STEP''
            then Inl (LineProtocolError ''STEP is only valid inside PLAN'')
            else bindE (validate_registered_fields r) (\<lambda>_. Inr r)
        | _ \<Rightarrow> Inl (LineProtocolError ''incomplete protocol block'')))"

text \<open>\<open>_single\<close>.\<close>

definition single :: "block \<Rightarrow> string \<Rightarrow> pyval result" where
  "single b f = (case map_of (bk_fields b) f of
       None \<Rightarrow> Inl (LineProtocolError (''missing declared field '' @ f))
     | Some [v] \<Rightarrow> Inr v
     | Some _ \<Rightarrow> Inl (LineProtocolError (''repeated non-array field '' @ f)))"

subsection \<open>What an accepted document is\<close>

text \<open>Conformance to the registry, as a predicate on block trees.\<close>

fun conforms :: "block \<Rightarrow> bool" where
  "conforms (Block type fs children) =
     (case map_of codec_registry type of
        None \<Rightarrow> False
      | Some decl \<Rightarrow> fst ` set fs \<subseteq> set (cd_fields decl)
          \<and> (\<forall>(p, vs)\<in>set fs. length vs \<le> 1 \<or> p \<in> set (cd_arrays decl))
          \<and> (\<forall>c\<in>set children. bk_type c \<in> set (cd_children decl))
          \<and> (\<forall>c\<in>set children. conforms c))"

lemma mapE_units: "(\<exists>us. mapE f xs = Inr us) \<longleftrightarrow> (\<forall>x\<in>set xs. \<exists>u. f x = Inr u)"
  by (induction xs) (auto simp: bindE_Inr)

lemma validate_conforms: "validate_registered_fields b = Inr () \<longleftrightarrow> conforms b"
proof (induction b)
  case (Block type fs children)
  have "(\<exists>us. mapE validate_registered_fields children = Inr us) \<longleftrightarrow> (\<forall>c\<in>set children. conforms c)"
    unfolding mapE_units using Block.IH by (metis (full_types) old.unit.exhaust)
  then show ?case
    by (auto simp: bindE_Inr if_Inr image_subset_iff not_less split: option.splits)
qed

lemma parse_line_protocol_conforms:
  "parse_line_protocol d = Inr b \<Longrightarrow> conforms b \<and> bk_type b \<noteq> ''STEP''"
  by (auto simp: parse_line_protocol_def Let_def validate_conforms split: list.splits option.splits if_splits
      prod.splits elim!: bindE_InrE)

subsection \<open>Rendering a block\<close>

text \<open>The canonical document of a block: its fields, one line per value, then its children.\<close>

definition field_lines :: "string \<times> pyval list \<Rightarrow> string list" where
  "field_lines f = map (\<lambda>v. fst f @ CHR ''='' # json_dumps False v) (snd f)"

fun block_lines :: "block \<Rightarrow> string list" where
  "block_lines (Block type fs children) =
     (''BEGIN '' @ type) # concat (map field_lines fs) @ concat (map block_lines children)
       @ [''END '' @ type]"

definition render_block :: "block \<Rightarrow> string" where
  "render_block b = join [CHR 0x0A] (block_lines b)"

text \<open>Upper-case names, and the blocks that have a canonical document.\<close>

definition plain_name :: "string \<Rightarrow> bool" where
  "plain_name s \<longleftrightarrow> is_name s \<and> upper s = s"

fun renderable :: "block \<Rightarrow> bool" where
  "renderable (Block type fs children) =
     (plain_name type \<and> distinct (map fst fs)
        \<and> (\<forall>(p, vs)\<in>set fs. plain_name p \<and> vs \<noteq> [] \<and> (\<forall>v\<in>set vs. plain v))
        \<and> (\<forall>c\<in>set children. renderable c))"

definition printable :: "string \<Rightarrow> bool" where
  "printable t \<longleftrightarrow> (\<forall>c\<in>set t. 32 \<le> (of_char c :: nat))"

lemma printable_append [simp]: "printable (s @ t) \<longleftrightarrow> printable s \<and> printable t"
  by (auto simp: printable_def)

lemma printable_Cons [simp]: "printable (c # t) \<longleftrightarrow> 32 \<le> (of_char c :: nat) \<and> printable t"
  by (auto simp: printable_def)

lemma printable_Nil [simp]: "printable []"
  by (simp add: printable_def)

lemma printable_join: "printable sep \<Longrightarrow> \<forall>x\<in>set xs. printable x \<Longrightarrow> printable (join sep xs)"
  by (induction sep xs rule: join.induct) auto

lemma printable_digits: "printable (show_nat n)"
  using show_nat_digits [of n] by (auto simp: printable_def is_digit_def)

lemma printable_escape: "printable (escape_char c)"
  by (auto simp: escape_char_def hex_digit_def)

lemma printable_string: "printable (json_string s)"
  using printable_escape by (auto simp: json_string_def printable_def)

lemma printable_dumps: "plain v \<Longrightarrow> printable (json_dumps False v)"
proof (induction v)
  case (PDict d)
  then have d: "printable (json_dumps False v)" if "(k, v) \<in> set d" for k v using that by fastforce
  show ?case
    by (auto simp: Let_def printable_string intro!: printable_join d)
qed (auto simp: show_bool_lower_def show_int_def printable_digits printable_string intro!: printable_join)

lemma is_space_printable: "is_space c \<Longrightarrow> 32 \<le> (of_char c :: nat) \<Longrightarrow> c = CHR '' ''"
  by (auto simp: is_space_def)

lemma last_dumps: "plain v \<Longrightarrow> last (json_dumps False v) \<noteq> CHR '' ''"
proof (cases v)
  case (PInt i)
  have "last (show_nat n) \<in> set (show_nat n)" for n by simp
  with show_nat_digits have "is_digit (last (show_nat n))" for n by blast
  then have "last (show_nat n) \<noteq> CHR '' ''" for n by (auto simp: is_digit_def dest: arg_cong [where f = is_digit])
  then show ?thesis using PInt by (simp add: show_int_def)
qed (auto simp: json_string_def show_bool_lower_def Let_def)

lemma dumps_literal:
  assumes "plain v"
  shows "json_dumps False v \<noteq> []" and "strip (json_dumps False v) = json_dumps False v"
proof -
  have vh: "value_head (json_dumps False v)"
    using dumps_reads_back [OF assms, of True] by (simp add: reads_back_def)
  then show ne: "json_dumps False v \<noteq> []" by (auto simp: value_head_def)
  have pr: "32 \<le> (of_char c :: nat)" if "c \<in> set (json_dumps False v)" for c
    using printable_dumps [OF assms] that by (simp add: printable_def)
  have "hd (json_dumps False v) \<noteq> CHR '' ''" using vh by (auto simp: value_head_def json_space_def)
  then show "strip (json_dumps False v) = json_dumps False v"
    using ne last_dumps [OF assms] is_space_printable pr by (intro strip_edges) auto
qed

lemma upper_is [simp]:
  "upper_char c = CHR ''='' \<longleftrightarrow> c = CHR ''=''" "upper_char c = CHR ''.'' \<longleftrightarrow> c = CHR ''.''"
proof -
  have "upper_char c = d \<longleftrightarrow> c = d" if "\<not> is_letter d" "(of_char d :: nat) < 65" for d
    using that by (auto simp: upper_char_def)
  note this [of "CHR ''=''"] this [of "CHR ''.''"]
  then show "upper_char c = CHR ''='' \<longleftrightarrow> c = CHR ''=''" "upper_char c = CHR ''.'' \<longleftrightarrow> c = CHR ''.''"
    by (simp_all add: is_letter_def upper_char_def)
qed

lemma name_chars:
  assumes "is_name s"
  shows "c \<in> set s \<Longrightarrow> is_letter c \<or> is_digit c \<or> c = CHR ''_''" and "s \<noteq> []"
  using assms by (auto simp: is_name_def split: list.splits)

lemma name_no_sep:
  assumes "is_name s"
  shows "CHR ''='' \<notin> set s" and "CHR ''.'' \<notin> set s" and "hd s \<noteq> CHR ''#''"
proof -
  have "\<not> (is_letter c \<or> is_digit c \<or> c = CHR ''_'')" if "c \<in> {CHR ''='', CHR ''.'', CHR ''#''}" for c
    using that by (auto simp: is_letter_def is_digit_def upper_char_def Let_def)
  with name_chars [OF assms] show "CHR ''='' \<notin> set s" "CHR ''.'' \<notin> set s" "hd s \<noteq> CHR ''#''"
    by (auto dest: hd_in_set)
qed

lemma no_boundary:
  assumes "CHR ''='' \<in> set line"
  shows "match_boundary line = None"
proof -
  have "\<not> (upper (take n line) = w \<and> drop n line \<noteq> [] \<and> (hd (drop n line) = CHR '' '' \<or> hd (drop n line) = CHR ''_'')
           \<and> is_name (tl (drop n line)))" if "CHR ''='' \<notin> set w" for n w
  proof
    assume a: "upper (take n line) = w \<and> drop n line \<noteq> [] \<and> (hd (drop n line) = CHR '' '' \<or> hd (drop n line) = CHR ''_'')
           \<and> is_name (tl (drop n line))"
    then have "CHR ''='' \<notin> upper_char ` set (take n line)" using that by (auto simp: upper_def)
    then have "CHR ''='' \<notin> set (take n line)" by (metis image_eqI upper_is(1))
    with assms have "CHR ''='' \<in> set (drop n line)"
      by (metis append_take_drop_id Un_iff set_append)
    with a have "CHR ''='' \<in> set (tl (drop n line))" by (cases "drop n line") auto
    with a name_no_sep(1) show False by blast
  qed
  from this [of "''BEGIN''" 5] this [of "''END''" 3] show ?thesis
    by (simp add: match_boundary_def Let_def)
qed

lemma parse_begin:
  assumes "plain_name t" and "stack \<noteq> [] \<or> root = None"
  shows "parse_line (''BEGIN '' @ t) (stack, root) = Inr (Block t [] [] # stack, root)"
proof -
  have "match_boundary (''BEGIN '' @ t) = Some (Begin t)"
    using assms(1) by (simp add: match_boundary_def plain_name_def upper_def upper_char_def)
  with assms(2) show ?thesis by (auto simp: parse_line_def)
qed

fun close_block :: "block \<Rightarrow> parser \<Rightarrow> parser" where
  "close_block b ([], root) = ([], Some b)"
| "close_block b (p # ps, root) = (Block (bk_type p) (bk_fields p) (bk_children p @ [b]) # ps, root)"

lemma parse_end:
  assumes "plain_name t"
  shows "parse_line (''END '' @ t) (Block t fs cs # stack, root) = Inr (close_block (Block t fs cs) (stack, root))"
proof -
  have "match_boundary (''END '' @ t) = Some (End t)"
    using assms name_chars(2) by (auto simp: match_boundary_def plain_name_def upper_def upper_char_def Let_def)
  then show ?thesis by (cases stack) (auto simp: parse_line_def)
qed

lemma parse_scalar:
  assumes "plain_name p" and "plain v"
  shows "parse_line (p @ CHR ''='' # json_dumps False v) (Block t fs cs # stack, root) =
    Inr (Block t (add_field p v fs) cs # stack, root)"
proof -
  let ?line = "p @ CHR ''='' # json_dumps False v"
  have p: "is_name p" "upper p = p" using assms(1) by (simp_all add: plain_name_def)
  have tw: "takeWhile (\<lambda>c. c \<noteq> CHR ''='') ?line = p"
    by (rule takeWhile_run) (use name_no_sep(1) [OF p(1)] in auto)
  have sp: "split_at CHR ''.'' p = [p]" by (rule split_at_nosep [OF name_no_sep(2) [OF p(1)]])
  have "match_scalar ?line = Some (p, json_dumps False v)"
    unfolding match_scalar_def Let_def tw sp using p dumps_literal [OF assms(2)] by simp
  moreover have "match_boundary ?line = None" by (rule no_boundary) simp
  moreover have "?line \<noteq> [] \<and> hd ?line \<noteq> CHR ''#''"
    using name_chars(2) [OF p(1)] name_no_sep(3) [OF p(1)] by (simp add: hd_append)
  ultimately show ?thesis
    using dumps_literal(2) [OF assms(2)] loads_dumps [OF assms(2), of False]
    by (simp add: parse_line_def)
qed

lemma parse_lines_append:
  "parse_lines (xs @ ys) st = bindE (parse_lines xs st) (parse_lines ys)"
proof (induction xs arbitrary: st)
  case (Cons x xs)
  then show ?case by (cases "parse_line x st") simp_all
qed simp

lemma add_field_values:
  assumes "p \<notin> fst ` set fs" and "vs \<noteq> []"
  shows "fold (add_field p) vs fs = fs @ [(p, vs)]"
proof -
  have fresh: "AList.update p x fs = fs @ [(p, x)]" "map_of fs p = None" for x
    using assms(1) by (induction fs) auto
  have again: "fold (add_field p) us (fs @ [(p, ws)]) = fs @ [(p, ws @ us)]" for us ws
  proof (induction us arbitrary: ws)
    case (Cons u us)
    have "AList.update p x (fs @ [(p, ws)]) = fs @ [(p, x)]" for x
      using assms(1) by (induction fs) auto
    moreover have "map_of (fs @ [(p, ws)]) p = Some ws" using fresh(2) by (simp add: map_add_def)
    ultimately show ?case using Cons.IH by (simp add: add_field_def)
  qed simp
  obtain v us where "vs = v # us" using assms(2) by (cases vs) auto
  then show ?thesis using again [of us "[v]"] fresh by (simp add: add_field_def)
qed

lemma parse_field_lines:
  assumes "plain_name p" and "\<forall>v\<in>set vs. plain v"
  shows "parse_lines (field_lines (p, vs)) (Block t fs cs # stack, root) =
    Inr (Block t (fold (add_field p) vs fs) cs # stack, root)"
  using assms by (induction vs arbitrary: fs) (simp_all add: field_lines_def parse_scalar)

lemma parse_fields:
  assumes "distinct (map fst (fs0 @ fs))"
    and "\<forall>(p, vs)\<in>set fs. plain_name p \<and> vs \<noteq> [] \<and> (\<forall>v\<in>set vs. plain v)"
  shows "parse_lines (concat (map field_lines fs)) (Block t fs0 cs # stack, root) =
    Inr (Block t (fs0 @ fs) cs # stack, root)"
  using assms
proof (induction fs arbitrary: fs0)
  case (Cons f fs)
  obtain p vs where f: "f = (p, vs)" by (cases f)
  have "fold (add_field p) vs fs0 = fs0 @ [(p, vs)]"
    using Cons.prems f by (intro add_field_values) auto
  moreover have "parse_lines (concat (map field_lines fs)) (Block t (fs0 @ [(p, vs)]) cs # stack, root) =
    Inr (Block t ((fs0 @ [(p, vs)]) @ fs) cs # stack, root)"
    using Cons.prems f by (intro Cons.IH) auto
  ultimately show ?case
    using Cons.prems(2) f by (simp add: parse_lines_append parse_field_lines)
qed simp

lemma parse_block_lines:
  assumes "renderable b" and "stack \<noteq> [] \<or> root = None"
  shows "parse_lines (block_lines b) (stack, root) = Inr (close_block b (stack, root))"
  using assms
proof (induction b arbitrary: stack root)
  case (Block t fs cs)
  have children: "parse_lines (concat (map block_lines ds)) (Block t fs cs0 # stack, root) =
    Inr (Block t fs (cs0 @ ds) # stack, root)"
    if "\<forall>d\<in>set ds. d \<in> set cs" for ds cs0
    using that
  proof (induction ds arbitrary: cs0)
    case (Cons d ds)
    have d: "parse_lines (block_lines d) (Block t fs cs0 # stack, root) =
      Inr (Block t fs (cs0 @ [d]) # stack, root)"
      using Block.IH [of d] Block.prems(1) Cons.prems by simp
    show ?case using Cons.IH [of "cs0 @ [d]"] Cons.prems by (simp add: parse_lines_append d)
  qed simp
  have b: "parse_line (''BEGIN '' @ t) (stack, root) = Inr (Block t [] [] # stack, root)"
    using Block.prems by (intro parse_begin) simp_all
  have f: "parse_lines (concat (map field_lines fs)) (Block t [] [] # stack, root) =
    Inr (Block t fs [] # stack, root)"
    using parse_fields [of "[]" fs] Block.prems(1) by simp
  have e: "parse_line (''END '' @ t) (Block t fs cs # stack, root) = Inr (close_block (Block t fs cs) (stack, root))"
    using Block.prems(1) by (intro parse_end) simp
  show ?case
    using b f e children [of cs "[]"]
    by (simp only: block_lines.simps parse_lines.simps parse_lines_append bindE.simps append_Nil) simp
qed

lemma unify_newlines_same: "CHR 0x0D \<notin> set s \<Longrightarrow> unify_newlines s = s"
  by (induction s rule: unify_newlines.induct) (auto split: list.splits)

lemma printable_no_break: "printable l \<Longrightarrow> CHR 0x0A \<notin> set l \<and> CHR 0x0D \<notin> set l"
  by (fastforce simp: printable_def)

lemma printable_name: "is_name s \<Longrightarrow> printable s"
  using name_chars(1) [of s]
  by (fastforce simp: printable_def is_letter_def is_digit_def Let_def upper_char_def split: if_splits)

lemma block_lines_printable:
  "renderable b \<Longrightarrow> \<forall>l\<in>set (block_lines b). printable l \<and> l \<noteq> []"
proof (induction b)
  case (Block t fs cs)
  then have "printable t" by (simp add: plain_name_def printable_name)
  moreover have "printable (p @ CHR ''='' # json_dumps False v)" if "(p, vs) \<in> set fs" "v \<in> set vs" for p vs v
    using that Block.prems by (force simp: plain_name_def printable_name printable_dumps)
  moreover have "printable l" if "c \<in> set cs" "l \<in> set (block_lines c)" for c l
    using that Block by simp
  moreover have "[] \<notin> set (block_lines c)" if "c \<in> set cs" for c
    using that Block by force
  ultimately show ?case by (auto simp: field_lines_def)
qed

lemma protocol_lines_render:
  assumes "renderable b"
  shows "protocol_lines (render_block b) = block_lines b"
proof -
  have pr: "\<forall>l\<in>set (block_lines b). printable l \<and> l \<noteq> []" by (rule block_lines_printable [OF assms])
  have ne: "block_lines b \<noteq> []" by (cases b) simp
  have nolf: "\<forall>l\<in>set (block_lines b). CHR 0x0A \<notin> set l" "\<forall>l\<in>set (block_lines b). CHR 0x0D \<notin> set l"
    using pr printable_no_break by blast+
  have "CHR 0x0D \<notin> set (join [CHR 0x0A] ls)" if "\<forall>l\<in>set ls. CHR 0x0D \<notin> set l" for ls
    using that by (induction "[CHR 0x0A]" ls rule: join.induct) auto
  with nolf have "unify_newlines (render_block b) = join [CHR 0x0A] (block_lines b)"
    by (simp add: render_block_def unify_newlines_same)
  moreover have "split_at CHR 0x0A (join [CHR 0x0A] (block_lines b)) = block_lines b"
    using ne nolf by (intro split_join) auto
  moreover have "last (block_lines b) \<noteq> []" using pr ne by auto
  ultimately show ?thesis by (simp add: protocol_lines_def Let_def)
qed

lemma conforms_registered: "conforms b \<Longrightarrow> bk_type b \<in> set (map fst codec_registry)"
  using map_of_eq_None_iff [of codec_registry "bk_type b"]
  by (cases b; cases "map_of codec_registry (bk_type b)") auto

lemma parse_render:
  assumes "renderable b" and "conforms b" and "bk_type b \<noteq> ''STEP''"
  shows "parse_line_protocol (render_block b) = Inr b"
proof -
  have "block_lines b \<noteq> []" by (cases b) simp
  moreover have "parse_lines (block_lines b) ([], None) = Inr ([], Some b)"
    using parse_block_lines [OF assms(1), of "[]" None] by simp
  moreover have "bk_type b \<in> set (map fst codec_registry)"
    using conforms_registered [OF assms(2)] .
  moreover have "validate_registered_fields b = Inr ()" using assms(2) validate_conforms by blast
  ultimately show ?thesis
    using assms(3) by (simp add: parse_line_protocol_def protocol_lines_render [OF assms(1)] Let_def)
qed

end
