(* ===== verification/Decoders.thy ===== *)
theory Decoders
  imports Line_Protocol State
begin

section \<open>The decoders of the Line Protocol\<close>

text \<open>
  The \<open>decode_*\<close> functions of \<open>llm/line_protocol.py\<close>: each parses a document and enforces one
  registered contract, raising \<open>LineProtocolError\<close> otherwise.
\<close>

abbreviation protocol_error :: "string \<Rightarrow> 'a result" where
  "protocol_error m \<equiv> Inl (LineProtocolError m)"

text \<open>\<open>set(block.fields)\<close> compared with a set of names.\<close>

definition has_fields :: "block \<Rightarrow> string list \<Rightarrow> bool" where
  "has_fields b names \<longleftrightarrow> fst ` set (bk_fields b) = set names"

definition fields_within :: "block \<Rightarrow> string list \<Rightarrow> bool" where
  "fields_within b names \<longleftrightarrow> fst ` set (bk_fields b) \<subseteq> set names"

definition children_are :: "block \<Rightarrow> string \<Rightarrow> bool" where
  "children_are b name \<longleftrightarrow> (\<forall>c\<in>set (bk_children b). bk_type c = name)"

text \<open>A value that must be non-blank text.\<close>

definition text_of :: "string \<Rightarrow> pyval \<Rightarrow> string result" where
  "text_of message v = (case nonblank_str v of None \<Rightarrow> protocol_error message | Some s \<Rightarrow> Inr s)"

definition bool_of :: "string \<Rightarrow> pyval \<Rightarrow> bool result" where
  "bool_of message v = (case v of PBool b \<Rightarrow> Inr b | _ \<Rightarrow> protocol_error message)"

definition require :: "bool \<Rightarrow> string \<Rightarrow> unit result" where
  "require b message = (if b then Inr () else protocol_error message)"

definition decode_step :: "block \<Rightarrow> plan_step result" where
  "decode_step child =
     bindE (require (bk_children child = [] \<and> has_fields child [''ID'', ''INTENT'', ''COMPLETION_CRITERION''])
              ''STEP fields are invalid'') (\<lambda>_.
     bindE (mapE (single child) [''ID'', ''INTENT'', ''COMPLETION_CRITERION'']) (\<lambda>values.
     case map as_str values of
       [Some i, Some n, Some c] \<Rightarrow>
         (case mk_plan_step i n c of
            Inl _ \<Rightarrow> protocol_error ''plan contains an invalid step''
          | Inr st \<Rightarrow> Inr st)
     | _ \<Rightarrow> protocol_error ''STEP fields must be strings''))"

definition decode_plan :: "string \<Rightarrow> string \<Rightarrow> int \<Rightarrow> plan result" where
  "decode_plan document goal expected_revision =
     bindE (parse_line_protocol document) (\<lambda>root.
     bindE (require (bk_type root = ''PLAN'') ''expected BEGIN PLAN'') (\<lambda>_.
     bindE (require (has_fields root [''REVISION'', ''GOAL''])
              ''PLAN fields must be exactly REVISION and GOAL'') (\<lambda>_.
     let steps = filter (\<lambda>c. bk_type c = ''STEP'') (bk_children root) in
     bindE (require (length steps = length (bk_children root) \<and> steps \<noteq> [])
              ''PLAN must contain one or more STEP blocks'') (\<lambda>_.
     bindE (single root ''REVISION'') (\<lambda>revision.
     bindE (require (revision = PInt expected_revision)
              (''plan revision must be '' @ show_int expected_revision)) (\<lambda>_.
     bindE (single root ''GOAL'') (\<lambda>response_goal.
     bindE (text_of ''plan goal must be a non-empty string'' response_goal) (\<lambda>_.
     bindE (mapE decode_step steps) (\<lambda>decoded_steps.
     case mk_plan expected_revision goal decoded_steps of
       Inl _ \<Rightarrow> protocol_error ''plan violates its invariants''
     | Inr p \<Rightarrow> Inr p)))))))))"

definition decode_answer :: "string \<Rightarrow> string result" where
  "decode_answer document =
     bindE (parse_line_protocol document) (\<lambda>b.
     bindE (require (bk_type b = ''ANSWER'' \<and> bk_children b = [] \<and> has_fields b [''TEXT''])
              ''ANSWER must contain exactly one TEXT field'') (\<lambda>_.
     bindE (single b ''TEXT'') (text_of ''ANSWER TEXT must be non-empty text'')))"

record react_decision =
  rd_status :: string
  rd_answer :: "string option"
  rd_error :: "string option"

definition react_decision_fields :: "(string \<times> string list) list" where
  "react_decision_fields = [(''completed'', [''STATUS'', ''ANSWER'']), (''failed'', [''STATUS'', ''ERROR'']),
     (''need_tool'', [''STATUS''])]"

definition decode_react_decision :: "string \<Rightarrow> react_decision result" where
  "decode_react_decision document =
     bindE (parse_line_protocol document) (\<lambda>b.
     bindE (require (bk_type b = ''REACT_DECISION'' \<and> bk_children b = []
                \<and> map_of (bk_fields b) ''STATUS'' \<noteq> None)
              ''expected one REACT_DECISION block with STATUS'') (\<lambda>_.
     bindE (single b ''STATUS'') (\<lambda>status.
     case status of
       PStr st \<Rightarrow>
         bindE (require (case map_of react_decision_fields st of None \<Rightarrow> False
                           | Some names \<Rightarrow> has_fields b names)
                  ''REACT_DECISION fields do not match STATUS'') (\<lambda>_.
         if st = ''need_tool'' then Inr \<lparr>rd_status = st, rd_answer = None, rd_error = None\<rparr>
         else let name = (if st = ''completed'' then ''ANSWER'' else ''ERROR'') in
              bindE (single b name) (\<lambda>v.
              bindE (text_of (''REACT_DECISION '' @ name @ '' must be non-empty text'') v) (\<lambda>t.
              Inr \<lparr>rd_status = st, rd_answer = (if st = ''completed'' then Some t else None),
                   rd_error = (if st = ''failed'' then Some t else None)\<rparr>)))
     | _ \<Rightarrow> protocol_error ''REACT_DECISION fields do not match STATUS'')))"

definition decode_goal_judgment :: "string \<Rightarrow> (bool \<times> string) result" where
  "decode_goal_judgment document =
     bindE (parse_line_protocol document) (\<lambda>b.
     bindE (require (bk_type b = ''GOAL_JUDGMENT'' \<and> bk_children b = []
                \<and> map_of (bk_fields b) ''COMPLETED'' \<noteq> None)
              ''expected one GOAL_JUDGMENT block'') (\<lambda>_.
     bindE (single b ''COMPLETED'') (\<lambda>v.
     bindE (bool_of ''GOAL_JUDGMENT COMPLETED must be a boolean'' v) (\<lambda>completed.
     let name = (if completed then ''EVIDENCE'' else ''GAP'') in
     bindE (require (has_fields b [''COMPLETED'', name])
              ''GOAL_JUDGMENT fields do not match COMPLETED'') (\<lambda>_.
     bindE (single b name) (\<lambda>v.
     bindE (text_of (''GOAL_JUDGMENT '' @ name @ '' must be non-empty text'') v) (\<lambda>t.
     Inr (completed, t))))))))"

definition decode_no_tool :: "string \<Rightarrow> unit result" where
  "decode_no_tool document =
     bindE (parse_line_protocol document) (\<lambda>b.
     require (bk_type b = ''NO_TOOL'' \<and> bk_fields b = [] \<and> bk_children b = [])
       ''NO_TOOL must be an empty block'')"

definition endswith :: "string \<Rightarrow> string \<Rightarrow> bool" where
  "endswith s t \<longleftrightarrow> startswith (rev s) (rev t)"

definition no_tool_document :: string where
  "no_tool_document = ''BEGIN NO_TOOL'' @ [CHR 0x0A] @ ''END NO_TOOL''"

text \<open>
  The last alternative is the search for \<open>(?:^|\n)```no_tool\s*\n```$\<close>, which on stripped text
  can only match at its end.
\<close>

definition no_tool_fence :: "string \<Rightarrow> bool" where
  "no_tool_fence s =
     (endswith s (CHR 0x0A # ''```'') \<and>
      (let t = rev (dropWhile is_space (drop 4 (rev s)));
           before = take (length t - 10) t
       in lower (drop (length t - 10) t) = ''```no_tool'' \<and> (before = [] \<or> last before = CHR 0x0A)))"

definition normalize_no_tool :: "string \<Rightarrow> string" where
  "normalize_no_tool document =
     (let stripped = strip document in
      if stripped = ''NO_TOOL'' \<or> endswith stripped (CHR 0x0A # ''_NO_TOOL_'') \<or> no_tool_fence stripped
      then no_tool_document else document)"

definition decode_goal_completion :: "string \<Rightarrow> string result" where
  "decode_goal_completion document =
     bindE (parse_line_protocol document) (\<lambda>b.
     bindE (require (bk_type b = ''GOAL_COMPLETION'' \<and> bk_children b = []
                \<and> has_fields b [''ANSWER'', ''GOAL_SATISFIED''])
              ''GOAL_COMPLETION fields are invalid'') (\<lambda>_.
     bindE (single b ''ANSWER'') (\<lambda>answer.
     bindE (single b ''GOAL_SATISFIED'') (\<lambda>satisfied.
     case nonblank_str answer of
       Some t \<Rightarrow> if satisfied = PBool True then Inr (strip t)
                 else protocol_error ''goal completion does not prove the goal''
     | None \<Rightarrow> protocol_error ''goal completion does not prove the goal''))))"

subsection \<open>Progress of completion criteria\<close>

definition decode_completed_criterion :: "nat \<Rightarrow> int list \<Rightarrow> block \<Rightarrow> (int \<times> string) result" where
  "decode_completed_criterion criterion_count completed_criteria child =
     bindE (require (bk_children child = [] \<and> has_fields child [''NUMBER'', ''EVIDENCE''])
              ''COMPLETED_CRITERION fields are invalid'') (\<lambda>_.
     bindE (single child ''NUMBER'') (\<lambda>number.
     bindE (single child ''EVIDENCE'') (\<lambda>evidence.
     case number of
       PInt n \<Rightarrow>
         if \<not> (1 \<le> n \<and> n \<le> int criterion_count)
         then protocol_error ''completed criterion number is out of range''
         else if n \<in> set completed_criteria
         then protocol_error ''completed criterion is invalid or already recorded''
         else bindE (text_of ''completed criterion is invalid or already recorded'' evidence) (\<lambda>t.
              Inr (n, strip t))
     | _ \<Rightarrow> protocol_error ''completed criterion number is out of range'')))"

definition decode_completion_progress ::
  "string \<Rightarrow> nat \<Rightarrow> int list \<Rightarrow> (int \<times> string) list result" where
  "decode_completion_progress document criterion_count completed_criteria =
     bindE (parse_line_protocol document) (\<lambda>b.
     bindE (require (bk_type b = ''COMPLETION_PROGRESS'' \<and> fields_within b [''ALL_COMPLETED'', ''ANSWER'']
                \<and> children_are b ''COMPLETED_CRITERION'')
              ''COMPLETION_PROGRESS fields are invalid'') (\<lambda>_.
     bindE (single b ''ALL_COMPLETED'') (\<lambda>v.
     bindE (bool_of ''ALL_COMPLETED must be a boolean'' v) (\<lambda>all_completed.
     bindE (mapE (decode_completed_criterion criterion_count completed_criteria) (bk_children b)) (\<lambda>judgments.
     let numbers = map fst judgments in
     bindE (require (distinct numbers) ''completed criterion numbers must be distinct'') (\<lambda>_.
     bindE (require (all_completed = (length (remdups (completed_criteria @ numbers)) = criterion_count))
              ''ALL_COMPLETED must match locally recorded criterion state'') (\<lambda>_.
     if map_of (bk_fields b) ''ANSWER'' = None then Inr judgments
     else bindE (require all_completed ''incomplete judgment cannot include ANSWER'') (\<lambda>_.
          bindE (single b ''ANSWER'') (\<lambda>answer.
          if answer = PNone then Inr judgments
          else bindE (text_of ''completed judgment ANSWER must be non-empty'' answer) (\<lambda>_.
               Inr judgments))))))))))"

definition decode_step_criterion :: "block \<Rightarrow> (int \<times> string) result" where
  "decode_step_criterion child =
     bindE (require (bk_children child = [] \<and> has_fields child [''NUMBER'', ''EVIDENCE''])
              ''COMPLETED_CRITERION fields are invalid'') (\<lambda>_.
     bindE (single child ''NUMBER'') (\<lambda>number.
     bindE (single child ''EVIDENCE'') (\<lambda>evidence.
     bindE (require (number = PInt 1) ''Plan step completion criterion must be numbered 1'') (\<lambda>_.
     bindE (text_of ''completed criterion requires non-empty evidence'' evidence) (\<lambda>t.
     Inr (1, strip t))))))"

definition decode_step_completion_progress ::
  "string \<Rightarrow> bool \<Rightarrow> ((int \<times> string) list \<times> bool) result" where
  "decode_step_completion_progress document completed =
     bindE (parse_line_protocol document) (\<lambda>b.
     bindE (require (bk_type b = ''STEP_COMPLETION_PROGRESS'' \<and> has_fields b [''ALL_COMPLETED'']
                \<and> children_are b ''COMPLETED_CRITERION'')
              ''STEP_COMPLETION_PROGRESS fields are invalid'') (\<lambda>_.
     bindE (single b ''ALL_COMPLETED'') (\<lambda>v.
     bindE (bool_of ''ALL_COMPLETED must be a boolean'' v) (\<lambda>all_completed.
     bindE (require (\<not> completed) ''Plan step completion criterion was already recorded'') (\<lambda>_.
     bindE (mapE decode_step_criterion (bk_children b)) (\<lambda>judgments.
     bindE (require (length judgments \<le> 1)
              ''Plan step completion criterion must be reported at most once'') (\<lambda>_.
     bindE (require (\<not> (all_completed \<noteq> (judgments \<noteq> []) \<and> \<not> (\<not> all_completed \<and> judgments = [])))
              ''ALL_COMPLETED must match locally recorded criterion state'') (\<lambda>_.
     bindE (require (\<not> (completed \<and> all_completed))
              ''completed Plan step criterion cannot be reported again'') (\<lambda>_.
     Inr (judgments, all_completed))))))))))"

record completion_judgment =
  cj_verdicts :: "(int \<times> bool \<times> string) list"
  cj_all_completed :: bool
  cj_answer :: "string option"

text \<open>The \<open>completed\<close> property of a judgment.\<close>

definition cj_completed :: "completion_judgment \<Rightarrow> (int \<times> string) list" where
  "cj_completed j = map (\<lambda>(n, v, d). (n, d)) (filter (\<lambda>(n, v, d). v) (cj_verdicts j))"

definition decode_criterion_verdict :: "nat \<Rightarrow> block \<Rightarrow> (int \<times> bool \<times> string) result" where
  "decode_criterion_verdict criterion_count child =
     bindE (require (bk_children child = [] \<and> fields_within child [''NUMBER'', ''VERIFIED'', ''EVIDENCE'', ''GAP''])
              ''CRITERION_VERDICT fields are invalid'') (\<lambda>_.
     bindE (single child ''NUMBER'') (\<lambda>number.
     bindE (single child ''VERIFIED'') (\<lambda>verified.
     case number of
       PInt n \<Rightarrow>
         bindE (require (1 \<le> n \<and> n \<le> int criterion_count) ''criterion number is out of range'') (\<lambda>_.
         bindE (bool_of ''criterion VERIFIED must be a boolean'' verified) (\<lambda>ok.
         let expected_detail = (if ok then ''EVIDENCE'' else ''GAP'') in
         bindE (require (has_fields child [''NUMBER'', ''VERIFIED'', expected_detail])
                  ''criterion verdict must contain exactly one evidence or gap'') (\<lambda>_.
         bindE (single child expected_detail) (\<lambda>detail.
         bindE (text_of ''criterion verdict requires non-empty evidence or gap'' detail) (\<lambda>t.
         Inr (n, ok, strip t))))))
     | _ \<Rightarrow> protocol_error ''criterion number is out of range'')))"

definition decode_completion_judgment :: "string \<Rightarrow> nat \<Rightarrow> completion_judgment result" where
  "decode_completion_judgment document criterion_count =
     bindE (require (criterion_count > 0) ''criterion_count must be a positive integer'') (\<lambda>_.
     bindE (parse_line_protocol document) (\<lambda>b.
     bindE (require (bk_type b = ''COMPLETION_PROGRESS'' \<and> has_fields b [''ALL_COMPLETED'']
                \<and> children_are b ''CRITERION_VERDICT'')
              ''COMPLETION_PROGRESS fields are invalid'') (\<lambda>_.
     bindE (single b ''ALL_COMPLETED'') (\<lambda>v.
     bindE (bool_of ''ALL_COMPLETED must be a boolean'' v) (\<lambda>all_completed.
     bindE (mapE (decode_criterion_verdict criterion_count) (bk_children b)) (\<lambda>judgments.
     bindE (require (length judgments = criterion_count)
              ''criterion verdict must cover every criterion exactly once'') (\<lambda>_.
     bindE (require (map fst judgments = map int [1..<criterion_count + 1])
              ''criterion verdict numbers must be ordered and unique'') (\<lambda>_.
     bindE (require (all_completed = (\<forall>(n, v, d)\<in>set judgments. v))
              ''ALL_COMPLETED must match locally recorded criterion state'') (\<lambda>_.
     Inr \<lparr>cj_verdicts = judgments, cj_all_completed = all_completed, cj_answer = None\<rparr>)))))))))"

subsection \<open>Step completion\<close>

record step_receipt =
  sr_result :: string
  sr_files_read :: "string list"
  sr_files_modified :: "string list"
  sr_observations :: "string list"

definition string_array :: "block \<Rightarrow> string \<Rightarrow> string list result" where
  "string_array b name =
     mapE (\<lambda>v. case as_str v of None \<Rightarrow> protocol_error (name @ '' must contain only strings'') | Some s \<Rightarrow> Inr s)
       (case map_of (bk_fields b) name of None \<Rightarrow> [] | Some vs \<Rightarrow> vs)"

definition decode_step_completion :: "string \<Rightarrow> step_receipt result" where
  "decode_step_completion document =
     bindE (parse_line_protocol document) (\<lambda>b.
     bindE (require (bk_type b = ''STEP_COMPLETION'' \<and> bk_children b = []
                \<and> set [''COMPLETED'', ''COMPLETION_CRITERION_MET'', ''RESULT''] \<subseteq> fst ` set (bk_fields b))
              ''STEP_COMPLETION fields are invalid'') (\<lambda>_.
     bindE (require (fields_within b [''COMPLETED'', ''COMPLETION_CRITERION_MET'', ''RESULT'',
                       ''FILES_READ'', ''FILES_MODIFIED'', ''OBSERVATIONS''])
              ''STEP_COMPLETION fields are invalid'') (\<lambda>_.
     bindE (single b ''COMPLETED'') (\<lambda>completed.
     bindE (require (completed = PBool True) ''step completion does not satisfy its criterion'') (\<lambda>_.
     bindE (single b ''COMPLETION_CRITERION_MET'') (\<lambda>met.
     bindE (require (met = PBool True) ''step completion does not satisfy its criterion'') (\<lambda>_.
     bindE (single b ''RESULT'') (\<lambda>result.
     bindE (text_of ''STEP_COMPLETION RESULT must be non-empty text'' result) (\<lambda>t.
     bindE (string_array b ''FILES_READ'') (\<lambda>fr.
     bindE (string_array b ''FILES_MODIFIED'') (\<lambda>fm.
     bindE (string_array b ''OBSERVATIONS'') (\<lambda>obs.
     Inr \<lparr>sr_result = strip t, sr_files_read = fr, sr_files_modified = fm,
          sr_observations = obs\<rparr>))))))))))))"

subsection \<open>Every rejection is a protocol error\<close>

definition only_protocol_errors :: "'a result \<Rightarrow> bool" where
  "only_protocol_errors m \<longleftrightarrow> (\<forall>e. m = Inl e \<longrightarrow> is_line_protocol_error e)"

named_theorems protocol_intros \<comment> \<open>computations that raise protocol errors only\<close>

lemma only_Inr [protocol_intros]: "only_protocol_errors (Inr x)"
  by (simp add: only_protocol_errors_def)

lemma only_error [protocol_intros]: "only_protocol_errors (protocol_error m)"
  by (simp add: only_protocol_errors_def)

lemma only_bind [protocol_intros]:
  "only_protocol_errors m \<Longrightarrow> (\<And>x. m = Inr x \<Longrightarrow> only_protocol_errors (f x)) \<Longrightarrow>
   only_protocol_errors (bindE m f)"
  by (cases m) (auto simp: only_protocol_errors_def)

lemma only_mapE [protocol_intros]:
  "(\<And>x. x \<in> set xs \<Longrightarrow> only_protocol_errors (f x)) \<Longrightarrow> only_protocol_errors (mapE f xs)"
  by (induction xs) (auto intro!: protocol_intros)

lemma only_if [protocol_intros]:
  "only_protocol_errors a \<Longrightarrow> only_protocol_errors b \<Longrightarrow> only_protocol_errors (if c then a else b)"
  by simp

lemma only_require [protocol_intros]: "only_protocol_errors (require b m)"
  by (simp add: require_def protocol_intros)

lemma only_single [protocol_intros]: "only_protocol_errors (single b f)"
  by (auto simp: single_def intro: protocol_intros split: option.split list.split)

lemma only_text_of [protocol_intros]: "only_protocol_errors (text_of m v)"
  by (auto simp: text_of_def intro: protocol_intros split: option.split)

lemma only_bool_of [protocol_intros]: "only_protocol_errors (bool_of m v)"
  by (auto simp: bool_of_def intro: protocol_intros split: pyval.split)

lemma registry_closed:
  "map_of codec_registry t = Some decl \<Longrightarrow> c \<in> set (cd_children decl) \<Longrightarrow> map_of codec_registry c \<noteq> None"
proof -
  have "list_all (\<lambda>(t, d). list_all (\<lambda>c. map_of codec_registry c \<noteq> None) (cd_children d)) codec_registry"
    by code_simp
  then show "map_of codec_registry t = Some decl \<Longrightarrow> c \<in> set (cd_children decl) \<Longrightarrow> map_of codec_registry c \<noteq> None"
    by (fastforce simp: list_all_iff dest: map_of_SomeD)
qed

lemma only_validate:
  "bk_type b \<in> fst ` set codec_registry \<Longrightarrow> only_protocol_errors (validate_registered_fields b)"
proof (induction b)
  case (Block t fs cs)
  then obtain d where d: "map_of codec_registry t = Some d"
    by (metis block.sel(1) map_of_eq_None_iff not_None_eq)
  have "only_protocol_errors (mapE validate_registered_fields cs)"
    if "\<forall>c\<in>set cs. bk_type c \<in> set (cd_children d)"
    using that Block.IH registry_closed [OF d] unfolding map_of_eq_None_iff
    by (intro only_mapE) blast
  then show ?case using d by (auto intro!: only_bind only_Inr only_error)
qed

lemma only_parse_line: "only_protocol_errors (parse_line l st)"
  unfolding parse_line_def Let_def
  by (auto intro!: protocol_intros split: prod.split option.split boundary.split list.split)

lemma only_parse_lines: "only_protocol_errors (parse_lines ls st)"
  by (induction ls arbitrary: st) (auto intro!: protocol_intros only_parse_line)

lemma only_parse [protocol_intros]: "only_protocol_errors (parse_line_protocol d)"
  unfolding parse_line_protocol_def Let_def
  by (auto intro!: protocol_intros only_parse_lines only_validate split: list.split option.split prod.split
      intro: rev_image_eqI)

lemma only_decode_step [protocol_intros]: "only_protocol_errors (decode_step b)"
  unfolding decode_step_def
  by (auto intro!: protocol_intros split: list.split option.split sum.split)

lemma only_decode_plan: "only_protocol_errors (decode_plan d g r)"
  unfolding decode_plan_def Let_def
  by (intro protocol_intros) (auto intro!: protocol_intros split: sum.split)

lemma only_decode_criterion_verdict [protocol_intros]: "only_protocol_errors (decode_criterion_verdict n b)"
  unfolding decode_criterion_verdict_def Let_def
  by (intro protocol_intros) (auto intro!: protocol_intros split: pyval.split)

lemma only_decode_completion_judgment: "only_protocol_errors (decode_completion_judgment d n)"
  unfolding decode_completion_judgment_def by (intro protocol_intros)

lemma only_decode_no_tool: "only_protocol_errors (decode_no_tool d)"
  unfolding decode_no_tool_def by (intro protocol_intros)

subsection \<open>What the decoders answer\<close>

lemma require_Inr [resultE]: "require b m = Inr u \<longleftrightarrow> b"
  by (simp add: require_def)

lemma text_of_Inr [resultE]: "text_of m v = Inr t \<longleftrightarrow> v = PStr t \<and> \<not> blank t"
  by (cases v) (auto simp: text_of_def)

lemma bool_of_Inr [resultE]: "bool_of m v = Inr b \<longleftrightarrow> v = PBool b"
  by (cases v) (auto simp: bool_of_def)

lemma decode_step_wf: "decode_step b = Inr st \<Longrightarrow> wf_step st"
  unfolding decode_step_def
  by (auto simp: mk_plan_step_Inr split: list.splits option.splits sum.splits)

lemma recast_Inr: "(case m of Inl _ \<Rightarrow> protocol_error t | Inr x \<Rightarrow> Inr x) = Inr y \<longleftrightarrow> m = Inr y"
  by (cases m) auto

lemma decode_plan_answers:
  assumes "decode_plan d g r = Inr p"
  shows "wf_plan p \<and> pl_revision p = r \<and> pl_goal p = g"
proof -
  from assms obtain steps ss where "mapE decode_step ss = Inr steps" and p: "mk_plan r g steps = Inr p"
    unfolding decode_plan_def Let_def
    by (elim bindE_InrE) (rule that, assumption, simp only: recast_Inr)
  then have "\<forall>st\<in>set steps. wf_step st" by (metis mapE_set decode_step_wf)
  with p show ?thesis by (auto simp: mk_plan_Inr)
qed

lemma decode_criterion_verdict_answers:
  assumes "decode_criterion_verdict n b = Inr (i, ok, t)"
  shows "1 \<le> i \<and> i \<le> int n \<and> \<not> blank t \<and> strip t = t"
  using assms unfolding decode_criterion_verdict_def Let_def
  by (auto simp: require_Inr text_of_Inr split: pyval.splits)

lemma decode_completion_judgment_answers:
  assumes "decode_completion_judgment d n = Inr j"
  shows "0 < n \<and> map fst (cj_verdicts j) = map int [1..<n + 1]
     \<and> (\<forall>(i, ok, t)\<in>set (cj_verdicts j). \<not> blank t \<and> strip t = t)
     \<and> cj_all_completed j = (\<forall>(i, ok, t)\<in>set (cj_verdicts j). ok)"
proof -
  from assms obtain js cs where n: "0 < n" and js: "mapE (decode_criterion_verdict n) cs = Inr js"
    and nums: "map fst js = map int [1..<n + 1]" and
    j: "j = \<lparr>cj_verdicts = js, cj_all_completed = (\<forall>(n, v, d)\<in>set js. v), cj_answer = None\<rparr>"
    unfolding decode_completion_judgment_def by (auto simp: require_Inr)
  have "\<not> blank t \<and> strip t = t" if v: "(i, ok, t) \<in> set js" for i ok t
    using mapE_set [OF js v] decode_criterion_verdict_answers by blast
  with n nums j show ?thesis by auto
qed

subsection \<open>The canonical document of a plan\<close>

definition step_block :: "plan_step \<Rightarrow> block" where
  "step_block st = Block ''STEP'' [(''ID'', [PStr (ps_id st)]), (''INTENT'', [PStr (ps_intent st)]),
     (''COMPLETION_CRITERION'', [PStr (ps_criterion st)])] []"

definition plan_block :: "plan \<Rightarrow> block" where
  "plan_block p = Block ''PLAN'' [(''REVISION'', [PInt (pl_revision p)]), (''GOAL'', [PStr (pl_goal p)])]
     (map step_block (pl_steps p))"

lemma registry_plan [simp]:
  "map_of codec_registry ''PLAN'' =
     Some \<lparr>cd_fields = [''REVISION'', ''GOAL''], cd_arrays = [], cd_children = [''STEP'']\<rparr>"
  "map_of codec_registry ''STEP'' =
     Some \<lparr>cd_fields = [''ID'', ''INTENT'', ''COMPLETION_CRITERION''], cd_arrays = [], cd_children = []\<rparr>"
  by code_simp+

lemma plan_names [simp]:
  "plain_name ''PLAN'' \<and> plain_name ''STEP'' \<and> plain_name ''REVISION'' \<and> plain_name ''GOAL''
   \<and> plain_name ''ID'' \<and> plain_name ''INTENT'' \<and> plain_name ''COMPLETION_CRITERION''"
  by (simp add: plain_name_def is_name_def upper_def upper_char_def is_letter_def is_digit_def Let_def)

lemma decode_step_block: "wf_step st \<Longrightarrow> decode_step (step_block st) = Inr st"
  by (auto simp: decode_step_def step_block_def require_def has_fields_def single_def
      mk_plan_step_def plan_step_of_values_def wf_step_def require_text_def)

lemma plan_block_ok:
  assumes "wf_plan p"
  shows "renderable (plan_block p)" and "conforms (plan_block p)" and "bk_type (plan_block p) = ''PLAN''"
proof -
  have "nat \<bar>pl_revision p\<bar> < 10" using assms by (auto simp: wf_plan_def)
  then have "length (show_nat (nat \<bar>pl_revision p\<bar>)) \<le> 4300" by (simp add: show_nat_small)
  then show "renderable (plan_block p)"
    by (auto simp: plan_block_def step_block_def)
  show "conforms (plan_block p)" and "bk_type (plan_block p) = ''PLAN''"
    by (auto simp: plan_block_def step_block_def)
qed

lemma decode_render_plan:
  assumes "wf_plan p"
  shows "decode_plan (render_block (plan_block p)) (pl_goal p) (pl_revision p) = Inr p"
proof -
  have parse: "parse_line_protocol (render_block (plan_block p)) = Inr (plan_block p)"
    using plan_block_ok [OF assms] by (intro parse_render) simp_all
  have steps: "mapE decode_step (map step_block (pl_steps p)) = Inr (pl_steps p)"
    using assms by (intro mapE_map decode_step_block) (simp add: wf_plan_def)
  have "filter (\<lambda>c. bk_type c = ''STEP'') (map step_block (pl_steps p)) = map step_block (pl_steps p)"
    by (simp add: step_block_def filter_id_conv)
  moreover have "mk_plan (pl_revision p) (pl_goal p) (pl_steps p) = Inr p"
    using assms by (subst mk_plan_Inr) (auto simp: wf_plan_def)
  moreover have "pl_steps p \<noteq> []" "\<not> blank (pl_goal p)" using assms by (auto simp: wf_plan_def)
  ultimately show ?thesis
    using steps
    by (simp add: decode_plan_def parse)
      (simp add: plan_block_def require_def has_fields_def single_def text_of_def)
qed

end
