(* ===== verification/Messages.thy ===== *)
theory Messages
  imports Json
begin

section \<open>Model messages and tool results\<close>

text \<open>
  The LangChain messages the loops exchange with a model and the classification of tool
  results: \<open>agent/tool_results.py\<close> and the helpers \<open>_tool_error\<close>, \<open>_as_error_tool_message\<close>,
  \<open>_exit_code\<close>, \<open>_failed_tool_evidence\<close>, \<open>_message_text\<close>, \<open>_message_reference\<close> of
  \<open>agent/executor.py\<close>.
\<close>

record tool_call =
  tc_id :: "string option"
  tc_name :: "string option"
  tc_args :: pyval

datatype message =
    SystemMessage string
  | HumanMessage string
  | AIMessage pyval "tool_call list" "pyval list"
  | ToolMessage pyval string "string option" string

text \<open>
  An \<open>AIMessage\<close> carries its content, its tool calls and its invalid tool calls; a
  \<open>ToolMessage\<close> its content, the id of the call it answers, the tool's name and its status.
\<close>

fun msg_content :: "message \<Rightarrow> pyval" where
  "msg_content (SystemMessage t) = PStr t"
| "msg_content (HumanMessage t) = PStr t"
| "msg_content (AIMessage c _ _) = c"
| "msg_content (ToolMessage c _ _ _) = c"

fun msg_calls :: "message \<Rightarrow> tool_call list" where
  "msg_calls (AIMessage _ calls _) = calls"
| "msg_calls _ = []"

fun is_tool_message :: "message \<Rightarrow> bool" where
  "is_tool_message (ToolMessage _ _ _ _) = True"
| "is_tool_message _ = False"

subsection \<open>Python's rendering of a value\<close>

text \<open>\<open>repr\<close> and \<open>str\<close>, for text outside ASCII as if every character were printable.\<close>

definition repr_char :: "char \<Rightarrow> char \<Rightarrow> string" where
  "repr_char q c =
     (if c = CHR 0x5C \<or> c = q then [CHR 0x5C, c]
      else if c = CHR 0x0A then [CHR 0x5C, CHR ''n'']
      else if c = CHR 0x0D then [CHR 0x5C, CHR ''r'']
      else if c = CHR 0x09 then [CHR 0x5C, CHR ''t'']
      else if (of_char c :: nat) < 32 \<or> (of_char c :: nat) = 127 then
        [CHR 0x5C, CHR ''x'', hex_digit (of_char c div 16), hex_digit (of_char c mod 16)]
      else [c])"

definition repr_str :: "string \<Rightarrow> string" where
  "repr_str s =
     (let q = (if CHR 0x27 \<in> set s \<and> CHR 0x22 \<notin> set s then CHR 0x22 else CHR 0x27)
      in q # concat (map (repr_char q) s) @ [q])"

fun py_repr :: "pyval \<Rightarrow> string" where
  "py_repr PNone = ''None''"
| "py_repr (PBool b) = (if b then ''True'' else ''False'')"
| "py_repr (PInt i) = show_int i"
| "py_repr (PFloat f) = f"
| "py_repr (PStr s) = repr_str s"
| "py_repr (PList xs) = ''['' @ join '', '' (map py_repr xs) @ '']''"
| "py_repr (PDict d) = [CHR 0x7B] @ join '', '' (map (\<lambda>(k, v). repr_str k @ '': '' @ py_repr v) d) @ [CHR 0x7D]"

definition py_str :: "pyval \<Rightarrow> string" where
  "py_str v = (case v of PStr s \<Rightarrow> s | _ \<Rightarrow> py_repr v)"

text \<open>\<open>int(v)\<close>, None where it raises \<open>TypeError\<close> or \<open>ValueError\<close>; floats are cut at the point.\<close>

definition int_literal :: "string \<Rightarrow> int option" where
  "int_literal s =
     (let t = strip s;
          neg = startswith t ''-'';
          body = (if neg \<or> startswith t ''+'' then drop 1 t else t);
          groups = split_at CHR ''_'' body
      in if \<forall>g\<in>set groups. g \<noteq> [] \<and> (\<forall>c\<in>set g. is_digit c)
         then Some ((if neg then -1 else 1) * int (read_nat (concat groups))) else None)"

text \<open>A float literal as sign, digits and decimal exponent; None for \<open>NaN\<close> and the infinities.\<close>

definition decimal_parts :: "string \<Rightarrow> (bool \<times> nat \<times> int) option" where
  "decimal_parts f =
     (let neg = startswith f ''-'';
          body = (if neg then drop 1 f else f);
          whole = takeWhile is_digit body;
          rest = drop (length whole) body;
          frac = (if startswith rest ''.'' then takeWhile is_digit (drop 1 rest) else []);
          ex = dropWhile (\<lambda>c. c \<noteq> CHR ''e'' \<and> c \<noteq> CHR ''E'') rest
      in if whole = [] then None
         else case (if ex = [] then Some 0 else int_literal (drop 1 ex)) of
           None \<Rightarrow> None
         | Some e \<Rightarrow> Some (neg, read_nat (whole @ frac), e - int (length frac)))"

definition float_floor :: "string \<Rightarrow> int option" where
  "float_floor f = (case decimal_parts f of
       None \<Rightarrow> None
     | Some (neg, m, x) \<Rightarrow>
         let v = (if x \<ge> 0 then m * 10 ^ nat x else m div 10 ^ nat (- x))
         in Some (if neg then - int v else int v))"

fun int_of_value :: "pyval \<Rightarrow> int option" where
  "int_of_value (PInt i) = Some i"
| "int_of_value (PBool b) = Some (if b then 1 else 0)"
| "int_of_value (PFloat f) = float_floor f"
| "int_of_value (PStr s) = int_literal s"
| "int_of_value _ = None"

subsection \<open>Failed tool results\<close>

text \<open>\<open>_CODED_MCP_ERROR\<close>: \<open>^\s*\[\d{4,}\]\s\<close>.\<close>

definition coded_mcp_error :: "string \<Rightarrow> bool" where
  "coded_mcp_error text =
     (case dropWhile is_space text of
        [] \<Rightarrow> False
      | c # r \<Rightarrow> c = CHR ''['' \<and> length (takeWhile is_digit r) \<ge> 4
          \<and> (case dropWhile is_digit r of
               d # e # _ \<Rightarrow> d = CHR '']'' \<and> is_space e
             | _ \<Rightarrow> False))"

definition dict_value :: "(string \<times> pyval) list \<Rightarrow> string \<Rightarrow> pyval" where
  "dict_value d k = (case map_of d k of None \<Rightarrow> PNone | Some v \<Rightarrow> v)"

text \<open>\<open>isinstance(v, int) and v != 0\<close>; a boolean is an \<open>int\<close>.\<close>

fun nonzero_int :: "pyval \<Rightarrow> bool" where
  "nonzero_int (PInt i) = (i \<noteq> 0)"
| "nonzero_int (PBool b) = b"
| "nonzero_int _ = False"

definition failed_block :: "pyval \<Rightarrow> bool" where
  "failed_block item = (case item of
       PDict d \<Rightarrow> dict_value d ''type'' = PStr ''text''
         \<and> (case dict_value d ''text'' of PStr t \<Rightarrow> coded_mcp_error t | _ \<Rightarrow> False)
     | _ \<Rightarrow> False)"

fun tool_result_failed :: "pyval \<Rightarrow> bool" where
  "tool_result_failed (PDict d) =
     (dict_value d ''isError'' = PBool True \<or> truthy (dict_value d ''error'')
        \<or> nonzero_int (dict_value d ''returncode''))"
| "tool_result_failed (PList xs) = (\<exists>item\<in>set xs. failed_block item)"
| "tool_result_failed _ = False"

definition exit_code :: "pyval \<Rightarrow> int option" where
  "exit_code content =
     (let value = (case content of PStr s \<Rightarrow> json_loads True s | v \<Rightarrow> Some v)
      in case value of
           Some (PDict d) \<Rightarrow>
             (case List.find (\<lambda>k. map_of d k \<noteq> None) [''exit_code'', ''exitCode'', ''returncode''] of
                None \<Rightarrow> None
              | Some k \<Rightarrow> int_of_value (dict_value d k))
         | _ \<Rightarrow> None)"

definition mcp_failure :: "pyval \<Rightarrow> string" where
  "mcp_failure content = ''MCP tool failed: '' @ py_str content"

fun tool_error :: "message \<Rightarrow> string option" where
  "tool_error (ToolMessage content call_id name status) =
     (if status = ''error'' then Some (mcp_failure content)
      else if tool_result_failed content then Some (mcp_failure content)
      else if name \<in> {Some ''exec'', Some ''atom.exec''} then
        (case exit_code content of
           None \<Rightarrow> None
         | Some code \<Rightarrow> if code = 0 then None
             else Some (''Atom exec failed with exit code '' @ show_int code))
      else None)"
| "tool_error _ = None"

fun as_error_tool_message :: "message \<Rightarrow> message" where
  "as_error_tool_message (ToolMessage content call_id name status) =
     (if tool_error (ToolMessage content call_id name status) \<noteq> None
      then ToolMessage content call_id name ''error''
      else ToolMessage content call_id name status)"
| "as_error_tool_message m = m"

text \<open>\<open>str(call.get("id") or "unknown")\<close>.\<close>

definition call_id :: "tool_call \<Rightarrow> string" where
  "call_id c = or_str (tc_id c) ''unknown''"

definition call_name :: "tool_call \<Rightarrow> string" where
  "call_name c = or_str (tc_name c) ''unknown''"

definition failed_tool_evidence :: "tool_call list \<Rightarrow> message list \<Rightarrow> pyval list" where
  "failed_tool_evidence calls results =
     map (\<lambda>(call, m). PDict [(''tool_call_id'', PStr (call_id call)), (''name'', PStr (call_name call)),
            (''error'', opt_str (tool_error m))])
       (filter (\<lambda>(call, m). tool_error m \<noteq> None) (zip calls results))"

subsection \<open>Messages as evidence\<close>

definition message_text :: "message \<Rightarrow> string" where
  "message_text m = (case msg_content m of PStr s \<Rightarrow> s | v \<Rightarrow> json_dumps True v)"

definition call_value :: "tool_call \<Rightarrow> pyval" where
  "call_value c = PDict [(''name'', opt_str (tc_name c)), (''args'', tc_args c), (''id'', opt_str (tc_id c)),
     (''type'', PStr ''tool_call'')]"

fun message_type :: "message \<Rightarrow> string" where
  "message_type (SystemMessage _) = ''system''"
| "message_type (HumanMessage _) = ''human''"
| "message_type (AIMessage _ _ _) = ''ai''"
| "message_type (ToolMessage _ _ _ _) = ''tool''"

definition message_reference :: "message \<Rightarrow> pyval" where
  "message_reference m =
     PDict ([(''message_type'', PStr (message_type m)), (''content'', PStr (message_text m))] @
       (case m of
          AIMessage _ calls _ \<Rightarrow> [(''tool_calls'', PList (map call_value calls))]
        | ToolMessage _ i name status \<Rightarrow>
            [(''tool_call_id'', PStr i)]
            @ (case name of None \<Rightarrow> [] | Some n \<Rightarrow> [(''name'', PStr n)])
            @ [(''status'', PStr status)]
        | _ \<Rightarrow> []))"

subsection \<open>What the classification means\<close>

text \<open>The error of a tool message does not change when its status is set to match.\<close>

lemma as_error_tool_message_error:
  "tool_error (as_error_tool_message m) \<noteq> None \<longleftrightarrow> tool_error m \<noteq> None"
  by (cases m) auto

lemma as_error_tool_message_status:
  "as_error_tool_message (ToolMessage c i n st) = ToolMessage c' i' n' st' \<Longrightarrow>
   st' = ''error'' \<longleftrightarrow> tool_error (ToolMessage c i n st) \<noteq> None"
  by (auto split: if_splits)

lemma as_error_tool_message_idem [simp]:
  "as_error_tool_message (as_error_tool_message m) = as_error_tool_message m"
  by (cases m) auto

end
