(* ===== verification/Runtime_Context.thy ===== *)
theory Runtime_Context
  imports Messages Line_Protocol "HOL-Library.Product_Lexorder"
begin

section \<open>The Runtime context policy\<close>

text \<open>
  \<open>agent/runtime_context.py\<close>: raw Tool rounds, the Observations that stand for older ones, the
  lifecycle of each piece of evidence and the window that is shown to the model.  An Observation
  is requested by an asynchronous task: \<open>po_pending\<close> holds the tasks that have not finished, and
  \<open>finish_observation\<close> is one of them finishing with what the model answered.
\<close>

datatype lifecycle = CurrentRaw | RecentRaw | PermanentRaw | ObservationOnly

record evidence =
  ev_text :: string
  ev_ids :: "string list"

record observation =
  ob_round :: int
  ob_facts :: "evidence list"
  ob_errors :: "evidence list"
  ob_inferences :: "evidence list"
  ob_affects :: bool
  ob_targets :: "string list"
  ob_start :: "int option"
  ob_end :: "int option"

definition source_tool_call_ids :: "observation \<Rightarrow> string list" where
  "source_tool_call_ids ob =
     from_keys (concat (map ev_ids (ob_facts ob @ ob_errors ob @ ob_inferences ob)))"

datatype observation_status = OPending | OSucceeded | OProviderError | OInvalid | OCancelled

record observation_outcome =
  oo_status :: observation_status
  oo_error :: "string option"

record raw_call =
  rc_id :: string
  rc_name :: string
  rc_args :: "(string \<times> pyval) list"
  rc_result :: pyval
  rc_error :: "string option"
  rc_lifecycle :: lifecycle

record raw_round =
  rt_round :: int
  rt_calls :: "raw_call list"

record runtime_context =
  rx_durable :: pyval
  rx_observations :: "observation list"
  rx_raw :: "raw_round list"
  rx_messages :: bool

record policy =
  po_budget :: int
  po_raw_rounds :: nat
  po_messages :: bool
  po_raw :: "raw_round list"
  po_observations :: "observation list"
  po_outcomes :: "((int \<times> string) \<times> observation_outcome) list"
  po_call_order :: "((int \<times> string) \<times> nat) list"
  po_next_order :: nat
  po_uses :: nat
  po_rounds :: nat
  po_summaries :: "((int \<times> string) \<times> (string \<times> pyval) list) list"
  po_pending :: "(int \<times> string) list"

definition mk_policy :: "int \<Rightarrow> int \<Rightarrow> bool \<Rightarrow> policy result" where
  "mk_policy budget raw_rounds messages =
     (if budget \<le> 0 then Inl (ValueError ''context budget must be a positive integer'')
      else if raw_rounds \<le> 0 then Inl (ValueError ''raw_rounds must be a positive integer'')
      else Inr \<lparr>po_budget = budget, po_raw_rounds = nat raw_rounds, po_messages = messages, po_raw = [],
        po_observations = [], po_outcomes = [], po_call_order = [], po_next_order = 0, po_uses = 0,
        po_rounds = 0, po_summaries = [], po_pending = []\<rparr>)"

definition fresh_for_invocation :: "policy \<Rightarrow> policy" where
  "fresh_for_invocation p = p\<lparr>po_raw := [], po_observations := [], po_outcomes := [], po_call_order := [],
     po_next_order := 0, po_uses := 0, po_rounds := 0, po_summaries := [], po_pending := []\<rparr>"

definition record_model_use :: "policy \<Rightarrow> policy" where
  "record_model_use p = p\<lparr>po_uses := po_uses p + 1\<rparr>"

subsection \<open>The lifecycle of evidence\<close>

fun uncertain_from :: "char option \<Rightarrow> string \<Rightarrow> bool" where
  "uncertain_from quote [] = (quote \<noteq> None)"
| "uncertain_from (Some q) (c # s) =
     (if q = CHR 0x22 \<and> c \<in> {CHR ''$'', CHR 0x60, CHR 0x5C} then True
      else uncertain_from (if c = q then None else Some q) s)"
| "uncertain_from None (c # s) =
     (if c = CHR 0x27 \<or> c = CHR 0x22 then uncertain_from (Some c) s
      else if c \<in> set ''|&;()<>$#'' \<or> c \<in> {CHR 0x60, CHR 0x5C, CHR 0x0A, CHR 0x0D} then True
      else uncertain_from None s)"

definition contains_uncertain_shell_syntax :: "string \<Rightarrow> bool" where
  "contains_uncertain_shell_syntax command = uncertain_from None command"

text \<open>
  \<open>shlex.split(command, comments=False, posix=True)\<close> on commands without uncertain syntax:
  quotes are balanced and no backslash escapes anything, so it does not raise.
\<close>

fun shell_words :: "char option \<Rightarrow> string option \<Rightarrow> string \<Rightarrow> string list" where
  "shell_words quote word [] = (case word of None \<Rightarrow> [] | Some w \<Rightarrow> [w])"
| "shell_words (Some q) word (c # s) =
     (if c = q then shell_words None (Some (case word of None \<Rightarrow> [] | Some w \<Rightarrow> w)) s
      else shell_words (Some q) (Some ((case word of None \<Rightarrow> [] | Some w \<Rightarrow> w) @ [c])) s)"
| "shell_words None word (c # s) =
     (if c = CHR 0x27 \<or> c = CHR 0x22
      then shell_words (Some c) (Some (case word of None \<Rightarrow> [] | Some w \<Rightarrow> w)) s
      else if json_space c
      then (case word of None \<Rightarrow> [] | Some w \<Rightarrow> [w]) @ shell_words None None s
      else shell_words None (Some ((case word of None \<Rightarrow> [] | Some w \<Rightarrow> w) @ [c])) s)"

definition classify_exec_command :: "pyval \<Rightarrow> lifecycle" where
  "classify_exec_command command =
     (case nonblank_str command of
        None \<Rightarrow> ObservationOnly
      | Some text \<Rightarrow>
          if contains_uncertain_shell_syntax text then ObservationOnly
          else (case shell_words None None text of
                  [] \<Rightarrow> ObservationOnly
                | w # _ \<Rightarrow>
                    if w \<in> set [''ls'', ''find'', ''fd''] then RecentRaw
                    else if w \<in> set [''rg'', ''grep'', ''cat'', ''sed'', ''head'', ''tail''] then PermanentRaw
                    else ObservationOnly))"

definition native_evidence_lifecycle :: "string \<Rightarrow> (string \<times> pyval) list \<Rightarrow> lifecycle" where
  "native_evidence_lifecycle name arguments =
     (if name \<in> set [''list_dir'', ''glob''] then CurrentRaw
      else if name \<in> set [''grep'', ''read_file''] then PermanentRaw
      else if name \<in> set [''exec'', ''atom.exec''] then classify_exec_command (dict_value arguments ''command'')
      else ObservationOnly)"

definition result_error :: "pyval \<Rightarrow> string option" where
  "result_error r = (case r of
       PDict d \<Rightarrow>
         if truthy (dict_value d ''error'') then Some (py_str (dict_value d ''error''))
         else if dict_value d ''isError'' = PBool True then Some (py_str r) else None
     | _ \<Rightarrow> None)"

subsection \<open>Recording a settled Tool round\<close>

text \<open>\<open>dict(call.get("args") or {})\<close>.\<close>

definition call_arguments :: "tool_call \<Rightarrow> (string \<times> pyval) list result" where
  "call_arguments c =
     (if \<not> truthy (tc_args c) then Inr []
      else case as_dict (tc_args c) of
        Some d \<Rightarrow> Inr d
      | None \<Rightarrow> Inl (TypeError ''cannot convert to a dictionary''))"

definition raw_call_of :: "tool_call \<Rightarrow> pyval \<Rightarrow> string option \<Rightarrow> raw_call result" where
  "raw_call_of call result error =
     bindE (call_arguments call) (\<lambda>args.
     Inr \<lparr>rc_id = call_id call, rc_name = call_name call, rc_args = args, rc_result = result,
          rc_error = (case error of Some e \<Rightarrow> if e \<noteq> [] then Some e else result_error result
                                  | None \<Rightarrow> result_error result),
          rc_lifecycle = native_evidence_lifecycle (call_name call) args\<rparr>)"

definition number_call :: "int \<Rightarrow> (string \<times> pyval) list \<Rightarrow> raw_call \<Rightarrow> policy \<Rightarrow> policy" where
  "number_call round ctx call p =
     (let p = p\<lparr>po_call_order := AList.update (round, rc_id call) (po_next_order p) (po_call_order p),
                po_next_order := po_next_order p + 1\<rparr>
      in if rc_lifecycle call = ObservationOnly
         then p\<lparr>po_summaries := AList.update (round, rc_id call)
                 (AList.update ''tool'' (PDict [(''name'', PStr (rc_name call)), (''arguments'', PDict (rc_args call))]) ctx)
                 (po_summaries p)\<rparr>
         else p)"

definition set_outcome :: "int \<Rightarrow> string \<Rightarrow> observation_status \<Rightarrow> string option \<Rightarrow> policy \<Rightarrow> policy" where
  "set_outcome round i status error p =
     p\<lparr>po_outcomes := AList.update (round, i) \<lparr>oo_status = status, oo_error = error\<rparr> (po_outcomes p)\<rparr>"

definition start_observation :: "int \<Rightarrow> raw_call \<Rightarrow> policy \<Rightarrow> policy" where
  "start_observation round call p =
     (let p = set_outcome round (rc_id call) OPending None p
      in p\<lparr>po_pending := po_pending p @ [(round, rc_id call)], po_uses := po_uses p + 1\<rparr>)"

definition record_tool_round ::
  "policy \<Rightarrow> int \<Rightarrow> tool_call list \<Rightarrow> pyval list \<Rightarrow> string option list option \<Rightarrow>
   (string \<times> pyval) list \<Rightarrow> bool \<Rightarrow> (policy \<times> raw_round) result" where
  "record_tool_round p round calls results errors ctx suppress =
     (if length calls \<noteq> length results
        \<or> (case errors of None \<Rightarrow> False | Some es \<Rightarrow> length calls \<noteq> length es)
      then Inl (ValueError ''tool calls and settled results must have equal length'')
      else
        let es = (case errors of Some es \<Rightarrow> es | None \<Rightarrow> replicate (length results) None)
        in bindE (mapE (\<lambda>(call, result, error). raw_call_of call result error) (zip calls (zip results es))) (\<lambda>raws.
           let raw = \<lparr>rt_round = round, rt_calls = raws\<rparr>;
               p = p\<lparr>po_raw := po_raw p @ [raw], po_rounds := po_rounds p + 1\<rparr>;
               p = fold (number_call round ctx) raws p;
               observed = filter (\<lambda>c. \<not> suppress \<and> rc_lifecycle c = ObservationOnly \<and> rc_error c = None) raws
           in Inr (fold (start_observation round) observed p, raw)))"

subsection \<open>The window\<close>

definition last_rounds :: "nat \<Rightarrow> raw_round list \<Rightarrow> int set" where
  "last_rounds n raw = rt_round ` set (drop (length raw - n) raw)"

definition observed_call_ids :: "observation list \<Rightarrow> string set" where
  "observed_call_ids obs = set (concat (map source_tool_call_ids obs))"

definition negative_call_ids :: "policy \<Rightarrow> string set" where
  "negative_call_ids p = {i. \<exists>((r, j), oc) \<in> set (po_outcomes p). j = i \<and> oo_status oc = OSucceeded}
     - observed_call_ids (po_observations p)"

definition is_visible_call :: "policy \<Rightarrow> int \<Rightarrow> raw_call \<Rightarrow> bool" where
  "is_visible_call p round call =
     (let recent = last_rounds (po_raw_rounds p) (po_raw p); current = last_rounds 1 (po_raw p) in
      (rc_lifecycle call = CurrentRaw \<and> round \<in> current)
      \<or> (rc_lifecycle call = RecentRaw \<and> round \<in> recent)
      \<or> rc_lifecycle call = PermanentRaw
      \<or> (rc_lifecycle call = ObservationOnly
           \<and> rc_id call \<notin> observed_call_ids (po_observations p)
           \<and> (rc_id call \<notin> negative_call_ids p \<or> round \<in> recent)))"

definition assemble :: "policy \<Rightarrow> pyval \<Rightarrow> runtime_context" where
  "assemble p durable =
     \<lparr>rx_durable = durable, rx_observations = po_observations p,
      rx_raw = filter (\<lambda>item. rt_calls item \<noteq> [])
        (map (\<lambda>item. item\<lparr>rt_calls := filter (is_visible_call p (rt_round item)) (rt_calls item)\<rparr>) (po_raw p)),
      rx_messages = po_messages p\<rparr>"

subsection \<open>Observations\<close>

definition single_protocol_field :: "(string \<times> pyval list) list \<Rightarrow> string \<Rightarrow> pyval result" where
  "single_protocol_field fs name =
     (case map_of fs name of Some [v] \<Rightarrow> Inr v | _ \<Rightarrow> Inl (ValueError name))"

definition optional_protocol_int :: "(string \<times> pyval list) list \<Rightarrow> string \<Rightarrow> int option result" where
  "optional_protocol_int fs name =
     (if map_of fs name = None then Inr None
      else bindE (single_protocol_field fs name) (\<lambda>v.
        case v of PInt i \<Rightarrow> Inr (Some i) | _ \<Rightarrow> Inl (ValueError name)))"

definition all_strings :: "pyval list \<Rightarrow> string list option" where
  "all_strings vs = (if \<forall>v\<in>set vs. is_str v then Some (map (\<lambda>v. the (as_str v)) vs) else None)"

definition parse_evidence :: "block \<Rightarrow> (string \<times> evidence) result" where
  "parse_evidence b =
     (let fs = bk_fields b in
      if \<not> fst ` set fs \<subseteq> set [''CATEGORY'', ''TEXT'', ''TOOL_CALL_ID''] then Inl (ValueError ''evidence fields'')
      else bindE (single_protocol_field fs ''CATEGORY'') (\<lambda>category.
      if \<not> hashable category then Inl (TypeError ''unhashable type'')
      else if category \<notin> set [PStr ''confirmed_facts'', PStr ''reported_errors'', PStr ''model_inferences'']
      then Inl (ValueError ''category'')
      else bindE (single_protocol_field fs ''TEXT'') (\<lambda>text.
      let ids = (case map_of fs ''TOOL_CALL_ID'' of None \<Rightarrow> [] | Some vs \<Rightarrow> vs) in
      case (nonblank_str text, all_strings ids) of
        (Some t, Some is) \<Rightarrow>
          if is = [] then Inl (ValueError ''evidence'')
          else Inr (the (as_str category), \<lparr>ev_text = t, ev_ids = is\<rparr>)
      | _ \<Rightarrow> Inl (ValueError ''evidence''))))"

definition valid_targets :: "string list" where
  "valid_targets = [''confirmed_facts'', ''summary'', ''durable_state'']"

definition impact_of :: "pyval \<Rightarrow> bool result" where
  "impact_of v = (case v of PBool b \<Rightarrow> Inr b | _ \<Rightarrow> Inl (ValueError ''AFFECTS_CURRENT_DECISION''))"

text \<open>The attribution checks, made when the call the Observation is about is known.\<close>

definition attributed :: "observation \<Rightarrow> string option \<Rightarrow> observation result" where
  "attributed ob expected_id =
     (case expected_id of
        None \<Rightarrow> Inr ob
      | Some i \<Rightarrow>
          let ids = set (source_tool_call_ids ob) in
          if ids \<noteq> {} \<and> ids \<noteq> {i} then Inl (ValueError ''source tool-call attribution'')
          else if ob_affects ob \<and> ids \<noteq> {i}
          then Inl (ValueError ''positive impact requires source tool-call attribution'')
          else if ob_start ob \<noteq> None
                  \<and> (ob_start ob \<noteq> Some (ob_round ob) \<or> ob_end ob \<noteq> Some (ob_round ob))
          then Inl (ValueError ''source round attribution'')
          else Inr ob)"

definition observation_of_block :: "block \<Rightarrow> int \<Rightarrow> string option \<Rightarrow> observation result" where
  "observation_of_block b expected_round expected_id =
     (if bk_type b \<noteq> ''OBSERVATION'' then Inl (LineProtocolError ''expected BEGIN OBSERVATION'')
      else let fs = bk_fields b in
      bindE (single_protocol_field fs ''ROUND'') (\<lambda>round_number.
      if round_number \<noteq> PInt expected_round then Inl (ValueError ''round'')
      else bindE (optional_protocol_int fs ''SOURCE_ROUND_START'') (\<lambda>start.
      bindE (optional_protocol_int fs ''SOURCE_ROUND_END'') (\<lambda>fin.
      if (start = None) \<noteq> (fin = None) \<or> (start \<noteq> None \<and> the start > the fin)
      then Inl (ValueError ''source range'')
      else bindE (single_protocol_field fs ''AFFECTS_CURRENT_DECISION'') (\<lambda>impact.
      bindE (impact_of impact) (\<lambda>affects.
      let targets = (case map_of fs ''AFFECTED_TARGETS'' of None \<Rightarrow> [] | Some vs \<Rightarrow> vs) in
      if \<exists>t\<in>set targets. t \<notin> PStr ` set valid_targets then Inl (ValueError ''AFFECTED_TARGETS'')
      else if (affects \<and> targets = []) \<or> (\<not> affects \<and> targets \<noteq> [])
      then Inl (ValueError ''decision impact targets'')
      else bindE (mapE parse_evidence (bk_children b)) (\<lambda>entries.
      let pick = (\<lambda>category. map snd (filter (\<lambda>e. fst e = category) entries)) in
      attributed \<lparr>ob_round = expected_round, ob_facts = pick ''confirmed_facts'',
           ob_errors = pick ''reported_errors'', ob_inferences = pick ''model_inferences'',
           ob_affects = affects, ob_targets = from_keys (map (\<lambda>t. the (as_str t)) targets),
           ob_start = start, ob_end = fin\<rparr> expected_id)))))))"

definition parse_observation :: "pyval \<Rightarrow> int \<Rightarrow> string option \<Rightarrow> observation result" where
  "parse_observation content expected_round expected_id =
     (case content of
        PStr text \<Rightarrow>
          (case bindE (parse_line_protocol text) (\<lambda>b. observation_of_block b expected_round expected_id) of
             Inl e \<Rightarrow> Inl (ObservationValidationError (''Observation Line Protocol is invalid: '' @ exn_str e))
           | Inr ob \<Rightarrow> Inr ob)
      | _ \<Rightarrow> Inl (ObservationValidationError ''Observation protocol response must be text''))"

definition first_round :: "observation \<Rightarrow> int" where
  "first_round ob = (case ob_start ob of None \<Rightarrow> ob_round ob | Some s \<Rightarrow> if s = 0 then ob_round ob else s)"

definition last_round :: "observation \<Rightarrow> int" where
  "last_round ob = (case ob_end ob of None \<Rightarrow> ob_round ob | Some s \<Rightarrow> if s = 0 then ob_round ob else s)"

definition observation_order :: "policy \<Rightarrow> observation \<Rightarrow> nat \<times> int" where
  "observation_order p ob =
     (let order = (\<lambda>i. case map_of (po_call_order p) (first_round ob, i) of
                         None \<Rightarrow> po_next_order p | Some n \<Rightarrow> n);
          orders = map order (source_tool_call_ids ob)
      in (if orders = [] then po_next_order p else Min (set orders), first_round ob))"

text \<open>
  \<open>_observe\<close> from the model's answer on: \<open>answer\<close> is the response content, or the exception of
  the request (a provider failure, or the cancellation of the task).
\<close>

definition observation_result :: "(int \<times> string) \<Rightarrow> pyval result \<Rightarrow> observation result" where
  "observation_result key answer = bindE answer (\<lambda>content. parse_observation content (fst key) (Some (snd key)))"

definition finish_observation :: "(int \<times> string) \<Rightarrow> pyval result \<Rightarrow> policy \<Rightarrow> policy" where
  "finish_observation key answer p =
     (let p = p\<lparr>po_pending := remove1 key (po_pending p)\<rparr>;
          outcome = set_outcome (fst key) (snd key)
      in case observation_result key answer of
           Inr ob \<Rightarrow>
             (let p = (if ob_affects ob
                       then p\<lparr>po_observations := sort_key (observation_order p) (po_observations p @ [ob])\<rparr>
                       else p)
              in outcome OSucceeded None p)
         | Inl CancelledError \<Rightarrow> outcome OCancelled (Some ''Observation task was cancelled'') p
         | Inl (ObservationValidationError m) \<Rightarrow> outcome OInvalid (Some m) p
         | Inl e \<Rightarrow> outcome OProviderError (Some (or_str (Some (exn_str e)) ''Runtime context model request failed'')) p)"

subsection \<open>Maintaining the budget\<close>

text \<open>
  \<open>_merge_observations\<close> after the model's answer.  \<open>index_of\<close> is \<open>list.index\<close>, which compares
  by value.
\<close>

definition merged_observation :: "observation \<Rightarrow> observation \<Rightarrow> pyval \<Rightarrow> observation result" where
  "merged_observation first second content =
     bindE (parse_observation content (ob_round second) None) (\<lambda>m.
     if \<not> set (source_tool_call_ids first) \<union> set (source_tool_call_ids second) \<subseteq> set (source_tool_call_ids m)
     then Inl (ContextMaintenanceError ''merged Observation lost source tool-call IDs'')
     else Inr (m\<lparr>ob_affects := ob_affects first \<or> ob_affects second,
                 ob_targets := from_keys (ob_targets first @ ob_targets second),
                 ob_start := Some (first_round first), ob_end := Some (last_round second)\<rparr>))"

fun index_of :: "'a \<Rightarrow> 'a list \<Rightarrow> nat result" where
  "index_of x [] = Inl (ValueError ''not in list'')"
| "index_of x (y # ys) = (if y = x then Inr 0 else bindE (index_of x ys) (\<lambda>n. Inr (Suc n)))"

text \<open>
  The merging model answers after a wait in which Observation tasks may finish; \<open>events\<close> are the
  tasks that did, with their answers.
\<close>

type_synonym 'w merger =
  "'w \<Rightarrow> observation \<Rightarrow> observation \<Rightarrow> 'w \<times> ((int \<times> string) \<times> pyval result) list \<times> pyval result"

definition maintain_step :: "'w merger \<Rightarrow> 'w \<Rightarrow> policy \<Rightarrow> ('w \<times> policy) \<times> unit result" where
  "maintain_step merge w p =
     (case po_observations p of
        first # second # _ \<Rightarrow>
          (let (w, events, answer) = merge w first second;
               p = fold (\<lambda>(key, a). finish_observation key a) events (p\<lparr>po_uses := po_uses p + 1\<rparr>);
               content = (case answer of
                   Inl e \<Rightarrow> (if e = CancelledError then Inl e
                     else Inl (ObservationProviderError (or_str (Some (exn_str e)) ''Runtime context model request failed'')))
                 | Inr c \<Rightarrow> Inr c)
           in case bindE content (merged_observation first second) of
                Inl e \<Rightarrow> ((w, p), Inl e)
              | Inr m \<Rightarrow>
                  (case (index_of first (po_observations p), index_of second (po_observations p)) of
                     (Inr i, Inr j) \<Rightarrow>
                       ((w, p\<lparr>po_observations := take i (po_observations p) @ m # drop (max i (j + 1)) (po_observations p)\<rparr>),
                        Inr ())
                   | _ \<Rightarrow> ((w, p), Inl (ValueError ''not in list''))))
      | _ \<Rightarrow> ((w, p), Inl (ContextMaintenanceError ''required Runtime context exceeds its budget'')))"

text \<open>\<open>maintain\<close>: \<open>cost\<close> estimates the tokens of the request a context makes.\<close>

partial_function (option) maintain ::
  "'w merger \<Rightarrow> (runtime_context \<Rightarrow> int) \<Rightarrow> pyval \<Rightarrow> 'w \<Rightarrow> policy
     \<Rightarrow> (('w \<times> policy) \<times> runtime_context result) option" where
  "maintain merge cost durable w p =
     (let context = assemble p durable in
      if cost context \<le> po_budget p then Some ((w, p), Inr context)
      else (case maintain_step merge w p of
              ((w, p), Inl e) \<Rightarrow> Some ((w, p), Inl e)
            | ((w, p), Inr _) \<Rightarrow> maintain merge cost durable w p))"

end
