(* ===== verification/Context_Rendering.thy ===== *)
theory Context_Rendering
  imports Runtime_Context
begin

section \<open>Rendering the Runtime context\<close>

text \<open>
  \<open>RuntimeContext.as_messages\<close> of \<open>agent/runtime_context.py\<close> in both layouts: \<open>grouped\<close>, one
  Markdown prompt, and \<open>messages\<close>, native assistant and Tool messages followed by the layers.
\<close>

definition prompt_value :: "pyval \<Rightarrow> string" where
  "prompt_value v = json_dumps True v"

definition unlines :: "string list \<Rightarrow> string" where
  "unlines ls = join [CHR 0x0A] ls"

subsection \<open>The durable state, goal and steps\<close>

definition pop :: "string \<Rightarrow> (string \<times> pyval) list \<Rightarrow> (string \<times> pyval) list" where
  "pop k d = filter (\<lambda>(k', v). k' \<noteq> k) d"

text \<open>\<open>_extract_plan_steps\<close>: the plan history without its steps, and the steps by revision.\<close>

fun displayed_plan :: "pyval \<Rightarrow> pyval \<times> pyval list" where
  "displayed_plan (PDict d) =
     (case map_of d ''steps'' of
        None \<Rightarrow> (PDict d, [])
      | Some steps \<Rightarrow> (PDict (pop ''steps'' d), [PDict [(''revision'', dict_value d ''revision''), (''steps'', steps)]]))"
| "displayed_plan v = (v, [])"

definition extract_plan_steps :: "(string \<times> pyval) list \<Rightarrow> (string \<times> pyval) list \<times> pyval option" where
  "extract_plan_steps agent_state =
     (case dict_value agent_state ''plan_history'' of
        PList plans \<Rightarrow>
          (AList.update ''plan_history'' (PList (map (fst \<circ> displayed_plan) plans)) agent_state,
           Some (PList (concat (map (snd \<circ> displayed_plan) plans))))
      | _ \<Rightarrow> (agent_state, None))"

definition durable_state_goal_and_steps :: "pyval \<Rightarrow> pyval \<times> pyval \<times> pyval option" where
  "durable_state_goal_and_steps v =
     (case v of
        PDict d \<Rightarrow>
          (case map_of d ''goal'' of
             Some goal \<Rightarrow> (PDict (pop ''goal'' d), goal, None)
           | None \<Rightarrow>
               (case dict_value d ''agent_state'' of
                  PDict a \<Rightarrow>
                    (case map_of a ''goal'' of
                       Some goal \<Rightarrow>
                         let (shown, steps) = extract_plan_steps (pop ''goal'' a)
                         in (PDict (AList.update ''agent_state'' (PDict shown) d), goal, steps)
                     | None \<Rightarrow> (v, PNone, None))
                | _ \<Rightarrow> (v, PNone, None)))
      | _ \<Rightarrow> (v, PNone, None))"

subsection \<open>Native messages\<close>

definition observation_sections :: "(string \<times> (observation \<Rightarrow> evidence list)) list" where
  "observation_sections = [(''Confirmed facts'', ob_facts), (''Reported errors'', ob_errors),
     (''Model inferences'', ob_inferences)]"

definition messages_observations :: "observation list \<Rightarrow> string" where
  "messages_observations obs =
     unlines (''## Observations'' # concat (map (\<lambda>(title, field).
       [[], ''### '' @ title]
       @ (let evidence = concat (map field obs)
          in if evidence = [] then [''- (none)''] else map (\<lambda>e. ''- '' @ ev_text e) evidence))
       observation_sections))"

definition stable_tool_result :: "pyval \<Rightarrow> string" where
  "stable_tool_result v = (case v of PStr s \<Rightarrow> s | _ \<Rightarrow> json_dumps True v)"

definition tool_message_content :: "raw_call \<Rightarrow> string" where
  "tool_message_content c =
     (case rc_error c of
        None \<Rightarrow> stable_tool_result (rc_result c)
      | Some e \<Rightarrow> stable_tool_result (rc_result c) @ [CHR 0x0A, CHR 0x0A] @ ''Tool error: '' @ e)"

definition native_call :: "raw_call \<Rightarrow> tool_call" where
  "native_call c = \<lparr>tc_id = Some (rc_id c), tc_name = Some (rc_name c), tc_args = PDict (rc_args c)\<rparr>"

definition native_result :: "raw_call \<Rightarrow> message" where
  "native_result c = ToolMessage (PStr (tool_message_content c)) (rc_id c) (Some (rc_name c))
     (if rc_error c = None then ''success'' else ''error'')"

definition native_round :: "raw_round \<Rightarrow> message list" where
  "native_round item =
     (if rt_calls item = [] then []
      else AIMessage (PStr []) (map native_call (rt_calls item)) [] # map native_result (rt_calls item))"

definition is_plan_step_state :: "pyval \<Rightarrow> bool" where
  "is_plan_step_state v = (case v of
       PDict d \<Rightarrow> (case dict_value d ''agent_state'' of
                     PDict a \<Rightarrow> map_of a ''selected_plan_step'' \<noteq> None
                   | _ \<Rightarrow> False)
     | _ \<Rightarrow> False)"

definition layer :: "string \<Rightarrow> string \<Rightarrow> message" where
  "layer title body = HumanMessage (''## '' @ title @ [CHR 0x0A, CHR 0x0A] @ body)"

definition runtime_context_messages ::
  "runtime_context \<Rightarrow> string option \<Rightarrow> message list \<Rightarrow> message list \<Rightarrow> message list" where
  "runtime_context_messages ctx status prefix feedback =
     (let plan_step = is_plan_step_state (rx_durable ctx);
          (durable, goal, steps) =
            (if plan_step
             then (case rx_durable ctx of PDict d \<Rightarrow> PDict (pop ''agent_state'' d) | v \<Rightarrow> v, PNone, None)
             else durable_state_goal_and_steps (rx_durable ctx))
      in prefix @ concat (map native_round (rx_raw ctx))
         @ [layer ''Durable state'' (prompt_value durable),
            HumanMessage (messages_observations (rx_observations ctx))]
         @ feedback
         @ (if plan_step then [] else [layer ''Goal'' (prompt_value goal)])
         @ (case steps of None \<Rightarrow> [] | Some s \<Rightarrow> [layer ''Steps'' (prompt_value s)])
         @ (case status of None \<Rightarrow> [] | Some s \<Rightarrow> [layer ''Completion criteria'' s]))"

subsection \<open>The grouped prompt\<close>

definition markdown_scalar :: "pyval \<Rightarrow> string" where
  "markdown_scalar v = (case v of
       PNone \<Rightarrow> ''(none)'' | PBool b \<Rightarrow> show_bool_lower b | _ \<Rightarrow> py_str v)"

fun is_container :: "pyval \<Rightarrow> bool" where
  "is_container (PList _) = True"
| "is_container (PDict _) = True"
| "is_container _ = False"

fun render_markdown_value :: "string \<Rightarrow> pyval \<Rightarrow> string" where
  "render_markdown_value indent (PDict d) =
     (if d = [] then ''(empty)''
      else unlines (concat (map (\<lambda>(k, v).
        if is_container v then [indent @ ''- '' @ k @ '':'', render_markdown_value (indent @ ''  '') v]
        else [indent @ ''- '' @ k @ '': '' @ markdown_scalar v]) d)))"
| "render_markdown_value indent (PList xs) =
     (if xs = [] then ''(empty)''
      else unlines (concat (map (\<lambda>v.
        if is_container v then [indent @ ''-'', render_markdown_value (indent @ ''  '') v]
        else [indent @ ''- '' @ markdown_scalar v]) xs)))"
| "render_markdown_value indent v = markdown_scalar v"

lemma size_map_of [termination_simp]: "map_of d k = Some v \<Longrightarrow> size v < Suc (size_list (\<lambda>x. Suc (size (snd x))) d)"
  by (induction d) (auto split: if_splits)

fun mcp_content_markdown :: "pyval \<Rightarrow> string" where
  "mcp_content_markdown (PStr s) = s"
| "mcp_content_markdown (PDict d) =
     (case map_of d ''text'' of
        Some (PStr t) \<Rightarrow> t
      | _ \<Rightarrow> (case map_of d ''content'' of
                None \<Rightarrow> render_markdown_value [] (PDict d)
              | Some v \<Rightarrow> if v = PNone then render_markdown_value [] (PDict d) else mcp_content_markdown v))"
| "mcp_content_markdown (PList xs) =
     (let rendered = filter (\<lambda>t. t \<noteq> []) (map mcp_content_markdown xs)
      in if join [CHR 0x0A, CHR 0x0A] rendered = [] then ''(empty)'' else join [CHR 0x0A, CHR 0x0A] rendered)"
| "mcp_content_markdown v = markdown_scalar v"

definition file_group_markdown :: "pyval \<Rightarrow> string" where
  "file_group_markdown v = (case v of
       PStr s \<Rightarrow> s
     | PDict d \<Rightarrow> (case map_of d ''content'' of
           Some c \<Rightarrow> mcp_content_markdown c
         | None \<Rightarrow> render_markdown_value [] v)
     | _ \<Rightarrow> render_markdown_value [] v)"

text \<open>The fence is lengthened until the text does not contain it.\<close>

function fence_for :: "string \<Rightarrow> string \<Rightarrow> string" where
  "fence_for text fence = (if contains fence text then fence_for text (fence @ [CHR 0x60]) else fence)"
  by pat_completeness auto
termination
  by (relation "measure (\<lambda>(text, fence). Suc (length text) - length fence)")
    (auto dest: contains_length)

declare fence_for.simps [simp del]

definition render_code_block :: "pyval \<Rightarrow> string list" where
  "render_code_block v =
     (let text = file_group_markdown v; fence = fence_for text (replicate 3 CHR 0x60)
      in [fence @ ''text'', text, fence])"

definition render_raw_call :: "raw_call \<Rightarrow> pyval \<Rightarrow> string list" where
  "render_raw_call c result =
     [''- '' @ rc_name c @ '' (tool_call_id='' @ rc_id c @ '')'',
      ''  - arguments: '' @ prompt_value (PDict (rc_args c)),
      ''  - result: '' @ prompt_value result]
     @ (case rc_error c of None \<Rightarrow> [] | Some e \<Rightarrow> [''  - error: '' @ e])"

definition is_line_break :: "char \<Rightarrow> bool" where
  "is_line_break c \<longleftrightarrow> c \<in> set [CHR 0x0A, CHR 0x0B, CHR 0x0C, CHR 0x0D, CHR 0x1C, CHR 0x1D, CHR 0x1E]"

text \<open>The non-empty lines of \<open>s.splitlines()\<close>.\<close>

definition nonempty_lines :: "string \<Rightarrow> string list" where
  "nonempty_lines s =
     filter (\<lambda>l. l \<noteq> []) (split_at CHR 0x0A (map (\<lambda>c. if is_line_break c then CHR 0x0A else c) s))"

text \<open>Appending to the list stored under a key: \<open>groups.setdefault(k, []).append(x)\<close>.\<close>

definition push :: "'k \<Rightarrow> 'a \<Rightarrow> ('k \<times> 'a list) list \<Rightarrow> ('k \<times> 'a list) list" where
  "push k x d = AList.update k ((case map_of d k of None \<Rightarrow> [] | Some xs \<Rightarrow> xs) @ [x]) d"

definition native_read_entries :: "raw_call \<Rightarrow> (string \<times> pyval) list option" where
  "native_read_entries c =
     (case nonblank_str (dict_value (rc_args c) ''path'') of
        Some path \<Rightarrow> Some [(strip path, rc_result c)]
      | None \<Rightarrow>
          (case (rc_name c = ''grep'', rc_result c) of
             (True, PStr text) \<Rightarrow>
               (let ls = nonempty_lines text;
                    colon = (\<lambda>l. CHR '':'' \<in> set l);
                    parsed = map (\<lambda>l. (strip (takeWhile (\<lambda>x. x \<noteq> CHR '':'') l),
                                       drop 1 (dropWhile (\<lambda>x. x \<noteq> CHR '':'') l))) (filter colon ls)
                in if ls \<noteq> [] \<and> length parsed = length ls \<and> (\<forall>(path, t)\<in>set parsed. path \<noteq> [])
                   then Some (map (\<lambda>(path, ts). (path, PStr (unlines ts)))
                                (fold (\<lambda>(path, t). push path t) parsed []))
                   else None)
           | _ \<Rightarrow> None))"

type_synonym read_group = "string \<times> (int \<times> raw_call \<times> pyval) list"

definition is_native_read :: "raw_call \<Rightarrow> bool" where
  "is_native_read c \<longleftrightarrow> rc_name c \<in> set [''grep'', ''read_file''] \<and> rc_lifecycle c = PermanentRaw"

definition group_call :: "int \<Rightarrow> raw_call \<Rightarrow> read_group list \<Rightarrow> read_group list" where
  "group_call round c groups =
     (case (rc_error c, native_read_entries c) of
        (None, Some entries) \<Rightarrow> fold (\<lambda>(path, result). push path (round, c, result)) entries groups
      | _ \<Rightarrow> push ''(unfiled)'' (round, c, rc_result c) groups)"

definition group_native_read_results :: "raw_round list \<Rightarrow> read_group list \<times> raw_round list" where
  "group_native_read_results raws =
     (map (\<lambda>(path, entries). (path, sort_key fst entries))
        (fold (\<lambda>item. fold (group_call (rt_round item)) (filter is_native_read (rt_calls item))) raws []),
      map (\<lambda>item. item\<lparr>rt_calls := filter (\<lambda>c. \<not> is_native_read c) (rt_calls item)\<rparr>) raws)"

definition runtime_context_prompt :: "runtime_context \<Rightarrow> string option \<Rightarrow> string" where
  "runtime_context_prompt ctx status =
     (let (durable, goal, steps) = durable_state_goal_and_steps (rx_durable ctx);
          (groups, rounds) = group_native_read_results (rx_raw ctx);
          shown = filter (\<lambda>r. rt_calls r \<noteq> []) rounds
      in unlines (
        [''## Runtime context'', [], ''### Durable state'', prompt_value durable, [], ''### Observations'']
        @ concat (map (\<lambda>(title, field).
            (''- '' @ title @ '':'') #
            (let evidence = concat (map field (rx_observations ctx))
             in if evidence = [] then [''  - (none)''] else map (\<lambda>e. ''  - '' @ ev_text e) evidence))
            observation_sections)
        @ [[], ''### Raw tool results'']
        @ concat (map (\<lambda>(path, entries). (''#### File: '' @ path) # concat (map (\<lambda>(_, c, result).
            if path = ''(unfiled)'' then render_raw_call c result else render_code_block result) entries)) groups)
        @ concat (map (\<lambda>r. (''#### Round '' @ show_int (rt_round r))
            # concat (map (\<lambda>c. render_raw_call c (rc_result c)) (rt_calls r))) shown)
        @ (if groups = [] \<and> shown = [] then [''- (none)''] else [])
        @ [[], ''### Goal'', prompt_value goal]
        @ (case steps of None \<Rightarrow> [] | Some s \<Rightarrow> [[], ''### Steps'', prompt_value s])
        @ (case status of None \<Rightarrow> [] | Some s \<Rightarrow> [[], ''### Completion criteria'', s])))"

definition as_messages ::
  "runtime_context \<Rightarrow> string option \<Rightarrow> message list \<Rightarrow> message list \<Rightarrow> message list result" where
  "as_messages ctx status prefix feedback =
     (if rx_messages ctx then Inr (runtime_context_messages ctx status prefix feedback)
      else if prefix \<noteq> [] \<or> feedback \<noteq> []
      then Inl (ValueError ''fixed and feedback messages require the messages layout'')
      else Inr [HumanMessage (runtime_context_prompt ctx status)])"

subsection \<open>Properties of the rendering\<close>

lemma fence_not_contained: "\<not> contains (fence_for t fence) t"
proof (induction t fence rule: fence_for.induct)
  case (1 t fence)
  then show ?case by (subst fence_for.simps) simp
qed

text \<open>
  In the native layout every tool result answers a call of the assistant message before it,
  in order, and nothing dangles.
\<close>

fun well_paired :: "message list \<Rightarrow> bool" where
  "well_paired [] = True"
| "well_paired (AIMessage c calls bad # ms) =
     (let n = length calls in
      map (\<lambda>m. case m of ToolMessage _ i _ _ \<Rightarrow> Some i | _ \<Rightarrow> None) (take n ms) = map tc_id calls
      \<and> (\<forall>m\<in>set (take n ms). is_tool_message m) \<and> well_paired (drop n ms))"
| "well_paired (ToolMessage c i n s # ms) = False"
| "well_paired (_ # ms) = well_paired ms"

lemma well_paired_native:
  "well_paired (native_round item @ ms) = well_paired ms"
  by (auto simp: native_round_def native_call_def native_result_def Let_def)

lemma well_paired_rounds:
  "well_paired ms \<Longrightarrow> well_paired (concat (map native_round items) @ ms)"
  by (induction items) (simp_all add: well_paired_native)

end
