(* ===== verification/Responses.thy ===== *)
theory Responses
  imports Messages
begin

section \<open>The Responses adapter\<close>

text \<open>
  \<open>agent/responses_adapter.py\<close>: model messages and MCP tools as values of the Responses API, and
  the adaptation of its streamed events in \<open>agent/execution.py\<close>.
\<close>

text \<open>\<open>AIMessage(content=..., tool_calls=...)\<close>: LangChain accepts dictionaries as arguments only.\<close>

definition mk_ai_message :: "pyval \<Rightarrow> tool_call list \<Rightarrow> message result" where
  "mk_ai_message content calls =
     (if \<forall>c\<in>set calls. as_dict (tc_args c) \<noteq> None then Inr (AIMessage content calls [])
      else Inl (ValueError ''Input should be a valid dictionary''))"

definition text_item :: "string \<Rightarrow> string \<Rightarrow> pyval list" where
  "text_item role content =
     (if content = [] then [] else [PDict [(''role'', PStr role), (''content'', PStr content)]])"

definition call_item :: "tool_call \<Rightarrow> pyval" where
  "call_item c = PDict [(''type'', PStr ''function_call''), (''call_id'', PStr (call_id c)),
     (''name'', PStr (call_name c)), (''arguments'', PStr (json_dumps False (tc_args c)))]"

fun input_items :: "message \<Rightarrow> pyval list" where
  "input_items (ToolMessage content i name status) =
     [PDict [(''type'', PStr ''function_call_output''), (''call_id'', PStr i),
        (''output'', PStr (message_text (ToolMessage content i name status)))]]"
| "input_items (AIMessage content calls bad) =
     text_item ''assistant'' (message_text (AIMessage content calls bad)) @ map call_item calls"
| "input_items (SystemMessage t) = text_item ''system'' t"
| "input_items (HumanMessage t) = text_item ''user'' t"

definition responses_input :: "message list \<Rightarrow> pyval list" where
  "responses_input messages = concat (map input_items messages)"

subsection \<open>Tools\<close>

text \<open>
  The schema of a tool: an object that answers its JSON schema, a mapping, or neither, when
  \<open>tool.args\<close> counts.
\<close>

datatype tool_schema = ModelSchema pyval | MappingSchema "(string \<times> pyval) list" | ArgsSchema pyval

record mcp_tool =
  mt_name :: string
  mt_description :: string
  mt_schema :: tool_schema

definition empty_schema :: pyval where
  "empty_schema = PDict [(''type'', PStr ''object''), (''properties'', PDict [])]"

definition tool_schema_value :: "mcp_tool \<Rightarrow> pyval" where
  "tool_schema_value t =
     (let v = (case mt_schema t of
                 ModelSchema v \<Rightarrow> v
               | MappingSchema d \<Rightarrow> PDict d
               | ArgsSchema v \<Rightarrow> if truthy v then v else empty_schema)
      in if as_dict v = None then empty_schema else v)"

definition responses_tools :: "mcp_tool list \<Rightarrow> pyval list" where
  "responses_tools tools = map (\<lambda>t. PDict [(''type'', PStr ''function''), (''name'', PStr (mt_name t)),
     (''description'', PStr (mt_description t)), (''parameters'', tool_schema_value t)]) tools"

text \<open>\<open>agent/tool_binding.py\<close>.\<close>

definition canonical_mcp_tool_set :: "mcp_tool list \<Rightarrow> mcp_tool list" where
  "canonical_mcp_tool_set tools = sort_key mt_name tools"

subsection \<open>Streamed events\<close>

record stream_item =
  si_type :: string
  si_call_id :: "string option"
  si_id :: "string option"
  si_name :: "string option"
  si_arguments :: "pyval option"

datatype stream_event =
    TextDelta string
  | ItemDone stream_item
  | ResponseCompleted string "stream_item list"
  | OtherEvent string

definition item_call :: "stream_item \<Rightarrow> tool_call" where
  "item_call item =
     \<lparr>tc_id = Some (or_str (si_call_id item) (or_str (si_id item) ''unknown'')),
      tc_name = Some (case si_name item of None \<Rightarrow> ''unknown'' | Some n \<Rightarrow> n),
      tc_args = (case (case si_arguments item of None \<Rightarrow> PStr ([CHR 0x7B, CHR 0x7D]) | Some v \<Rightarrow> v) of
          PStr s \<Rightarrow> (case json_loads True s of None \<Rightarrow> PStr s | Some v \<Rightarrow> v)
        | v \<Rightarrow> v)\<rparr>"

text \<open>\<open>_append_response_call\<close>: function calls are taken once per call id.\<close>

definition append_response_call :: "stream_item \<Rightarrow> tool_call list \<Rightarrow> tool_call list" where
  "append_response_call item calls =
     (if si_type item \<noteq> ''function_call'' \<or> tc_id (item_call item) \<in> tc_id ` set calls then calls
      else calls @ [item_call item])"

record streamed =
  sm_text :: string
  sm_calls :: "tool_call list"
  sm_final :: string

fun stream_step :: "stream_event \<Rightarrow> streamed \<Rightarrow> streamed" where
  "stream_step (TextDelta t) acc = acc\<lparr>sm_text := sm_text acc @ t\<rparr>"
| "stream_step (ItemDone item) acc = acc\<lparr>sm_calls := append_response_call item (sm_calls acc)\<rparr>"
| "stream_step (ResponseCompleted t items) acc =
     acc\<lparr>sm_calls := fold append_response_call items (sm_calls acc), sm_final := t\<rparr>"
| "stream_step (OtherEvent t) acc = acc"

definition collect_events :: "stream_event list \<Rightarrow> string \<times> tool_call list" where
  "collect_events events =
     (let acc = fold stream_step events \<lparr>sm_text = [], sm_calls = [], sm_final = []\<rparr>
      in (if sm_final acc \<noteq> [] then sm_final acc else sm_text acc, sm_calls acc))"

text \<open>Every call of a streamed response has its own id, however often its item is announced.\<close>

lemma append_response_call_distinct:
  "distinct (map tc_id calls) \<Longrightarrow> distinct (map tc_id (append_response_call item calls))"
  by (simp add: append_response_call_def)

lemma fold_append_distinct:
  "distinct (map tc_id calls) \<Longrightarrow> distinct (map tc_id (fold append_response_call items calls))"
  by (induction items arbitrary: calls) (simp_all add: append_response_call_distinct)

lemma stream_step_distinct:
  "distinct (map tc_id (sm_calls acc)) \<Longrightarrow> distinct (map tc_id (sm_calls (stream_step ev acc)))"
  by (cases ev) (simp_all add: append_response_call_distinct fold_append_distinct)

lemma collect_events_distinct: "distinct (map tc_id (snd (collect_events events)))"
proof -
  have "distinct (map tc_id (sm_calls (fold stream_step events acc)))"
    if "distinct (map tc_id (sm_calls acc))" for acc
    using that by (induction events arbitrary: acc) (simp_all add: stream_step_distinct)
  then show ?thesis by (simp add: collect_events_def Let_def)
qed

text \<open>A repeated announcement changes nothing.\<close>

lemma append_response_call_idem:
  "append_response_call item (append_response_call item calls) = append_response_call item calls"
  by (simp add: append_response_call_def)

end
