(* ===== verification/Executor.thy ===== *)
theory Executor
  imports Decoders Contracts Context_Rendering Responses
begin

section \<open>The Executor\<close>

text \<open>
  \<open>agent/executor.py\<close>: one Plan step through rounds of model and tool calls, judged by a
  tool-free completion judge.  The model provider, the MCP session with its ToolNode and the
  checkpointer are code outside the repository and parameters (\<open>executor_env\<close>).  The Runtime
  context policy is used through the operations of \<open>context_ops\<close>.  Tracing is left out.
\<close>

subsection \<open>Model responses\<close>

record response_item =
  ri_type :: string
  ri_name :: string
  ri_arguments :: pyval
  ri_call_id :: "string option"
  ri_id :: "string option"

record response =
  rp_text :: string
  rp_output :: "response_item list"

text \<open>
  A LangChain model answers a message; the production adapter of the Responses API answers a
  response, adapted as \<open>_executor_model_response\<close> does.  The boolean says whether tools are bound.
\<close>

datatype 'w chat_model =
    LangChainModel "bool \<Rightarrow> 'w \<Rightarrow> message list \<Rightarrow> 'w \<times> message result"
  | ResponsesModel "bool \<Rightarrow> 'w \<Rightarrow> pyval list \<Rightarrow> 'w \<times> response result"

definition adapt_item :: "response_item \<Rightarrow> tool_call" where
  "adapt_item item =
     \<lparr>tc_id = (if or_str (ri_call_id item) [] \<noteq> [] then ri_call_id item else ri_id item),
      tc_name = Some (ri_name item),
      tc_args = (case ri_arguments item of
          PStr s \<Rightarrow> (case json_loads True s of None \<Rightarrow> PStr s | Some v \<Rightarrow> v)
        | v \<Rightarrow> v)\<rparr>"

definition adapt_response :: "response \<Rightarrow> message result" where
  "adapt_response r = mk_ai_message (PStr (rp_text r))
     (map adapt_item (filter (\<lambda>item. ri_type item = ''function_call'') (rp_output r)))"

fun executor_model_response ::
  "'w chat_model \<Rightarrow> bool \<Rightarrow> 'w \<Rightarrow> message list \<Rightarrow> 'w \<times> message result" where
  "executor_model_response (LangChainModel f) tools w messages = f tools w messages"
| "executor_model_response (ResponsesModel f) tools w messages =
     bindW (f tools w (responses_input messages)) (\<lambda>w r. liftW w (adapt_response r))"

subsection \<open>The collaborators\<close>

record 'w context_ops =
  cp_messages :: bool
  cp_fresh :: "'w \<Rightarrow> 'w"
  cp_use :: "'w \<Rightarrow> 'w"
  cp_maintain :: "'w \<Rightarrow> pyval \<Rightarrow> message list \<Rightarrow> message list \<Rightarrow> string option
     \<Rightarrow> 'w \<times> runtime_context result"
  cp_record :: "'w \<Rightarrow> nat \<Rightarrow> tool_call list \<Rightarrow> pyval list \<Rightarrow> string option list
     \<Rightarrow> (string \<times> pyval) list \<Rightarrow> bool \<Rightarrow> 'w \<times> unit result"

record 'w executor_env =
  xe_model :: "'w chat_model"
  xe_open_tools :: "'w \<Rightarrow> 'w \<times> unit result"
  xe_tools :: "'w \<Rightarrow> message \<Rightarrow> 'w \<times> message list result"
  xe_context :: "'w context_ops option"
  xe_checkpoint :: "('w \<Rightarrow> string \<Rightarrow> step_execution \<Rightarrow> 'w \<times> unit result) option"
  xe_thread_id :: "string option"
  xe_run_id :: "string option"
  xe_attempt :: "nat option"
  xe_max_rounds :: nat
  xe_tool_cwd :: "string option"

text \<open>The checks of \<open>Executor.__init__\<close>.\<close>

definition check_executor_options ::
  "pyval \<Rightarrow> string \<Rightarrow> bool \<Rightarrow> pyval list \<Rightarrow> bool \<Rightarrow> string option \<Rightarrow> string option \<Rightarrow> unit result" where
  "check_executor_options max_rounds layout model_given credentials checkpointed thread_id run_id =
     (if (case max_rounds of PInt n \<Rightarrow> n \<le> 0 | _ \<Rightarrow> True)
      then Inl (ValueError ''max_rounds must be a positive integer'')
      else if layout \<notin> set [''grouped'', ''messages'']
      then Inl (ValueError (''runtime context layout must be '' @ [CHR 0x27] @ ''grouped'' @ [CHR 0x27]
             @ '' or '' @ [CHR 0x27] @ ''messages'' @ [CHR 0x27]))
      else if \<not> model_given \<and> (\<exists>v\<in>set credentials. nonblank_str v = None)
      then Inl (ValueError ''Executor requires explicit base_url, api_key, and model_name when no model is injected'')
      else if checkpointed \<and> thread_id = None \<and> run_id = None
      then Inl (ValueError ''a checkpointer requires thread_id or run_id'')
      else if thread_id \<noteq> None \<and> run_id \<noteq> None
      then Inl (ValueError ''thread_id and run_id are mutually exclusive'')
      else Inr ())"

subsection \<open>Requests\<close>

definition executor_instructions :: string where
  \<open>executor_instructions = join [CHR 0x0A]
    [''Use the available MCP tools when they are needed to complete the selected Plan step. ''
      @ ''Treat the selected Plan step''
      @ [CHR 0x27]
      @ ''s completion_criterion as fixed and authoritative. Before every tool call, check whether ''
      @ ''the requested step outcome has actually been produced, the available evidence directly ''
      @ ''verifies the completion_criterion to a level proportionate to risk, and no required part ''
      @ ''of the step remains. If the criterion is met, stop using tools and return the final handoff; ''
      @ ''otherwise, call only a tool that closes a specific remaining gap. Do not repeat an equivalent ''
      @ ''inspection or gather extra corroboration after the criterion is met. If a native tool ''
      @ ''call is emitted, the host executes it even when the response also has text. When no native ''
      @ ''tool call is emitted, put the current Step answer directly in response content; do not ''
      @ ''use Line Protocol for that answer.'']\<close>

definition step_judge_instructions :: string where
  \<open>step_judge_instructions = join [CHR 0x0A]
    [''You are a tool-free completion judge for one Plan step. Evaluate only the selected completion ''
      @ ''criterion against the supplied execution evidence. Only runtime_context_snapshot and ''
      @ ''successful_tool_results are evidentiary; operational_request and failed_tool_results ''
      @ ''are provenance or correction context and must never establish completion. Return exactly ''
      @ ''one STEP_COMPLETION_PROGRESS block. Report ALL_COMPLETED=false with no child when the ''
      @ ''criterion is not directly proven. Report ALL_COMPLETED=true only with one COMPLETED_CRITERION ''
      @ ''numbered 1 and concise directly checkable EVIDENCE. Do not return ANSWER or prose. Use ''
      @ ''Line Protocol boundary lines and FIELD=JSON_LITERAL scalar lines exactly as shown below; ''
      @ ''do not use XML tags, JSON objects, Markdown fences, or a colon in place of an equals ''
      @ ''sign.'',
     '''',
     ''Example when the criterion is not proven:'',
     ''BEGIN STEP_COMPLETION_PROGRESS'',
     ''ALL_COMPLETED=false'',
     ''END STEP_COMPLETION_PROGRESS'',
     '''',
     ''Example when successful evidence directly proves the criterion:'',
     ''BEGIN STEP_COMPLETION_PROGRESS'',
     ''ALL_COMPLETED=true'',
     ''BEGIN COMPLETED_CRITERION'',
     ''NUMBER=1'',
     ''EVIDENCE="The successful tool result confirms the artifact exists."'',
     ''END COMPLETED_CRITERION'',
     ''END STEP_COMPLETION_PROGRESS'',
     '''',
     ''Replace the example evidence with a concise fact from this request. Return only the applicable ''
      @ ''block.'']\<close>

definition recovery_notice :: string where
  \<open>recovery_notice = ''## Recovery attempt'' @ [CHR 0x0A, CHR 0x0A]
     @ ''This is a fresh execution attempt after an earlier attempt was interrupted. ''
     @ ''The earlier attempt'' @ [CHR 0x27] @ ''s messages and tool output are unconfirmed and are not facts. ''
     @ ''Inspect and reconcile the current external state before taking action, then pursue ''
     @ ''the original Plan step completion criterion.''\<close>

definition unproven_feedback :: string where
  "unproven_feedback = ''The selected completion criterion is still pending. The proposed Step answer was ''
     @ ''not accepted as direct evidence. Continue with the available tools and address the remaining gap.''"

definition empty_feedback :: string where
  "empty_feedback = ''The selected completion criterion is still pending. The no-tool response was empty. ''
     @ ''Continue with the available tools and address the remaining gap.''"

definition resolve_step :: "agent_state \<Rightarrow> int \<Rightarrow> string \<Rightarrow> plan_step option" where
  "resolve_step s revision step_id =
     (case List.find (\<lambda>p. pl_revision p = revision) (as_plans s) of
        None \<Rightarrow> None
      | Some p \<Rightarrow> List.find (\<lambda>st. ps_id st = step_id) (pl_steps p))"

definition step_value :: "plan_step \<Rightarrow> (string \<times> pyval) list" where
  "step_value st = [(''id'', PStr (ps_id st)), (''intent'', PStr (ps_intent st)),
     (''completion_criterion'', PStr (ps_criterion st))]"

definition plan_value :: "plan \<Rightarrow> pyval" where
  "plan_value p = PDict [(''revision'', PInt (pl_revision p)), (''goal'', PStr (pl_goal p)),
     (''steps'', PList (map (\<lambda>st. PDict (step_value st)) (pl_steps p)))]"

definition execution_value :: "step_execution \<Rightarrow> pyval" where
  "execution_value e = PDict [(''revision'', PInt (se_revision e)), (''step_id'', PStr (se_step_id e)),
     (''status'', PStr (status_str (se_status e))), (''result'', opt_str (se_result e)),
     (''error'', opt_str (se_error e)), (''completion_evidence'', opt_str (se_evidence e))]"

definition request_payload :: "agent_state \<Rightarrow> int \<Rightarrow> plan_step \<Rightarrow> pyval" where
  "request_payload s revision st =
     PDict [(''goal'', PStr (as_goal s)),
       (''selected_plan_step'', PDict ((''revision'', PInt revision) # step_value st)),
       (''memory_summary'', opt_str (as_memory s)),
       (''plan_history'', PList (map plan_value (as_plans s))),
       (''step_executions'', PList (map execution_value (as_execs s)))]"

definition durable_context_payload :: "agent_state \<Rightarrow> int \<Rightarrow> plan_step \<Rightarrow> step_context \<Rightarrow> pyval" where
  "durable_context_payload s revision st ctx =
     PDict [(''agent_state'', request_payload s revision st),
       (''step_context'', PDict [(''files_read'', PList (map PStr (sc_files_read ctx))),
          (''files_modified'', PList (map PStr (sc_files_modified ctx))),
          (''observations'', PList (map PStr (sc_observations ctx)))])]"

definition context_section :: "string \<Rightarrow> string list \<Rightarrow> string" where
  "context_section title values =
     ''### '' @ title @ [CHR 0x0A]
     @ (if unlines (map (\<lambda>v. ''- '' @ v) values) = [] then ''- (none)''
        else unlines (map (\<lambda>v. ''- '' @ v) values))"

definition format_step_context :: "step_context \<Rightarrow> string" where
  "format_step_context ctx =
     join [CHR 0x0A, CHR 0x0A] [''## Step context'',
       context_section ''Files read'' (sc_files_read ctx),
       context_section ''Files modified'' (sc_files_modified ctx),
       context_section ''Observations'' (sc_observations ctx)]"

definition step_criterion_status :: "plan_step \<Rightarrow> bool \<Rightarrow> string" where
  "step_criterion_status st completed =
     ''1. ['' @ (if completed then ''completed'' else ''pending'') @ ''] '' @ ps_criterion st"

text \<open>\<open>observation_decision_context\<close> of \<open>agent/runtime_context.py\<close>, as the Executor calls it.\<close>

definition observation_decision_context :: "string \<Rightarrow> int \<Rightarrow> plan_step \<Rightarrow> (string \<times> pyval) list" where
  "observation_decision_context goal revision st =
     [(''goal'', PStr goal), (''execution_mode'', PStr ''plan_execute''),
      (''plan_step'', PDict ((''revision'', PInt revision) # step_value st)),
      (''completion_criterion'', PStr (ps_criterion st))]"

definition initial_messages :: "agent_state \<Rightarrow> int \<Rightarrow> plan_step \<Rightarrow> step_context \<Rightarrow> bool \<Rightarrow> message list" where
  "initial_messages s revision st ctx recovery =
     [SystemMessage executor_instructions] @ (if recovery then [HumanMessage recovery_notice] else [])
     @ [HumanMessage (json_ascii True (request_payload s revision st)), HumanMessage (format_step_context ctx)]"

subsection \<open>Tool batches\<close>

definition with_tool_cwd :: "string option \<Rightarrow> message \<Rightarrow> message" where
  "with_tool_cwd cwd m =
     (case (cwd, m) of
        (Some dir, AIMessage c calls bad) \<Rightarrow>
          AIMessage c (map (\<lambda>call. call\<lparr>tc_args := PDict (AList.update ''cwd'' (PStr dir)
            (case as_dict (tc_args call) of None \<Rightarrow> [] | Some d \<Rightarrow> d))\<rparr>) calls) bad
      | _ \<Rightarrow> m)"

fun without_text :: "message \<Rightarrow> message" where
  "without_text (AIMessage c calls bad) = AIMessage (PStr []) calls bad"
| "without_text m = m"

definition settle_tool_batch :: "'w executor_env \<Rightarrow> 'w \<Rightarrow> message \<Rightarrow> 'w \<times> message list result" where
  "settle_tool_batch E w m =
     (case xe_tools E w m of
        (w, Inr results) \<Rightarrow> (w, Inr (map as_error_tool_message (filter is_tool_message results)))
      | (w, Inl e) \<Rightarrow>
          if is_exception e
          then (w, Inr (map (\<lambda>call. ToolMessage (PStr (''MCP tool failed: '' @ exn_str e)) (call_id call)
                  (Some (call_name call)) ''error'') (msg_calls m)))
          else (w, Inl e))"

definition record_executor_round ::
  "'w context_ops \<Rightarrow> 'w \<Rightarrow> nat \<Rightarrow> string \<Rightarrow> int \<Rightarrow> plan_step \<Rightarrow> message \<Rightarrow> message list \<Rightarrow> 'w \<times> unit result" where
  "record_executor_round P w rounds goal revision st m results =
     (case m of
        AIMessage c calls bad \<Rightarrow>
          cp_record P w rounds calls (map msg_content results) (map tool_error results)
            (observation_decision_context goal revision st) (\<exists>r\<in>set results. tool_error r \<noteq> None)
      | _ \<Rightarrow> (w, Inr ()))"

subsection \<open>The completion judge\<close>

definition without_failed_calls :: "runtime_context \<Rightarrow> runtime_context" where
  "without_failed_calls ctx = ctx\<lparr>rx_raw :=
     filter (\<lambda>item. rt_calls item \<noteq> [])
       (map (\<lambda>item. item\<lparr>rt_calls := filter (\<lambda>c. rc_error c = None) (rt_calls item)\<rparr>) (rx_raw ctx))\<rparr>"

definition completion_context_messages :: "runtime_context \<Rightarrow> message list result" where
  "completion_context_messages ctx = as_messages (without_failed_calls ctx) None [] []"

definition decode_step_judgment :: "message \<Rightarrow> ((int \<times> string) list \<times> bool) result" where
  "decode_step_judgment m =
     (if (case m of AIMessage _ calls bad \<Rightarrow> calls \<noteq> [] \<or> bad \<noteq> [] | _ \<Rightarrow> False)
      then Inl (LineProtocolError ''completion judge must not call tools'')
      else decode_step_completion_progress (message_text m) False)"

definition is_goal_layer :: "message \<Rightarrow> bool" where
  "is_goal_layer m = (case m of
       HumanMessage t \<Rightarrow> startswith t ''## Goal'' \<or> startswith t ''## Completion criteria''
     | _ \<Rightarrow> False)"

definition insert_before_goal :: "message list \<Rightarrow> message \<Rightarrow> message list" where
  "insert_before_goal messages feedback =
     takeWhile (\<lambda>m. \<not> is_goal_layer m) messages @ [feedback] @ dropWhile (\<lambda>m. \<not> is_goal_layer m) messages"

definition judge_evidence ::
  "bool \<Rightarrow> plan_step \<Rightarrow> message list \<Rightarrow> message list \<Rightarrow> message \<Rightarrow> pyval list \<Rightarrow> pyval" where
  "judge_evidence native st request snapshot resp failed =
     PDict [(''selected_step'', PDict (step_value st)),
       (''criterion_status'', PStr ''pending''),
       (''operational_request'', PList (map message_reference
          (filter (\<lambda>m. \<not> (native \<and> is_tool_message m \<and> tool_error m \<noteq> None)) request))),
       (''runtime_context_snapshot'', PList (map message_reference snapshot)),
       (''operational_response'', message_reference resp),
       (''successful_tool_results'', PList []),
       (''failed_tool_results'', PList (if native then [] else failed))]"

definition first_evidence :: "(int \<times> string) list \<times> bool \<Rightarrow> string option result" where
  "first_evidence progress =
     (if snd progress then (case fst progress of [] \<Rightarrow> Inl IndexError | (_, t) # _ \<Rightarrow> Inr (Some t)) else Inr None)"

text \<open>A provider failure of the judge, whatever its class.\<close>

definition judge_provider :: "string \<Rightarrow> 'w \<times> message result \<Rightarrow> 'w \<times> message result" where
  "judge_provider dflt r = (case r of
       (w, Inl e) \<Rightarrow> (w, Inl (if is_exception e then CompletionJudgeProviderError (or_str (Some (exn_str e)) dflt) else e))
     | _ \<Rightarrow> r)"

definition ask_step_judge :: "'w executor_env \<Rightarrow> bool \<Rightarrow> 'w \<Rightarrow> message list \<Rightarrow> 'w \<times> string option result" where
  "ask_step_judge E native w context =
     bindW (judge_provider ''provider request failed'' (executor_model_response (xe_model E) False w context)) (\<lambda>w judged.
     case bindE (decode_step_judgment judged) first_evidence of
       Inr answer \<Rightarrow> (w, Inr answer)
     | Inl e \<Rightarrow>
         if \<not> is_line_protocol_error e then (w, Inl e)
         else
           let feedback = HumanMessage (''Validation error: '' @ exn_str e @ [CHR 0x0A]
                 @ ''Rejected output (JSON-encoded): '' @ json_string (message_text judged) @ [CHR 0x0A]
                 @ ''Return the corrected STEP_COMPLETION_PROGRESS block only.'');
               repair = (if native then insert_before_goal context feedback else context @ [feedback])
           in bindW (judge_provider ''provider repair request failed''
                       (executor_model_response (xe_model E) False w repair)) (\<lambda>w repaired.
              case bindE (decode_step_judgment repaired) first_evidence of
                Inr answer \<Rightarrow> (w, Inr answer)
              | Inl e \<Rightarrow> if is_line_protocol_error e then (w, Inr None) else (w, Inl e)))"

definition native_layout :: "'w executor_env \<Rightarrow> bool" where
  "native_layout E = (case xe_context E of None \<Rightarrow> False | Some P \<Rightarrow> cp_messages P)"

definition judge_step_completion ::
  "'w executor_env \<Rightarrow> 'w \<Rightarrow> pyval \<Rightarrow> plan_step \<Rightarrow> message list \<Rightarrow> runtime_context option \<Rightarrow> message
     \<Rightarrow> pyval list \<Rightarrow> 'w \<times> string option result" where
  "judge_step_completion E w durable st request ctx resp failed =
     bindW (liftW w (case ctx of None \<Rightarrow> Inr [] | Some c \<Rightarrow> completion_context_messages c)) (\<lambda>w snapshot.
     let evidence = HumanMessage (json_dumps True
           (judge_evidence (native_layout E) st request snapshot resp failed)) in
     case xe_context E of
       Some P \<Rightarrow>
         if cp_messages P
         then bindW (if length request \<le> 1 then (w, Inl IndexError)
                     else (w, Inr [SystemMessage step_judge_instructions, request ! 1])) (\<lambda>w prefix.
              bindW (cp_maintain P w durable prefix [evidence] (Some (step_criterion_status st False))) (\<lambda>w c.
              bindW (liftW w (as_messages ((without_failed_calls c)\<lparr>rx_messages := True\<rparr>)
                        (Some (step_criterion_status st False)) prefix [evidence])) (\<lambda>w context.
              ask_step_judge E True w context)))
         else ask_step_judge E False w [SystemMessage step_judge_instructions, evidence]
     | None \<Rightarrow> ask_step_judge E False w [SystemMessage step_judge_instructions, evidence])"

subsection \<open>One operational round\<close>

record graph_result =
  gr_final :: message
  gr_error :: "string option"
  gr_evidence :: "string option"

record round_state =
  rd_messages :: "message list"
  rd_pending :: "message list"
  rd_failed :: "pyval list"

definition exhausted :: graph_result where
  "exhausted = \<lparr>gr_final = AIMessage (PStr []) [] [], gr_error = Some ''tool round budget exhausted'',
     gr_evidence = None\<rparr>"

definition round_request ::
  "'w executor_env \<Rightarrow> 'w \<Rightarrow> pyval \<Rightarrow> plan_step \<Rightarrow> round_state \<Rightarrow> 'w \<times> message list result" where
  "round_request E w durable st rs =
     (let status = step_criterion_status st False; prefix = take 2 (rd_messages rs) in
      case xe_context E of
        None \<Rightarrow> (w, Inr (rd_messages rs
                  @ [HumanMessage (''Completion criterion status:'' @ [CHR 0x0A] @ status)] @ rd_pending rs))
      | Some P \<Rightarrow>
          if cp_messages P
          then bindW (cp_maintain P (cp_use P w) durable prefix (rd_pending rs) (Some status)) (\<lambda>w c.
               liftW w (as_messages c (Some status) prefix (rd_pending rs)))
          else bindW (cp_maintain P (cp_use P w) durable [] [] None) (\<lambda>w c.
               bindW (liftW w (as_messages c (Some status) [] [])) (\<lambda>w ms.
               (w, Inr ([SystemMessage executor_instructions] @ ms @ rd_pending rs)))))"

text \<open>\<open>Inl\<close> ends the loop, \<open>Inr\<close> goes on with the next round.\<close>

definition after_batch ::
  "'w executor_env \<Rightarrow> 'w \<Rightarrow> string \<Rightarrow> int \<Rightarrow> plan_step \<Rightarrow> nat \<Rightarrow> round_state \<Rightarrow> message \<Rightarrow> message list
     \<Rightarrow> 'w \<times> (graph_result + round_state) result" where
  "after_batch E w goal revision st rounds rs m results =
     (let errors = filter (\<lambda>r. tool_error r \<noteq> None) results;
          pending = (if native_layout E then [] else errors);
          failed = rd_failed rs @ failed_tool_evidence (msg_calls m) results
      in case xe_context E of
           Some P \<Rightarrow>
             bindW (record_executor_round P w (rounds + 1) goal revision st m results) (\<lambda>w _.
             (w, Inr (Inr \<lparr>rd_messages = rd_messages rs, rd_pending = pending, rd_failed = failed\<rparr>)))
         | None \<Rightarrow>
             (w, Inr (Inr \<lparr>rd_messages = rd_messages rs @ [without_text m] @ results,
                          rd_pending = pending, rd_failed = failed\<rparr>)))"

definition tool_round ::
  "'w executor_env \<Rightarrow> 'w \<Rightarrow> string \<Rightarrow> int \<Rightarrow> plan_step \<Rightarrow> nat \<Rightarrow> round_state \<Rightarrow> message
     \<Rightarrow> 'w \<times> (graph_result + round_state) result" where
  "tool_round E w goal revision st rounds rs m =
     (if rounds \<ge> xe_max_rounds E then (w, Inr (Inl exhausted))
      else bindW (settle_tool_batch E w (without_text m)) (\<lambda>w results.
           after_batch E w goal revision st rounds rs m results))"

definition answer_round ::
  "'w executor_env \<Rightarrow> 'w \<Rightarrow> pyval \<Rightarrow> plan_step \<Rightarrow> nat \<Rightarrow> round_state \<Rightarrow> message list \<Rightarrow> message
     \<Rightarrow> 'w \<times> (graph_result + round_state) result" where
  "answer_round E w durable st rounds rs request m =
     (let go_on = (\<lambda>w feedback.
            if rounds + 1 \<ge> xe_max_rounds E then (w, Inr (Inl exhausted))
            else (w, Inr (Inr (rs\<lparr>rd_pending := [HumanMessage feedback]\<rparr>))))
      in if nonblank_str (msg_content m) = None then go_on w empty_feedback
         else
           bindW (case xe_context E of
                    None \<Rightarrow> (w, Inr None)
                  | Some P \<Rightarrow> bindW (cp_maintain P w durable [] [] None) (\<lambda>w c. (w, Inr (Some c)))) (\<lambda>w ctx.
           bindW (judge_step_completion E w durable st request ctx m (rd_failed rs)) (\<lambda>w judged.
           case judged of
             Some t \<Rightarrow> (w, Inr (Inl \<lparr>gr_final = m, gr_error = None, gr_evidence = Some t\<rparr>))
           | None \<Rightarrow> go_on w unproven_feedback)))"

definition executor_round ::
  "'w executor_env \<Rightarrow> 'w \<Rightarrow> pyval \<Rightarrow> string \<Rightarrow> int \<Rightarrow> plan_step \<Rightarrow> nat \<Rightarrow> round_state
     \<Rightarrow> 'w \<times> (graph_result + round_state) result" where
  "executor_round E w durable goal revision st rounds rs =
     bindW (round_request E w durable st rs) (\<lambda>w request.
     bindW (executor_model_response (xe_model E) True w request) (\<lambda>w m.
     let m = with_tool_cwd (xe_tool_cwd E) m in
     if msg_calls m \<noteq> [] then tool_round E w goal revision st rounds (rs\<lparr>rd_pending := []\<rparr>) m
     else answer_round E w durable st rounds (rs\<lparr>rd_pending := []\<rparr>) request m))"

text \<open>Every round that goes on uses one of the \<open>max_rounds\<close>, so the loop ends.\<close>

lemma executor_round_counts:
  "executor_round E w durable goal revision st rounds rs = (w', Inr (Inr rs')) \<Longrightarrow> rounds < xe_max_rounds E"
  unfolding executor_round_def Let_def
  by (elim bindW_InrE)
    (auto simp: tool_round_def after_batch_def answer_round_def Let_def split: if_splits option.splits)

function executor_loop ::
  "'w executor_env \<Rightarrow> pyval \<Rightarrow> string \<Rightarrow> int \<Rightarrow> plan_step \<Rightarrow> nat \<Rightarrow> 'w \<Rightarrow> round_state
     \<Rightarrow> 'w \<times> graph_result result" where
  "executor_loop E durable goal revision st rounds w rs =
     (case executor_round E w durable goal revision st rounds rs of
        (w, Inl e) \<Rightarrow> (w, Inl e)
      | (w, Inr (Inl g)) \<Rightarrow> (w, Inr g)
      | (w, Inr (Inr rs)) \<Rightarrow> executor_loop E durable goal revision st (rounds + 1) w rs)"
  by pat_completeness auto
termination
  by (relation "measure (\<lambda>(E, durable, goal, revision, st, rounds, w, rs). xe_max_rounds E - rounds)")
    (auto dest!: executor_round_counts [OF sym])

declare executor_loop.simps [simp del]

subsection \<open>One step\<close>

definition checkpoint_thread :: "'w executor_env \<Rightarrow> int \<Rightarrow> string \<Rightarrow> nat option \<Rightarrow> string option" where
  "checkpoint_thread E revision step_id attempt =
     (case (xe_thread_id E, xe_run_id E) of
        (Some t, _) \<Rightarrow> Some t
      | (None, None) \<Rightarrow> None
      | (None, Some run) \<Rightarrow>
          Some (run @ '':r'' @ show_int revision @ '':s'' @ step_id
            @ (case (case attempt of None \<Rightarrow> xe_attempt E | Some a \<Rightarrow> Some a) of
                 None \<Rightarrow> [] | Some a \<Rightarrow> '':a'' @ show_nat a)))"

definition execute_with_tools ::
  "'w executor_env \<Rightarrow> 'w \<Rightarrow> agent_state \<Rightarrow> int \<Rightarrow> plan_step \<Rightarrow> step_context \<Rightarrow> bool \<Rightarrow> nat option
     \<Rightarrow> 'w \<times> graph_result result" where
  "execute_with_tools E w s revision st ctx recovery attempt =
     bindW (xe_open_tools E w) (\<lambda>w _.
     bindW (case (xe_checkpoint E, checkpoint_thread E revision (ps_id st) attempt) of
              (Some save, Some thread) \<Rightarrow>
                bindW (liftW w (mk_step_execution revision (ps_id st) Running None None None)) (\<lambda>w e.
                save w thread e)
            | _ \<Rightarrow> (w, Inr ())) (\<lambda>w _.
     executor_loop E (durable_context_payload s revision st ctx) (as_goal s) revision st 0 w
       \<lparr>rd_messages = initial_messages s revision st ctx recovery, rd_pending = [], rd_failed = []\<rparr>))"

definition failed_step :: "int \<Rightarrow> string \<Rightarrow> string \<Rightarrow> execution_outcome result" where
  "failed_step revision step_id error =
     bindE (mk_step_execution revision step_id Failed None (Some error) None) (\<lambda>e. mk_outcome e None)"

definition complete_step :: "graph_result \<Rightarrow> int \<Rightarrow> string \<Rightarrow> execution_outcome result" where
  "complete_step g revision step_id =
     (if or_str (gr_error g) [] \<noteq> [] then failed_step revision step_id (or_str (gr_error g) [])
      else case gr_final g of
        AIMessage content calls bad \<Rightarrow>
          if calls \<noteq> [] then failed_step revision step_id ''tool round budget exhausted''
          else (case nonblank_str content of
                  None \<Rightarrow> failed_step revision step_id ''model did not return a final text response''
                | Some handoff \<Rightarrow>
                    bindE (mk_step_execution revision step_id Completed (Some handoff) None (gr_evidence g)) (\<lambda>e.
                    mk_outcome e (Some empty_context)))
      | _ \<Rightarrow> failed_step revision step_id ''model did not return a final text response'')"

text \<open>An exception of the step: it stops a checkpointed run, and fails the step otherwise.\<close>

definition step_exception :: "'w executor_env \<Rightarrow> int \<Rightarrow> string \<Rightarrow> exn \<Rightarrow> execution_outcome result" where
  "step_exception E revision step_id e =
     (if \<not> is_exception e then Inl e
      else if xe_checkpoint E \<noteq> None
      then Inl (PersistenceError ''checkpointed step execution stopped before further tool work'')
      else failed_step revision step_id (''execution failed: '' @ exn_str e))"

definition executor_execute ::
  "'w executor_env \<Rightarrow> step_context \<Rightarrow> bool \<Rightarrow> nat option \<Rightarrow> 'w executor" where
  "executor_execute E ctx recovery attempt w s revision step_id =
     (case resolve_step s revision step_id of
        None \<Rightarrow> (w, failed_step revision step_id ''unknown plan revision or step'')
      | Some st \<Rightarrow>
          (case execute_with_tools E (case xe_context E of None \<Rightarrow> w | Some P \<Rightarrow> cp_fresh P w)
                  s revision st ctx recovery attempt of
             (w, Inl (CompletionJudgeProviderError m)) \<Rightarrow>
               (w, failed_step revision step_id (''completion judge failed: '' @ m))
           | (w, Inl e) \<Rightarrow> (w, step_exception E revision step_id e)
           | (w, Inr g) \<Rightarrow>
               (w, case complete_step g revision step_id of
                     Inl e \<Rightarrow> step_exception E revision step_id e
                   | Inr oc \<Rightarrow> Inr oc)))"

end
