(* ===== verification/Planner.thy ===== *)
theory Planner
  imports Decoders Contracts
begin

section \<open>The Planner\<close>

text \<open>
  \<open>agent/planner.py\<close> with the bounded-repair request of \<open>llm/text_stream.py\<close>.  A text model is
  code outside the repository: a parameter, that either streams chunks or completes a text.
  Tracing is left out.
\<close>

subsection \<open>Structured text with one repair request\<close>

definition validation_feedback_instructions :: "string \<Rightarrow> exn \<Rightarrow> string \<Rightarrow> string" where
  "validation_feedback_instructions instructions error output =
     instructions @ [CHR 0x0A, CHR 0x0A]
     @ ''Your previous response was rejected by local validation. Return a complete ''
     @ ''replacement response that satisfies every instruction above; do not explain ''
     @ ''the correction or repeat this feedback.'' @ [CHR 0x0A]
     @ ''Validation error: '' @ exn_str error @ [CHR 0x0A]
     @ ''Previous response (JSON-encoded): '' @ json_string output"

definition validated_text ::
  "('w \<Rightarrow> string \<Rightarrow> 'w \<times> string result) \<Rightarrow> string \<Rightarrow> (string \<Rightarrow> 'a result) \<Rightarrow> 'w \<Rightarrow> 'w \<times> 'a result" where
  "validated_text request instructions validate w =
     bindW (request w instructions) (\<lambda>w output.
     case validate output of
       Inr v \<Rightarrow> (w, Inr v)
     | Inl error \<Rightarrow>
         if is_value_error error
         then bindW (request w (validation_feedback_instructions instructions error output)) (\<lambda>w output.
              (w, validate output))
         else (w, Inl error))"

subsection \<open>Planning\<close>

definition plan_instructions :: string where
  \<open>plan_instructions = join [CHR 0x0A]
    [''Return exactly one Line Protocol block, with no prose before or after it.'',
     ''Every scalar line uses exactly `FIELD=JSON_LITERAL`; do not use spaces or `:` in place of `=`.'',
     ''REVISION must be the JSON integer for this revision, and GOAL must be a JSON string.'',
     ''Each step is delimited by `BEGIN STEP` and `END STEP` and contains exactly ID, INTENT,'',
     ''and COMPLETION_CRITERION as JSON strings.'',
     '''',
     ''Examples:'',
     '''',
     ''For a one-step goal:'',
     ''BEGIN PLAN'',
     ''REVISION=1'',
     ''GOAL="Inspect the project"'',
     ''BEGIN STEP'',
     ''ID="inspect_source"'',
     ''INTENT="Locate the relevant source files"'',
     ''COMPLETION_CRITERION="Relevant source files are identified"'',
     ''END STEP'',
     ''END PLAN'',
     '''',
     ''For a goal with dependent steps:'',
     ''BEGIN PLAN'',
     ''REVISION=2'',
     ''GOAL="Prepare a release"'',
     ''BEGIN STEP'',
     ''ID="inspect_changes"'',
     ''INTENT="Review the changes included in the release"'',
     ''COMPLETION_CRITERION="Release changes and risks are listed"'',
     ''END STEP'',
     ''BEGIN STEP'',
     ''ID="write_release_notes"'',
     ''INTENT="Write release notes from the reviewed changes"'',
     ''COMPLETION_CRITERION="Release notes cover the listed changes and risks"'',
     ''END STEP'',
     ''END PLAN'',
     '''']\<close>

datatype 'w text_model =
    StreamText "'w \<Rightarrow> string \<Rightarrow> string \<Rightarrow> 'w \<times> string list result"
  | CompleteText "'w \<Rightarrow> string \<Rightarrow> string \<Rightarrow> 'w \<times> string result"

fun request_plan_text :: "'w text_model \<Rightarrow> string \<Rightarrow> 'w \<Rightarrow> string \<Rightarrow> 'w \<times> string result" where
  "request_plan_text (CompleteText f) request w instructions = f w request instructions"
| "request_plan_text (StreamText f) request w instructions =
     bindW (f w request instructions) (\<lambda>w chunks. (w, Inr (concat chunks)))"

definition payload_step :: "plan_step \<Rightarrow> pyval" where
  "payload_step st = PDict [(''id'', PStr (ps_id st)), (''intent'', PStr (ps_intent st)),
     (''completion_criterion'', PStr (ps_criterion st))]"

definition payload_plan :: "plan \<Rightarrow> pyval" where
  "payload_plan p = PDict [(''revision'', PInt (pl_revision p)), (''goal'', PStr (pl_goal p)),
     (''steps'', PList (map payload_step (pl_steps p)))]"

definition payload_execution :: "step_execution \<Rightarrow> pyval" where
  "payload_execution e = PDict [(''revision'', PInt (se_revision e)), (''step_id'', PStr (se_step_id e)),
     (''status'', PStr (status_str (se_status e))), (''result'', opt_str (se_result e)),
     (''error'', opt_str (se_error e)), (''completion_evidence'', opt_str (se_evidence e))]"

text \<open>\<open>_state_payload\<close>; the conversation input is the mapping form the durable graph hands over.\<close>

definition state_payload :: "agent_state \<Rightarrow> pyval option \<Rightarrow> pyval result" where
  "state_payload s conv =
     (let payload = [(''goal'', PStr (as_goal s)), (''memory_summary'', opt_str (as_memory s)),
            (''plan_history'', PList (map payload_plan (as_plans s))),
            (''step_executions'', PList (map payload_execution (as_execs s)))]
      in case conv of
           None \<Rightarrow> Inr (PDict payload)
         | Some c \<Rightarrow>
             bindE (get_item c ''history'') (\<lambda>history.
             bindE (get_item c ''current_input'') (\<lambda>current_input.
             bindE (iter_items history) (\<lambda>items.
             Inr (PDict (payload @ [(''conversation_input'',
               PDict [(''history'', PList items), (''current_input'', current_input)])]))))))"

definition planner_plan :: "'w text_model \<Rightarrow> pyval option \<Rightarrow> 'w planner" where
  "planner_plan model conv w s =
     (let expected_revision = int (length (as_plans s)) + 1 in
      if expected_revision > 3
      then (w, Inl (PlanningValidationError ''planning cannot exceed the three-revision goal budget''))
      else bindW (liftW w (state_payload s conv)) (\<lambda>w payload.
        case validated_text (request_plan_text model (json_dumps True payload)) plan_instructions
               (\<lambda>output. decode_plan output (as_goal s) expected_revision) w of
          (w, Inl e) \<Rightarrow> (w, Inl (if is_line_protocol_error e then PlanningValidationError (exn_str e) else e))
        | (w, Inr p) \<Rightarrow> (w, Inr p)))"

subsection \<open>The Planner keeps its contract\<close>

lemma validated_text_Inr:
  "validated_text request i validate w = (w', Inr v) \<Longrightarrow> \<exists>output. validate output = Inr v"
  by (auto simp: validated_text_def split: sum.splits if_splits)

lemma planner_plan_fresh:
  assumes "planner_plan model conv w s = (w', Inr p)"
  shows "fresh_plan s p"
proof -
  from assms obtain r w0 where "validated_text r plan_instructions
      (\<lambda>output. decode_plan output (as_goal s) (int (length (as_plans s)) + 1)) w0 = (w', Inr p)"
    by (auto simp: planner_plan_def Let_def split: if_splits prod.splits sum.splits)
  from validated_text_Inr [OF this] show ?thesis
    using decode_plan_answers by (auto simp: fresh_plan_def)
qed

interpretation codex_planner: planner_contract "planner_plan model conv" for model conv
  by unfold_locales (rule planner_plan_fresh)

text \<open>
  The Planner asks the model at most twice, and every text it rejects twice is a planning error.
\<close>

lemma planner_plan_rejects:
  assumes "planner_plan (CompleteText f) conv w s = (w', Inl e)"
    and "\<And>w request instructions. \<exists>w' t. f w request instructions = (w', Inr t)"
    and "\<exists>v. state_payload s conv = Inr v"
  shows "\<exists>m. e = PlanningValidationError m"
proof -
  obtain v where v: "state_payload s conv = Inr v" using assms(3) by blast
  have plan: "is_line_protocol_error x" if "decode_plan d g r = Inl x" for d g r x
    using only_decode_plan that by (auto simp: only_protocol_errors_def)
  have reqs: "\<exists>w'. f w request instructions = (w', Inr t)"
    if "snd (f w request instructions) = Inr t" for w request instructions t
    using that by (metis prod.collapse)
  show ?thesis
  proof (cases "int (length (as_plans s)) + 1 > 3")
    case True
    with assms(1) show ?thesis by (auto simp: planner_plan_def)
  next
    case False
    let ?v = "validated_text (request_plan_text (CompleteText f) (json_dumps True v)) plan_instructions
               (\<lambda>output. decode_plan output (as_goal s) (int (length (as_plans s)) + 1)) w"
    have "is_line_protocol_error x" if "?v = (w1, Inl x)" for w1 x
    proof -
      obtain w2 t where t: "f w (json_dumps True v) plan_instructions = (w2, Inr t)"
        using assms(2) by blast
      show ?thesis
      proof (cases "decode_plan t (as_goal s) (int (length (as_plans s)) + 1)")
        case (Inl y)
        obtain w3 t' where "f w2 (json_dumps True v) (validation_feedback_instructions plan_instructions y t) = (w3, Inr t')"
          using assms(2) by blast
        with that t Inl plan show ?thesis by (auto simp: validated_text_def split: if_splits)
      next
        case (Inr z)
        with that t show ?thesis by (simp add: validated_text_def)
      qed
    qed
    with assms(1) False v show ?thesis
      by (cases ?v; cases "snd ?v") (auto simp: planner_plan_def Let_def)
  qed
qed

end
