(* ===== verification/Runtime_Context_Correct.thy ===== *)
theory Runtime_Context_Correct
  imports Runtime_Context
begin

section \<open>What the Runtime context keeps visible\<close>

text \<open>
  The policy as a state machine: rounds are recorded and Observation tasks finish in any order.
  Evidence leaves the window only where a task for a successful call with the same id has
  been answered.
\<close>

inductive policy_step :: "policy \<Rightarrow> policy \<Rightarrow> bool" where
  recorded: "record_tool_round p round calls results errors ctx suppress = Inr (p', raw) \<Longrightarrow> policy_step p p'"
| finished: "key \<in> set (po_pending p) \<Longrightarrow> policy_step p (finish_observation key answer p)"
| used: "policy_step p (record_model_use p)"

inductive policy_reachable :: "policy \<Rightarrow> bool" where
  initial: "mk_policy budget raw_rounds messages = Inr p \<Longrightarrow> policy_reachable p"
| moved: "policy_reachable p \<Longrightarrow> policy_step p p' \<Longrightarrow> policy_reachable p'"

text \<open>A call for which an Observation task may be started.\<close>

definition observable :: "policy \<Rightarrow> int \<Rightarrow> string \<Rightarrow> bool" where
  "observable p r i \<longleftrightarrow> (\<exists>item\<in>set (po_raw p). rt_round item = r \<and> (\<exists>c\<in>set (rt_calls item).
     rc_id c = i \<and> rc_lifecycle c = ObservationOnly \<and> rc_error c = None))"

definition accounted :: "policy \<Rightarrow> bool" where
  "accounted p \<longleftrightarrow> (\<forall>r i. (r, i) \<in> set (po_pending p) \<longrightarrow> observable p r i)
     \<and> (\<forall>r i. (r, i) \<in> fst ` set (po_outcomes p) \<longrightarrow> observable p r i)
     \<and> (\<forall>i\<in>observed_call_ids (po_observations p). \<exists>r. observable p r i)"

lemma number_call_fields [simp]:
  "po_raw (number_call r ctx c p) = po_raw p" "po_pending (number_call r ctx c p) = po_pending p"
  "po_outcomes (number_call r ctx c p) = po_outcomes p"
  "po_observations (number_call r ctx c p) = po_observations p"
  by (simp_all add: number_call_def Let_def)

lemma fold_number_call [simp]:
  "po_raw (fold (number_call r ctx) cs p) = po_raw p"
  "po_pending (fold (number_call r ctx) cs p) = po_pending p"
  "po_outcomes (fold (number_call r ctx) cs p) = po_outcomes p"
  "po_observations (fold (number_call r ctx) cs p) = po_observations p"
  by (induction cs arbitrary: p) simp_all

lemma fold_start_observation:
  "po_raw (fold (start_observation r) cs p) = po_raw p
   \<and> po_observations (fold (start_observation r) cs p) = po_observations p
   \<and> set (po_pending (fold (start_observation r) cs p)) = set (po_pending p) \<union> (\<lambda>c. (r, rc_id c)) ` set cs
   \<and> fst ` set (po_outcomes (fold (start_observation r) cs p))
       = fst ` set (po_outcomes p) \<union> (\<lambda>c. (r, rc_id c)) ` set cs"
  by (induction cs arbitrary: p)
    (auto simp: start_observation_def set_outcome_def Let_def dom_update)

lemma record_tool_round_effect:
  assumes "record_tool_round p r calls results errors ctx suppress = Inr (p', raw)"
  obtains cs where "rt_round raw = r" and "po_raw p' = po_raw p @ [raw]"
    and "po_observations p' = po_observations p"
    and "set cs \<subseteq> {c \<in> set (rt_calls raw). rc_lifecycle c = ObservationOnly \<and> rc_error c = None}"
    and "set (po_pending p') = set (po_pending p) \<union> (\<lambda>c. (r, rc_id c)) ` set cs"
    and "fst ` set (po_outcomes p') = fst ` set (po_outcomes p) \<union> (\<lambda>c. (r, rc_id c)) ` set cs"
proof -
  from assms obtain raws where raw: "raw = \<lparr>rt_round = r, rt_calls = raws\<rparr>"
    and p': "p' = fold (start_observation r)
      (filter (\<lambda>c. \<not> suppress \<and> rc_lifecycle c = ObservationOnly \<and> rc_error c = None) raws)
      (fold (number_call r ctx) raws (p\<lparr>po_raw := po_raw p @ [raw], po_rounds := po_rounds p + 1\<rparr>))"
    by (auto simp: record_tool_round_def Let_def split: if_splits)
  show ?thesis
    by (rule that [of "filter (\<lambda>c. \<not> suppress \<and> rc_lifecycle c = ObservationOnly \<and> rc_error c = None) raws"])
      (use fold_start_observation [of r] in \<open>auto simp: raw p'\<close>)
qed

text \<open>An accepted Observation is about the call it was requested for.\<close>

lemma observation_attribution:
  assumes "observation_of_block b r (Some i) = Inr ob"
  shows "ob_round ob = r \<and> set (source_tool_call_ids ob) \<subseteq> {i}
     \<and> (ob_affects ob \<longleftrightarrow> ob_targets ob \<noteq> []) \<and> (ob_affects ob \<longrightarrow> source_tool_call_ids ob = [i])"
proof -
  have single: "ids = [i]" if "set ids = {i}" "distinct ids" for ids
    using distinct_card [OF that(2)] that by (cases ids; cases "tl ids") auto
  have keys: "from_keys xs = [] \<longleftrightarrow> xs = []" for xs :: "string list"
    using set_from_keys [of xs] by (metis set_empty2)
  have dist: "distinct (source_tool_call_ids ob)" by (simp add: source_tool_call_ids_def)
  have attr: "attributed x (Some i) = Inr ob \<Longrightarrow> x = ob
     \<and> (set (source_tool_call_ids ob) = {} \<or> set (source_tool_call_ids ob) = {i})
     \<and> (ob_affects ob \<longrightarrow> set (source_tool_call_ids ob) = {i})" for x
    by (auto simp: attributed_def Let_def split: if_splits)
  from assms have "\<exists>facts errs infs affects ts start fin.
     attributed \<lparr>ob_round = r, ob_facts = facts, ob_errors = errs, ob_inferences = infs,
        ob_affects = affects, ob_targets = from_keys ts, ob_start = start, ob_end = fin\<rparr> (Some i) = Inr ob
     \<and> (affects \<longleftrightarrow> ts \<noteq> [])"
    unfolding observation_of_block_def Let_def
    by (elim if_InrE bindE_InrE) (intro exI conjI, assumption, simp only: map_is_Nil_conv, argo)
  then obtain facts errs infs affects ts start fin where
    x: "attributed \<lparr>ob_round = r, ob_facts = facts, ob_errors = errs, ob_inferences = infs,
        ob_affects = affects, ob_targets = from_keys ts, ob_start = start, ob_end = fin\<rparr> (Some i) = Inr ob"
    and ts: "affects \<longleftrightarrow> ts \<noteq> []" by blast
  from attr [OF x] have ob: "ob = \<lparr>ob_round = r, ob_facts = facts, ob_errors = errs, ob_inferences = infs,
        ob_affects = affects, ob_targets = from_keys ts, ob_start = start, ob_end = fin\<rparr>"
    and ids: "set (source_tool_call_ids ob) = {} \<or> set (source_tool_call_ids ob) = {i}"
      "ob_affects ob \<longrightarrow> set (source_tool_call_ids ob) = {i}" by simp_all
  have "ob_round ob = r" "ob_affects ob = affects" "ob_targets ob = from_keys ts"
    by (simp_all only: ob observation.simps)
  moreover have "set (source_tool_call_ids ob) \<subseteq> {i}" using ids(1) by (elim disjE) simp_all
  moreover have "ob_affects ob \<longrightarrow> source_tool_call_ids ob = [i]" using ids(2) single [OF _ dist] by blast
  ultimately show ?thesis using ts keys [of ts] by simp
qed

text \<open>What a finished task changes.\<close>

lemma finish_observation_effect:
  "po_raw (finish_observation key answer p) = po_raw p
   \<and> set (po_pending (finish_observation key answer p)) \<subseteq> set (po_pending p)
   \<and> fst ` set (po_outcomes (finish_observation key answer p)) = insert key (fst ` set (po_outcomes p))
   \<and> observed_call_ids (po_observations (finish_observation key answer p))
       \<subseteq> insert (snd key) (observed_call_ids (po_observations p))"
proof -
  have ids: "set (source_tool_call_ids ob) \<subseteq> {snd key}" if "observation_result key answer = Inr ob" for ob
  proof -
    from that obtain content where "parse_observation content (fst key) (Some (snd key)) = Inr ob"
      by (auto simp: observation_result_def)
    then obtain b where "observation_of_block b (fst key) (Some (snd key)) = Inr ob"
      by (cases content) (auto simp: parse_observation_def split: sum.splits)
    then show ?thesis by (blast dest: observation_attribution)
  qed
  have shape: "\<exists>st err obs. finish_observation key answer p = set_outcome (fst key) (snd key) st err
      (p\<lparr>po_pending := remove1 key (po_pending p), po_observations := obs\<rparr>)
      \<and> observed_call_ids obs \<subseteq> insert (snd key) (observed_call_ids (po_observations p))"
  proof (cases "observation_result key answer")
    case (Inl e)
    have "\<exists>st err. finish_observation key answer p = set_outcome (fst key) (snd key) st err
        (p\<lparr>po_pending := remove1 key (po_pending p)\<rparr>)"
      using Inl by (cases e) (auto simp: finish_observation_def Let_def)
    then obtain st err where "finish_observation key answer p = set_outcome (fst key) (snd key) st err
        (p\<lparr>po_pending := remove1 key (po_pending p)\<rparr>)" by blast
    then show ?thesis by (intro exI [of _ st] exI [of _ err] exI [of _ "po_observations p"]) auto
  next
    case (Inr ob)
    let ?q = "p\<lparr>po_pending := remove1 key (po_pending p)\<rparr>"
    let ?obs = "if ob_affects ob then sort_key (observation_order ?q) (po_observations p @ [ob]) else po_observations p"
    have "finish_observation key answer p = set_outcome (fst key) (snd key) OSucceeded None
        (p\<lparr>po_pending := remove1 key (po_pending p), po_observations := ?obs\<rparr>)"
      using Inr by (simp add: finish_observation_def Let_def)
    moreover have "observed_call_ids ?obs \<subseteq> insert (snd key) (observed_call_ids (po_observations p))"
      using ids [OF Inr] by (auto simp: observed_call_ids_def)
    ultimately show ?thesis by blast
  qed
  have upd: "fst ` set (AList.update k v xs) = insert k (fst ` set xs)" for k :: "int \<times> string"
    and v :: observation_outcome and xs
    by (simp add: dom_update)
  from shape show ?thesis
    by (elim exE conjE) (simp add: set_outcome_def upd set_remove1_subset)
qed

lemma observable_mono: "set (po_raw p) \<subseteq> set (po_raw p') \<Longrightarrow> observable p r i \<Longrightarrow> observable p' r i"
  unfolding observable_def by blast

lemma accounted_step:
  assumes "accounted p" and "policy_step p p'"
  shows "accounted p'"
  using assms(2)
proof cases
  case (recorded round calls results errors ctx suppress raw)
  then obtain cs where e: "rt_round raw = round" "po_raw p' = po_raw p @ [raw]"
    "po_observations p' = po_observations p"
    "set cs \<subseteq> {c \<in> set (rt_calls raw). rc_lifecycle c = ObservationOnly \<and> rc_error c = None}"
    "set (po_pending p') = set (po_pending p) \<union> (\<lambda>c. (round, rc_id c)) ` set cs"
    "fst ` set (po_outcomes p') = fst ` set (po_outcomes p) \<union> (\<lambda>c. (round, rc_id c)) ` set cs"
    by (rule record_tool_round_effect)
  have mono: "observable p r i \<Longrightarrow> observable p' r i" for r i
    by (rule observable_mono) (auto simp: e(2))
  have new: "observable p' round (rc_id c)" if "c \<in> set cs" for c
    using that e(1,2,4) unfolding observable_def by auto
  show ?thesis
    unfolding accounted_def e(3,5,6) using assms(1) mono new unfolding accounted_def by blast
next
  case (finished key answer)
  note f = finish_observation_effect [of key answer p]
  have same: "observable p' = observable p"
    using f finished(1) by (simp add: observable_def fun_eq_iff)
  have "observable p (fst key) (snd key)"
    using assms(1) finished(2) by (auto simp: accounted_def)
  then have "observable p r i" if "(r, i) \<in> insert key (fst ` set (po_outcomes p))" for r i
    using that assms(1) unfolding accounted_def by (metis fst_conv insertE snd_conv)
  moreover have "\<exists>r. observable p r i" if "i \<in> insert (snd key) (observed_call_ids (po_observations p))" for i
    using that assms(1) \<open>observable p (fst key) (snd key)\<close> unfolding accounted_def by blast
  moreover have "observable p r i" if "(r, i) \<in> set (po_pending p)" for r i
    using that assms(1) unfolding accounted_def by auto
  ultimately show ?thesis
    unfolding accounted_def same using f finished(1) by (metis subsetD)
next
  case used
  with assms(1) show ?thesis by (simp add: accounted_def observable_def record_model_use_def)
qed

lemma accounted_reachable: "policy_reachable p \<Longrightarrow> accounted p"
proof (induction rule: policy_reachable.induct)
  case (initial budget raw_rounds messages p)
  then show ?case
    by (auto simp: mk_policy_def accounted_def observed_call_ids_def split: if_splits)
next
  case (moved p p')
  then show ?case by (auto intro: accounted_step)
qed

text \<open>
  Evidence that is not shown as raw text any more, though its lifecycle does not say so, belongs
  to an id for which a successful call was handed to the observer.
\<close>

lemma hidden_evidence:
  assumes "policy_reachable p" and "rc_lifecycle c = ObservationOnly" and "\<not> is_visible_call p r c"
  shows "\<exists>r'. observable p r' (rc_id c)"
proof -
  have acc: "accounted p" by (rule accounted_reachable [OF assms(1)])
  from assms(2,3) have "rc_id c \<in> observed_call_ids (po_observations p) \<or> rc_id c \<in> negative_call_ids p"
    by (auto simp: is_visible_call_def Let_def)
  then show ?thesis
  proof
    assume "rc_id c \<in> observed_call_ids (po_observations p)"
    with acc show ?thesis by (auto simp: accounted_def)
  next
    assume "rc_id c \<in> negative_call_ids p"
    then obtain r' oc where "((r', rc_id c), oc) \<in> set (po_outcomes p)"
      by (auto simp: negative_call_ids_def)
    then have "(r', rc_id c) \<in> fst ` set (po_outcomes p)" by force
    with acc show ?thesis unfolding accounted_def by fast
  qed
qed

text \<open>So with distinct tool-call ids a failed call is never hidden.\<close>

definition all_calls :: "policy \<Rightarrow> raw_call list" where
  "all_calls p = concat (map rt_calls (po_raw p))"

lemma failed_evidence_visible:
  assumes "policy_reachable p" and "distinct (map rc_id (all_calls p))"
    and "item \<in> set (po_raw p)" and "c \<in> set (rt_calls item)" and "rc_error c \<noteq> None"
    and "rc_lifecycle c = ObservationOnly"
  shows "is_visible_call p (rt_round item) c"
proof (rule ccontr)
  assume "\<not> is_visible_call p (rt_round item) c"
  then obtain r' where "observable p r' (rc_id c)"
    using hidden_evidence [OF assms(1,6)] by blast
  then obtain item' c' where c': "item' \<in> set (po_raw p)" "c' \<in> set (rt_calls item')" "rc_id c' = rc_id c"
    "rc_error c' = None" by (auto simp: observable_def)
  have "c \<in> set (all_calls p)" "c' \<in> set (all_calls p)"
    using assms(3,4) c' by (auto simp: all_calls_def)
  with assms(2) c'(3) have "c' = c" by (auto simp: distinct_map dest: inj_onD)
  with c'(4) assms(5) show False by simp
qed

text \<open>Evidence of the permanent class is in every window.\<close>

lemma permanent_visible: "rc_lifecycle c = PermanentRaw \<Longrightarrow> is_visible_call p r c"
  by (simp add: is_visible_call_def Let_def)

lemma assemble_shows:
  assumes "item \<in> set (po_raw p)" and "c \<in> set (rt_calls item)" and "is_visible_call p (rt_round item) c"
  shows "\<exists>shown\<in>set (rx_raw (assemble p d)). rt_round shown = rt_round item \<and> c \<in> set (rt_calls shown)"
proof -
  let ?shown = "item\<lparr>rt_calls := filter (is_visible_call p (rt_round item)) (rt_calls item)\<rparr>"
  have "?shown \<in> set (rx_raw (assemble p d))"
    using assms by (auto simp: assemble_def filter_empty_conv)
  moreover have "rt_round ?shown = rt_round item" and "c \<in> set (rt_calls ?shown)"
    using assms by simp_all
  ultimately show ?thesis by blast
qed

subsection \<open>Merging keeps sources and reaches the budget\<close>

lemma merged_observation_keeps:
  assumes "merged_observation first second content = Inr m"
  shows "set (source_tool_call_ids first) \<union> set (source_tool_call_ids second) \<subseteq> set (source_tool_call_ids m)
     \<and> ob_affects m = (ob_affects first \<or> ob_affects second)
     \<and> set (ob_targets m) = set (ob_targets first) \<union> set (ob_targets second)"
proof -
  have ids: "source_tool_call_ids (x\<lparr>ob_affects := a, ob_targets := t, ob_start := s, ob_end := e\<rparr>)
      = source_tool_call_ids x" for x a t s e by (simp add: source_tool_call_ids_def)
  from assms obtain x where "set (source_tool_call_ids first) \<union> set (source_tool_call_ids second)
      \<subseteq> set (source_tool_call_ids x)"
    and "m = x\<lparr>ob_affects := ob_affects first \<or> ob_affects second,
                 ob_targets := from_keys (ob_targets first @ ob_targets second),
                 ob_start := Some (first_round first), ob_end := Some (last_round second)\<rparr>"
    unfolding merged_observation_def
    by (elim bindE_InrE if_InrE) (rule that, erule notnotD, drule Inr_inject, erule sym)
  then show ?thesis by (simp add: ids)
qed

lemma finish_observation_budget [simp]: "po_budget (finish_observation key a p) = po_budget p"
proof (cases "observation_result key a")
  case (Inl e)
  then show ?thesis by (cases e) (simp_all add: finish_observation_def Let_def set_outcome_def)
next
  case (Inr ob)
  then show ?thesis by (simp add: finish_observation_def Let_def set_outcome_def)
qed

lemma fold_finish_budget [simp]:
  "po_budget (fold (\<lambda>(key, a). finish_observation key a) events p) = po_budget p"
  by (induction events arbitrary: p) auto

lemma maintain_step_budget: "maintain_step merge w p = ((w', p'), x) \<Longrightarrow> po_budget p' = po_budget p"
  by (auto simp: maintain_step_def Let_def split: list.splits prod.splits sum.splits)

text \<open>A returned context is the current window and fits.\<close>

lemma maintain_fits:
  assumes "maintain merge cost d w p = Some ((w', p'), Inr ctx)"
  shows "ctx = assemble p' d \<and> cost ctx \<le> po_budget p \<and> po_budget p' = po_budget p"
proof -
  have "y = ((w', p'), Inr ctx) \<longrightarrow> ctx = assemble p' d \<and> cost ctx \<le> po_budget p \<and> po_budget p' = po_budget p"
    if "maintain merge cost d w p = Some y" for y
  proof (rule maintain.raw_induct [OF _ that, where P = "\<lambda>merge cost d w p y. y = ((w', p'), Inr ctx) \<longrightarrow>
      ctx = assemble p' d \<and> cost ctx \<le> po_budget p \<and> po_budget p' = po_budget p"])
    fix rec and merge :: "'a merger" and cost d w p y
    assume 1: "\<And>merge cost d w p y. rec merge cost d w p = Some y \<Longrightarrow> y = ((w', p'), Inr ctx) \<longrightarrow>
        ctx = assemble p' d \<and> cost ctx \<le> po_budget p \<and> po_budget p' = po_budget p"
      "(let context = assemble p d in
          if cost context \<le> po_budget p then Some ((w, p), Inr context)
          else (case maintain_step merge w p of
              ((w, p), Inl e) \<Rightarrow> Some ((w, p), Inl e)
            | ((w, p), Inr _) \<Rightarrow> rec merge cost d w p)) = Some y"
    show "y = ((w', p'), Inr ctx) \<longrightarrow>
        ctx = assemble p' d \<and> cost ctx \<le> po_budget p \<and> po_budget p' = po_budget p"
    proof (cases "cost (assemble p d) \<le> po_budget p")
      case True
      with 1(2) show ?thesis by (auto simp: Let_def)
    next
      case False
      obtain w1 p1 x where x: "maintain_step merge w p = ((w1, p1), x)" by (metis prod.collapse)
      with 1(2) False 1(1) [of merge cost d w1 p1 y] maintain_step_budget [OF x] show ?thesis
        by (cases x) (auto simp: Let_def)
    qed
  qed
  with assms show ?thesis by blast
qed

text \<open>
  Maintenance ends when the merging model never repeats an Observation that is in the history
  and no Observation task finishes meanwhile.
\<close>

lemma maintain_returns:
  assumes "distinct (po_observations p)"
    and quiet: "\<And>w a b. fst (snd (merge w a b)) = []"
    and new: "\<And>w a b c m. snd (snd (merge w a b)) = Inr c \<Longrightarrow> merged_observation a b c = Inr m \<Longrightarrow> m \<notin> M"
    and "set (tl (po_observations p)) \<subseteq> M"
  shows "maintain merge cost d w p \<noteq> None"
  using assms(1,4)
proof (induction "length (po_observations p)" arbitrary: w p rule: less_induct)
  case less
  obtain w1 p1 x where x: "maintain_step merge w p = ((w1, p1), x)" by (metis prod.collapse)
  show ?case
  proof (cases x)
    case (Inl e)
    with x show ?thesis by (simp add: maintain.simps [of merge cost d w p] Let_def)
  next
    case (Inr u)
    then obtain a b os where obs: "po_observations p = a # b # os"
      using x by (auto simp: maintain_step_def split: list.splits)
    obtain w2 ans where m: "merge w a b = (w2, [], ans)" using quiet [of w a b] by (metis prod.collapse)
    have ab: "index_of a (a # b # os) = Inr 0" "index_of b (a # b # os) = Inr 1"
      using less.prems(1) obs by simp_all
    from x Inr obs m ab obtain c mo where "ans = Inr c" and mo: "merged_observation a b c = Inr mo"
      and p1: "po_observations p1 = mo # os"
      by (auto simp: maintain_step_def Let_def split: sum.splits if_splits)
    then have "mo \<notin> M" using new [of w a b c mo] m by simp
    with less.prems obs p1 have "distinct (po_observations p1)" "set (tl (po_observations p1)) \<subseteq> M"
      by auto
    moreover have "length (po_observations p1) < length (po_observations p)" using obs p1 by simp
    ultimately have "maintain merge cost d w1 p1 \<noteq> None" using less.hyps by blast
    with x Inr show ?thesis by (simp add: maintain.simps [of merge cost d w p] Let_def)
  qed
qed

end
