(* ===== verification/Executor_Correct.thy ===== *)
theory Executor_Correct
  imports Executor Planner Runtime_Context_Correct Agent_Loop
begin

section \<open>The Executor keeps its contract\<close>

lemma failed_step_settles:
  "failed_step r i m = Inr oc \<Longrightarrow> settled_outcome r i oc \<and> se_status (oc_execution oc) = Failed"
  unfolding failed_step_def
  by (elim bindE_InrE)
    (auto simp: mk_step_execution_Inr mk_outcome_def settled_outcome_def wf_outcome_def exec_key_def
      split: if_splits)

lemma empty_context_wf: "wf_context empty_context"
  by (simp add: wf_context_def empty_context_def)

lemma complete_step_settles:
  assumes "complete_step g r i = Inr oc"
  shows "settled_outcome r i oc"
proof -
  have completed: "settled_outcome r i oc"
    if "mk_step_execution r i Completed (Some t) None ev = Inr e" "mk_outcome e (Some empty_context) = Inr oc"
    for t ev e
    using that empty_context_wf
    by (auto simp: mk_step_execution_Inr mk_outcome_def settled_outcome_def wf_outcome_def exec_key_def
        split: if_splits)
  from assms show ?thesis
    unfolding complete_step_def
    by (auto dest: failed_step_settles completed split: if_splits message.splits option.splits)
qed

lemma step_exception_settles: "step_exception E r i e = Inr oc \<Longrightarrow> settled_outcome r i oc"
  by (auto simp: step_exception_def dest: failed_step_settles split: if_splits)

lemma executor_execute_settles:
  assumes "executor_execute E ctx recovery attempt w s r i = (w', Inr oc)"
  shows "settled_outcome r i oc"
proof (cases "resolve_step s r i")
  case None
  with assms show ?thesis by (auto simp: executor_execute_def dest: failed_step_settles)
next
  case (Some st)
  obtain w1 x where x: "execute_with_tools E (case xe_context E of None \<Rightarrow> w | Some P \<Rightarrow> cp_fresh P w)
      s r st ctx recovery attempt = (w1, x)" by fastforce
  show ?thesis
  proof (cases x)
    case (Inl e)
    have "failed_step r i (''completion judge failed: '' @ exn_str e) = Inr oc \<or> step_exception E r i e = Inr oc"
      using assms Some x Inl by (cases e) (simp_all add: executor_execute_def)
    then show ?thesis by (auto dest: failed_step_settles step_exception_settles)
  next
    case (Inr g)
    then show ?thesis
      using assms Some x
      by (auto simp: executor_execute_def dest: complete_step_settles step_exception_settles
          split: sum.splits)
  qed
qed

interpretation codex_executor: executor_contract "executor_execute E ctx recovery attempt"
  for E ctx recovery attempt
  by unfold_locales (rule executor_execute_settles)

interpretation codex_agent: agent_env "planner_plan model conv" "executor_execute E ctx recovery attempt"
  for model conv E ctx recovery attempt
  by unfold_locales (rule planner_plan_fresh)

subsection \<open>A completed step was accepted by the judge\<close>

text \<open>
  What a judge answer that accepts must have been: a document that decodes, without tool calls,
  to one criterion with this evidence.
\<close>

definition accepting :: "message \<Rightarrow> string \<Rightarrow> bool" where
  "accepting m t \<longleftrightarrow> (\<exists>n ps. decode_step_judgment m = Inr ((n, t) # ps, True))"

definition judge_said :: "'w executor_env \<Rightarrow> message \<Rightarrow> bool" where
  "judge_said E m \<longleftrightarrow> (\<exists>w w' ms. executor_model_response (xe_model E) False w ms = (w', Inr m))"

lemma judge_saidI: "executor_model_response (xe_model E) False w ms = (w', Inr m) \<Longrightarrow> judge_said E m"
  unfolding judge_said_def by blast

lemma first_evidence_accepts:
  "bindE (decode_step_judgment m) first_evidence = Inr (Some t) \<Longrightarrow> accepting m t"
  unfolding first_evidence_def accepting_def
  by (elim bindE_InrE) (auto split: if_splits list.splits)

lemma judge_provider_Inr [simp]: "judge_provider d r = (w, Inr m) \<longleftrightarrow> r = (w, Inr m)"
  by (cases r; cases "snd r") (auto simp: judge_provider_def)

lemma ask_step_judge_accepts:
  assumes "ask_step_judge E native w context = (w', Inr (Some t))"
  shows "\<exists>m. judge_said E m \<and> accepting m t"
proof -
  from assms obtain w1 m where m: "executor_model_response (xe_model E) False w context = (w1, Inr m)"
    and rest: "(case bindE (decode_step_judgment m) first_evidence of
       Inr answer \<Rightarrow> (w1, Inr answer)
     | Inl e \<Rightarrow>
         if \<not> is_line_protocol_error e then (w1, Inl e)
         else
           let feedback = HumanMessage (''Validation error: '' @ exn_str e @ [CHR 0x0A]
                 @ ''Rejected output (JSON-encoded): '' @ json_string (message_text m) @ [CHR 0x0A]
                 @ ''Return the corrected STEP_COMPLETION_PROGRESS block only.'');
               repair = (if native then insert_before_goal context feedback else context @ [feedback])
           in bindW (judge_provider ''provider repair request failed''
                       (executor_model_response (xe_model E) False w1 repair)) (\<lambda>w repaired.
              case bindE (decode_step_judgment repaired) first_evidence of
                Inr answer \<Rightarrow> (w, Inr answer)
              | Inl e \<Rightarrow> if is_line_protocol_error e then (w, Inr None) else (w, Inl e))) = (w', Inr (Some t))"
    unfolding ask_step_judge_def by (elim bindW_InrE) simp
  show ?thesis
  proof (cases "bindE (decode_step_judgment m) first_evidence")
    case (Inr a)
    with rest have "bindE (decode_step_judgment m) first_evidence = Inr (Some t)" by simp
    with judge_saidI [OF m] show ?thesis by (metis first_evidence_accepts)
  next
    case (Inl e)
    with rest obtain w2 m2 ms where "executor_model_response (xe_model E) False w1 ms = (w2, Inr m2)"
      and "bindE (decode_step_judgment m2) first_evidence = Inr (Some t)"
      by (auto simp: Let_def simp del: bindE.simps split: if_splits sum.splits)
    then show ?thesis by (metis judge_saidI first_evidence_accepts)
  qed
qed

lemma judge_step_completion_accepts:
  assumes "judge_step_completion E w durable st request ctx resp failed = (w', Inr (Some t))"
  shows "\<exists>m. judge_said E m \<and> accepting m t"
  using assms unfolding judge_step_completion_def Let_def
  by (auto split: option.splits if_splits dest: ask_step_judge_accepts)

lemma answer_round_result:
  assumes "answer_round E w durable st rounds rs request m = (w', Inr (Inl g))"
  shows "g = exhausted \<or> (\<exists>t j. g = \<lparr>gr_final = m, gr_error = None, gr_evidence = Some t\<rparr>
     \<and> judge_said E j \<and> accepting j t)"
proof (cases "nonblank_str (msg_content m)")
  case None
  with assms show ?thesis by (auto simp: answer_round_def Let_def split: if_splits)
next
  case (Some x)
  with assms show ?thesis
    unfolding answer_round_def Let_def
    by (auto split: option.splits if_splits dest!: judge_step_completion_accepts)
qed

definition accepted_result :: "'w executor_env \<Rightarrow> graph_result \<Rightarrow> bool" where
  "accepted_result E g \<longleftrightarrow> g = exhausted \<or> (\<exists>t j. gr_error g = None \<and> gr_evidence g = Some t
     \<and> judge_said E j \<and> accepting j t)"

lemma executor_round_accepted:
  assumes "executor_round E w durable goal revision st rounds rs = (w', Inr (Inl g))"
  shows "accepted_result E g"
proof -
  from assms obtain w1 request w2 m where
    "(if msg_calls (with_tool_cwd (xe_tool_cwd E) m) \<noteq> []
      then tool_round E w2 goal revision st rounds (rs\<lparr>rd_pending := []\<rparr>) (with_tool_cwd (xe_tool_cwd E) m)
      else answer_round E w2 durable st rounds (rs\<lparr>rd_pending := []\<rparr>) request (with_tool_cwd (xe_tool_cwd E) m))
      = (w', Inr (Inl g))"
    unfolding executor_round_def Let_def by (elim bindW_InrE) blast
  then show ?thesis
    by (auto simp: tool_round_def after_batch_def accepted_result_def Let_def split: if_splits option.splits
        dest!: answer_round_result)
qed

lemma executor_loop_accepted:
  "executor_loop E durable goal revision st rounds w rs = (w', Inr g) \<Longrightarrow> accepted_result E g"
proof (induction E durable goal revision st rounds w rs rule: executor_loop.induct)
  case (1 E durable goal revision st rounds w rs)
  obtain w1 x where x: "executor_round E w durable goal revision st rounds rs = (w1, x)" by fastforce
  with 1 show ?case
    by (cases x; cases "projr x")
      (auto simp: executor_loop.simps [of E durable goal revision st rounds w rs] dest: executor_round_accepted)
qed

lemma completed_step_judged:
  assumes "executor_execute E ctx recovery attempt w s r i = (w', Inr oc)"
    and "se_status (oc_execution oc) = Completed"
  shows "\<exists>t j. se_evidence (oc_execution oc) = Some t \<and> judge_said E j \<and> accepting j t"
proof -
  have not_failed: "\<not> failed_step r i m = Inr oc" for m
    using assms(2) failed_step_settles by fastforce
  then have no_exc: "\<not> step_exception E r i e = Inr oc" for e
    by (auto simp: step_exception_def split: if_splits)
  from assms(1) not_failed obtain st where st: "resolve_step s r i = Some st"
    by (auto simp: executor_execute_def split: option.splits)
  obtain w1 x where x: "execute_with_tools E (case xe_context E of None \<Rightarrow> w | Some P \<Rightarrow> cp_fresh P w)
      s r st ctx recovery attempt = (w1, x)" by fastforce
  obtain g where g: "x = Inr g"
  proof (cases x)
    case (Inl e)
    with assms(1) st x not_failed no_exc show ?thesis by (cases e) (simp_all add: executor_execute_def)
  qed
  with assms(1) st x no_exc have c: "complete_step g r i = Inr oc"
    by (auto simp: executor_execute_def split: sum.splits)
  from x g have "execute_with_tools E (case xe_context E of None \<Rightarrow> w | Some P \<Rightarrow> cp_fresh P w)
      s r st ctx recovery attempt = (w1, Inr g)" by simp
  then have "accepted_result E g"
    unfolding execute_with_tools_def by (elim bindW_InrE) (auto dest: executor_loop_accepted split: option.splits)
  moreover have "g \<noteq> exhausted" using c not_failed by (auto simp: complete_step_def exhausted_def or_str_def)
  moreover have "se_evidence (oc_execution oc) = gr_evidence g"
    using c not_failed unfolding complete_step_def
    by (auto simp: mk_step_execution_Inr mk_outcome_def split: if_splits message.splits option.splits)
  ultimately show ?thesis by (auto simp: accepted_result_def)
qed

subsection \<open>The tool budget\<close>

text \<open>
  A count \<open>\<phi>\<close> of the tool batches in the world: only the ToolNode adds to it, one at a time.
\<close>

definition keeps :: "('w \<Rightarrow> nat) \<Rightarrow> 'w \<Rightarrow> 'w \<times> 'a result \<Rightarrow> bool" where
  "keeps count w r \<longleftrightarrow> count (fst r) = count w"

named_theorems keeps_intros

lemma keeps_return [keeps_intros]: "keeps count w (w, x)"
  by (simp add: keeps_def)

lemma keeps_liftW [keeps_intros]: "keeps count w (liftW w x)"
  by (simp add: keeps_def liftW_def)

lemma keeps_bind [keeps_intros]:
  "keeps count w m \<Longrightarrow> (\<And>w' x. keeps count w' (f w' x)) \<Longrightarrow> keeps count w (bindW m f)"
  by (cases m; cases "snd m") (auto simp: keeps_def)

lemma keeps_judge_provider [keeps_intros]: "keeps count w r \<Longrightarrow> keeps count w (judge_provider d r)"
  by (cases r; cases "snd r") (auto simp: keeps_def judge_provider_def)

definition counts_batches :: "'w executor_env \<Rightarrow> ('w \<Rightarrow> nat) \<Rightarrow> bool" where
  "counts_batches E count \<longleftrightarrow>
     (\<forall>w m. count (fst (xe_tools E w m)) \<le> count w + 1)
     \<and> (\<forall>w. keeps count w (xe_open_tools E w))
     \<and> (\<forall>save. xe_checkpoint E = Some save \<longrightarrow> (\<forall>w thread e. keeps count w (save w thread e)))
     \<and> (\<forall>tools w ms. keeps count w (executor_model_response (xe_model E) tools w ms))
     \<and> (\<forall>P. xe_context E = Some P \<longrightarrow> (\<forall>w. count (cp_use P w) = count w) \<and> (\<forall>w. count (cp_fresh P w) = count w)
          \<and> (\<forall>w d p f s. keeps count w (cp_maintain P w d p f s))
          \<and> (\<forall>w r c vs es d b. keeps count w (cp_record P w r c vs es d b)))"

lemma keeps_ask:
  assumes "counts_batches E count"
  shows "keeps count w (ask_step_judge E native w context)"
proof -
  have m: "keeps count w (executor_model_response (xe_model E) tools w ms)" for tools w ms
    using assms by (simp add: counts_batches_def)
  show ?thesis
    unfolding ask_step_judge_def Let_def
    by (auto intro!: keeps_intros m split: sum.split)
qed

lemma keeps_judge:
  assumes "counts_batches E count"
  shows "keeps count w (judge_step_completion E w durable st request ctx resp failed)"
proof -
  have p: "keeps count w (cp_maintain P w d pr f s)" if "xe_context E = Some P" for P w d pr f s
    using assms that by (simp add: counts_batches_def)
  show ?thesis
    unfolding judge_step_completion_def Let_def
    by (auto intro!: keeps_intros keeps_ask [OF assms] p split: option.split)
qed

lemma keeps_request:
  assumes "counts_batches E count"
  shows "keeps count w (round_request E w durable st rs)"
proof -
  have p: "keeps count w (cp_maintain P (cp_use P w) d pr f s)" if "xe_context E = Some P" for P w d pr f s
    using assms that by (simp add: counts_batches_def keeps_def)
  show ?thesis
    unfolding round_request_def Let_def
    by (auto intro!: keeps_intros p split: option.split)
qed

lemma keeps_answer:
  assumes "counts_batches E count"
  shows "keeps count w (answer_round E w durable st rounds rs request m)"
proof -
  have p: "keeps count w (cp_maintain P w d pr f s)" if "xe_context E = Some P" for P w d pr f s
    using assms that by (simp add: counts_batches_def)
  show ?thesis
    unfolding answer_round_def Let_def
    by (auto intro!: keeps_intros keeps_judge [OF assms] p split: option.split)
qed

lemma tool_round_count:
  assumes "counts_batches E count"
  shows "count (fst (tool_round E w goal revision st rounds rs m))
    \<le> count w + (if rounds < xe_max_rounds E then 1 else 0)"
proof (cases "rounds < xe_max_rounds E")
  case True
  obtain w1 x where s: "settle_tool_batch E w (without_text m) = (w1, x)" by fastforce
  have "count w1 \<le> count w + 1"
  proof -
    have "count (fst (xe_tools E w (without_text m))) \<le> count w + 1"
      using assms by (simp add: counts_batches_def)
    then show ?thesis
      using s by (auto simp: settle_tool_batch_def split: prod.splits sum.splits if_splits)
  qed
  moreover have "keeps count w1 (after_batch E w1 goal revision st rounds rs m results)" for results
  proof -
    have "keeps count w (record_executor_round P w n goal revision st m results)"
      if "xe_context E = Some P" for P w n
      using assms that by (auto simp: record_executor_round_def counts_batches_def intro: keeps_intros
          split: message.split)
    then show ?thesis
      unfolding after_batch_def Let_def by (auto intro!: keeps_intros split: option.split)
  qed
  ultimately show ?thesis
    using True s by (cases x) (auto simp: tool_round_def keeps_def)
qed (simp add: tool_round_def)

lemma executor_round_count:
  assumes "counts_batches E count"
  shows "count (fst (executor_round E w durable goal revision st rounds rs))
    \<le> count w + (if rounds < xe_max_rounds E then 1 else 0)"
proof -
  obtain w1 x where x: "round_request E w durable st rs = (w1, x)" by fastforce
  with keeps_request [OF assms, of w durable st rs] have 1: "count w1 = count w" by (simp add: keeps_def)
  show ?thesis
  proof (cases x)
    case (Inr request)
    obtain w2 y where y: "executor_model_response (xe_model E) True w1 request = (w2, y)" by fastforce
    have "keeps count w1 (executor_model_response (xe_model E) True w1 request)"
      using assms by (simp add: counts_batches_def)
    with y 1 have 2: "count w2 = count w" by (simp add: keeps_def)
    show ?thesis
    proof (cases y)
      case (Inr m)
      let ?m = "with_tool_cwd (xe_tool_cwd E) m" and ?rs = "rs\<lparr>rd_pending := []\<rparr>"
      have "executor_round E w durable goal revision st rounds rs =
        (if msg_calls ?m \<noteq> [] then tool_round E w2 goal revision st rounds ?rs ?m
         else answer_round E w2 durable st rounds ?rs request ?m)"
        using x y Inr \<open>x = Inr request\<close> by (simp add: executor_round_def Let_def)
      then show ?thesis
        using 2 tool_round_count [OF assms, of w2 goal revision st rounds ?rs ?m]
          keeps_answer [OF assms, of w2 durable st rounds ?rs request ?m]
        by (auto simp: keeps_def split: if_splits)
    qed (use x y Inr 2 in \<open>simp add: executor_round_def\<close>)
  qed (use x 1 in \<open>simp add: executor_round_def\<close>)
qed

lemma executor_loop_count:
  assumes "counts_batches E count"
  shows "count (fst (executor_loop E durable goal revision st rounds w rs))
    \<le> count w + (xe_max_rounds E - rounds)"
  using assms
proof (induction E durable goal revision st rounds w rs rule: executor_loop.induct)
  case (1 E durable goal revision st rounds w rs)
  obtain w1 x where x: "executor_round E w durable goal revision st rounds rs = (w1, x)" by fastforce
  have c: "count w1 \<le> count w + (if rounds < xe_max_rounds E then 1 else 0)"
    using executor_round_count [OF 1(2), of w durable goal revision st rounds rs] x by simp
  note unfold = executor_loop.simps [of E durable goal revision st rounds w rs]
  show ?case
  proof (cases "\<exists>rs'. x = Inr (Inr rs')")
    case True
    then obtain rs' where rs': "x = Inr (Inr rs')" by blast
    with x have "rounds < xe_max_rounds E" by (auto dest: executor_round_counts)
    moreover have "count (fst (executor_loop E durable goal revision st (rounds + 1) w1 rs'))
        \<le> count w1 + (xe_max_rounds E - (rounds + 1))"
      using 1(1) [OF x [symmetric] rs' _ 1(2)] by simp
    ultimately show ?thesis using c x rs' unfold by simp
  next
    case False
    then have "fst (executor_loop E durable goal revision st rounds w rs) = w1"
      using x unfold by (auto split: sum.splits)
    with c show ?thesis by (auto split: if_splits)
  qed
qed

lemma keeps_start:
  assumes "keeps count w m" and "\<And>w' x. count w' = count w \<Longrightarrow> count (fst (f w' x)) \<le> count w + n"
  shows "count (fst (bindW m f)) \<le> count w + n"
  using assms by (cases m; cases "snd m") (auto simp: keeps_def)

lemma executor_execute_count:
  assumes "counts_batches E count"
  shows "count (fst (executor_execute E ctx recovery attempt w s r i)) \<le> count w + xe_max_rounds E"
proof (cases "resolve_step s r i")
  case (Some st)
  let ?w = "case xe_context E of None \<Rightarrow> w | Some P \<Rightarrow> cp_fresh P w"
  have w: "count ?w = count w" using assms by (simp add: counts_batches_def split: option.split)
  have o: "keeps count ?w (xe_open_tools E ?w)" using assms by (simp add: counts_batches_def)
  have save: "keeps count v (case (xe_checkpoint E, thread) of
       (Some save, Some thread) \<Rightarrow>
         bindW (liftW v (mk_step_execution r (ps_id st) Running None None None)) (\<lambda>w e. save w thread e)
     | _ \<Rightarrow> (v, Inr ()))" for v thread
    using assms by (auto simp: counts_batches_def intro!: keeps_intros split: option.split)
  have "count (fst (execute_with_tools E ?w s r st ctx recovery attempt)) \<le> count ?w + xe_max_rounds E"
    unfolding execute_with_tools_def
  proof (rule keeps_start [OF o])
    fix v x
    assume v: "count v = count ?w"
    show "count (fst (bindW (case (xe_checkpoint E, checkpoint_thread E r (ps_id st) attempt) of
         (Some save, Some thread) \<Rightarrow>
           bindW (liftW v (mk_step_execution r (ps_id st) Running None None None)) (\<lambda>w e. save w thread e)
       | _ \<Rightarrow> (v, Inr ())) (\<lambda>w _. executor_loop E (durable_context_payload s r st ctx) (as_goal s) r st 0 w
       \<lparr>rd_messages = initial_messages s r st ctx recovery, rd_pending = [], rd_failed = []\<rparr>)))
     \<le> count ?w + xe_max_rounds E"
      unfolding v [symmetric]
    proof (rule keeps_start [OF save])
      fix u y
      assume "count u = count v"
      then show "count (fst (executor_loop E (durable_context_payload s r st ctx) (as_goal s) r st 0 u
         \<lparr>rd_messages = initial_messages s r st ctx recovery, rd_pending = [], rd_failed = []\<rparr>))
        \<le> count v + xe_max_rounds E"
        by (metis executor_loop_count [OF assms] diff_zero)
    qed
  qed
  moreover have "fst (executor_execute E ctx recovery attempt w s r i) =
      fst (execute_with_tools E ?w s r st ctx recovery attempt)"
    using Some by (auto simp: executor_execute_def split: prod.split sum.split exn.split)
  ultimately show ?thesis using w by simp
qed (simp add: executor_execute_def)

end
