(* ===== verification/Recovery_Correct.thy ===== *)
theory Recovery_Correct
  imports Recovery
begin

section \<open>The recovery stores: one contract, two implementations\<close>

text \<open>
  The contract of a recovery store is its log of attempts: recording appends one attempt whose
  number is fixed by the log, and restoring is the projection \<open>mem_restore\<close> of the log.  The
  in-memory list satisfies it as it is; the MySQL table satisfies it through \<open>row_abs\<close>.
\<close>

definition wf_attempt :: "recovery_attempt \<Rightarrow> bool" where
  "wf_attempt a \<longleftrightarrow> wf_exec (ra_execution a) \<and> durable_evidence (ra_execution a) = ra_execution a
     \<and> exec_key (ra_execution a) = attempt_key a
     \<and> (\<forall>c. ra_context a = Some c \<longrightarrow> wf_context c)"

text \<open>The attempts of one step of one run are numbered \<open>1, 2, ...\<close> without a gap.\<close>

definition step_log :: "recovery_attempt list \<Rightarrow> string \<Rightarrow> int \<times> string \<Rightarrow> recovery_attempt list" where
  "step_log log run_id key = filter (\<lambda>a. ra_run_id a = run_id \<and> attempt_key a = key) log"

definition gap_free :: "nat list \<Rightarrow> bool" where
  "gap_free ns \<longleftrightarrow> (ns \<noteq> [] \<longrightarrow> set ns = {1..last ns})"

definition wf_log :: "recovery_attempt list \<Rightarrow> bool" where
  "wf_log log \<longleftrightarrow> (\<forall>a\<in>set log. wf_attempt a)
     \<and> (\<forall>run_id key. gap_free (map ra_attempt (step_log log run_id key)))"

lemma wf_log_gap_free: "wf_log log \<Longrightarrow> gap_free (map ra_attempt (step_log log run_id key))"
  unfolding wf_log_def by blast

definition new_attempt ::
  "recovery_attempt list \<Rightarrow> string \<Rightarrow> step_execution \<Rightarrow> step_context option \<Rightarrow> bool \<Rightarrow> int
     \<Rightarrow> recovery_attempt" where
  "new_attempt log run_id e ctx recovery version =
     \<lparr>ra_run_id = run_id, ra_revision = se_revision e, ra_step_id = se_step_id e,
      ra_attempt = (let prior = step_log log run_id (exec_key e) in
         if prior = [] then 1
         else if unsettled (se_status (ra_execution (last prior))) then ra_attempt (last prior)
         else ra_attempt (last prior) + 1),
      ra_execution = durable_evidence e, ra_context = ctx, ra_recovery = recovery,
      ra_version = version\<rparr>"

locale recovery_store =
  fixes record_op :: "'st \<Rightarrow> string \<Rightarrow> step_execution \<Rightarrow> step_context option \<Rightarrow> bool \<Rightarrow> int
      \<Rightarrow> ('st \<times> recovery_attempt) result"
    and restore_op :: "'st \<Rightarrow> string \<Rightarrow> int \<Rightarrow> recovery_snapshot result"
    and log :: "'st \<Rightarrow> recovery_attempt list"
    and inv :: "'st \<Rightarrow> bool"
  assumes inv_log: "inv st \<Longrightarrow> wf_log (log st)"
    and record_log: "inv st \<Longrightarrow> wf_exec e \<Longrightarrow> (\<And>c. ctx = Some c \<Longrightarrow> wf_context c) \<Longrightarrow>
      record_op st run_id e ctx recovery version = Inr (st', a) \<Longrightarrow>
      inv st' \<and> a = new_attempt (log st) run_id e ctx recovery version \<and> log st' = log st @ [a]"
    and restore_log: "inv st \<Longrightarrow> restore_op st run_id version = mem_restore (log st) run_id version"

subsection \<open>The log\<close>

lemma prior_attempts_step_log: "prior_attempts log run_id e = step_log log run_id (exec_key e)"
  by (simp add: prior_attempts_def step_log_def)

lemma step_log_append:
  "step_log (log @ [a]) run_id key =
     step_log log run_id key @ (if ra_run_id a = run_id \<and> attempt_key a = key then [a] else [])"
  by (simp add: step_log_def)

lemma mem_attempt_number_conv:
  assumes "gap_free (map ra_attempt prior)"
  shows "mem_attempt_number prior =
    (if prior = [] then 1
     else if unsettled (se_status (ra_execution (last prior))) then ra_attempt (last prior)
     else ra_attempt (last prior) + 1)"
proof (cases "prior = []")
  case False
  then have "ra_attempt ` set prior = {1..ra_attempt (last prior)}"
    using assms by (simp add: gap_free_def last_map)
  with False show ?thesis by (simp add: mem_attempt_number_def)
qed (simp add: mem_attempt_number_def)

lemma new_attempt_simps [simp]:
  "ra_run_id (new_attempt log run_id e ctx rc v) = run_id"
  "attempt_key (new_attempt log run_id e ctx rc v) = exec_key e"
  "ra_execution (new_attempt log run_id e ctx rc v) = durable_evidence e"
  "ra_version (new_attempt log run_id e ctx rc v) = v"
  "ra_context (new_attempt log run_id e ctx rc v) = ctx"
  "ra_recovery (new_attempt log run_id e ctx rc v) = rc"
  by (simp_all add: new_attempt_def attempt_key_def exec_key_def)

lemma durable_evidence_idem [simp]: "durable_evidence (durable_evidence e) = durable_evidence e"
  by (simp add: durable_evidence_def)

lemma wf_log_append:
  assumes "wf_log log" and "wf_exec e" and "\<And>c. ctx = Some c \<Longrightarrow> wf_context c"
  shows "wf_log (log @ [new_attempt log run_id e ctx rc v])"
proof -
  let ?a = "new_attempt log run_id e ctx rc v"
  have "wf_attempt ?a" using assms by (simp add: wf_attempt_def wf_exec_durable)
  moreover have "gap_free (map ra_attempt (step_log (log @ [?a]) r k))" for r k
  proof (cases "r = run_id \<and> k = exec_key e")
    case False
    then have "step_log (log @ [?a]) r k = step_log log r k" by (auto simp: step_log_append)
    then show ?thesis using wf_log_gap_free [OF assms(1)] by simp
  next
    case True
    let ?prior = "step_log log run_id (exec_key e)"
    have g: "gap_free (map ra_attempt ?prior)" by (rule wf_log_gap_free [OF assms(1)])
    have l: "step_log (log @ [?a]) r k = ?prior @ [?a]" using True by (simp add: step_log_append)
    show ?thesis
    proof (cases "?prior = []")
      case True
      with l show ?thesis by (simp add: gap_free_def new_attempt_def)
    next
      case False
      with g have "ra_attempt ` set ?prior = {1..ra_attempt (last ?prior)}"
        by (simp add: gap_free_def last_map)
      moreover have "ra_attempt (last ?prior) \<in> {1..ra_attempt (last ?prior)}"
        using calculation False by (metis imageI last_in_set)
      ultimately show ?thesis
        using False l by (auto simp: gap_free_def new_attempt_def Let_def)
    qed
  qed
  moreover have "\<forall>a\<in>set log. wf_attempt a" using assms(1) unfolding wf_log_def by blast
  ultimately show ?thesis unfolding wf_log_def by auto
qed

lemma mem_record_conv:
  assumes "wf_log log" and "wf_exec e"
  shows "mem_record log run_id e ctx rc v =
    Inr (log @ [new_attempt log run_id e ctx rc v], new_attempt log run_id e ctx rc v)"
proof -
  have "gap_free (map ra_attempt (step_log log run_id (exec_key e)))"
    by (rule wf_log_gap_free [OF assms(1)])
  from mem_attempt_number_conv [OF this] show ?thesis
    using assms(2)
    by (simp add: mem_record_def durable_execution_conv prior_attempts_step_log new_attempt_def
        Let_def durable_evidence_def)
qed

subsection \<open>Both stores keep the contract\<close>

interpretation mem_store: recovery_store mem_record mem_restore "\<lambda>log. log" wf_log
  by unfold_locales (auto simp: mem_record_conv wf_log_append)

definition row_execution :: "recovery_row \<Rightarrow> step_execution" where
  "row_execution r = \<lparr>se_revision = rr_revision r, se_step_id = rr_step_id r,
     se_status = rr_status r, se_result = rr_result r, se_error = rr_error r,
     se_evidence = rr_evidence r\<rparr>"

definition row_abs :: "recovery_row \<Rightarrow> recovery_attempt" where
  "row_abs r = \<lparr>ra_run_id = rr_run_id r, ra_revision = rr_revision r, ra_step_id = rr_step_id r,
     ra_attempt = rr_attempt r, ra_execution = durable_evidence (row_execution r),
     ra_context = rr_context r, ra_recovery = rr_recovery r, ra_version = rr_version r\<rparr>"

definition wf_table :: "recovery_row list \<Rightarrow> bool" where
  "wf_table table \<longleftrightarrow> (\<forall>r\<in>set table. wf_exec (row_execution r)) \<and> wf_log (map row_abs table)"

lemma row_to_attempt_conv: "wf_exec (row_execution r) \<Longrightarrow> row_to_attempt r = Inr (row_abs r)"
proof -
  assume wf: "wf_exec (row_execution r)"
  then have "mk_step_execution (rr_revision r) (rr_step_id r) (rr_status r) (rr_result r)
      (rr_error r) (rr_evidence r) = Inr (row_execution r)"
    by (simp add: mk_step_execution_Inr row_execution_def)
  with wf show ?thesis by (simp add: row_to_attempt_def row_abs_def durable_execution_conv)
qed

lemma latest_row_abs:
  "map_option row_abs (latest_row table run_id r i) =
     (let prior = step_log (map row_abs table) run_id (r, i) in
      if prior = [] then None else Some (last prior))"
proof -
  let ?p = "\<lambda>x. rr_run_id x = run_id \<and> rr_revision x = r \<and> rr_step_id x = i"
  have f: "step_log (map row_abs table) run_id (r, i) = map row_abs (filter ?p table)"
    by (simp add: step_log_def filter_map comp_def attempt_key_def row_abs_def)
  have "latest_row table run_id r i = (if filter ?p table = [] then None
      else Some (last (filter ?p table)))"
    by (simp add: latest_row_def find_cong_filter rev_filter [symmetric] last_rev
        split: list.split)
  then show ?thesis by (simp add: f last_map Let_def)
qed

lemma unsettled_durable [simp]: "se_status (durable_evidence e) = se_status e"
  by (simp add: durable_evidence_def)

lemma sql_attempt_number_conv:
  "sql_attempt_number (latest_row table run_id r i) =
    (let prior = step_log (map row_abs table) run_id (r, i) in
     if prior = [] then 1
     else if unsettled (se_status (ra_execution (last prior))) then ra_attempt (last prior)
     else ra_attempt (last prior) + 1)"
proof (cases "latest_row table run_id r i")
  case None
  with latest_row_abs [of table run_id r i] show ?thesis
    by (simp add: sql_attempt_number_def Let_def split: if_splits)
next
  case (Some x)
  with latest_row_abs [of table run_id r i]
  have "step_log (map row_abs table) run_id (r, i) \<noteq> []"
    and "last (step_log (map row_abs table) run_id (r, i)) = row_abs x"
    by (auto simp: Let_def split: if_splits)
  with Some show ?thesis
    by (simp add: sql_attempt_number_def row_abs_def row_execution_def Let_def)
qed

lemma sql_record_refines:
  assumes "wf_table table" and "wf_exec e" and "\<And>c. ctx = Some c \<Longrightarrow> wf_context c"
    and "sql_record table run_id e ctx rc v = Inr (table', a)"
  shows "wf_table table' \<and> a = new_attempt (map row_abs table) run_id e ctx rc v
     \<and> map row_abs table' = map row_abs table @ [a]"
proof -
  define row where "row = \<lparr>rr_run_id = run_id, rr_revision = se_revision e, rr_step_id = se_step_id e,
      rr_attempt = sql_attempt_number (latest_row table run_id (se_revision e) (se_step_id e)),
      rr_status = se_status e, rr_result = se_result e, rr_error = se_error e,
      rr_evidence = se_evidence (durable_evidence e), rr_context = ctx, rr_recovery = rc,
      rr_version = v\<rparr>"
  have ex: "row_execution row = durable_evidence e"
    by (cases e) (simp add: row_execution_def row_def durable_evidence_def)
  have a: "row_abs row = new_attempt (map row_abs table) run_id e ctx rc v"
    by (simp add: row_abs_def ex) (simp add: row_def new_attempt_def sql_attempt_number_conv exec_key_def)
  have "table' = table @ [row]" and a': "a = row_abs row"
    using assms(2,4) by (auto simp: sql_record_def insert_row_def durable_execution_conv row_def
        row_abs_def row_execution_def durable_evidence_def Let_def split: if_splits)
  moreover have "wf_exec (row_execution row)" using ex assms(2) by (simp add: wf_exec_durable)
  moreover have "wf_log (map row_abs table @ [row_abs row])"
    unfolding a using assms(1-3) by (intro wf_log_append) (simp_all add: wf_table_def)
  ultimately show ?thesis using assms(1) a by (simp add: wf_table_def)
qed

lemma mapE_Inr_map: "(\<And>x. x \<in> set xs \<Longrightarrow> f x = Inr (g x)) \<Longrightarrow> mapE f xs = Inr (map g xs)"
  by (induction xs) auto

lemma map_sort_key: "(\<And>x. g (h x) = f x) \<Longrightarrow> map h (sort_key f xs) = sort_key g (map h xs)"
proof (induction xs)
  case (Cons x xs)
  have ins: "map h (insort_key f x ys) = insort_key g (h x) (map h ys)" for ys
    using Cons.prems by (induction ys) auto
  show ?case using Cons by (simp add: ins)
qed simp

lemma snapshot_Nil: "snapshot [] v = Inr \<lparr>rs_attempts = [], rs_latest = [], rs_context = empty_context,
    rs_version = v\<rparr>"
  by (simp add: snapshot_def mk_step_context_def context_observations_def empty_context_def)

lemma sql_restore_refines:
  assumes "wf_table table"
  shows "sql_restore table run_id v = mem_restore (map row_abs table) run_id v"
proof -
  let ?rows = "sort_key rr_version (filter (\<lambda>r. rr_run_id r = run_id) table)"
  have "mapE row_to_attempt ?rows = Inr (map row_abs ?rows)"
    using assms by (intro mapE_Inr_map row_to_attempt_conv) (auto simp: wf_table_def)
  moreover have "map row_abs ?rows =
      sort_key ra_version (filter (\<lambda>a. ra_run_id a = run_id) (map row_abs table))"
    by (subst map_sort_key [of ra_version row_abs rr_version])
      (simp_all add: row_abs_def filter_map comp_def)
  ultimately show ?thesis
    by (simp add: sql_restore_def mem_restore_def Let_def snapshot_Nil)
qed

interpretation sql_store: recovery_store sql_record sql_restore "map row_abs" wf_table
proof unfold_locales
  fix table run_id e ctx rc v table' a
  assume "wf_table table" and "wf_exec e" and "\<And>c. ctx = Some c \<Longrightarrow> wf_context c"
    and "sql_record table run_id e ctx rc v = Inr (table', a)"
  then show "wf_table table' \<and> a = new_attempt (map row_abs table) run_id e ctx rc v
     \<and> map row_abs table' = map row_abs table @ [a]"
    by (rule sql_record_refines)
qed (simp_all add: sql_restore_refines wf_table_def)

subsection \<open>What a restored snapshot says\<close>

definition trusted :: "(step_context \<Rightarrow> string list) \<Rightarrow> recovery_attempt list \<Rightarrow> string set" where
  "trusted part attempts =
     {v. \<exists>a\<in>set attempts. \<exists>c. se_status (ra_execution a) = Completed \<and> ra_context a = Some c
         \<and> v \<in> set (part c)}"

lemma trusted_Nil [simp]: "trusted part [] = {}"
  by (simp add: trusted_def)

lemma trusted_snoc:
  "trusted part (xs @ [a]) = trusted part xs \<union>
     (case ra_context a of None \<Rightarrow> {}
      | Some c \<Rightarrow> if se_status (ra_execution a) = Completed then set (part c) else {})"
  by (auto simp: trusted_def split: option.splits)

lemma snapshot_fold:
  "\<exists>latest ctx. fold snapshot_step attempts ([], empty_context) = (latest, ctx)
     \<and> map_of latest = (\<lambda>k. map_option ra_execution
          (List.find (\<lambda>a. attempt_key a = k) (rev attempts)))
     \<and> set (sc_files_read ctx) = trusted sc_files_read attempts
     \<and> set (sc_files_modified ctx) = trusted sc_files_modified attempts
     \<and> set (sc_observations ctx) = trusted sc_observations attempts"
proof (induction attempts rule: rev_induct)
  case Nil
  show ?case by (simp add: empty_context_def)
next
  case (snoc a xs)
  then obtain latest ctx where *: "fold snapshot_step xs ([], empty_context) = (latest, ctx)"
    "map_of latest = (\<lambda>k. map_option ra_execution (List.find (\<lambda>a. attempt_key a = k) (rev xs)))"
    "set (sc_files_read ctx) = trusted sc_files_read xs"
    "set (sc_files_modified ctx) = trusted sc_files_modified xs"
    "set (sc_observations ctx) = trusted sc_observations xs" by blast
  have m: "map_of (AList.update (attempt_key a) (ra_execution a) latest) =
      (\<lambda>k. map_option ra_execution (List.find (\<lambda>a. attempt_key a = k) (rev (xs @ [a]))))"
    by (rule ext) (simp add: update_conv' *(2))
  show ?case
    using * m by (auto simp: trusted_snoc split: option.splits)
qed

lemma snapshot_latest_keys:
  "(\<And>a. a \<in> set attempts \<Longrightarrow> exec_key (ra_execution a) = attempt_key a) \<Longrightarrow>
   fold snapshot_step attempts ([], empty_context) = (latest, ctx) \<Longrightarrow>
   distinct (map fst latest) \<and> (\<forall>(k, e)\<in>set latest. exec_key e = k)"
proof (induction attempts arbitrary: latest ctx rule: rev_induct)
  case (snoc a xs)
  obtain l c where lc: "fold snapshot_step xs ([], empty_context) = (l, c)" by fastforce
  with snoc have IH: "distinct (map fst l) \<and> (\<forall>(k, e)\<in>set l. exec_key e = k)" by simp
  have "latest = AList.update (attempt_key a) (ra_execution a) l" using snoc.prems(2) lc by simp
  moreover have "set (AList.update k v l) \<subseteq> insert (k, v) (set l)" for k v
    by (induction l) auto
  ultimately show ?case using IH snoc.prems(1) [of a] by (fastforce simp: distinct_update)
qed simp

lemma find_exec_latest:
  "(\<forall>(k, e)\<in>set latest. exec_key e = k) \<Longrightarrow>
   List.find (\<lambda>e. exec_key e = key) (map snd latest) = map_of latest key"
  by (induction latest) auto

lemma wf_context_trusted:
  "wf_context c \<longleftrightarrow> (\<forall>v. (v \<in> set (sc_files_read c) \<or> v \<in> set (sc_files_modified c)) \<longrightarrow>
       v \<noteq> [] \<and> \<not> unsafe_path v) \<and> (\<forall>v. v \<in> set (sc_observations c) \<longrightarrow> \<not> blank v)"
  by (auto simp: wf_context_def)

lemma snapshot_spec:
  assumes "\<forall>a\<in>set attempts. wf_attempt a"
  obtains snap where "snapshot attempts v = Inr snap" and "rs_attempts snap = attempts"
    and "rs_version snap = v"
    and "\<And>key. List.find (\<lambda>e. exec_key e = key) (rs_latest snap) =
          map_option ra_execution (List.find (\<lambda>a. attempt_key a = key) (rev attempts))"
    and "set (sc_files_read (rs_context snap)) = trusted sc_files_read attempts"
    and "set (sc_files_modified (rs_context snap)) = trusted sc_files_modified attempts"
    and "set (sc_observations (rs_context snap)) = trusted sc_observations attempts"
proof -
  obtain latest ctx where f: "fold snapshot_step attempts ([], empty_context) = (latest, ctx)"
    and m: "map_of latest = (\<lambda>k. map_option ra_execution
          (List.find (\<lambda>a. attempt_key a = k) (rev attempts)))"
    and c: "set (sc_files_read ctx) = trusted sc_files_read attempts"
      "set (sc_files_modified ctx) = trusted sc_files_modified attempts"
      "set (sc_observations ctx) = trusted sc_observations attempts"
    using snapshot_fold [of attempts] by blast
  have "wf_context ctx"
    using assms c by (auto simp: wf_context_trusted trusted_def wf_attempt_def)
  then have "mk_step_context (sc_files_read ctx) (sc_files_modified ctx) (sc_observations ctx) = Inr ctx"
    by (simp add: mk_step_context_Inr)
  then have s: "snapshot attempts v = Inr \<lparr>rs_attempts = attempts, rs_latest = map snd latest,
      rs_context = ctx, rs_version = v\<rparr>"
    by (simp add: snapshot_def f)
  have k: "\<forall>(k, e)\<in>set latest. exec_key e = k"
    using snapshot_latest_keys [OF _ f] assms by (auto simp: wf_attempt_def)
  show ?thesis
    by (rule that [OF s]) (simp_all add: find_exec_latest [OF k] m c)
qed

lemma insort_key_snoc: "f x \<le> f a \<Longrightarrow> insort_key f x (ys @ [a]) = insort_key f x ys @ [a]"
  by (induction ys) auto

lemma sort_key_snoc: "\<forall>x\<in>set xs. f x \<le> f a \<Longrightarrow> sort_key f (xs @ [a]) = sort_key f xs @ [a]"
  by (induction xs) (auto simp: insort_key_snoc)

context recovery_store
begin

text \<open>
  Recording at a version no older than the run's last one and restoring at that version gives
  a snapshot that ends in the recorded attempt and has the recorded execution as the latest of
  its step; restoring at any other version is refused.
\<close>

lemma restore_after_record:
  assumes "inv st" and "wf_exec e" and "\<And>c. ctx = Some c \<Longrightarrow> wf_context c"
    and "record_op st run_id e ctx rc v = Inr (st', a)"
    and "\<forall>b\<in>set (log st). ra_run_id b = run_id \<longrightarrow> ra_version b \<le> v"
  shows "\<exists>snap. restore_op st' run_id v = Inr snap \<and> rs_attempts snap \<noteq> []
     \<and> last (rs_attempts snap) = a
     \<and> List.find (\<lambda>x. exec_key x = exec_key e) (rs_latest snap) = Some (durable_evidence e)
     \<and> set (sc_files_read (rs_context snap)) = trusted sc_files_read (rs_attempts snap)"
    and "v' \<noteq> v \<Longrightarrow> restore_op st' run_id v' = Inl (PersistenceVersionMismatchError
      ''checkpoint and recovery records have no common persistence version'')"
proof -
  note r = record_log [OF assms(1-4)]
  then have a: "a = new_attempt (log st) run_id e ctx rc v" and i: "inv st'"
    and l: "log st' = log st @ [a]" by blast+
  let ?as = "sort_key ra_version (filter (\<lambda>b. ra_run_id b = run_id) (log st))"
  have s: "sort_key ra_version (filter (\<lambda>b. ra_run_id b = run_id) (log st')) = ?as @ [a]"
    using assms(5) by (simp add: l a sort_key_snoc)
  have wf: "\<forall>b\<in>set (?as @ [a]). wf_attempt b"
    using inv_log [OF i] s [symmetric] by (auto simp: wf_log_def)
  obtain snap where sn: "snapshot (?as @ [a]) v = Inr snap" "rs_attempts snap = ?as @ [a]"
    "List.find (\<lambda>x. exec_key x = exec_key e) (rs_latest snap) =
          map_option ra_execution (List.find (\<lambda>b. attempt_key b = exec_key e) (rev (?as @ [a])))"
    "set (sc_files_read (rs_context snap)) = trusted sc_files_read (?as @ [a])"
    by (rule snapshot_spec [OF wf, of v]) blast
  have ver: "ra_version a = v" and key: "attempt_key a = exec_key e"
    and ex: "ra_execution a = durable_evidence e" by (simp_all add: a)
  have rs: "restore_op st' run_id v' = (if v' = v then Inr snap
      else Inl (PersistenceVersionMismatchError
        ''checkpoint and recovery records have no common persistence version''))" for v'
    using sn(1) by (simp add: restore_log [OF i] mem_restore_def s ver Let_def)
  show "\<exists>snap. restore_op st' run_id v = Inr snap \<and> rs_attempts snap \<noteq> []
     \<and> last (rs_attempts snap) = a
     \<and> List.find (\<lambda>x. exec_key x = exec_key e) (rs_latest snap) = Some (durable_evidence e)
     \<and> set (sc_files_read (rs_context snap)) = trusted sc_files_read (rs_attempts snap)"
    using sn rs [of v] key ex by simp
  show "v' \<noteq> v \<Longrightarrow> restore_op st' run_id v' = Inl (PersistenceVersionMismatchError
      ''checkpoint and recovery records have no common persistence version'')"
    using rs [of v'] by simp
qed

end

end
