(* ===== verification/Durable_System.thy ===== *)
theory Durable_System
  imports Durable_Correct Executor_Correct Recovery_Correct
begin

section \<open>The durable agent assembled from its components\<close>

text \<open>
  The \<open>DurableAgent\<close> of \<open>agent/durable.py\<close> with the modelled Planner, Executor and recovery
  store: the graph invariant, termination and the lifecycle operations around it.
\<close>

definition codex_durable ::
  "'w text_model \<Rightarrow> 'w executor_env \<Rightarrow> 'w recovery_ops option \<Rightarrow> 'w durable_agent" where
  "codex_durable model E store =
     \<lparr>da_plan = planner_plan model, da_execute = executor_execute E, da_store = store\<rparr>"

text \<open>A recovery store over a part of the world.\<close>

definition store_ops ::
  "('st \<Rightarrow> string \<Rightarrow> step_execution \<Rightarrow> step_context option \<Rightarrow> bool \<Rightarrow> int \<Rightarrow> ('st \<times> recovery_attempt) result)
   \<Rightarrow> ('st \<Rightarrow> string \<Rightarrow> int \<Rightarrow> recovery_snapshot result)
   \<Rightarrow> ('st \<Rightarrow> string \<Rightarrow> recovery_attempt list result) \<Rightarrow> ('v \<times> 'st) recovery_ops" where
  "store_ops record restore history =
     \<lparr>op_record = (\<lambda>(v, st) run_id e ctx rc ver. case record st run_id e ctx rc ver of
          Inl x \<Rightarrow> ((v, st), Inl x) | Inr (st, a) \<Rightarrow> ((v, st), Inr a)),
      op_restore = (\<lambda>(v, st) run_id ver. ((v, st), restore st run_id ver)),
      op_history = (\<lambda>(v, st) run_id. ((v, st), history st run_id))\<rparr>"

interpretation codex_graph: durable_env "codex_durable model E store" for model E store
  by unfold_locales (auto simp: codex_durable_def intro: planner_plan_fresh executor_execute_settles)

subsection \<open>Settling interrupted work\<close>

context durable_env
begin

lemma invoke_resuming:
  assumes "gs_agent_state gs = Some s" and "wf_state s" and "graph_context_ok gs"
    and "gs_status gs = Some ''resuming''"
  shows "\<exists>k w' r. (\<forall>limit\<ge>k. graph_invoke A limit w gs = (w', r))
     \<and> (\<forall>g. r = Inr g \<longrightarrow> graph_inv NEnd g \<and> grows gs g)"
proof -
  have start: "start_node gs = NPlan" using assms(4) by (simp add: start_node_def)
  have "graph_inv NPlan gs" using assms by (simp add: graph_inv_def)
  from graph_run_ends [OF this, of w] obtain k w' r where
    k: "\<forall>limit\<ge>k. graph_run A limit NPlan w gs = (w', r)" and r: "r \<noteq> Inr None"
    "\<forall>g. r = Inr (Some g) \<longrightarrow> graph_inv NEnd g \<and> grows gs g" by blast
  define x where "x = (case r of Inl e \<Rightarrow> Inl e | Inr None \<Rightarrow> Inl (RuntimeError ''GraphRecursionError'')
     | Inr (Some g) \<Rightarrow> Inr g)"
  have "\<forall>limit\<ge>k. graph_invoke A limit w gs = (w', x)"
    using k by (auto simp: graph_invoke_def start x_def split: sum.splits option.splits)
  moreover have "\<forall>g. x = Inr g \<longrightarrow> graph_inv NEnd g \<and> grows gs g"
    using r by (auto simp: x_def split: sum.splits option.splits)
  ultimately show ?thesis by blast
qed

end

lemma invoke_blocked:
  assumes "gs_status gs = Some ''blocked''" and "limit \<ge> 1"
  shows "graph_invoke A limit w gs = (w, Inr (gs\<lparr>gs_status := Some ''blocked''\<rparr>))"
  using assms by (cases limit) (simp_all add: graph_invoke_def start_node_def)

definition settled :: "agent_state \<Rightarrow> agent_state \<Rightarrow> bool" where
  "settled s t \<longleftrightarrow> wf_state t \<and> as_goal t = as_goal s \<and> as_plans t = as_plans s"

definition none_running :: "agent_state \<Rightarrow> bool" where
  "none_running s \<longleftrightarrow> (\<forall>e\<in>set (as_execs s). se_status e \<noteq> Running)"

lemma mark_stale_settles:
  assumes "wf_state s" and "mark_stale_execution_interrupted s = Inr t"
  shows "settled s t \<and> (serial s \<longrightarrow> none_running t) \<and> (none_running s \<longrightarrow> t = s)"
proof -
  obtain t' where "mark_stale_execution_interrupted s = Inr t'" "wf_state t'"
    "as_plans t' = as_plans s" "as_goal t' = as_goal s" using mark_stale_total [OF assms(1)] by metis
  then have "settled s t" using assms(2) by (simp add: settled_def)
  moreover have "none_running s \<longrightarrow> t = s"
    using assms(2) by (auto simp: mark_stale_execution_interrupted_def none_running_def
        dest!: find_Some_in split: option.splits)
  ultimately show ?thesis using mark_stale_none_running [OF assms(1) _ assms(2)] by (simp add: none_running_def)
qed

lemma apply_recovery_settles:
  assumes "wf_state s" and "apply_recovery_decision s recovery = Inr (t, abort)"
  shows "settled s t \<and> (abort \<longrightarrow> recovery = Some ''abort'') \<and> (none_running s \<longrightarrow> none_running t)"
proof -
  obtain s1 where s1: "mark_stale_execution_interrupted s = Inr s1"
    using mark_stale_total [OF assms(1)] by metis
  note m = mark_stale_settles [OF assms(1) s1]
  show ?thesis
  proof (cases "List.find (\<lambda>item. se_status item = Interrupted) (as_execs s1)")
    case None
    with assms m show ?thesis by (simp add: apply_recovery_conv [OF assms(1) s1])
  next
    case (Some e)
    then have e: "e \<in> set (as_execs s1)" by (auto dest: find_Some_in)
    have w: "wf_state (settled_state s1 e Failed err)" for err
      using m e by (intro settle_status(3)) (auto simp: settled_def)
    have n: "none_running s1 \<Longrightarrow> none_running (settled_state s1 e Failed err)" for err
      by (auto simp: none_running_def settled_state_def)
    from assms(2) Some m w n show ?thesis
      by (auto simp: apply_recovery_conv [OF assms(1) s1] settled_def split: option.splits if_splits)
  qed
qed

lemma undecided_apply:
  assumes "apply_recovery_decision s recovery = Inr (t, abort)" and "recovery = None"
  shows "interrupted_of (as_execs t) = None"
  using assms unfolding apply_recovery_decision_def interrupted_of_def
  by (elim bindE_InrE) (auto split: option.splits)

text \<open>
  The disposition step: what the run continues with, whichever store there is.  Work that stays
  interrupted is continued as a recovery.
\<close>

definition disposed :: "agent_state \<Rightarrow> string option \<Rightarrow> graph_state \<Rightarrow> bool \<Rightarrow> graph_state \<Rightarrow> bool" where
  "disposed s recovery gs abort gs' \<longleftrightarrow>
     (\<exists>t. gs_agent_state gs' = Some t \<and> settled s t \<and> (serial s \<longrightarrow> none_running t)
        \<and> (recovery = None \<and> interrupted_of (as_execs t) \<noteq> None \<longrightarrow> gs_recovery_active gs'))
     \<and> (abort \<longrightarrow> recovery = Some ''abort'')
     \<and> gs_files_read gs' = gs_files_read gs \<and> gs_files_modified gs' = gs_files_modified gs
     \<and> gs_observations gs' = gs_observations gs"

lemma settle_interrupted_disposes:
  assumes "wf_state s" and "settle_interrupted A w run_id recovery s gs = (w', Inr (abort, gs'))"
  shows "disposed s recovery gs abort gs'"
proof -
  from assms(2) obtain stale w1 g1 w2 where
    stale: "mark_stale_execution_interrupted s = Inr stale"
    and first: "decide_interrupted A w run_id recovery stale gs = (w1, Inr (abort, g1))"
    and second: "record_interruption A w1 run_id recovery s stale g1 = (w2, Inr gs')"
    unfolding settle_interrupted_def
    by (elim bindW_InrE) auto
  note m = mark_stale_settles [OF assms(1) stale]
  then have wf: "wf_state stale" by (simp add: settled_def)
  have "disposed s recovery gs abort g1"
  proof (cases "interrupted_of (as_execs stale)")
    case None
    then obtain t where t: "apply_recovery_decision stale recovery = Inr (t, abort)"
      and g1: "g1 = gs\<lparr>gs_agent_state := Some t\<rparr>" using first by (auto simp: decide_interrupted_def)
    have "recovery = None \<longrightarrow> interrupted_of (as_execs t) = None"
      using t by (blast intro: undecided_apply)
    moreover note ap = apply_recovery_settles [OF wf t]
    moreover have "settled s t" using m ap by (simp add: settled_def)
    ultimately show ?thesis using m g1 by (auto simp: disposed_def)
  next
    case (Some i)
    show ?thesis
    proof (cases "recovery = None")
      case True
      with first Some m show ?thesis by (auto simp: disposed_def decide_interrupted_def split: option.splits)
    next
      case False
      with Some first obtain t where t: "apply_recovery_decision stale recovery = Inr (t, abort)"
        and g1: "g1 = gs\<lparr>gs_agent_state := Some t\<rparr>" by (auto simp: decide_interrupted_def)
      moreover note ap = apply_recovery_settles [OF wf t]
      moreover have "settled s t" using m ap by (simp add: settled_def)
      ultimately show ?thesis using m False by (auto simp: disposed_def)
    qed
  qed
  moreover have "gs_agent_state gs' = gs_agent_state g1 \<and> gs_files_read gs' = gs_files_read g1
       \<and> gs_files_modified gs' = gs_files_modified g1 \<and> gs_observations gs' = gs_observations g1
       \<and> (gs_recovery_active gs' = gs_recovery_active g1 \<or> gs_recovery_active gs' = (recovery = None))"
    using second unfolding record_interruption_def by (auto split: option.splits if_splits)
  ultimately show ?thesis by (auto simp: disposed_def)
qed

subsection \<open>A run from a given state\<close>

text \<open>What an answer of \<open>DurableAgent.run\<close> means.\<close>

definition answer_ok :: "agent_state \<Rightarrow> string option \<Rightarrow> run_answer \<Rightarrow> bool" where
  "answer_ok s recovery ans \<longleftrightarrow>
     (\<exists>t. rn_state ans = Some t \<and> wf_state t \<and> as_goal t = as_goal s \<and> prefix (as_plans s) (as_plans t)
        \<and> (rn_status ans = ''completed'' \<and> as_plans t \<noteq> [] \<and> plan_completed t (last (as_plans t))
           \<or> rn_status ans = ''blocked'' \<and>
               (recovery = Some ''abort'' \<and> as_plans t = as_plans s
                \<or> as_plans t \<noteq> [] \<and> pl_revision (last (as_plans t)) = 3 \<and> plan_failed t (last (as_plans t)))))"

context durable_env
begin

lemma durable_start_answers:
  assumes s: "gs_agent_state gs0 = Some s" "wf_state s" and ctx: "graph_context_ok gs0"
  shows "\<exists>k w' r. (\<forall>limit\<ge>k. durable_start A limit w cp run_id recovery conv gs0 = (w', r))
     \<and> (\<forall>ans. r = Inr ans \<longrightarrow> answer_ok s recovery ans)"
proof -
  obtain w1 x where x: "settle_interrupted A w run_id recovery s gs0 = (w1, x)" by fastforce
  show ?thesis
  proof (cases x)
    case (Inl e)
    with x have "durable_start A limit w cp run_id recovery conv gs0 = (w1, Inl e)" for limit
      by (simp add: durable_start_def s(1))
    then show ?thesis by (intro exI [of _ 0] exI [of _ w1] exI [of _ "Inl e"]) simp
  next
    case (Inr ag)
    obtain abort gs where ag: "ag = (abort, gs)" by (cases ag)
    with x Inr have d: "disposed s recovery gs0 abort gs"
      by (intro settle_interrupted_disposes [OF s(2)]) simp
    then obtain t where t: "gs_agent_state gs = Some t" "settled s t" by (auto simp: disposed_def)
    show ?thesis
    proof (cases abort)
      case True
      let ?ans = "\<lparr>rn_run_id = run_id, rn_status = ''blocked'', rn_state = Some t\<rparr>"
      have "durable_start A limit w cp run_id recovery conv gs0 = (w1, Inr ?ans)" if "limit \<ge> 1" for limit
        using x Inr ag True t that
        by (simp add: durable_start_def s(1) invoke_blocked)
      moreover have "answer_ok s recovery ?ans"
        using d t True by (auto simp: answer_ok_def disposed_def settled_def)
      ultimately show ?thesis by (intro exI [of _ 1] exI [of _ w1] exI [of _ "Inr ?ans"]) simp
    next
      case False
      let ?run = "gs\<lparr>gs_status := Some ''resuming'', gs_run_id := run_id,
            gs_conversation := (case conv of None \<Rightarrow> gs_conversation gs | Some c \<Rightarrow> Some c)\<rparr>"
      have "graph_context_ok ?run" using ctx d by (simp add: graph_context_ok_def disposed_def)
      with invoke_resuming [of ?run t w1] t obtain k w2 r where
        r: "\<forall>limit\<ge>k. graph_invoke A limit w1 ?run = (w2, r)"
        "\<forall>g. r = Inr g \<longrightarrow> graph_inv NEnd g \<and> grows ?run g" by (auto simp: settled_def)
      define y where "y = bindE r (\<lambda>g. Inr \<lparr>rn_run_id = run_id,
         rn_status = (case gs_status g of None \<Rightarrow> ''completed'' | Some v \<Rightarrow> v), rn_state = gs_agent_state g\<rparr>)"
      have "durable_start A limit w cp run_id recovery conv gs0 = (w2, y)" if "limit \<ge> k" for limit
        using x Inr ag False t r(1) that
        by (cases r) (simp_all add: durable_start_def s(1) y_def)
      moreover have "answer_ok s recovery ans" if "y = Inr ans" for ans
      proof -
        from that obtain g where g: "r = Inr g" and ans: "ans = \<lparr>rn_run_id = run_id,
         rn_status = (case gs_status g of None \<Rightarrow> ''completed'' | Some v \<Rightarrow> v), rn_state = gs_agent_state g\<rparr>"
          by (auto simp: y_def)
        with r(2) obtain u where u: "gs_agent_state g = Some u" "wf_state u" "node_inv NEnd g u" "kept t u"
          using t by (auto simp: graph_inv_def grows_def)
        with ans t show ?thesis
          by (auto simp: answer_ok_def kept_def settled_def)
      qed
      ultimately show ?thesis by blast
    qed
  qed
qed

lemma durable_run_answers:
  assumes "wf_state s" and "graph_context_ok cp"
  shows "\<exists>k w' r. (\<forall>limit\<ge>k. durable_run A limit w cp run_id (Some s) recovery conv = (w', r))
     \<and> (\<forall>ans. r = Inr ans \<longrightarrow> answer_ok s recovery ans)"
  using durable_start_answers [of "cp\<lparr>gs_agent_state := Some s, gs_recovery_active := False\<rparr>" s w cp run_id
      recovery conv] assms
  by (simp add: durable_run_def graph_context_ok_def)

end

subsection \<open>A run from a checkpoint\<close>

text \<open>What the recovery store hands back: valid executions and a valid context.\<close>

definition wf_snapshot :: "recovery_snapshot \<Rightarrow> bool" where
  "wf_snapshot snap \<longleftrightarrow> (\<forall>e\<in>set (rs_latest snap). wf_exec e) \<and> wf_context (rs_context snap)"

definition trusted_store :: "'w recovery_ops \<Rightarrow> 'w \<Rightarrow> bool" where
  "trusted_store ops w \<longleftrightarrow> (\<forall>run_id v w' snap. op_restore ops w run_id v = (w', Inr snap) \<longrightarrow> wf_snapshot snap)"

lemma restore_recovery_settles:
  assumes "restore_recovery_state s es = Inr t" and "wf_state s" and "\<forall>e\<in>set es. wf_exec e"
  shows "settled s t"
  using assms
proof (induction es arbitrary: s)
  case (Cons e es)
  then obtain u where u: "with_step_execution s e = Inr u" "restore_recovery_state u es = Inr t" by auto
  have "wf_state u" using Cons.prems u by (auto intro: with_step_execution_wf)
  with Cons u have "settled u t" by simp
  then show ?case using u(1) with_step_execution_Inr [OF Cons.prems(2), of e u] by (simp add: settled_def)
qed (simp add: settled_def)

lemma graph_context_ok_snapshot:
  "wf_snapshot snap \<Longrightarrow> graph_context_ok (gs\<lparr>gs_agent_state := x, gs_files_read := sc_files_read (rs_context snap),
     gs_files_modified := sc_files_modified (rs_context snap),
     gs_observations := sc_observations (rs_context snap)\<rparr>)"
  by (simp add: wf_snapshot_def wf_context_def graph_context_ok_def)

lemma load_checkpoint_ok:
  assumes "load_checkpoint A w run_id cp = (w', Inr gs)" and "gs_agent_state cp = Some s" and "wf_state s"
    and "graph_context_ok cp" and "\<And>ops. da_store A = Some ops \<Longrightarrow> trusted_store ops w"
  shows "\<exists>t. gs_agent_state gs = Some t \<and> settled s t \<and> graph_context_ok gs \<and> gs_status gs = gs_status cp"
proof (cases "da_store A")
  case None
  with assms show ?thesis by (auto simp: load_checkpoint_def settled_def graph_context_ok_def)
next
  case (Some ops)
  with assms(1,2) obtain w1 snap where r: "op_restore ops w run_id (gs_version cp) = (w1, Inr snap)"
    and rest: "(if rs_latest snap = [] then (w1, Inr (cp\<lparr>gs_recovery_active := False\<rparr>))
              else bindW (liftW w1 (restore_recovery_state s (rs_latest snap))) (\<lambda>w s.
                let values = cp\<lparr>gs_agent_state := Some s,
                      gs_files_read := sc_files_read (rs_context snap),
                      gs_files_modified := sc_files_modified (rs_context snap),
                      gs_observations := sc_observations (rs_context snap)\<rparr>
                in case interrupted_of (rs_latest snap) of
                     None \<Rightarrow> (w, Inr (values\<lparr>gs_recovery_active := False\<rparr>))
                   | Some i \<Rightarrow> (w, Inr (values\<lparr>gs_recovery_active := True,
                        gs_attempt := Some (next_attempt (rs_attempts snap) i)\<rparr>)))) = (w', Inr gs)"
    unfolding load_checkpoint_def by (auto elim!: bindW_InrE)
  have snap: "wf_snapshot snap" using assms(5) [OF Some] r by (simp add: trusted_store_def)
  show ?thesis
  proof (cases "rs_latest snap = []")
    case True
    with rest assms show ?thesis by (auto simp: settled_def graph_context_ok_def)
  next
    case False
    with rest obtain t where t: "restore_recovery_state s (rs_latest snap) = Inr t"
      by (cases "restore_recovery_state s (rs_latest snap)") (auto simp: liftW_def)
    have "settled s t"
      using restore_recovery_settles [OF t assms(3)] snap by (simp add: wf_snapshot_def)
    with rest False t graph_context_ok_snapshot [OF snap, where gs = cp and x = "Some t"] show ?thesis
      by (auto simp: Let_def graph_context_ok_def split: option.splits)
  qed
qed

context durable_env
begin

lemma durable_resume_answers:
  assumes "gs_agent_state cp = Some s" and "wf_state s" and "graph_context_ok cp"
    and "gs_status cp \<notin> {Some ''completed'', Some ''blocked''}"
    and "\<And>ops. da_store A = Some ops \<Longrightarrow> trusted_store ops w"
  shows "\<exists>k w' r. (\<forall>limit\<ge>k. durable_run A limit w cp run_id None recovery conv = (w', r))
     \<and> (\<forall>ans. r = Inr ans \<longrightarrow> answer_ok s recovery ans)"
proof -
  obtain w1 x where x: "load_checkpoint A w run_id cp = (w1, x)" by fastforce
  show ?thesis
  proof (cases x)
    case (Inl e)
    with x have "durable_run A limit w cp run_id None recovery conv = (w1, Inl e)" for limit
      by (simp add: durable_run_def)
    then show ?thesis by (intro exI [of _ 0] exI [of _ w1] exI [of _ "Inl e"]) simp
  next
    case (Inr gs)
    with x have "load_checkpoint A w run_id cp = (w1, Inr gs)" by simp
    from load_checkpoint_ok [OF this assms(1-3)] assms(5) obtain t where
      t: "gs_agent_state gs = Some t" "settled s t" "graph_context_ok gs" "gs_status gs = gs_status cp" by blast
    then have "durable_run A limit w cp run_id None recovery conv
        = durable_start A limit w1 cp run_id recovery conv gs" for limit
      using x Inr assms(4) by (simp add: durable_run_def)
    moreover have "\<exists>k w' r. (\<forall>limit\<ge>k. durable_start A limit w1 cp run_id recovery conv gs = (w', r))
       \<and> (\<forall>ans. r = Inr ans \<longrightarrow> answer_ok t recovery ans)"
      using t by (intro durable_start_answers) (simp_all add: settled_def)
    then obtain k w' r where
      "\<forall>limit\<ge>k. durable_start A limit w1 cp run_id recovery conv gs = (w', r)"
      "\<forall>ans. r = Inr ans \<longrightarrow> answer_ok t recovery ans" by blast
    moreover have "answer_ok t recovery ans \<Longrightarrow> answer_ok s recovery ans" for ans
      using t(2) by (auto simp: answer_ok_def settled_def)
    ultimately show ?thesis by metis
  qed
qed

end

text \<open>Both recovery stores restore valid snapshots.\<close>

lemma all_update: "\<forall>(k, v)\<in>set al. P v \<Longrightarrow> P x \<Longrightarrow> \<forall>(k, v)\<in>set (AList.update key x al). P v"
  by (induction al) auto

lemma snapshot_step_wf:
  assumes "\<forall>a\<in>set attempts. wf_attempt a" and "\<forall>(k, e)\<in>set latest. wf_exec e"
  shows "\<forall>(k, e)\<in>set (fst (fold snapshot_step attempts (latest, ctx))). wf_exec e"
  using assms
proof (induction attempts arbitrary: latest ctx)
  case (Cons a attempts)
  have "\<forall>(k, e)\<in>set (AList.update (attempt_key a) (ra_execution a) latest). wf_exec e"
    using Cons.prems by (intro all_update) (simp_all add: wf_attempt_def)
  with Cons show ?case by simp
qed simp

lemma snapshot_wf:
  assumes "\<forall>a\<in>set attempts. wf_attempt a" and "snapshot attempts v = Inr snap"
  shows "wf_snapshot snap"
proof -
  obtain latest ctx where f: "fold snapshot_step attempts ([], empty_context) = (latest, ctx)" by fastforce
  have "\<forall>(k, e)\<in>set latest. wf_exec e"
    using snapshot_step_wf [OF assms(1), of "[]" empty_context] f by simp
  with assms(2) f show ?thesis
    by (fastforce simp: snapshot_def wf_snapshot_def mk_step_context_Inr)
qed

lemma mem_restore_wf:
  assumes "wf_log log" and "mem_restore log run_id v = Inr snap"
  shows "wf_snapshot snap"
proof -
  have e: "wf_snapshot \<lparr>rs_attempts = [], rs_latest = [], rs_context = empty_context, rs_version = v\<rparr>"
    using empty_context_wf by (simp add: wf_snapshot_def)
  let ?as = "sort_key ra_version (filter (\<lambda>a. ra_run_id a = run_id) log)"
  have "\<forall>a\<in>set ?as. wf_attempt a" using assms(1) by (simp add: wf_log_def)
  from snapshot_wf [OF this, of v snap] assms(2) e show ?thesis
    by (auto simp: mem_restore_def Let_def split: if_splits)
qed

context recovery_store
begin

lemma store_ops_trusted:
  assumes "inv st"
  shows "trusted_store (store_ops record_op restore_op history) (v, st)"
  using inv_log [OF assms] by (auto simp: trusted_store_def store_ops_def restore_log [OF assms] intro: mem_restore_wf)

end

end
