(* ===== verification/Examples.thy ===== *)
theory Examples
  imports Durable_System Planner Executor_Correct Runtime_Context_Correct
begin

section \<open>Concrete inputs\<close>

text \<open>
  Small plans, states, providers and stores on which the properties are applied.  The world of
  the example collaborators is the number of tool batches they have served.
\<close>

definition demo_step :: plan_step where
  "demo_step = \<lparr>ps_id = ''inspect'', ps_intent = ''Inspect'', ps_criterion = ''Found''\<rparr>"

definition demo_plan :: "int \<Rightarrow> plan" where
  "demo_plan r = \<lparr>pl_revision = r, pl_goal = ''Ship'', pl_steps = [demo_step]\<rparr>"

definition demo_exec :: "execution_status \<Rightarrow> step_execution" where
  "demo_exec st = \<lparr>se_revision = 1, se_step_id = ''inspect'', se_status = st, se_result = None,
     se_error = None, se_evidence = None\<rparr>"

definition demo_state :: "execution_status option \<Rightarrow> agent_state" where
  "demo_state st = \<lparr>as_goal = ''Ship'', as_plans = [demo_plan 1],
     as_execs = (case st of None \<Rightarrow> [] | Some st \<Rightarrow> [demo_exec st]), as_memory = None\<rparr>"

definition new_state :: agent_state where
  "new_state = \<lparr>as_goal = ''Ship'', as_plans = [], as_execs = [], as_memory = None\<rparr>"

lemma demo_texts [simp]:
  "\<not> blank ''Ship''" "\<not> blank ''inspect''" "\<not> blank ''Inspect''" "\<not> blank ''Found''" "\<not> blank ''done''"
  by (simp_all add: blank_iff is_space_def)

lemma demo_plan_wf [simp]: "1 \<le> r \<Longrightarrow> r \<le> 3 \<Longrightarrow> wf_plan (demo_plan r)"
  by (simp add: wf_plan_def demo_plan_def demo_step_def wf_step_def)

lemma demo_exec_wf [simp]: "wf_exec (demo_exec st)"
  by (simp add: wf_exec_def demo_exec_def)

lemma demo_state_wf [simp]: "wf_state (demo_state st)"
  by (cases st) (simp_all add: wf_state_def coherent_def demo_state_def plan_step_keys_def,
    simp_all add: demo_plan_def demo_step_def demo_exec_def)

lemma new_state_wf [simp]: "wf_state new_state"
  by (simp add: wf_state_def coherent_def new_state_def)

text \<open>A Planner model that answers with the demo plan, whatever it is asked.\<close>

definition demo_model :: "nat text_model" where
  "demo_model = CompleteText (\<lambda>w request instructions. (w, Inr (render_block (plan_block (demo_plan 1)))))"

text \<open>An Executor whose model answers \<open>done\<close> and whose judge accepts with a one-criterion document.\<close>

definition judge_block :: block where
  "judge_block = Block ''STEP_COMPLETION_PROGRESS'' [(''ALL_COMPLETED'', [PBool True])]
     [Block ''COMPLETED_CRITERION'' [(''NUMBER'', [PInt 1]), (''EVIDENCE'', [PStr ''Found''])] []]"

definition demo_env :: "nat executor_env" where
  "demo_env = \<lparr>
     xe_model = LangChainModel (\<lambda>tools w ms. (w, Inr (AIMessage
       (PStr (if tools then ''done'' else render_block judge_block)) [] []))),
     xe_open_tools = (\<lambda>w. (w, Inr ())), xe_tools = (\<lambda>w m. (w + 1, Inr [])), xe_context = None,
     xe_checkpoint = None, xe_thread_id = None, xe_run_id = None, xe_attempt = None,
     xe_max_rounds = 2, xe_tool_cwd = None\<rparr>"

lemma judge_block_parses: "parse_line_protocol (render_block judge_block) = Inr judge_block"
proof (rule parse_render)
  show "renderable judge_block"
    by (simp add: judge_block_def plain_name_def is_name_def upper_def upper_char_def is_letter_def
        is_digit_def Let_def show_nat_small)
  show "conforms judge_block" unfolding judge_block_def by code_simp
  show "bk_type judge_block \<noteq> ''STEP''" by (simp add: judge_block_def)
qed

lemma judge_block_accepts:
  "decode_step_judgment (AIMessage (PStr (render_block judge_block)) [] []) = Inr ([(1, ''Found'')], True)"
proof -
  have "strip ''Found'' = ''Found''" by (simp add: strip_def is_space_def)
  then show ?thesis
    by (simp add: decode_step_judgment_def message_text_def decode_step_completion_progress_def
        judge_block_parses, simp add: judge_block_def require_def has_fields_def children_are_def
        single_def bool_of_def decode_step_criterion_def text_of_def Let_def)
qed

lemma demo_env_simps [simp]:
  "executor_model_response (xe_model demo_env) tools w ms = (w, Inr (AIMessage
     (PStr (if tools then ''done'' else render_block judge_block)) [] []))"
  "xe_open_tools demo_env w = (w, Inr ())" "xe_tools demo_env w m = (w + 1, Inr [])"
  "xe_context demo_env = None" "xe_checkpoint demo_env = None" "xe_max_rounds demo_env = 2"
  "xe_tool_cwd demo_env = None"
  by (simp_all add: demo_env_def)

lemma demo_judge: "ask_step_judge demo_env False w ms = (w, Inr (Some ''Found''))"
  by (simp add: ask_step_judge_def judge_provider_def judge_block_accepts first_evidence_def)

lemma demo_loop:
  "executor_loop demo_env durable goal r st 0 w rs =
     (w, Inr \<lparr>gr_final = AIMessage (PStr ''done'') [] [], gr_error = None, gr_evidence = Some ''Found''\<rparr>)"
  by (simp add: executor_loop.simps [of demo_env durable goal r st 0] executor_round_def round_request_def
      answer_round_def judge_step_completion_def native_layout_def demo_judge with_tool_cwd_def Let_def)

definition demo_outcome :: execution_outcome where
  "demo_outcome = \<lparr>oc_execution = \<lparr>se_revision = 1, se_step_id = ''inspect'', se_status = Completed,
        se_result = Some ''done'', se_error = None, se_evidence = Some ''Found''\<rparr>,
     oc_context = Some empty_context\<rparr>"

lemma demo_execute:
  "executor_execute demo_env ctx recovery attempt w (demo_state st) 1 ''inspect'' = (w, Inr demo_outcome)"
proof -
  have r: "resolve_step (demo_state st) 1 ''inspect'' = Some demo_step"
    by (simp add: resolve_step_def demo_state_def demo_plan_def demo_step_def)
  have e: "mk_step_execution 1 ''inspect'' Completed (Some ''done'') None (Some ''Found'') = Inr
     \<lparr>se_revision = 1, se_step_id = ''inspect'', se_status = Completed,
        se_result = Some ''done'', se_error = None, se_evidence = Some ''Found''\<rparr>"
    by (simp add: mk_step_execution_Inr wf_exec_def)
  show ?thesis
    by (simp add: executor_execute_def r execute_with_tools_def demo_loop complete_step_def e mk_outcome_def
        demo_outcome_def or_str_def)
qed

end
