(* ===== verification/Agent_Properties.thy ===== *)
theory Agent_Properties
  imports Examples
begin

section \<open>What the coordinators guarantee\<close>

text \<open>
  The properties of the durable agent, the serial Agent loop and the Executor, with the
  modelled Planner and Executor plugged in and any model provider, tool session and Runtime
  context behind them.
\<close>

lemma demo_graph_state: "graph_context_ok \<lparr>gs_agent_state = st, gs_status = sts, gs_run_id = i,
    gs_files_modified = [], gs_files_read = [], gs_observations = [], gs_version = v, gs_attempt = a,
    gs_recovery_active = b, gs_conversation = c\<rparr>"
  by (simp add: graph_context_ok_def)

definition empty_graph :: graph_state where
  "empty_graph = \<lparr>gs_agent_state = None, gs_status = None, gs_run_id = [], gs_files_modified = [],
     gs_files_read = [], gs_observations = [], gs_version = 0, gs_attempt = None,
     gs_recovery_active = False, gs_conversation = None\<rparr>"

lemma empty_graph_ok [simp]: "graph_context_ok empty_graph"
  by (simp add: empty_graph_def demo_graph_state)

text \<open>
  C1: a run of the durable agent from a well-formed state settles.  From some recursion limit on
  its outcome no longer depends on the limit, and when it answers, the answer holds the whole
  plan completed, or a third revision that failed, or the aborted recovery with the plans
  untouched; goal and earlier plans are kept.
\<close>

theorem durable_run_settles:
  assumes "wf_state s" and "graph_context_ok cp"
  shows "\<exists>k w' r. (\<forall>limit\<ge>k. durable_run (codex_durable model E store) limit w cp run_id (Some s)
       recovery conv = (w', r))
     \<and> (\<forall>ans. r = Inr ans \<longrightarrow> answer_ok s recovery ans)"
  using assms by (rule codex_graph.durable_run_answers)

theorem durable_run_settles_witness:
  "\<exists>k w' r. (\<forall>limit\<ge>k. durable_run (codex_durable demo_model demo_env None) limit 0 empty_graph ''run''
       (Some (demo_state (Some Running))) (Some ''fail'') None = (w', r))
     \<and> (\<forall>ans. r = Inr ans \<longrightarrow> answer_ok (demo_state (Some Running)) (Some ''fail'') ans)"
  by (rule durable_run_settles) simp_all

text \<open>
  the durable graph terminates.  From every node at which the graph invariant holds the
  engine reaches the end or an exception within a bounded number of node visits, whatever the
  collaborators answer; at the end the invariant of the end node holds.
\<close>

theorem graph_terminates:
  assumes "graph_inv n gs"
  shows "\<exists>k w' r. (\<forall>limit\<ge>k. graph_run (codex_durable model E store) limit n w gs = (w', r))
     \<and> r \<noteq> Inr None \<and> (\<forall>gs'. r = Inr (Some gs') \<longrightarrow> graph_inv NEnd gs' \<and> grows gs gs')"
  using assms by (rule codex_graph.graph_run_ends)

lemma demo_graph_inv:
  "graph_inv NPlan (empty_graph\<lparr>gs_agent_state := Some new_state, gs_status := Some ''resuming''\<rparr>)"
  using empty_graph_ok by (simp add: graph_inv_def graph_context_ok_def)

theorem graph_terminates_witness:
  "\<exists>k w' r. (\<forall>limit\<ge>k. graph_run (codex_durable demo_model demo_env None) limit NPlan 0
       (empty_graph\<lparr>gs_agent_state := Some new_state, gs_status := Some ''resuming''\<rparr>) = (w', r))
     \<and> r \<noteq> Inr None \<and> (\<forall>gs'. r = Inr (Some gs') \<longrightarrow> graph_inv NEnd gs' \<and>
         grows (empty_graph\<lparr>gs_agent_state := Some new_state, gs_status := Some ''resuming''\<rparr>) gs')"
  by (rule graph_terminates) (rule demo_graph_inv)

text \<open>
  C2: \<open>Agent.run\<close> returns.  With the modelled Planner and Executor the \<open>while True\<close> loop always
  ends; a result has a well-formed state with the same goal, is completed only when every step
  of the last plan is, and is blocked only by an abort decision or by a failed third revision.
\<close>

theorem agent_run_returns:
  assumes "wf_state s"
  shows "\<exists>w' x. agent_run (planner_plan model conv) (executor_execute E ctx rc attempt) w s recovery
       = Some (w', x)
     \<and> (\<forall>res. x = Inr res \<longrightarrow> wf_state (ar_state res) \<and> as_goal (ar_state res) = as_goal s
          \<and> (ar_status res = AgentCompleted \<longrightarrow> as_plans (ar_state res) \<noteq> []
               \<and> plan_completed (ar_state res) (last (as_plans (ar_state res))))
          \<and> (ar_status res = AgentBlocked \<longrightarrow> recovery = Some ''abort''
               \<or> (as_plans (ar_state res) \<noteq> [] \<and> pl_revision (last (as_plans (ar_state res))) = 3
                  \<and> plan_failed (ar_state res) (last (as_plans (ar_state res))))))"
proof (cases "apply_recovery_decision s recovery")
  case (Inl e)
  then show ?thesis by (simp add: agent_run_def)
next
  case (Inr y)
  then obtain t abort where y: "apply_recovery_decision s recovery = Inr (t, abort)" by (cases y) auto
  note t = apply_recovery_settles [OF assms y]
  then have wf: "wf_state t" "as_goal t = as_goal s" by (simp_all add: settled_def)
  show ?thesis
  proof (cases abort)
    case True
    with y t wf show ?thesis by (simp add: agent_run_def)
  next
    case False
    have "\<exists>w' x. agent_while (planner_plan model conv) (executor_execute E ctx rc attempt) w t = Some (w', x)
        \<and> (\<forall>res. x = Inr res \<longrightarrow> pass_ok t (Inl res))"
      by (rule codex_agent.agent_while_returns [OF wf(1)])
    then obtain w' x where
      x: "agent_while (planner_plan model conv) (executor_execute E ctx rc attempt) w t = Some (w', x)"
      "\<forall>res. x = Inr res \<longrightarrow> pass_ok t (Inl res)" by blast
    have res: "wf_state (ar_state res) \<and> as_goal (ar_state res) = as_goal s
          \<and> (ar_status res = AgentCompleted \<longrightarrow> as_plans (ar_state res) \<noteq> []
               \<and> plan_completed (ar_state res) (last (as_plans (ar_state res))))
          \<and> (ar_status res = AgentBlocked \<longrightarrow> as_plans (ar_state res) \<noteq> []
               \<and> pl_revision (last (as_plans (ar_state res))) = 3
               \<and> plan_failed (ar_state res) (last (as_plans (ar_state res))))"
      if "pass_ok t (Inl res)" for res
      using that wf(2) by (cases "ar_status res") (simp_all add: pass_ok_def Let_def)
    have "agent_run (planner_plan model conv) (executor_execute E ctx rc attempt) w s recovery = Some (w', x)"
      using y False x(1) by (simp add: agent_run_def)
    with x(2) res show ?thesis by metis
  qed
qed

theorem agent_run_returns_witness:
  "\<exists>w' x. agent_run (planner_plan demo_model None) (executor_execute demo_env empty_context False None) 0
       (demo_state None) None = Some (w', x)
     \<and> (\<forall>res. x = Inr res \<longrightarrow> wf_state (ar_state res) \<and> as_goal (ar_state res) = as_goal (demo_state None)
          \<and> (ar_status res = AgentCompleted \<longrightarrow> as_plans (ar_state res) \<noteq> []
               \<and> plan_completed (ar_state res) (last (as_plans (ar_state res))))
          \<and> (ar_status res = AgentBlocked \<longrightarrow> None = Some ''abort''
               \<or> (as_plans (ar_state res) \<noteq> [] \<and> pl_revision (last (as_plans (ar_state res))) = 3
                  \<and> plan_failed (ar_state res) (last (as_plans (ar_state res))))))"
  by (rule agent_run_returns) simp

text \<open>
  C3: every outcome of the Executor is settled: a completed or failed execution of the asked
  step with a valid record, and a context update exactly when it completed.
\<close>

theorem executor_outcome_settled:
  assumes "executor_execute E ctx recovery attempt w s r i = (w', Inr oc)"
  shows "wf_outcome oc \<and> exec_key (oc_execution oc) = (r, i)
     \<and> se_status (oc_execution oc) \<in> {Completed, Failed}
     \<and> (oc_context oc \<noteq> None \<longleftrightarrow> se_status (oc_execution oc) = Completed)"
  using executor_execute_settles [OF assms] by (simp add: settled_outcome_def wf_outcome_def)

theorem executor_outcome_settled_witness:
  "wf_outcome demo_outcome \<and> exec_key (oc_execution demo_outcome) = (1, ''inspect'')
     \<and> se_status (oc_execution demo_outcome) \<in> {Completed, Failed}
     \<and> (oc_context demo_outcome \<noteq> None \<longleftrightarrow> se_status (oc_execution demo_outcome) = Completed)"
  by (rule executor_outcome_settled [OF demo_execute [of empty_context False None 0 None]])

text \<open>
  C4: a step is completed only when the completion judge said so: the evidence recorded with it
  is what a judge message decodes to, a tool-free document that accepts criterion 1.
\<close>

theorem completion_is_judged:
  assumes "executor_execute E ctx recovery attempt w s r i = (w', Inr oc)"
    and "se_status (oc_execution oc) = Completed"
  shows "\<exists>evidence n rest m v v' request. se_evidence (oc_execution oc) = Some evidence
     \<and> executor_model_response (xe_model E) False v request = (v', Inr m)
     \<and> decode_step_judgment m = Inr ((n, evidence) # rest, True)"
  using completed_step_judged [OF assms] by (auto simp: judge_said_def accepting_def) blast

theorem completion_is_judged_witness:
  "\<exists>evidence n rest m v v' request. se_evidence (oc_execution demo_outcome) = Some evidence
     \<and> executor_model_response (xe_model demo_env) False v request = (v', Inr m)
     \<and> decode_step_judgment m = Inr ((n, evidence) # rest, True)"
  by (rule completion_is_judged [OF demo_execute [of empty_context False None 0 None]])
    (simp add: demo_outcome_def)

text \<open>
  C5: one step runs at most \<open>max_rounds\<close> tool batches: any count that only a tool batch raises,
  and by at most one, grows by no more than the round budget.
\<close>

theorem tool_batches_bounded:
  assumes "counts_batches E count"
  shows "count (fst (executor_execute E ctx recovery attempt w s r i)) \<le> count w + xe_max_rounds E"
  using assms by (rule executor_execute_count)

theorem tool_batches_bounded_witness:
  "id (fst (executor_execute demo_env empty_context False None (0::nat) (demo_state None) 1 ''inspect''))
     \<le> id 0 + xe_max_rounds demo_env"
  by (rule tool_batches_bounded) (simp add: counts_batches_def keeps_def)

text \<open>
  C6: every node of the durable graph keeps the invariant of the node it leads to and only
  grows what is recorded: goal, plans, completed executions, version and Step context stay.
\<close>

theorem graph_step_keeps:
  assumes "graph_inv n gs" and "n \<noteq> NEnd"
    and "graph_step (codex_durable model E store) n w gs = (w', Inr (n', gs'))"
  shows "graph_inv n' gs' \<and> grows gs gs'"
  using codex_graph.node_advances [OF assms] by (simp add: advances_def)

theorem graph_step_keeps_witness:
  "graph_inv NEnd (empty_graph\<lparr>gs_agent_state := Some (demo_state (Some Completed)), gs_status := Some ''completed''\<rparr>)
     \<and> grows (empty_graph\<lparr>gs_agent_state := Some (demo_state (Some Completed))\<rparr>)
         (empty_graph\<lparr>gs_agent_state := Some (demo_state (Some Completed)), gs_status := Some ''completed''\<rparr>)"
proof -
  have "plan_completed (demo_state (Some Completed)) (demo_plan 1)"
    by (simp add: plan_completed_def demo_state_def demo_plan_def demo_step_def demo_exec_def execution_for_def)
  then have i: "graph_inv NComplete (empty_graph\<lparr>gs_agent_state := Some (demo_state (Some Completed))\<rparr>)"
    using empty_graph_ok by (simp add: graph_inv_def graph_context_ok_def) (simp add: demo_state_def)
  show ?thesis
    by (rule graph_step_keeps [OF i, of demo_model demo_env None 0 0]) simp_all
qed

text \<open>
  The Planner only answers the next revision: a valid plan for the state's goal, numbered
  one past the plans there are; within the budget a rejected document is a planning error.
\<close>

theorem planner_answers_next_revision:
  assumes "planner_plan model conv w s = (w', Inr p)"
  shows "wf_plan p \<and> pl_goal p = as_goal s \<and> pl_revision p = int (length (as_plans s)) + 1
     \<and> length (as_plans s) < 3"
  using planner_plan_fresh [OF assms] by (auto simp: fresh_plan_def wf_plan_def)

lemma demo_plans: "planner_plan demo_model None w new_state = (w, Inr (demo_plan 1))"
proof -
  have "decode_plan (render_block (plan_block (demo_plan 1))) ''Ship'' 1 = Inr (demo_plan 1)"
    using decode_render_plan [of "demo_plan 1"] demo_plan_wf [of 1] by (simp add: demo_plan_def)
  then show ?thesis
    by (simp add: planner_plan_def validated_text_def demo_model_def new_state_def state_payload_def)
qed

theorem planner_answers_next_revision_witness:
  "wf_plan (demo_plan 1) \<and> pl_goal (demo_plan 1) = as_goal new_state
     \<and> pl_revision (demo_plan 1) = int (length (as_plans new_state)) + 1 \<and> length (as_plans new_state) < 3"
  by (rule planner_answers_next_revision [OF demo_plans [of 0]])

end
