(* ===== verification/Persistence_Properties.thy ===== *)
theory Persistence_Properties
  imports Agent_Properties
begin

section \<open>What is recorded, and what recovery makes of it\<close>

text \<open>
  The properties of the Agent state, its payload codec, the recovery decisions and the two
  recovery stores.
\<close>

definition sql_ops :: "('v \<times> recovery_row list) recovery_ops" where
  "sql_ops = store_ops sql_record sql_restore sql_history"

text \<open>
  C7: a resumed run settles like a fresh one.  With the MySQL recovery store over any
  well-formed table, a run that starts from a checkpoint in progress overlays the recorded
  attempts and then settles for the checkpoint's goal and plans.
\<close>

theorem durable_resume_settles:
  assumes "gs_agent_state cp = Some s" and "wf_state s" and "graph_context_ok cp"
    and "gs_status cp \<notin> {Some ''completed'', Some ''blocked''}" and "wf_table table"
  shows "\<exists>k w' r. (\<forall>limit\<ge>k. durable_run (codex_durable model E (Some sql_ops)) limit (v, table) cp
       run_id None recovery conv = (w', r))
     \<and> (\<forall>ans. r = Inr ans \<longrightarrow> answer_ok s recovery ans)"
proof (rule codex_graph.durable_resume_answers [OF assms(1-4)])
  show "trusted_store ops (v, table)" if "da_store (codex_durable model E (Some sql_ops)) = Some ops" for ops
    using that sql_store.store_ops_trusted [OF assms(5), of sql_history v]
    by (simp add: codex_durable_def sql_ops_def)
qed

lemma empty_table_wf [simp]: "wf_table []"
  by (simp add: wf_table_def wf_log_def step_log_def gap_free_def)

text \<open>The demo collaborators over a world with a recovery table, which they leave alone.\<close>

definition table_model :: "(nat \<times> recovery_row list) text_model" where
  "table_model = CompleteText (\<lambda>w request instructions. (w, Inr (render_block (plan_block (demo_plan 1)))))"

definition table_env :: "(nat \<times> recovery_row list) executor_env" where
  "table_env = \<lparr>
     xe_model = LangChainModel (\<lambda>tools w ms. (w, Inr (AIMessage
       (PStr (if tools then ''done'' else render_block judge_block)) [] []))),
     xe_open_tools = (\<lambda>w. (w, Inr ())), xe_tools = (\<lambda>w m. (w, Inr [])), xe_context = None,
     xe_checkpoint = None, xe_thread_id = None, xe_run_id = None, xe_attempt = None,
     xe_max_rounds = 2, xe_tool_cwd = None\<rparr>"

theorem durable_resume_settles_witness:
  "\<exists>k w' r. (\<forall>limit\<ge>k. durable_run (codex_durable table_model table_env (Some sql_ops)) limit (0, [])
       (empty_graph\<lparr>gs_agent_state := Some (demo_state (Some Running)), gs_status := Some ''resuming''\<rparr>)
       ''run'' None None None = (w', r))
     \<and> (\<forall>ans. r = Inr ans \<longrightarrow> answer_ok (demo_state (Some Running)) None ans)"
  using empty_graph_ok by (intro durable_resume_settles) (simp_all add: graph_context_ok_def)


definition demo_row :: recovery_row where
  "demo_row = \<lparr>rr_run_id = ''run'', rr_revision = 1, rr_step_id = ''inspect'', rr_attempt = 1,
     rr_status = Running, rr_result = None, rr_error = None, rr_evidence = None, rr_context = None,
     rr_recovery = False, rr_version = 1\<rparr>"

lemma demo_record:
  "sql_record [] ''run'' (demo_exec Running) None False 1 = Inr ([demo_row], row_abs demo_row)"
  by (simp add: sql_record_def latest_row_def sql_attempt_number_def durable_execution_def demo_exec_def
      insert_row_def demo_row_def row_abs_def row_execution_def durable_evidence_def)




text \<open>
  C10: interrupted work needs a decision.  Once an execution is interrupted, no decision and an
  unknown one are refused, \<open>abort\<close> keeps the state and blocks, and \<open>fail\<close> records exactly that
  execution as failed.
\<close>

theorem recovery_decision_policy:
  assumes "wf_state s" and "mark_stale_execution_interrupted s = Inr t"
    and "List.find (\<lambda>item. se_status item = Interrupted) (as_execs t) = Some e"
  shows "apply_recovery_decision s None =
        Inl (RecoveryDecisionError ''an interrupted Step execution requires --recovery'')
     \<and> apply_recovery_decision s (Some ''abort'') = Inr (t, True)
     \<and> (r \<notin> {''abort'', ''fail''} \<longrightarrow> apply_recovery_decision s (Some r) =
          Inl (RecoveryDecisionError (''invalid recovery decision: '' @ r)))
     \<and> (\<exists>u f. apply_recovery_decision s (Some ''fail'') = Inr (u, False) \<and> wf_state u
          \<and> as_plans u = as_plans s \<and> exec_key f = exec_key e \<and> se_status f = Failed
          \<and> (\<forall>r i. execution_for u r i = (if exec_key e = (r, i) then Some f else execution_for t r i)))"
proof -
  have t: "wf_state t" "as_plans t = as_plans s"
    using mark_stale_settles [OF assms(1,2)] by (simp_all add: settled_def)
  have e: "e \<in> set (as_execs t)" using assms(3) by (auto dest: find_Some_in)
  let ?m = "or_str (se_error e) ''Step execution was interrupted''"
  note set = settle_status [OF t(1) e, of Failed ?m]
  have "execution_for (settled_state t e Failed ?m) r i
      = (if exec_key e = (r, i) then Some (settle_as e Failed ?m) else execution_for t r i)" for r i
    using execution_for_with [OF t(1) set(2)] by simp
  then show ?thesis
    using set(3) t by (auto simp: apply_recovery_conv [OF assms(1,2)] assms(3)
        intro!: exI [of _ "settle_as e Failed ?m"])
qed

lemma demo_mark_stale:
  "mark_stale_execution_interrupted (demo_state (Some Interrupted)) = Inr (demo_state (Some Interrupted))"
  by (simp add: mark_stale_execution_interrupted_def demo_state_def demo_exec_def)

theorem recovery_decision_policy_witness:
  "apply_recovery_decision (demo_state (Some Interrupted)) None =
        Inl (RecoveryDecisionError ''an interrupted Step execution requires --recovery'')
     \<and> apply_recovery_decision (demo_state (Some Interrupted)) (Some ''abort'')
         = Inr (demo_state (Some Interrupted), True)
     \<and> apply_recovery_decision (demo_state (Some Interrupted)) (Some ''retry'') =
          Inl (RecoveryDecisionError (''invalid recovery decision: '' @ ''retry''))
     \<and> (\<exists>u f. apply_recovery_decision (demo_state (Some Interrupted)) (Some ''fail'') = Inr (u, False) \<and> wf_state u
          \<and> se_status f = Failed \<and> execution_for u 1 ''inspect'' = Some f)"
proof -
  have f: "List.find (\<lambda>item. se_status item = Interrupted) (as_execs (demo_state (Some Interrupted)))
      = Some (demo_exec Interrupted)" by (simp add: demo_state_def demo_exec_def)
  have k: "exec_key (demo_exec Interrupted) = (1, ''inspect'')" by (simp add: demo_exec_def)
  show ?thesis
    using recovery_decision_policy [OF demo_state_wf demo_mark_stale f, of "''retry''"] unfolding k by auto
qed



text \<open>
  C12: the checkpoint payload loses nothing but unconfirmed evidence.  Decoding an encoded
  well-formed state gives the state back, without the evidence of executions not completed.
\<close>

theorem payload_round_trip:
  assumes "wf_state s"
  shows "deserialize_agent_state (serialize_agent_state s) = Inr (durable_state s)"
  using assms by (rule deserialize_serialize)

theorem payload_round_trip_witness:
  "deserialize_agent_state (serialize_agent_state (demo_state (Some Running)))
     = Inr (durable_state (demo_state (Some Running)))"
  by (rule payload_round_trip) simp

text \<open>
  C13: whatever payload is decoded, an accepted one is a well-formed state within the revision
  budget: sequential revisions, unique steps, executions of existing steps only.
\<close>

theorem decoded_state_wf:
  assumes "deserialize_agent_state payload = Inr s"
  shows "wf_state s \<and> length (as_plans s) \<le> 3"
  using deserialize_wf [OF assms] wf_state_budget by blast

theorem decoded_state_wf_witness:
  "wf_state new_state \<and> length (as_plans new_state) \<le> 3"
  by (rule decoded_state_wf [of "PDict [(''goal'', PStr ''Ship'')]"])
    (simp add: deserialize_agent_state_def agent_state_of_values_def require_text_def new_state_def)

text \<open>
  the revision budget.  A valid plan is accepted exactly when it is the next revision for
  the state's goal and fewer than three plans exist; the plan is then appended and the state
  stays well-formed.
\<close>

theorem revision_budget:
  assumes "wf_state s" and "wf_plan p"
  shows "((\<exists>s'. with_plan s p = Inr s') \<longleftrightarrow> length (as_plans s) < 3
       \<and> pl_revision p = int (length (as_plans s)) + 1 \<and> pl_goal p = as_goal s)
     \<and> (\<forall>s'. with_plan s p = Inr s' \<longrightarrow> wf_state s' \<and> as_plans s' = as_plans s @ [p]
          \<and> as_execs s' = as_execs s)"
  using with_plan_Inr [OF assms] with_plan_wf [OF assms] assms(2) by (auto simp: wf_plan_def)

theorem revision_budget_witness:
  "\<exists>s'. with_plan (demo_state None) (demo_plan 2) = Inr s' \<and> wf_state s'
     \<and> as_plans s' = [demo_plan 1, demo_plan 2]"
  using revision_budget [of "demo_state None" "demo_plan 2"]
  by (auto simp: demo_state_def [THEN arg_cong [where f = as_plans]] demo_state_def [THEN arg_cong [where f = as_goal]]
      demo_plan_def [THEN arg_cong [where f = pl_goal]] demo_plan_def [THEN arg_cong [where f = pl_revision]])

text \<open>
  recording an execution makes it the current one of its step and leaves every other step's
  execution as it was; an execution of a step that no plan has is refused.
\<close>

theorem recorded_execution_is_current:
  assumes "wf_state s" and "wf_exec e"
  shows "(exec_key e \<notin> set (plan_step_keys (as_plans s)) \<longrightarrow> with_step_execution s e =
        Inl (ValueError ''step execution must be associated with a plan step''))
     \<and> (exec_key e \<in> set (plan_step_keys (as_plans s)) \<longrightarrow> (\<exists>s'. with_step_execution s e = Inr s'
          \<and> wf_state s' \<and> as_plans s' = as_plans s
          \<and> (\<forall>r i. execution_for s' r i = (if exec_key e = (r, i) then Some e else execution_for s r i))))"
proof (cases "exec_key e \<in> set (plan_step_keys (as_plans s))")
  case True
  then obtain s' where s': "with_step_execution s e = Inr s'" "as_plans s' = as_plans s"
    using with_step_execution_Inr [OF assms(1), of e] by auto
  with with_step_execution_wf [OF assms s'(1)] execution_for_with [OF assms(1) s'(1)] True show ?thesis by simp
next
  case False
  have d: "distinct (map exec_key (filter (\<lambda>item. exec_key item \<noteq> exec_key e) (as_execs s) @ [e]))"
    using assms(1) by (auto simp: wf_state_def coherent_def distinct_map_filter)
  with False assms(1) show ?thesis
    by (simp add: with_step_execution_def mk_agent_state_def agent_state_of_values_def wf_state_def
        coherent_def require_text_def)
qed

theorem recorded_execution_is_current_witness:
  "\<exists>s'. with_step_execution (demo_state (Some Running)) (demo_exec Failed) = Inr s' \<and> wf_state s'
     \<and> execution_for s' 1 ''inspect'' = Some (demo_exec Failed)"
proof -
  have "exec_key (demo_exec Failed) = (1, ''inspect'')"
    and "(1, ''inspect'') \<in> set (plan_step_keys (as_plans (demo_state (Some Running))))"
    by (simp_all add: demo_exec_def demo_state_def demo_plan_def demo_step_def plan_step_keys_def)
  then show ?thesis
    using recorded_execution_is_current [of "demo_state (Some Running)" "demo_exec Failed"] by auto
qed

end
