(* ===== verification/Protocol_Properties.thy ===== *)
theory Protocol_Properties
  imports Agent_Properties
begin

section \<open>What the Line Protocol guarantees\<close>

text \<open>
  The properties of the protocol parser, its decoders, the JSON literals in it and the one
  retry of a model response that local validation rejects.
\<close>

text \<open>
  C32: printing and parsing.  Every document tree the registry allows, printed line by line with
  JSON literals, parses back to itself.
\<close>

theorem parse_of_rendered:
  assumes "renderable b" and "conforms b" and "bk_type b \<noteq> ''STEP''"
  shows "parse_line_protocol (render_block b) = Inr b"
  using assms by (rule parse_render)

theorem parse_of_rendered_witness:
  "parse_line_protocol (render_block (plan_block (demo_plan 1))) = Inr (plan_block (demo_plan 1))"
  by (rule parse_of_rendered [OF plan_block_ok(1,2)]) (simp_all add: plan_block_def)

text \<open>
  C33: what the parser accepts obeys the registry: known block types with declared fields only,
  repeated only where declared an array, and declared child blocks at every depth.
\<close>

theorem accepted_documents_conform:
  assumes "parse_line_protocol document = Inr b"
  shows "conforms b \<and> bk_type b \<noteq> ''STEP''"
  using assms by (rule parse_line_protocol_conforms)

theorem accepted_documents_conform_witness: "conforms judge_block \<and> bk_type judge_block \<noteq> ''STEP''"
  by (rule accepted_documents_conform [OF judge_block_parses])

text \<open>
  A plan survives the wire: the document of a valid plan decodes, for its goal and
  revision, to that plan.
\<close>

theorem plan_document_round_trip:
  assumes "wf_plan p"
  shows "decode_plan (render_block (plan_block p)) (pl_goal p) (pl_revision p) = Inr p"
  using assms by (rule decode_render_plan)

theorem plan_document_round_trip_witness:
  "decode_plan (render_block (plan_block (demo_plan 2))) (pl_goal (demo_plan 2)) (pl_revision (demo_plan 2))
     = Inr (demo_plan 2)"
  by (rule plan_document_round_trip) simp

text \<open>
  An accepted completion judgment has one verdict for every criterion in order, each with
  a detail that is not blank, and is complete exactly when every criterion is verified.
\<close>

theorem verdicts_cover_criteria:
  assumes "decode_completion_judgment document n = Inr j"
  shows "0 < n \<and> map fst (cj_verdicts j) = map int [1..<n + 1]
     \<and> (\<forall>(i, ok, detail)\<in>set (cj_verdicts j). \<not> blank detail)
     \<and> (cj_all_completed j \<longleftrightarrow> map fst (cj_completed j) = map int [1..<n + 1])"
proof -
  note a = decode_completion_judgment_answers [OF assms]
  have "cj_all_completed j \<longleftrightarrow> filter (\<lambda>(i, ok, t). ok) (cj_verdicts j) = cj_verdicts j"
    using a by (auto simp: filter_id_conv)
  moreover have "map fst (cj_completed j) = map fst (filter (\<lambda>(i, ok, t). ok) (cj_verdicts j))"
    by (simp add: cj_completed_def case_prod_unfold)
  moreover have "map fst (filter Q xs) = map fst xs \<longleftrightarrow> filter Q xs = xs" for Q and xs :: "(int \<times> bool \<times> string) list"
    using length_filter_le [of Q xs] by (metis filter_id_conv length_filter_less length_map nat_less_le)
  ultimately have "cj_all_completed j \<longleftrightarrow> map fst (cj_completed j) = map fst (cj_verdicts j)" by simp
  then show ?thesis using a by (auto simp del: upt_Suc)
qed

definition verdict_block :: block where
  "verdict_block = Block ''COMPLETION_PROGRESS'' [(''ALL_COMPLETED'', [PBool False])]
     [Block ''CRITERION_VERDICT'' [(''NUMBER'', [PInt 1]), (''VERIFIED'', [PBool False]), (''GAP'', [PStr ''Found''])] []]"

lemma verdict_block_parses: "parse_line_protocol (render_block verdict_block) = Inr verdict_block"
proof (rule parse_render)
  show "renderable verdict_block"
    by (simp add: verdict_block_def plain_name_def is_name_def upper_def upper_char_def is_letter_def
        is_digit_def Let_def show_nat_small)
  show "conforms verdict_block" unfolding verdict_block_def by code_simp
  show "bk_type verdict_block \<noteq> ''STEP''" by (simp add: verdict_block_def)
qed

lemma verdict_block_decodes:
  "decode_completion_judgment (render_block verdict_block) 1 = Inr
     \<lparr>cj_verdicts = [(1, False, ''Found'')], cj_all_completed = False, cj_answer = None\<rparr>"
proof -
  have "strip ''Found'' = ''Found''" by (simp add: strip_def is_space_def)
  then show ?thesis
    by (simp add: decode_completion_judgment_def verdict_block_parses)
      (simp add: verdict_block_def require_def has_fields_def fields_within_def children_are_def single_def
        bool_of_def decode_criterion_verdict_def text_of_def Let_def)
qed

theorem verdicts_cover_criteria_witness:
  "0 < (1::nat) \<and> map fst [(1::int, False, ''Found'')] = map int [1..<1 + 1]
     \<and> \<not> cj_all_completed \<lparr>cj_verdicts = [(1, False, ''Found'')], cj_all_completed = False, cj_answer = None\<rparr>
     \<and> \<not> blank ''Found''"
  using verdicts_cover_criteria [OF verdict_block_decodes] by simp

text \<open>
  A model document that breaks the protocol only raises protocol errors: no decoder of
  plans, verdicts or tool decisions lets another exception out.
\<close>

theorem rejections_are_protocol_errors:
  "only_protocol_errors (parse_line_protocol document)
     \<and> only_protocol_errors (decode_plan document goal revision)
     \<and> only_protocol_errors (decode_completion_judgment document n)
     \<and> only_protocol_errors (decode_no_tool document)"
  by (intro conjI only_parse only_decode_plan only_decode_completion_judgment only_decode_no_tool)

text \<open>
  a rejected model response is asked for once more and no further: at most two requests
  reach the provider, a second one only after a \<open>ValueError\<close>, and what is returned validated.
\<close>

theorem at_most_two_requests:
  assumes "\<And>w i. count (fst (request w i)) \<le> count w + (1::nat)"
  shows "count (fst (validated_text request instructions validate w)) \<le> count w + 2
     \<and> (\<forall>w1 answer. request w instructions = (w1, Inr answer) \<and>
          (\<forall>e. validate answer = Inl e \<longrightarrow> \<not> is_value_error e) \<longrightarrow>
          validated_text request instructions validate w = (w1, validate answer))
     \<and> (\<forall>w' v. validated_text request instructions validate w = (w', Inr v) \<longrightarrow> (\<exists>answer. validate answer = Inr v))"
proof -
  obtain w1 x where x: "request w instructions = (w1, x)" by fastforce
  have one: "count w1 \<le> count w + 1" using assms [of w instructions] x by simp
  have "count (fst (validated_text request instructions validate w)) \<le> count w + 2"
  proof (cases x)
    case (Inr answer)
    show ?thesis
    proof (cases "validate answer")
      case (Inl e)
      let ?f = "validation_feedback_instructions instructions e answer"
      obtain w2 y where y: "request w1 ?f = (w2, y)" by fastforce
      then have "count w2 \<le> count w + 2" using assms [of w1 ?f] one by simp
      with x y Inr Inl one show ?thesis by (cases y) (simp_all add: validated_text_def)
    qed (use x Inr one in \<open>simp add: validated_text_def\<close>)
  qed (use x one in \<open>simp add: validated_text_def\<close>)
  moreover have "validated_text request instructions validate w = (w1, validate answer)"
    if "request w instructions = (w1, Inr answer)" "\<forall>e. validate answer = Inl e \<longrightarrow> \<not> is_value_error e"
    for w1 answer
    using that by (cases "validate answer") (simp_all add: validated_text_def)
  ultimately show ?thesis using validated_text_Inr [of request instructions validate w] by blast
qed

theorem at_most_two_requests_witness:
  "id (fst (validated_text (\<lambda>w i. (w + 1, Inr [])) ''Plan'' (\<lambda>t. decode_plan t ''Ship'' 1) 0)) \<le> id 0 + (2::nat)"
  using at_most_two_requests [of id "\<lambda>w i. (w + 1, Inr [])" "''Plan''" "\<lambda>t. decode_plan t ''Ship'' 1" 0] by simp

end
