(* ===== verification/Context_Properties.thy ===== *)
theory Context_Properties
  imports Examples
begin

section \<open>What the Runtime context guarantees\<close>

text \<open>
  The properties of the evidence window: what the policy may hide from a model, what merging
  Observations keeps, when maintenance ends, and the shape of the rendered messages.
\<close>

definition demo_call :: tool_call where
  "demo_call = \<lparr>tc_id = Some ''c1'', tc_name = Some ''deploy'', tc_args = PDict []\<rparr>"

definition demo_raw :: "string option \<Rightarrow> raw_call" where
  "demo_raw err = \<lparr>rc_id = ''c1'', rc_name = ''deploy'', rc_args = [], rc_result = PStr ''out'', rc_error = err,
     rc_lifecycle = ObservationOnly\<rparr>"

definition first_policy :: policy where
  "first_policy = \<lparr>po_budget = 100, po_raw_rounds = 2, po_messages = False, po_raw = [],
        po_observations = [], po_outcomes = [], po_call_order = [], po_next_order = 0, po_uses = 0,
        po_rounds = 0, po_summaries = [], po_pending = []\<rparr>"

definition failed_policy :: policy where
  "failed_policy = first_policy\<lparr>po_raw := [\<lparr>rt_round = 1, rt_calls = [demo_raw (Some ''boom'')]\<rparr>],
     po_rounds := 1, po_call_order := [((1, ''c1''), 0)], po_next_order := 1,
     po_summaries := [((1, ''c1''), [(''tool'', PDict [(''name'', PStr ''deploy''), (''arguments'', PDict [])])])]\<rparr>"

lemma demo_raw_of: "raw_call_of demo_call (PStr ''out'') err = Inr (demo_raw (case err of Some e \<Rightarrow> if e \<noteq> [] then Some e else None | None \<Rightarrow> None))"
  by (simp add: raw_call_of_def call_arguments_def demo_call_def demo_raw_def call_id_def call_name_def
      result_error_def native_evidence_lifecycle_def or_str_def split: option.split)

lemma failed_policy_recorded:
  "record_tool_round first_policy 1 [demo_call] [PStr ''out''] (Some [Some ''boom'']) [] False =
     Inr (failed_policy, \<lparr>rt_round = 1, rt_calls = [demo_raw (Some ''boom'')]\<rparr>)"
  by (simp add: record_tool_round_def demo_raw_of Let_def)
    (simp add: number_call_def failed_policy_def first_policy_def demo_raw_def)

lemma first_policy_reachable: "policy_reachable first_policy"
  by (rule policy_reachable.initial [of 100 2 False]) (simp add: mk_policy_def first_policy_def)

lemma failed_policy_reachable: "policy_reachable failed_policy"
  by (rule policy_reachable.moved [OF first_policy_reachable policy_step.recorded [OF failed_policy_recorded]])




definition observation_block :: block where
  "observation_block = Block ''OBSERVATION'' [(''ROUND'', [PInt 1]), (''AFFECTS_CURRENT_DECISION'', [PBool True]),
        (''AFFECTED_TARGETS'', [PStr ''summary''])]
      [Block ''EVIDENCE'' [(''CATEGORY'', [PStr ''confirmed_facts'']), (''TEXT'', [PStr ''Found'']),
        (''TOOL_CALL_ID'', [PStr ''c1''])] []]"

definition demo_observation :: observation where
  "demo_observation = \<lparr>ob_round = 1, ob_facts = [\<lparr>ev_text = ''Found'', ev_ids = [''c1'']\<rparr>], ob_errors = [],
     ob_inferences = [], ob_affects = True, ob_targets = [''summary''], ob_start = None, ob_end = None\<rparr>"

lemma observation_block_parses: "parse_line_protocol (render_block observation_block) = Inr observation_block"
proof (rule parse_render)
  show "renderable observation_block"
    by (simp add: observation_block_def plain_name_def is_name_def upper_def upper_char_def is_letter_def
        is_digit_def Let_def show_nat_small)
  show "conforms observation_block" unfolding observation_block_def by code_simp
  show "bk_type observation_block \<noteq> ''STEP''" by (simp add: observation_block_def)
qed

lemma demo_observation_ids [simp]: "source_tool_call_ids demo_observation = [''c1'']"
  by (simp add: source_tool_call_ids_def demo_observation_def from_keys_def)

lemma demo_evidence_parses:
  "parse_evidence (Block ''EVIDENCE'' [(''CATEGORY'', [PStr ''confirmed_facts'']), (''TEXT'', [PStr ''Found'']),
     (''TOOL_CALL_ID'', [PStr ''c1''])] []) = Inr (''confirmed_facts'', \<lparr>ev_text = ''Found'', ev_ids = [''c1'']\<rparr>)"
  by (simp add: parse_evidence_def single_protocol_field_def all_strings_def Let_def)

lemma demo_observation_of: "observation_of_block observation_block 1 expected = attributed demo_observation expected"
  by (simp add: observation_of_block_def observation_block_def single_protocol_field_def
      optional_protocol_int_def impact_of_def valid_targets_def Let_def demo_evidence_parses)
    (simp add: demo_observation_def from_keys_def)

lemma demo_observation_attributed: "expected \<in> {None, Some ''c1''} \<Longrightarrow> attributed demo_observation expected = Inr demo_observation"
  by (auto simp: attributed_def Let_def) (simp_all add: demo_observation_def)

lemma demo_observation_parses:
  "expected \<in> {None, Some ''c1''} \<Longrightarrow>
   parse_observation (PStr (render_block observation_block)) 1 expected = Inr demo_observation"
  by (simp add: parse_observation_def observation_block_parses demo_observation_of demo_observation_attributed)

definition pending_policy :: policy where
  "pending_policy = first_policy\<lparr>po_raw := [\<lparr>rt_round = 1, rt_calls = [demo_raw None]\<rparr>],
       po_rounds := 1, po_call_order := [((1, ''c1''), 0)], po_next_order := 1, po_uses := 1,
       po_outcomes := [((1, ''c1''), \<lparr>oo_status = OPending, oo_error = None\<rparr>)], po_pending := [(1, ''c1'')],
       po_summaries := [((1, ''c1''), [(''tool'', PDict [(''name'', PStr ''deploy''), (''arguments'', PDict [])])])]\<rparr>"

definition observed_policy :: policy where
  "observed_policy = pending_policy\<lparr>po_pending := [], po_observations := [demo_observation],
       po_outcomes := [((1, ''c1''), \<lparr>oo_status = OSucceeded, oo_error = None\<rparr>)]\<rparr>"

lemma observed_policy_reachable: "policy_reachable observed_policy"
proof -
  have "record_tool_round first_policy 1 [demo_call] [PStr ''out''] None [] False =
     Inr (pending_policy, \<lparr>rt_round = 1, rt_calls = [demo_raw None]\<rparr>)"
    by (simp add: record_tool_round_def demo_raw_of Let_def)
      (simp add: number_call_def start_observation_def set_outcome_def pending_policy_def first_policy_def demo_raw_def)
  then have "policy_reachable pending_policy"
    by (intro policy_reachable.moved [OF first_policy_reachable] policy_step.recorded)
  moreover have "policy_step pending_policy
      (finish_observation (1, ''c1'') (Inr (PStr (render_block observation_block))) pending_policy)"
    by (rule policy_step.finished) (simp add: pending_policy_def)
  moreover have "finish_observation (1, ''c1'') (Inr (PStr (render_block observation_block))) pending_policy
      = observed_policy"
    by (simp add: finish_observation_def observation_result_def demo_observation_parses Let_def)
      (simp add: demo_observation_def set_outcome_def observed_policy_def pending_policy_def first_policy_def)
  ultimately show ?thesis by (metis policy_reachable.moved)
qed


text \<open>
  C36: a maintained context fits.  When \<open>maintain\<close> answers a context, it is the assembly of the
  maintained policy and its cost is within the unchanged budget.
\<close>

theorem maintained_context_fits:
  assumes "maintain merge cost durable w p = Some ((w', p'), Inr ctx)"
  shows "ctx = assemble p' durable \<and> cost ctx \<le> po_budget p \<and> po_budget p' = po_budget p"
  using assms by (rule maintain_fits)

lemma demo_maintains: "maintain merge (\<lambda>ctx. 7) durable w first_policy = Some ((w, first_policy), Inr (assemble first_policy durable))"
  by (simp add: maintain.simps Let_def first_policy_def)

theorem maintained_context_fits_witness:
  "assemble first_policy PNone = assemble first_policy PNone \<and> (7::int) \<le> po_budget first_policy
     \<and> po_budget first_policy = po_budget first_policy"
  using maintained_context_fits [OF demo_maintains [of "\<lambda>w a b. (w, [], Inr PNone)" PNone "0::nat"]] by simp



text \<open>
  Merging two Observations loses neither sources nor impact: the merged one names every
  source tool call of both, affects the decision if either did, and has the targets of both.
\<close>

theorem merge_keeps_sources:
  assumes "merged_observation first second content = Inr m"
  shows "set (source_tool_call_ids first) \<union> set (source_tool_call_ids second) \<subseteq> set (source_tool_call_ids m)
     \<and> (ob_affects m \<longleftrightarrow> ob_affects first \<or> ob_affects second)
     \<and> set (ob_targets m) = set (ob_targets first) \<union> set (ob_targets second)"
  using merged_observation_keeps [OF assms] by simp

lemma demo_merge: "merged_observation demo_observation demo_observation (PStr (render_block observation_block)) =
    Inr (demo_observation\<lparr>ob_start := Some 1, ob_end := Some 1\<rparr>)"
proof -
  have "parse_observation (PStr (render_block observation_block)) (ob_round demo_observation) None = Inr demo_observation"
    using demo_observation_parses [of None] by (simp add: demo_observation_def)
  then show ?thesis
    by (simp add: merged_observation_def) (simp add: demo_observation_def from_keys_def first_round_def last_round_def)
qed

theorem merge_keeps_sources_witness:
  "set (source_tool_call_ids demo_observation) \<union> set (source_tool_call_ids demo_observation)
       \<subseteq> set (source_tool_call_ids (demo_observation\<lparr>ob_start := Some 1, ob_end := Some 1\<rparr>))
     \<and> (ob_affects (demo_observation\<lparr>ob_start := Some 1, ob_end := Some 1\<rparr>)
          \<longleftrightarrow> ob_affects demo_observation \<or> ob_affects demo_observation)
     \<and> set (ob_targets (demo_observation\<lparr>ob_start := Some 1, ob_end := Some 1\<rparr>))
         = set (ob_targets demo_observation) \<union> set (ob_targets demo_observation)"
  by (rule merge_keeps_sources [OF demo_merge])

text \<open>
  An Observation speaks for its own call.  What a task for call \<open>i\<close> of round \<open>r\<close> accepts
  cites no other call, cites \<open>i\<close> when it claims an impact, and names targets exactly then.
\<close>

theorem observation_cites_its_call:
  assumes "parse_observation content r (Some i) = Inr ob"
  shows "ob_round ob = r \<and> set (source_tool_call_ids ob) \<subseteq> {i}
     \<and> (ob_affects ob \<longleftrightarrow> ob_targets ob \<noteq> []) \<and> (ob_affects ob \<longrightarrow> source_tool_call_ids ob = [i])"
proof -
  from assms obtain b where "observation_of_block b r (Some i) = Inr ob"
    unfolding parse_observation_def by (auto split: pyval.splits sum.splits elim: bindE_InrE)
  then show ?thesis by (rule observation_attribution)
qed

theorem observation_cites_its_call_witness:
  "ob_round demo_observation = 1 \<and> source_tool_call_ids demo_observation = [''c1'']
     \<and> ob_affects demo_observation \<and> ob_targets demo_observation \<noteq> []"
  using observation_cites_its_call [OF demo_observation_parses [of "Some ''c1''"]]
  by (auto simp: demo_observation_def [THEN arg_cong [where f = ob_affects]])

definition spoken :: "message \<Rightarrow> bool" where
  "spoken m \<longleftrightarrow> (case m of SystemMessage _ \<Rightarrow> True | HumanMessage _ \<Rightarrow> True | _ \<Rightarrow> False)"

lemma well_paired_spoken: "\<forall>m\<in>set ms. spoken m \<Longrightarrow> well_paired (ms @ rest) = well_paired rest"
  by (induction ms) (auto simp: spoken_def split: message.splits)

text \<open>
  C38: native messages are well paired.  In the \<open>messages\<close> layout every rendered AI message is
  followed by exactly the tool messages of its calls, in order, and no tool message stands alone.
\<close>

theorem native_context_well_paired:
  assumes "\<forall>m\<in>set fixed \<union> set feedback. spoken m"
  shows "well_paired (runtime_context_messages ctx status fixed feedback)"
proof -
  have layers: "well_paired (feedback @ rest) = well_paired rest" for rest
    using assms by (intro well_paired_spoken) simp
  have before: "well_paired (fixed @ rest) = well_paired rest" for rest
    using assms by (intro well_paired_spoken) simp
  show ?thesis
    unfolding runtime_context_messages_def Let_def case_prod_beta
    by (simp only: before append_assoc) (intro well_paired_rounds, simp add: layer_def layers split: option.split)
qed

theorem native_context_well_paired_witness:
  "well_paired (runtime_context_messages (assemble failed_policy PNone) None [SystemMessage ''Inspect''] [])"
  by (rule native_context_well_paired) (simp add: spoken_def)

text \<open>
  a rendered file cannot break out of its code block: the fence chosen for a text does not
  occur in it.
\<close>

theorem fence_not_in_text: "\<not> contains (fence_for t fence) t"
  by (rule fence_not_contained)

end
