(* ===== verification/Fingerprint.thy ===== *)
theory Fingerprint
  imports Json "HOL-Library.Word"
begin

section \<open>Configuration fingerprints\<close>

text \<open>
  What \<open>agent/registry.py\<close> uses of the standard library for a fingerprint: the compact canonical
  JSON encoding (\<open>sort_keys=True, separators=(",", ":")\<close>) and \<open>hashlib.sha256(...).hexdigest()\<close>,
  over 32-bit words with wrap-around addition.
\<close>

unbundle bit_operations_syntax

subsection \<open>Canonical JSON\<close>

fun json_compact :: "bool \<Rightarrow> pyval \<Rightarrow> string" where
  "json_compact srt PNone = ''null''"
| "json_compact srt (PBool b) = show_bool_lower b"
| "json_compact srt (PInt i) = show_int i"
| "json_compact srt (PFloat f) = f"
| "json_compact srt (PStr s) = json_string s"
| "json_compact srt (PList xs) = ''['' @ join '','' (map (json_compact srt) xs) @ '']''"
| "json_compact srt (PDict d) =
     (let items = map (\<lambda>(k, v). (k, json_compact srt v)) d
      in [CHR 0x7B] @ join '','' (map (\<lambda>(k, t). json_string k @ '':'' @ t)
           (if srt then sort_key fst items else items)) @ [CHR 0x7D])"

text \<open>Two values that differ only in the order of dictionary entries.\<close>

inductive same_value :: "pyval \<Rightarrow> pyval \<Rightarrow> bool" where
  same_refl: "same_value v v"
| same_list: "list_all2 same_value xs ys \<Longrightarrow> same_value (PList xs) (PList ys)"
| same_dict: "distinct (map fst d) \<Longrightarrow> distinct (map fst e) \<Longrightarrow> fst ` set d = fst ` set e \<Longrightarrow>
     (\<And>k v w. (k, v) \<in> set d \<Longrightarrow> (k, w) \<in> set e \<Longrightarrow> same_value v w) \<Longrightarrow>
     same_value (PDict d) (PDict e)"

lemma sort_items_unique:
  assumes "distinct (map fst xs)" and "distinct (map fst ys)" and "set xs = set ys"
  shows "sort_key fst xs = sort_key fst (ys :: ('k::linorder \<times> 'v) list)"
proof (rule map_sorted_distinct_set_unique [where f = fst])
  show "inj_on fst (set (sort_key fst xs) \<union> set (sort_key fst ys))"
    using assms by (simp add: distinct_map)
qed (use assms in \<open>simp_all add: distinct_map\<close>)

lemma json_compact_same: "same_value v w \<Longrightarrow> json_compact True v = json_compact True w"
proof (induction rule: same_value.induct)
  case (same_list xs ys)
  then have "map (json_compact True) xs = map (json_compact True) ys"
    by (simp add: list_all2_conv_all_nth list_eq_iff_nth_eq)
  then show ?case by simp
next
  case (same_dict d e)
  let ?f = "\<lambda>(k, v). (k, json_compact True v)"
  have keys: "map fst (map ?f d) = map fst d" for d by (induction d) auto
  have sub: "set (map ?f d) \<subseteq> set (map ?f e)"
    if "fst ` set d = fst ` set e" "\<And>k v w. (k, v) \<in> set d \<Longrightarrow> (k, w) \<in> set e \<Longrightarrow> json_compact True v = json_compact True w"
    for d e :: "(string \<times> pyval) list"
  proof
    fix x assume "x \<in> set (map ?f d)"
    then obtain k v where kv: "(k, v) \<in> set d" "x = (k, json_compact True v)" by auto
    then have "k \<in> fst ` set e" using that(1) by force
    then obtain w where "(k, w) \<in> set e" by auto
    with kv that(2) show "x \<in> set (map ?f e)" by force
  qed
  have "set (map ?f d) = set (map ?f e)"
  proof (intro equalityI sub)
    show "\<And>k v w. (k, v) \<in> set e \<Longrightarrow> (k, w) \<in> set d \<Longrightarrow> json_compact True v = json_compact True w"
      using same_dict by metis
  qed (use same_dict in auto)
  moreover have "distinct (map fst (map ?f d))" and "distinct (map fst (map ?f e))"
    unfolding keys using same_dict by simp_all
  ultimately have "sort_key fst (map ?f d) = sort_key fst (map ?f e)"
    by (intro sort_items_unique)
  then show ?case by (simp add: Let_def)
qed simp

subsection \<open>SHA-256\<close>

text \<open>
  The constants are the first 32 fractional bits of the cube roots of the first 64 primes, and of
  the square roots of the first eight.  \<open>floor_root\<close> finds a root bit by bit.
\<close>

primrec floor_root :: "nat \<Rightarrow> nat \<Rightarrow> nat \<Rightarrow> nat \<Rightarrow> nat" where
  "floor_root k n r 0 = r"
| "floor_root k n r (Suc b) = floor_root k n (if (r + 2 ^ b) ^ k \<le> n then r + 2 ^ b else r) b"

definition root_fraction :: "nat \<Rightarrow> nat \<Rightarrow> 32 word" where
  "root_fraction k p = word_of_nat (floor_root k (p * 2 ^ (32 * k)) 0 40)"

definition small_primes :: "nat list" where
  "small_primes = filter (\<lambda>n. \<forall>d\<in>set [2..<n]. n mod d \<noteq> 0) [2..<312]"

definition sha_k :: "32 word list" where
  "sha_k = map (root_fraction 3) small_primes"

definition sha_start :: "32 word list" where
  "sha_start = map (root_fraction 2) (take 8 small_primes)"

definition sha_pad :: "string \<Rightarrow> 8 word list" where
  "sha_pad s =
     (let bytes = map of_char s; n = length bytes; bits = 8 * n
      in bytes @ [0x80] @ replicate ((119 - n mod 64) mod 64) 0
         @ map (\<lambda>i. word_of_nat (bits div 256 ^ (7 - i))) [0..<8])"

fun words_of :: "8 word list \<Rightarrow> 32 word list" where
  "words_of (a # b # c # d # r) =
     (push_bit 24 (ucast a) OR push_bit 16 (ucast b) OR push_bit 8 (ucast c) OR ucast d) # words_of r"
| "words_of _ = []"

definition small_sigma :: "nat \<Rightarrow> nat \<Rightarrow> nat \<Rightarrow> 32 word \<Rightarrow> 32 word" where
  "small_sigma a b c x = word_rotr a x XOR word_rotr b x XOR drop_bit c x"

definition big_sigma :: "nat \<Rightarrow> nat \<Rightarrow> nat \<Rightarrow> 32 word \<Rightarrow> 32 word" where
  "big_sigma a b c x = word_rotr a x XOR word_rotr b x XOR word_rotr c x"

text \<open>The message schedule, newest word first.\<close>

fun schedule :: "nat \<Rightarrow> 32 word list \<Rightarrow> 32 word list" where
  "schedule 0 ws = ws"
| "schedule (Suc n) ws =
     schedule n ((small_sigma 17 19 10 (ws ! 1) + ws ! 6 + small_sigma 7 18 3 (ws ! 14) + ws ! 15) # ws)"

fun sha_round :: "32 word \<times> 32 word \<Rightarrow> 32 word list \<Rightarrow> 32 word list" where
  "sha_round (k, w) [a, b, c, d, e, f, g, h] =
     (let t1 = h + big_sigma 6 11 25 e + ((e AND f) XOR (NOT e AND g)) + k + w;
          t2 = big_sigma 2 13 22 a + ((a AND b) XOR (a AND c) XOR (b AND c))
      in [t1 + t2, a, b, c, d + t1, e, f, g])"
| "sha_round _ st = st"

definition sha_block :: "32 word list \<Rightarrow> 32 word list \<Rightarrow> 32 word list" where
  "sha_block st block =
     map2 (+) st (fold sha_round (zip sha_k (rev (schedule 48 (rev block)))) st)"

function sha_blocks :: "32 word list \<Rightarrow> 32 word list \<Rightarrow> 32 word list" where
  "sha_blocks st ws = (if ws = [] then st else sha_blocks (sha_block st (take 16 ws)) (drop 16 ws))"
  by pat_completeness auto
termination by (relation "measure (length \<circ> snd)") auto

declare sha_blocks.simps [simp del]

definition hex_word :: "32 word \<Rightarrow> string" where
  "hex_word w = map (\<lambda>i. ''0123456789abcdef'' ! (unat w div 16 ^ (7 - i) mod 16)) [0..<8]"

definition sha256_hex :: "string \<Rightarrow> string" where
  "sha256_hex s = concat (map hex_word (sha_blocks sha_start (words_of (sha_pad s))))"

end
