(* ===== verification/Registry.thy ===== *)
theory Registry
  imports Fingerprint Contracts
begin

section \<open>The run registry\<close>

text \<open>
  \<open>agent/registry.py\<close>: what is known of a run, its configuration snapshot and fingerprint, and
  the exclusive execution lease.  Instants are microseconds.  The in-memory registry keeps a
  dictionary; the MySQL registry is modelled over its table \<open>agent_runs\<close>, a list of rows with
  the primary key \<open>run_id\<close>.  An \<open>UPDATE\<close> affects the rows it really changes, as MySQL counts
  them.  The JSON columns hold the text they were given.
\<close>

record run_record =
  ru_run_id :: string
  ru_thread_id :: string
  ru_status :: string
  ru_snapshot :: pyval
  ru_fingerprint :: string
  ru_terminal :: "pyval option"
  ru_owner :: "string option"
  ru_expires :: "int option"

definition lease_time :: int where
  "lease_time = 60 * 1000000"

subsection \<open>Configuration snapshots\<close>

definition secret_words :: "string list" where
  "secret_words = [''secret'', ''password'', ''token'', ''credential'', ''api_key'']"

definition secret_key :: "string \<Rightarrow> bool" where
  "secret_key key \<longleftrightarrow> key = ''env'' \<or> (\<exists>word\<in>set secret_words. contains word (lower key))"

text \<open>\<open>_without_secrets\<close>; an entry whose cleaned value is \<open>None\<close> is left out.\<close>

fun without_secrets :: "pyval \<Rightarrow> pyval" where
  "without_secrets (PDict d) =
     PDict (filter (\<lambda>(k, v). v \<noteq> PNone)
       (map (\<lambda>(k, v). (k, if secret_key k then PNone else without_secrets v)) d))"
| "without_secrets (PList xs) = PList (map without_secrets xs)"
| "without_secrets v = v"

definition provider_snapshot :: "pyval \<Rightarrow> pyval result" where
  "provider_snapshot provider =
     bindE (get_item provider ''base_url'') (\<lambda>base_url.
     bindE (get_item provider ''model_name'') (\<lambda>model_name.
     Inr (PDict ([(''base_url'', base_url), (''model_name'', model_name)]
       @ (case get_item provider ''stream'' of Inr v \<Rightarrow> [(''stream'', v)] | Inl _ \<Rightarrow> [])))))"

definition configuration_snapshot ::
  "pyval \<Rightarrow> pyval option \<Rightarrow> pyval option \<Rightarrow> pyval option \<Rightarrow> pyval option
     \<Rightarrow> string option \<Rightarrow> string option \<Rightarrow> string \<Rightarrow> pyval result" where
  "configuration_snapshot mcp planner executor task_analyzer runtime_context base_url model layout =
     (if layout \<notin> {''grouped'', ''messages''}
      then Inl (ValueError (''runtime context layout must be '' @ [CHR 0x27] @ ''grouped'' @ [CHR 0x27]
             @ '' or '' @ [CHR 0x27] @ ''messages'' @ [CHR 0x27]))
      else
        let planner = (case planner of Some p \<Rightarrow> p | None \<Rightarrow>
              PDict [(''base_url'', PStr (or_str base_url [])), (''model_name'', PStr (or_str model []))]);
            executor = (case executor of Some p \<Rightarrow> p | None \<Rightarrow> planner);
            task_analyzer = (case task_analyzer of Some p \<Rightarrow> p | None \<Rightarrow> planner)
        in bindE (provider_snapshot planner) (\<lambda>pl.
           bindE (provider_snapshot executor) (\<lambda>ex.
           bindE (provider_snapshot task_analyzer) (\<lambda>ta.
           bindE (case runtime_context of None \<Rightarrow> Inr PNone | Some p \<Rightarrow> provider_snapshot p) (\<lambda>rc.
           Inr (PDict [(''planner'', pl), (''executor'', ex), (''task_analyzer'', ta),
             (''runtime_context'', rc), (''runtime_context_layout'', PStr layout),
             (''mcp'', without_secrets mcp)]))))))"

definition configuration_fingerprint :: "pyval \<Rightarrow> string" where
  "configuration_fingerprint snapshot = sha256_hex (json_compact True snapshot)"

definition check_fingerprint :: "run_record \<Rightarrow> pyval \<Rightarrow> run_record result" where
  "check_fingerprint r snapshot =
     (if ru_fingerprint r \<noteq> configuration_fingerprint snapshot
      then Inl (ConfigurationMismatchError ''run configuration fingerprint does not match'')
      else Inr r)"

subsection \<open>The in-memory registry\<close>

type_synonym mem_registry = "(string \<times> run_record) list"

definition mem_create :: "mem_registry \<Rightarrow> string \<Rightarrow> pyval \<Rightarrow> mem_registry \<times> run_record" where
  "mem_create st run_id snapshot =
     (let r = \<lparr>ru_run_id = run_id, ru_thread_id = run_id, ru_status = ''running'', ru_snapshot = snapshot,
          ru_fingerprint = configuration_fingerprint snapshot, ru_terminal = None, ru_owner = None,
          ru_expires = None\<rparr>
      in (AList.update run_id r st, r))"

definition mem_get :: "mem_registry \<Rightarrow> string \<Rightarrow> run_record result" where
  "mem_get st run_id = (case map_of st run_id of None \<Rightarrow> Inl (KeyError run_id) | Some r \<Rightarrow> Inr r)"

definition mem_ensure_compatible :: "mem_registry \<Rightarrow> string \<Rightarrow> pyval \<Rightarrow> run_record result" where
  "mem_ensure_compatible st run_id snapshot = bindE (mem_get st run_id) (\<lambda>r. check_fingerprint r snapshot)"

definition mem_acquire :: "mem_registry \<Rightarrow> string \<Rightarrow> string \<Rightarrow> int \<Rightarrow> mem_registry \<times> run_record result" where
  "mem_acquire st run_id owner now =
     bindW (liftW st (mem_get st run_id)) (\<lambda>st r.
     if or_str (ru_owner r) [] \<noteq> [] \<and> ru_owner r \<noteq> Some owner
        \<and> (case ru_expires r of None \<Rightarrow> False | Some e \<Rightarrow> now < e)
     then (st, Inl (RunBusyError ''run busy''))
     else let r' = r\<lparr>ru_owner := Some owner, ru_expires := Some (now + lease_time)\<rparr>
          in (AList.update run_id r' st, Inr r'))"

text \<open>\<open>renew\<close> reads the clock twice.\<close>

definition mem_renew :: "mem_registry \<Rightarrow> string \<Rightarrow> string \<Rightarrow> int \<Rightarrow> int \<Rightarrow> mem_registry \<times> run_record result" where
  "mem_renew st run_id owner now now' =
     bindW (liftW st (mem_get st run_id)) (\<lambda>st r.
     if ru_owner r \<noteq> Some owner \<or> (case ru_expires r of None \<Rightarrow> True | Some e \<Rightarrow> e \<le> now)
     then (st, Inl (RunBusyError ''run lease expired''))
     else let r' = r\<lparr>ru_expires := Some (now' + lease_time)\<rparr>
          in (AList.update run_id r' st, Inr r'))"

definition mem_release :: "mem_registry \<Rightarrow> string \<Rightarrow> string \<Rightarrow> mem_registry \<times> unit result" where
  "mem_release st run_id owner =
     bindW (liftW st (mem_get st run_id)) (\<lambda>st r.
     if ru_owner r = Some owner
     then (AList.update run_id (r\<lparr>ru_owner := None, ru_expires := None\<rparr>) st, Inr ())
     else (st, Inr ()))"

text \<open>The status of a run must be a string.\<close>

definition status_text :: "pyval \<Rightarrow> string result" where
  "status_text v = (case as_str v of None \<Rightarrow> Inl (TypeError ''status'') | Some s \<Rightarrow> Inr s)"

definition mem_set_terminal ::
  "mem_registry \<Rightarrow> string \<Rightarrow> string \<Rightarrow> pyval \<Rightarrow> mem_registry \<times> unit result" where
  "mem_set_terminal st run_id owner outcome =
     bindW (liftW st (mem_get st run_id)) (\<lambda>st r.
     if ru_owner r \<noteq> Some owner then (st, Inl (RunBusyError ''run lease expired''))
     else bindW (liftW st (bindE (get_item outcome ''status'') status_text)) (\<lambda>st status.
       (AList.update run_id (r\<lparr>ru_status := status, ru_terminal := Some outcome\<rparr>) st, Inr ())))"

subsection \<open>The MySQL registry\<close>

record run_row =
  rw_run_id :: string
  rw_thread_id :: string
  rw_status :: string
  rw_snapshot :: string
  rw_fingerprint :: string
  rw_terminal :: "string option"
  rw_owner :: "string option"
  rw_expires :: "int option"

text \<open>
  \<open>UPDATE ... WHERE\<close>: the rows that satisfy the condition are changed; the row count counts
  those whose values differ afterwards.
\<close>

definition sql_update :: "('r \<Rightarrow> bool) \<Rightarrow> ('r \<Rightarrow> 'r) \<Rightarrow> 'r list \<Rightarrow> 'r list \<times> nat" where
  "sql_update cond f table =
     (map (\<lambda>r. if cond r then f r else r) table, length (filter (\<lambda>r. cond r \<and> f r \<noteq> r) table))"

definition sql_get_run :: "run_row list \<Rightarrow> string \<Rightarrow> run_record result" where
  "sql_get_run table run_id =
     (case List.find (\<lambda>r. rw_run_id r = run_id) table of
        None \<Rightarrow> Inl (KeyError (''unknown Agent run: '' @ run_id))
      | Some r \<Rightarrow>
          (case (json_loads True (rw_snapshot r), map_option (json_loads True) (rw_terminal r)) of
             (Some snapshot, None) \<Rightarrow>
               Inr \<lparr>ru_run_id = rw_run_id r, ru_thread_id = rw_thread_id r, ru_status = rw_status r,
                 ru_snapshot = snapshot, ru_fingerprint = rw_fingerprint r, ru_terminal = None,
                 ru_owner = rw_owner r, ru_expires = rw_expires r\<rparr>
           | (Some snapshot, Some (Some terminal)) \<Rightarrow>
               Inr \<lparr>ru_run_id = rw_run_id r, ru_thread_id = rw_thread_id r, ru_status = rw_status r,
                 ru_snapshot = snapshot, ru_fingerprint = rw_fingerprint r, ru_terminal = Some terminal,
                 ru_owner = rw_owner r, ru_expires = rw_expires r\<rparr>
           | _ \<Rightarrow> Inl (ValueError ''Expecting value'')))"

definition sql_create :: "run_row list \<Rightarrow> string \<Rightarrow> pyval \<Rightarrow> run_row list \<times> run_record result" where
  "sql_create table run_id snapshot =
     (if run_id \<in> rw_run_id ` set table then (table, Inl IntegrityError)
      else let table = table @ [\<lparr>rw_run_id = run_id, rw_thread_id = run_id, rw_status = ''running'',
               rw_snapshot = json_ascii True snapshot, rw_fingerprint = configuration_fingerprint snapshot,
               rw_terminal = None, rw_owner = None, rw_expires = None\<rparr>]
           in (table, sql_get_run table run_id))"

definition sql_ensure_compatible :: "run_row list \<Rightarrow> string \<Rightarrow> pyval \<Rightarrow> run_record result" where
  "sql_ensure_compatible table run_id snapshot =
     bindE (sql_get_run table run_id) (\<lambda>r. check_fingerprint r snapshot)"

definition sql_acquire :: "run_row list \<Rightarrow> string \<Rightarrow> string \<Rightarrow> int \<Rightarrow> run_row list \<times> run_record result" where
  "sql_acquire table run_id owner now =
     (let (table, changed) = sql_update
            (\<lambda>r. rw_run_id r = run_id \<and> (rw_owner r = None \<or> rw_owner r = Some owner
               \<or> (case rw_expires r of None \<Rightarrow> False | Some e \<Rightarrow> e \<le> now)))
            (\<lambda>r. r\<lparr>rw_owner := Some owner, rw_expires := Some (now + lease_time)\<rparr>) table
      in (table, if changed = 0 then Inl (RunBusyError ''run busy'') else sql_get_run table run_id))"

definition sql_renew :: "run_row list \<Rightarrow> string \<Rightarrow> string \<Rightarrow> int \<Rightarrow> run_row list \<times> run_record result" where
  "sql_renew table run_id owner now =
     (let (table, changed) = sql_update
            (\<lambda>r. rw_run_id r = run_id \<and> rw_owner r = Some owner
               \<and> (case rw_expires r of None \<Rightarrow> False | Some e \<Rightarrow> now < e))
            (\<lambda>r. r\<lparr>rw_expires := Some (now + lease_time)\<rparr>) table
      in (table, if changed = 0 then Inl (RunBusyError ''run lease expired'') else sql_get_run table run_id))"

definition sql_release :: "run_row list \<Rightarrow> string \<Rightarrow> string \<Rightarrow> run_row list \<times> unit result" where
  "sql_release table run_id owner =
     (fst (sql_update (\<lambda>r. rw_run_id r = run_id \<and> rw_owner r = Some owner)
             (\<lambda>r. r\<lparr>rw_owner := None, rw_expires := None\<rparr>) table), Inr ())"

definition sql_set_terminal ::
  "run_row list \<Rightarrow> string \<Rightarrow> string \<Rightarrow> pyval \<Rightarrow> run_row list \<times> unit result" where
  "sql_set_terminal table run_id owner outcome =
     bindW (liftW table (bindE (get_item outcome ''status'') status_text)) (\<lambda>table status.
     let (table, changed) = sql_update (\<lambda>r. rw_run_id r = run_id \<and> rw_owner r = Some owner)
            (\<lambda>r. r\<lparr>rw_status := status, rw_terminal := Some (json_ascii True outcome)\<rparr>) table
     in (table, if changed = 0 then Inl (RunBusyError ''run lease expired'') else Inr ()))"

end
