(* ===== verification/Registry_Correct.thy ===== *)
theory Registry_Correct
  imports Registry
begin

section \<open>Run leases are exclusive\<close>

text \<open>
  The contract of a run registry is the lease of each run: its holder and its expiry.  What
  another owner may do is fixed by it; both registries satisfy the contract.
\<close>

datatype lease_op = Acquire | Renew | Release | SetTerminal pyval

record lease_event =
  le_owner :: string
  le_time :: int
  le_op :: lease_op

definition lease_apply ::
  "('st \<Rightarrow> string \<Rightarrow> string \<Rightarrow> int \<Rightarrow> 'st \<times> run_record result)
   \<Rightarrow> ('st \<Rightarrow> string \<Rightarrow> string \<Rightarrow> int \<Rightarrow> int \<Rightarrow> 'st \<times> run_record result)
   \<Rightarrow> ('st \<Rightarrow> string \<Rightarrow> string \<Rightarrow> 'st \<times> unit result)
   \<Rightarrow> ('st \<Rightarrow> string \<Rightarrow> string \<Rightarrow> pyval \<Rightarrow> 'st \<times> unit result)
   \<Rightarrow> string \<Rightarrow> lease_event \<Rightarrow> 'st \<Rightarrow> 'st" where
  "lease_apply acquire renew release terminal run ev st =
     (case le_op ev of
        Acquire \<Rightarrow> fst (acquire st run (le_owner ev) (le_time ev))
      | Renew \<Rightarrow> fst (renew st run (le_owner ev) (le_time ev) (le_time ev))
      | Release \<Rightarrow> fst (release st run (le_owner ev))
      | SetTerminal v \<Rightarrow> fst (terminal st run (le_owner ev) v))"

locale lease_store =
  fixes acquire :: "'st \<Rightarrow> string \<Rightarrow> string \<Rightarrow> int \<Rightarrow> 'st \<times> run_record result"
    and renew :: "'st \<Rightarrow> string \<Rightarrow> string \<Rightarrow> int \<Rightarrow> int \<Rightarrow> 'st \<times> run_record result"
    and release :: "'st \<Rightarrow> string \<Rightarrow> string \<Rightarrow> 'st \<times> unit result"
    and terminal :: "'st \<Rightarrow> string \<Rightarrow> string \<Rightarrow> pyval \<Rightarrow> 'st \<times> unit result"
    and lease :: "'st \<Rightarrow> string \<Rightarrow> (string \<times> int) option"
    and known :: "'st \<Rightarrow> string \<Rightarrow> bool"
    and good :: "'st \<Rightarrow> bool"
  assumes acquire_law: "good st \<Longrightarrow> o' \<noteq> [] \<Longrightarrow> acquire st run o' now = (st', x) \<Longrightarrow>
      good st' \<and> (if known st run \<and> (case lease st run of None \<Rightarrow> True | Some (p, e) \<Rightarrow> p = o' \<or> e \<le> now)
        then lease st' = (lease st)(run \<mapsto> (o', now + lease_time)) else lease st' = lease st \<and> x \<in> range Inl)"
    and renew_law: "good st \<Longrightarrow> o' \<noteq> [] \<Longrightarrow> now \<le> later \<Longrightarrow> renew st run o' now later = (st', x) \<Longrightarrow>
      good st' \<and> (if \<exists>e. lease st run = Some (o', e) \<and> now < e
        then \<exists>e\<in>{now + lease_time, later + lease_time}. lease st' = (lease st)(run \<mapsto> (o', e))
        else lease st' = lease st \<and> x \<in> range Inl)"
    and release_law: "good st \<Longrightarrow> o' \<noteq> [] \<Longrightarrow> release st run o' = (st', y) \<Longrightarrow>
      good st' \<and> lease st' = (if \<exists>e. lease st run = Some (o', e) then (lease st)(run := None) else lease st)"
    and terminal_law: "good st \<Longrightarrow> o' \<noteq> [] \<Longrightarrow> terminal st run o' v = (st', y) \<Longrightarrow>
      good st' \<and> lease st' = lease st \<and> ((\<nexists>e. lease st run = Some (o', e)) \<longrightarrow> y \<in> range Inl)"
begin

text \<open>
  Until it expires, whatever other owners do, in whatever order, leaves the lease with its holder.
\<close>

lemma lease_kept:
  assumes "good st" and "lease st run = Some (holder, e)"
    and "\<forall>ev\<in>set evs. le_owner ev \<notin> {[], holder} \<and> le_time ev < e"
  shows "good (fold (lease_apply acquire renew release terminal run) evs st)
     \<and> lease (fold (lease_apply acquire renew release terminal run) evs st) run = Some (holder, e)"
  using assms
proof (induction evs arbitrary: st)
  case (Cons ev evs)
  let ?o = "le_owner ev"
  have o: "?o \<noteq> []" "?o \<noteq> holder" "le_time ev < e" using Cons.prems(3) by auto
  let ?st = "lease_apply acquire renew release terminal run ev st"
  have "good ?st \<and> lease ?st run = Some (holder, e)"
  proof (cases "le_op ev")
    case Acquire
    obtain s x where s: "acquire st run ?o (le_time ev) = (s, x)" by fastforce
    with acquire_law [OF Cons.prems(1) o(1) s] Cons.prems(2) o Acquire show ?thesis
      by (auto simp: lease_apply_def split: if_splits)
  next
    case Renew
    obtain s x where s: "renew st run ?o (le_time ev) (le_time ev) = (s, x)" by fastforce
    with renew_law [OF Cons.prems(1) o(1) order_refl s] Cons.prems(2) o Renew show ?thesis
      by (auto simp: lease_apply_def split: if_splits)
  next
    case Release
    obtain s x where s: "release st run ?o = (s, x)" by fastforce
    with release_law [OF Cons.prems(1) o(1) s] Cons.prems(2) o Release show ?thesis
      by (auto simp: lease_apply_def split: if_splits)
  next
    case (SetTerminal v)
    obtain s x where s: "terminal st run ?o v = (s, x)" by fastforce
    with terminal_law [OF Cons.prems(1) o(1) s] Cons.prems(2) o SetTerminal show ?thesis
      by (auto simp: lease_apply_def)
  qed
  with Cons show ?case by simp
qed simp

text \<open>Meanwhile everyone else is refused: acquiring, renewing and finishing raise.\<close>

lemma others_refused:
  assumes "good st" and "lease st run = Some (holder, e)" and "now < e" and "p \<notin> {[], holder}"
  shows "snd (acquire st run p now) \<in> range Inl \<and> snd (renew st run p now now) \<in> range Inl
     \<and> snd (terminal st run p v) \<in> range Inl"
proof -
  have p: "p \<noteq> []" "p \<noteq> holder" using assms(4) by auto
  obtain s1 x1 s2 x2 s3 x3 where x: "acquire st run p now = (s1, x1)" "renew st run p now now = (s2, x2)"
    "terminal st run p v = (s3, x3)" by fastforce
  from acquire_law [OF assms(1) p(1) x(1)] renew_law [OF assms(1) p(1) order_refl x(2)]
    terminal_law [OF assms(1) p(1) x(3)] assms(2,3) p x
  show ?thesis by (auto split: if_splits)
qed

text \<open>The holder can renew before the expiry, and once it has expired anyone can take the lease.\<close>

lemma lease_moves:
  assumes "good st" and "known st run" and "lease st run = Some (holder, e)" and "p \<noteq> []" "holder \<noteq> []"
  shows "now < e \<Longrightarrow> \<exists>e'\<ge>now + lease_time. lease (fst (renew st run holder now now)) run = Some (holder, e')"
    and "e \<le> now \<Longrightarrow> lease (fst (acquire st run p now)) run = Some (p, now + lease_time)"
proof -
  obtain s1 x1 s2 x2 where x: "renew st run holder now now = (s1, x1)" "acquire st run p now = (s2, x2)"
    by fastforce
  show "\<exists>e'\<ge>now + lease_time. lease (fst (renew st run holder now now)) run = Some (holder, e')" if "now < e"
    using renew_law [OF assms(1,5) order_refl x(1)] assms(3) that x(1) by auto
  show "lease (fst (acquire st run p now)) run = Some (p, now + lease_time)" if "e \<le> now"
    using acquire_law [OF assms(1,4) x(2)] assms(2,3) that x(2) by auto
qed

end

subsection \<open>The in-memory registry\<close>

definition pair_lease :: "string option \<Rightarrow> int option \<Rightarrow> (string \<times> int) option" where
  "pair_lease owner expires = (case (owner, expires) of (Some p, Some e) \<Rightarrow> Some (p, e) | _ \<Rightarrow> None)"

definition good_lease :: "string option \<Rightarrow> int option \<Rightarrow> bool" where
  "good_lease owner expires \<longleftrightarrow> (owner = None \<longleftrightarrow> expires = None) \<and> owner \<noteq> Some []"

lemma pair_lease_simps [simp]:
  "pair_lease (Some p) (Some e) = Some (p, e)" "pair_lease None y = None" "pair_lease x None = None"
  by (simp_all add: pair_lease_def split: option.split)

lemma good_lease_simps [simp]: "good_lease (Some p) (Some e) \<longleftrightarrow> p \<noteq> []" "good_lease None None"
  by (simp_all add: good_lease_def)

lemma good_leaseE:
  assumes "good_lease owner expires"
  obtains (free) "owner = None" "expires = None" | (held) p e where "owner = Some p" "expires = Some e" "p \<noteq> []"
  using assms by (cases owner; cases expires) (auto simp: good_lease_def)

definition mem_lease :: "mem_registry \<Rightarrow> string \<Rightarrow> (string \<times> int) option" where
  "mem_lease st run = (case map_of st run of None \<Rightarrow> None | Some r \<Rightarrow> pair_lease (ru_owner r) (ru_expires r))"

definition good_mem :: "mem_registry \<Rightarrow> bool" where
  "good_mem st \<longleftrightarrow> (\<forall>run r. map_of st run = Some r \<longrightarrow> good_lease (ru_owner r) (ru_expires r))"

lemma mem_lease_update [simp]:
  "mem_lease (AList.update run r st) = (mem_lease st)(run := pair_lease (ru_owner r) (ru_expires r))"
  by (rule ext) (simp add: mem_lease_def update_conv')

lemma good_mem_update [simp]:
  "good_mem st \<Longrightarrow> good_mem (AList.update run r st) \<longleftrightarrow> good_lease (ru_owner r) (ru_expires r)"
  by (auto simp: good_mem_def update_conv')

interpretation mem_registry: lease_store mem_acquire mem_renew mem_release mem_set_terminal mem_lease
  "\<lambda>st run. map_of st run \<noteq> None" good_mem
proof (unfold_locales, goal_cases)
  case (1 st o' run now st' x)
  show ?case
  proof (cases "map_of st run")
    case (Some r)
    with 1 have "good_lease (ru_owner r) (ru_expires r)" by (simp add: good_mem_def)
    moreover have "mem_lease st run = pair_lease (ru_owner r) (ru_expires r)" using Some by (simp add: mem_lease_def)
    ultimately show ?thesis
      by (cases rule: good_leaseE)
        (use 1 Some in \<open>auto simp: mem_acquire_def mem_get_def liftW_def Let_def or_str_def split: if_splits\<close>)
  qed (use 1 in \<open>auto simp: mem_acquire_def mem_get_def liftW_def\<close>)
next
  case (2 st o' now later run st' x)
  show ?case
  proof (cases "map_of st run")
    case (Some r)
    with 2 have "good_lease (ru_owner r) (ru_expires r)" by (simp add: good_mem_def)
    moreover have "mem_lease st run = pair_lease (ru_owner r) (ru_expires r)" using Some by (simp add: mem_lease_def)
    ultimately show ?thesis
      by (cases rule: good_leaseE)
        (use 2 Some in \<open>auto simp: mem_renew_def mem_get_def liftW_def Let_def split: if_splits\<close>)
  qed (use 2 in \<open>auto simp: mem_renew_def mem_get_def liftW_def mem_lease_def\<close>)
next
  case (3 st o' run st' y)
  show ?case
  proof (cases "map_of st run")
    case (Some r)
    with 3 have "good_lease (ru_owner r) (ru_expires r)" by (simp add: good_mem_def)
    moreover have "mem_lease st run = pair_lease (ru_owner r) (ru_expires r)" using Some by (simp add: mem_lease_def)
    ultimately show ?thesis
      by (cases rule: good_leaseE)
        (use 3 Some in \<open>auto simp: mem_release_def mem_get_def liftW_def split: if_splits\<close>)
  qed (use 3 in \<open>auto simp: mem_release_def mem_get_def liftW_def mem_lease_def\<close>)
next
  case (4 st o' run v st' y)
  show ?case
  proof (cases "map_of st run")
    case (Some r)
    with 4 have "good_lease (ru_owner r) (ru_expires r)" by (simp add: good_mem_def)
    moreover have "mem_lease st run = pair_lease (ru_owner r) (ru_expires r)" using Some by (simp add: mem_lease_def)
    ultimately show ?thesis
      by (cases rule: good_leaseE; cases "bindE (get_item v ''status'') status_text")
        (use 4 Some in \<open>auto simp: mem_set_terminal_def mem_get_def liftW_def fun_upd_idem split: if_splits\<close>)
  qed (use 4 in \<open>auto simp: mem_set_terminal_def mem_get_def liftW_def mem_lease_def\<close>)
qed

subsection \<open>The MySQL registry\<close>

definition row_of :: "run_row list \<Rightarrow> string \<Rightarrow> run_row option" where
  "row_of table run = List.find (\<lambda>r. rw_run_id r = run) table"

definition sql_lease :: "run_row list \<Rightarrow> string \<Rightarrow> (string \<times> int) option" where
  "sql_lease table run = (case row_of table run of None \<Rightarrow> None | Some r \<Rightarrow> pair_lease (rw_owner r) (rw_expires r))"

definition good_table :: "run_row list \<Rightarrow> bool" where
  "good_table table \<longleftrightarrow> distinct (map rw_run_id table)
     \<and> (\<forall>r\<in>set table. good_lease (rw_owner r) (rw_expires r))"

lemma row_of_update:
  assumes "\<And>r. rw_run_id (f r) = rw_run_id r"
  shows "row_of (fst (sql_update c f table)) run = map_option (\<lambda>r. if c r then f r else r) (row_of table run)"
  using assms by (induction table) (auto simp: row_of_def sql_update_def)

lemma good_table_update:
  assumes "good_table table" and "\<And>r. rw_run_id (f r) = rw_run_id r"
    and "\<And>r. r \<in> set table \<Longrightarrow> c r \<Longrightarrow> good_lease (rw_owner (f r)) (rw_expires (f r))"
  shows "good_table (fst (sql_update c f table))"
proof -
  have "map rw_run_id (map (\<lambda>r. if c r then f r else r) table) = map rw_run_id table"
    using assms(2) by (induction table) auto
  with assms(1,3) show ?thesis by (auto simp: good_table_def sql_update_def simp del: map_map)
qed

text \<open>An update of one run by its primary key, and its row count.\<close>

lemma update_one:
  assumes "good_table table" and "\<And>r. rw_run_id (f r) = rw_run_id r"
  shows "sql_lease (fst (sql_update (\<lambda>r. rw_run_id r = run \<and> c r) f table)) =
      (case row_of table run of
         None \<Rightarrow> sql_lease table
       | Some r \<Rightarrow> if c r then (sql_lease table)(run := pair_lease (rw_owner (f r)) (rw_expires (f r)))
                   else sql_lease table)"
    and "snd (sql_update (\<lambda>r. rw_run_id r = run \<and> c r) f table) = 0 \<longleftrightarrow>
      (case row_of table run of None \<Rightarrow> True | Some r \<Rightarrow> c r \<longrightarrow> f r = r)"
proof -
  have id: "rw_run_id r = run'" if "row_of table run' = Some r" for r run'
    using that by (auto simp: row_of_def dest: find_Some_in)
  show "sql_lease (fst (sql_update (\<lambda>r. rw_run_id r = run \<and> c r) f table)) =
      (case row_of table run of
         None \<Rightarrow> sql_lease table
       | Some r \<Rightarrow> if c r then (sql_lease table)(run := pair_lease (rw_owner (f r)) (rw_expires (f r)))
                   else sql_lease table)"
  proof (rule ext)
    fix run'
    show "sql_lease (fst (sql_update (\<lambda>r. rw_run_id r = run \<and> c r) f table)) run' =
      (case row_of table run of
         None \<Rightarrow> sql_lease table
       | Some r \<Rightarrow> if c r then (sql_lease table)(run := pair_lease (rw_owner (f r)) (rw_expires (f r)))
                   else sql_lease table) run'"
      using id [of run'] id [of run] row_of_update [of f "\<lambda>r. rw_run_id r = run \<and> c r" table run', OF assms(2)]
      by (cases "run' = run") (auto simp: sql_lease_def split: option.split)
  qed
  have count: "snd (sql_update P f table) = 0 \<longleftrightarrow> (\<forall>r\<in>set table. P r \<longrightarrow> f r = r)" for P
    by (auto simp: sql_update_def filter_empty_conv)
  show "snd (sql_update (\<lambda>r. rw_run_id r = run \<and> c r) f table) = 0 \<longleftrightarrow>
      (case row_of table run of None \<Rightarrow> True | Some r \<Rightarrow> c r \<longrightarrow> f r = r)"
  proof (cases "row_of table run")
    case None
    then have "\<forall>r\<in>set table. rw_run_id r \<noteq> run" by (simp add: row_of_def find_None_all)
    with None count show ?thesis by simp
  next
    case (Some r)
    then have r: "r \<in> set table" "rw_run_id r = run" by (auto simp: row_of_def dest: find_Some_in)
    have "inj_on rw_run_id (set table)" using assms(1) by (simp add: good_table_def distinct_map)
    then have "\<forall>q\<in>set table. rw_run_id q = run \<longrightarrow> q = r" using r by (auto dest: inj_onD)
    then have "(\<forall>q\<in>set table. rw_run_id q = run \<and> c q \<longrightarrow> f q = q) \<longleftrightarrow> (c r \<longrightarrow> f r = r)"
      using r by blast
    with Some show ?thesis by (simp add: count)
  qed
qed

lemma row_of_good: "good_table table \<Longrightarrow> row_of table run = Some r \<Longrightarrow> good_lease (rw_owner r) (rw_expires r)"
  by (auto simp: good_table_def row_of_def dest!: find_Some_in)

definition sql_renew_op :: "run_row list \<Rightarrow> string \<Rightarrow> string \<Rightarrow> int \<Rightarrow> int \<Rightarrow> run_row list \<times> run_record result" where
  "sql_renew_op table run owner now later = sql_renew table run owner now"

interpretation mysql_registry: lease_store sql_acquire sql_renew_op sql_release sql_set_terminal sql_lease
  "\<lambda>table run. row_of table run \<noteq> None" good_table
proof (unfold_locales, goal_cases)
  case (1 st o' run now st' x)
  let ?c = "\<lambda>r. rw_owner r = None \<or> rw_owner r = Some o' \<or> (case rw_expires r of None \<Rightarrow> False | Some e \<Rightarrow> e \<le> now)"
  let ?f = "\<lambda>r. r\<lparr>rw_owner := Some o', rw_expires := Some (now + lease_time)\<rparr>"
  note u = update_one [of st ?f run ?c, OF 1(1)]
  have g: "good_table (fst (sql_update (\<lambda>r. rw_run_id r = run \<and> ?c r) ?f st))"
    using 1(1,2) by (intro good_table_update) simp_all
  show ?case
  proof (cases "row_of st run")
    case None
    with 1(3) u g show ?thesis by (auto simp: sql_acquire_def split: prod.splits)
  next
    case (Some r)
    then have "sql_lease st run = pair_lease (rw_owner r) (rw_expires r)" by (simp add: sql_lease_def)
    with row_of_good [OF 1(1) Some] show ?thesis
      by (cases rule: good_leaseE)
        (use 1(3) u g Some in \<open>auto simp: sql_acquire_def split: prod.splits if_splits\<close>)
  qed
next
  case (2 st o' now later run st' x)
  let ?c = "\<lambda>r. rw_owner r = Some o' \<and> (case rw_expires r of None \<Rightarrow> False | Some e \<Rightarrow> now < e)"
  let ?f = "\<lambda>r. r\<lparr>rw_expires := Some (now + lease_time)\<rparr>"
  note u = update_one [of st ?f run ?c, OF 2(1)]
  have "good_lease (rw_owner r) (rw_expires r)" if "r \<in> set st" for r
    using 2(1) that by (simp add: good_table_def)
  then have g: "good_table (fst (sql_update (\<lambda>r. rw_run_id r = run \<and> ?c r) ?f st))"
    using 2(1,2) by (intro good_table_update) (auto simp: good_lease_def)
  show ?case
  proof (cases "row_of st run")
    case None
    with 2(4) u g show ?thesis
      by (auto simp: sql_renew_op_def sql_renew_def sql_lease_def [of st run] split: prod.splits)
  next
    case (Some r)
    then have "sql_lease st run = pair_lease (rw_owner r) (rw_expires r)" by (simp add: sql_lease_def)
    with row_of_good [OF 2(1) Some] show ?thesis
      by (cases rule: good_leaseE)
        (use 2(4) u g Some in \<open>auto simp: sql_renew_op_def sql_renew_def split: prod.splits if_splits\<close>)
  qed
next
  case (3 st o' run st' y)
  let ?c = "\<lambda>r. rw_owner r = Some o'" and ?f = "\<lambda>r :: run_row. r\<lparr>rw_owner := None, rw_expires := None\<rparr>"
  note u = update_one [of st ?f run ?c, OF 3(1)]
  have g: "good_table (fst (sql_update (\<lambda>r. rw_run_id r = run \<and> ?c r) ?f st))"
    using 3(1) by (intro good_table_update) simp_all
  show ?case
  proof (cases "row_of st run")
    case None
    with 3(3) u g show ?thesis by (auto simp: sql_release_def sql_lease_def [of st run])
  next
    case (Some r)
    then have "sql_lease st run = pair_lease (rw_owner r) (rw_expires r)" by (simp add: sql_lease_def)
    with row_of_good [OF 3(1) Some] show ?thesis
      by (cases rule: good_leaseE) (use 3(3) u g Some in \<open>auto simp: sql_release_def split: if_splits\<close>)
  qed
next
  case (4 st o' run v st' y)
  let ?c = "\<lambda>r. rw_owner r = Some o'"
  let ?f = "\<lambda>t (r :: run_row). r\<lparr>rw_status := t, rw_terminal := Some (json_ascii True v)\<rparr>"
  note u = update_one [of st "?f t" run ?c for t, OF 4(1)]
  have keep: "good_lease (rw_owner (?f t r)) (rw_expires (?f t r))" if "r \<in> set st" for r t
    using 4(1) that by (simp add: good_table_def)
  have g: "good_table (fst (sql_update (\<lambda>r. rw_run_id r = run \<and> ?c r) (?f t) st))" for t
    by (rule good_table_update [OF 4(1)], simp, rule keep)
  show ?case
  proof (cases "bindE (get_item v ''status'') status_text")
    case (Inl e)
    with 4 show ?thesis by (auto simp: sql_set_terminal_def liftW_def)
  next
    case (Inr t)
    show ?thesis
    proof (cases "row_of st run")
      case None
      with 4(3) u [of t] g [of t] Inr show ?thesis by (auto simp: sql_set_terminal_def liftW_def split: prod.splits)
    next
      case (Some r)
      then have "sql_lease st run = pair_lease (rw_owner r) (rw_expires r)" by (simp add: sql_lease_def)
      with row_of_good [OF 4(1) Some] show ?thesis
        by (cases rule: good_leaseE)
          (use 4(3) u [of t] g [of t] Some Inr in
            \<open>auto simp: sql_set_terminal_def liftW_def fun_upd_idem split: prod.splits if_splits\<close>)
    qed
  qed
qed

end
