(* ===== verification/Registry_Properties.thy ===== *)
theory Registry_Properties
  imports Registry_Correct
begin

section \<open>Properties of the run registry\<close>

text \<open>Runs are created under a new id, without a lease.\<close>

lemma sql_create_good:
  assumes "good_table table" and "sql_create table run snapshot = (table', Inr r)"
  shows "good_table table'"
  using assms by (auto simp: good_table_def sql_create_def Let_def split: if_splits)

text \<open>
  C29: the lease of a run is exclusive.  While it is held, whatever other owners try before it
  expires, in whatever order, it stays with its holder, and each of them is refused: acquiring,
  renewing and recording a terminal result raise.
\<close>

theorem lease_is_exclusive:
  assumes "good_table table" and "sql_lease table run = Some (holder, e)"
    and "\<forall>ev\<in>set evs. le_owner ev \<notin> {[], holder} \<and> le_time ev < e"
    and "p \<notin> {[], holder}" and "now < e"
  defines "table' \<equiv> fold (lease_apply sql_acquire sql_renew_op sql_release sql_set_terminal run) evs table"
  shows "good_table table' \<and> sql_lease table' run = Some (holder, e)
     \<and> snd (sql_acquire table' run p now) \<in> range Inl \<and> snd (sql_renew table' run p now) \<in> range Inl
     \<and> snd (sql_set_terminal table' run p outcome) \<in> range Inl"
proof -
  have "good_table table' \<and> sql_lease table' run = Some (holder, e)"
    unfolding table'_def using assms(1-3) by (rule mysql_registry.lease_kept)
  with mysql_registry.others_refused [of table' run holder e now p outcome] assms(4,5)
  show ?thesis by (simp add: sql_renew_op_def)
qed

definition held_row :: run_row where
  "held_row = \<lparr>rw_run_id = ''r1'', rw_thread_id = ''r1'', rw_status = ''running'', rw_snapshot = ''null'',
     rw_fingerprint = ''f'', rw_terminal = None, rw_owner = Some ''a'', rw_expires = Some 60\<rparr>"

definition intrusions :: "lease_event list" where
  "intrusions = [\<lparr>le_owner = ''b'', le_time = 1, le_op = Acquire\<rparr>, \<lparr>le_owner = ''b'', le_time = 2, le_op = Release\<rparr>,
     \<lparr>le_owner = ''c'', le_time = 59, le_op = SetTerminal (PDict [(''status'', PStr ''completed'')])\<rparr>]"

theorem lease_is_exclusive_witness:
  "good_table (fold (lease_apply sql_acquire sql_renew_op sql_release sql_set_terminal ''r1'') intrusions [held_row])
     \<and> sql_lease (fold (lease_apply sql_acquire sql_renew_op sql_release sql_set_terminal ''r1'') intrusions [held_row]) ''r1''
         = Some (''a'', 60)
     \<and> snd (sql_acquire (fold (lease_apply sql_acquire sql_renew_op sql_release sql_set_terminal ''r1'') intrusions
         [held_row]) ''r1'' ''b'' 59) \<in> range Inl
     \<and> snd (sql_renew (fold (lease_apply sql_acquire sql_renew_op sql_release sql_set_terminal ''r1'') intrusions
         [held_row]) ''r1'' ''b'' 59) \<in> range Inl
     \<and> snd (sql_set_terminal (fold (lease_apply sql_acquire sql_renew_op sql_release sql_set_terminal ''r1'') intrusions
         [held_row]) ''r1'' ''b'' PNone) \<in> range Inl"
  by (rule lease_is_exclusive) (simp_all add: good_table_def held_row_def sql_lease_def row_of_def intrusions_def)

text \<open>
  C30: a run is resumed with the configuration it was created with and no other.  The registry
  accepts a snapshot that equals the created one up to the order of dictionary entries, and
  whatever it accepts has the fingerprint of the created one.
\<close>

theorem resumed_configuration_matches:
  assumes "sql_create table run snapshot = (table', Inr r)"
  shows "(same_value snapshot snapshot' \<longrightarrow> sql_ensure_compatible table' run snapshot' = Inr r)
     \<and> (sql_ensure_compatible table' run other \<noteq> Inl (ConfigurationMismatchError
           ''run configuration fingerprint does not match'')
        \<longleftrightarrow> configuration_fingerprint other = configuration_fingerprint snapshot)"
proof -
  have get: "sql_get_run table' run = Inr r" and new: "run \<notin> rw_run_id ` set table"
    using assms by (auto simp: sql_create_def Let_def split: if_splits)
  have "List.find (\<lambda>r. rw_run_id r = run) table = None" using new by (auto simp: find_None_iff)
  then have "ru_fingerprint r = configuration_fingerprint snapshot"
    using assms by (auto simp: sql_create_def sql_get_run_def Let_def find_append split: if_splits option.splits)
  with get show ?thesis
    by (auto simp: sql_ensure_compatible_def check_fingerprint_def configuration_fingerprint_def
        dest: json_compact_same)
qed

definition small_snapshot :: pyval where
  "small_snapshot = PDict [(''mcp'', PDict []), (''executor'', PNone)]"

lemma small_snapshot_reads: "json_loads True (json_ascii True small_snapshot) = Some (PDict [(''executor'', PNone), (''mcp'', PDict [])])"
  unfolding small_snapshot_def by code_simp

theorem resumed_configuration_matches_witness:
  "\<exists>r. sql_ensure_compatible (fst (sql_create [] ''r1'' small_snapshot)) ''r1''
          (PDict [(''executor'', PNone), (''mcp'', PDict [])]) = Inr r
     \<and> ru_snapshot r = PDict [(''executor'', PNone), (''mcp'', PDict [])]"
proof -
  obtain table r where c: "sql_create [] ''r1'' small_snapshot = (table, Inr r)"
    and s: "ru_snapshot r = PDict [(''executor'', PNone), (''mcp'', PDict [])]"
    by (simp add: sql_create_def sql_get_run_def small_snapshot_reads)
  have "same_value small_snapshot (PDict [(''executor'', PNone), (''mcp'', PDict [])])"
    unfolding small_snapshot_def by (rule same_dict) (auto intro: same_refl)
  with resumed_configuration_matches [OF c, of "PDict [(''executor'', PNone), (''mcp'', PDict [])]" small_snapshot] c s
  show ?thesis by auto
qed

text \<open>No dictionary in the value has a secret key.\<close>

fun secret_free :: "pyval \<Rightarrow> bool" where
  "secret_free (PDict d) = (\<forall>(k, v)\<in>set d. \<not> secret_key k \<and> secret_free v)"
| "secret_free (PList xs) = (\<forall>v\<in>set xs. secret_free v)"
| "secret_free v = True"

lemma without_secrets_free: "secret_free (without_secrets v)"
  by (induction v rule: without_secrets.induct) (auto split: if_splits)

lemma provider_snapshot_keys:
  assumes "provider_snapshot p = Inr v"
  obtains q where "v = PDict q" and "fst ` set q \<subseteq> {''base_url'', ''model_name'', ''stream''}"
  using assms by (auto simp: provider_snapshot_def bindE_Inr split: sum.splits)

text \<open>
  C31: what is stored of the configuration holds no secrets.  The snapshot keeps of a provider
  its address, model name and stream flag only, and no dictionary of its MCP part, at any depth,
  has a key that names a secret or the environment.
\<close>

theorem snapshot_without_secrets:
  assumes "configuration_snapshot mcp planner executor analyzer context base_url model layout = Inr snapshot"
  shows "\<exists>d m. snapshot = PDict d \<and> map_of d ''mcp'' = Some m \<and> secret_free m
     \<and> (\<forall>k\<in>{''planner'', ''executor'', ''task_analyzer'', ''runtime_context''}. \<exists>v. map_of d k = Some v
          \<and> (v = PNone \<or> (\<exists>q. v = PDict q \<and> fst ` set q \<subseteq> {''base_url'', ''model_name'', ''stream''})))"
proof -
  from assms obtain pl ex ta rc p1 p2 p3 where
    s: "snapshot = PDict [(''planner'', pl), (''executor'', ex), (''task_analyzer'', ta), (''runtime_context'', rc),
      (''runtime_context_layout'', PStr layout), (''mcp'', without_secrets mcp)]"
    and p: "provider_snapshot p1 = Inr pl" "provider_snapshot p2 = Inr ex" "provider_snapshot p3 = Inr ta"
      "(case context of None \<Rightarrow> Inr PNone | Some p \<Rightarrow> provider_snapshot p) = Inr rc"
    unfolding configuration_snapshot_def Let_def by (auto simp: bindE_Inr split: if_splits)
  have rc: "rc = PNone \<or> (\<exists>q. rc = PDict q \<and> fst ` set q \<subseteq> {''base_url'', ''model_name'', ''stream''})"
    using p(4) by (auto split: option.splits elim: provider_snapshot_keys)
  from p(1-3) obtain q1 q2 q3 where "pl = PDict q1" "ex = PDict q2" "ta = PDict q3"
    "fst ` set q1 \<subseteq> {''base_url'', ''model_name'', ''stream''}" "fst ` set q2 \<subseteq> {''base_url'', ''model_name'', ''stream''}"
    "fst ` set q3 \<subseteq> {''base_url'', ''model_name'', ''stream''}"
    by (metis provider_snapshot_keys)
  with s rc show ?thesis by (simp add: without_secrets_free)
qed

definition demo_mcp :: pyval where
  "demo_mcp = PDict [(''command'', PStr ''x''), (''api_Token'', PStr ''s'')]"

definition demo_provider :: pyval where
  "demo_provider = PDict [(''base_url'', PStr ''u''), (''model_name'', PStr ''m''), (''api_key'', PStr ''k'')]"

definition shown_provider :: pyval where
  "shown_provider = PDict [(''base_url'', PStr ''u''), (''model_name'', PStr ''m'')]"

lemma demo_configuration:
  "configuration_snapshot demo_mcp (Some demo_provider) None None None None None ''grouped'' = Inr (PDict
     [(''planner'', shown_provider), (''executor'', shown_provider), (''task_analyzer'', shown_provider),
      (''runtime_context'', PNone), (''runtime_context_layout'', PStr ''grouped''),
      (''mcp'', PDict [(''command'', PStr ''x'')])])"
  unfolding demo_mcp_def demo_provider_def shown_provider_def by code_simp

theorem snapshot_without_secrets_witness:
  "configuration_snapshot demo_mcp (Some demo_provider) None None None None None ''grouped'' = Inr (PDict
     [(''planner'', shown_provider), (''executor'', shown_provider), (''task_analyzer'', shown_provider),
      (''runtime_context'', PNone), (''runtime_context_layout'', PStr ''grouped''),
      (''mcp'', PDict [(''command'', PStr ''x'')])])
   \<and> secret_free (PDict [(''command'', PStr ''x'')])"
  using snapshot_without_secrets [OF demo_configuration] demo_configuration by auto

end
