(* ===== verification/Execution.thy ===== *)
theory Execution
  imports Planner Messages Responses Runtime_Context Fingerprint Durable
begin

section \<open>Execution modes\<close>

text \<open>
  \<open>agent/execution.py\<close>: the answer shared by the whole-task modes, the direct mode, the MCP tool
  runtime, the tool-agent mode, the adapter of the durable run, and the selection of a mode.  The
  ReAct mode has its own theory.  Model providers and MCP tools are parameters; tracing and the
  construction of HTTP clients are left out.
\<close>

subsection \<open>Answers\<close>

record execution_answer =
  ea_answer :: "string option"
  ea_status :: string
  ea_error :: "string option"

definition blank_text :: "string option \<Rightarrow> bool" where
  "blank_text t = (case t of None \<Rightarrow> True | Some s \<Rightarrow> blank s)"

definition mk_execution_answer :: "string option \<Rightarrow> string \<Rightarrow> string option \<Rightarrow> execution_answer result" where
  "mk_execution_answer answer status error =
     (if status \<notin> set [''completed'', ''failed'', ''blocked'']
      then Inl (ValueError ''execution answer status must be completed, failed, or blocked'')
      else if status = ''completed'' \<and> blank_text answer
      then Inl (ValueError ''a completed execution answer requires nonempty answer text'')
      else if status = ''completed'' \<and> error \<noteq> None
      then Inl (ValueError ''a completed execution answer cannot contain an error'')
      else if status \<noteq> ''completed'' \<and> blank_text error
      then Inl (ValueError ''a failed execution answer requires a safe error'')
      else Inr \<lparr>ea_answer = answer, ea_status = status, ea_error = error\<rparr>)"

definition wf_answer :: "execution_answer \<Rightarrow> bool" where
  "wf_answer a \<longleftrightarrow>
     (if ea_status a = ''completed'' then \<not> blank_text (ea_answer a) \<and> ea_error a = None
      else ea_status a \<in> {''failed'', ''blocked''} \<and> \<not> blank_text (ea_error a))"

lemma mk_execution_answer_Inr:
  "mk_execution_answer answer status error = Inr a \<longleftrightarrow>
     a = \<lparr>ea_answer = answer, ea_status = status, ea_error = error\<rparr> \<and> wf_answer a"
  by (auto simp: mk_execution_answer_def wf_answer_def)

definition completed_answer :: "string \<Rightarrow> execution_answer result" where
  "completed_answer t = mk_execution_answer (Some t) ''completed'' None"

definition failed_answer :: "string \<Rightarrow> execution_answer result" where
  "failed_answer message = mk_execution_answer None ''failed'' (Some message)"

subsection \<open>The model-facing input\<close>

datatype task_input = PlainGoal string | ConversationGoal "pyval list" string

fun conversation_model_input :: "task_input \<Rightarrow> string" where
  "conversation_model_input (PlainGoal goal) = goal"
| "conversation_model_input (ConversationGoal history current_input) =
     json_compact False (PDict [(''history'', PList history), (''current_input'', PStr current_input)])"

definition answer_instructions :: string where
  \<open>answer_instructions = join [CHR 0x0A]
    [''Return exactly one ANSWER Line Protocol block, with no prose before or after it.'',
     ''The block has exactly one scalar field. Write it as `TEXT=<JSON string literal>`: the'',
     ''field name must be uppercase `TEXT`, followed by `=`, followed by a JSON-encoded string.'',
     ''Do not use a JSON object such as `{"text":"..."}`, and do not use `TEXT: ...`.'',
     '''',
     ''Examples:'',
     ''BEGIN ANSWER'',
     ''TEXT="A concise answer"'',
     ''END ANSWER'',
     '''',
     ''BEGIN ANSWER'',
     ''TEXT="''
      @ [CHR 0xE7, CHR 0xAC, CHR 0xAC]
      @ [CHR 0xE4, CHR 0xB8, CHR 0x80]
      @ [CHR 0xE8, CHR 0xA1, CHR 0x8C]
      @ [CHR 0x5C]
      @ ''n''
      @ [CHR 0xE7, CHR 0xAC, CHR 0xAC]
      @ [CHR 0xE4, CHR 0xBA, CHR 0x8C]
      @ [CHR 0xE8, CHR 0xA1, CHR 0x8C]
      @ ''"'',
     ''END ANSWER'',
     '''',
     ''Do not output any other fields or text.'']\<close>

definition tool_agent_instructions :: string where
  "tool_agent_instructions = ''Use a native function tool call when a tool is needed. If no tool call is needed, ''
     @ answer_instructions"

subsection \<open>The direct mode\<close>

text \<open>What a mode answers for an exception that \<open>except Exception\<close> catches.\<close>

definition safe_answer :: "(exn \<Rightarrow> string) \<Rightarrow> 'w \<times> execution_answer result \<Rightarrow> 'w \<times> execution_answer result" where
  "safe_answer message r = (case r of
       (w, Inl e) \<Rightarrow> (w, if is_exception e then failed_answer (message e) else Inl e)
     | (w, Inr a) \<Rightarrow> (w, Inr a))"

definition direct_run :: "'w text_model \<Rightarrow> task_input \<Rightarrow> 'w \<Rightarrow> 'w \<times> execution_answer result" where
  "direct_run model goal w =
     (case validated_text (request_plan_text model (conversation_model_input goal)) answer_instructions
             decode_answer w of
        (w, Inr answer) \<Rightarrow> (w, completed_answer answer)
      | (w, Inl e) \<Rightarrow> safe_answer (\<lambda>e. if is_line_protocol_error e
            then ''direct model returned an invalid ANSWER response''
            else ''direct model invocation failed'') (w, Inl e))"

subsection \<open>The tool runtime\<close>

record 'w tool_runtime =
  tr_open :: "'w \<Rightarrow> 'w \<times> mcp_tool list result"
  tr_call :: "'w \<Rightarrow> string \<Rightarrow> (string \<times> pyval) list \<Rightarrow> 'w \<times> pyval result"
  tr_close :: "'w \<Rightarrow> 'w \<times> unit result"
  tr_cwd :: "string option"
  tr_allowlist :: "string list option"

text \<open>\<open>__aenter__\<close>: the tools of the session that are allowed; an active runtime is not entered again.\<close>

definition enter_runtime :: "'w tool_runtime \<Rightarrow> mcp_tool list option \<Rightarrow> 'w \<Rightarrow> 'w \<times> mcp_tool list result" where
  "enter_runtime R active w =
     (if active \<noteq> None then (w, Inl (RuntimeError ''Tool runtime is already active''))
      else bindW (tr_open R w) (\<lambda>w tools.
        (w, Inr (filter (\<lambda>t. case tr_allowlist R of None \<Rightarrow> True | Some names \<Rightarrow> mt_name t \<in> set names) tools))))"

definition runtime_tools :: "mcp_tool list option \<Rightarrow> mcp_tool list result" where
  "runtime_tools active = (case active of
       None \<Rightarrow> Inl (RuntimeError ''Tool runtime is not active'') | Some tools \<Rightarrow> Inr tools)"

text \<open>\<open>async with\<close>: the session is closed whatever the body does; a failing close replaces its outcome.\<close>

definition with_runtime ::
  "'w tool_runtime \<Rightarrow> (mcp_tool list \<Rightarrow> 'w \<Rightarrow> 'w \<times> 'a result) \<Rightarrow> 'w \<Rightarrow> 'w \<times> 'a result" where
  "with_runtime R body w =
     bindW (enter_runtime R None w) (\<lambda>w tools.
     let (w, r) = body tools w in bindW (tr_close R w) (\<lambda>w _. (w, r)))"

text \<open>\<open>_ToolExecutionError\<close> carries the failed result; every other exception is \<open>Raised\<close>.\<close>

datatype tool_failure = ToolExecutionError pyval | Raised exn

definition runtime_invoke ::
  "'w tool_runtime \<Rightarrow> mcp_tool list option \<Rightarrow> 'w \<Rightarrow> tool_call \<Rightarrow> 'w \<times> (tool_failure + pyval)" where
  "runtime_invoke R active w call =
     (case runtime_tools active of
        Inl e \<Rightarrow> (w, Inl (Raised e))
      | Inr tools \<Rightarrow>
          case List.find (\<lambda>t. Some (mt_name t) = tc_name call) tools of
            None \<Rightarrow> (w, Inl (Raised (ValueError (''tool '' @ py_repr (opt_str (tc_name call)) @ '' is not allowed''))))
          | Some t \<Rightarrow>
              case call_arguments call of
                Inl e \<Rightarrow> (w, Inl (Raised e))
              | Inr args \<Rightarrow>
                  case tr_call R w (mt_name t)
                         (case tr_cwd R of None \<Rightarrow> args | Some dir \<Rightarrow> AList.update ''cwd'' (PStr dir) args) of
                    (w, Inl e) \<Rightarrow> (w, Inl (Raised e))
                  | (w, Inr r) \<Rightarrow> if tool_result_failed r then (w, Inl (ToolExecutionError r)) else (w, Inr r))"

text \<open>\<open>render_tool_result\<close> of a JSON value.\<close>

definition render_tool_result :: "pyval \<Rightarrow> string result" where
  "render_tool_result v = (case v of
       PStr s \<Rightarrow> if blank s then Inl (ValueError ''tool result is empty'') else Inr s
     | _ \<Rightarrow> Inr (json_dumps True v))"

subsection \<open>The tool-agent mode\<close>

text \<open>
  A chat model of LangChain answers a message to messages under bound tools; the Responses API
  streams events for its input items.
\<close>

datatype 'w mode_model =
    ChatModel "mcp_tool list \<Rightarrow> 'w \<Rightarrow> message list \<Rightarrow> 'w \<times> message result"
  | StreamModel "string option \<Rightarrow> pyval list \<Rightarrow> 'w \<Rightarrow> pyval list \<Rightarrow> 'w \<times> stream_event list result"

fun tool_agent_model_response ::
  "'w mode_model \<Rightarrow> string \<Rightarrow> string \<Rightarrow> mcp_tool list \<Rightarrow> 'w \<Rightarrow> 'w \<times> (string \<times> tool_call list) result" where
  "tool_agent_model_response (ChatModel f) goal instructions tools w =
     bindW (f tools w [SystemMessage instructions, HumanMessage goal]) (\<lambda>w m.
     (w, Inr (message_text m, msg_calls m)))"
| "tool_agent_model_response (StreamModel f) goal instructions tools w =
     bindW (f (Some instructions) (responses_tools tools) w
              [PDict [(''role'', PStr ''user''), (''content'', PStr goal)]]) (\<lambda>w events.
     (w, Inr (collect_events events)))"

text \<open>The first call is invoked; the others are ignored.\<close>

definition tool_agent_invoke ::
  "'w tool_runtime \<Rightarrow> mcp_tool list \<Rightarrow> 'w \<Rightarrow> tool_call \<Rightarrow> 'w \<times> execution_answer result" where
  "tool_agent_invoke R tools w call =
     (case runtime_invoke R (Some tools) w call of
        (w, Inl (Raised e)) \<Rightarrow> (w, Inl e)
      | (w, Inl (ToolExecutionError v)) \<Rightarrow> (w, Inl (RuntimeError ''tool returned a non-success result''))
      | (w, Inr v) \<Rightarrow> (w, bindE (render_tool_result v) completed_answer))"

definition tool_agent_body ::
  "'w mode_model \<Rightarrow> 'w tool_runtime \<Rightarrow> string \<Rightarrow> mcp_tool list \<Rightarrow> 'w \<Rightarrow> 'w \<times> execution_answer result" where
  "tool_agent_body model R goal tools w =
     (let ask = (\<lambda>w instructions. tool_agent_model_response model goal instructions (canonical_mcp_tool_set tools) w)
      in bindW (ask w tool_agent_instructions) (\<lambda>w (text, calls).
         if calls \<noteq> [] then tool_agent_invoke R tools w (hd calls)
         else case decode_answer text of
           Inr answer \<Rightarrow> (w, completed_answer answer)
         | Inl e \<Rightarrow>
             if \<not> is_line_protocol_error e then (w, Inl e)
             else bindW (ask w (validation_feedback_instructions tool_agent_instructions e text)) (\<lambda>w (text, calls).
               if calls \<noteq> [] then tool_agent_invoke R tools w (hd calls)
               else (w, bindE (decode_answer text) completed_answer))))"

text \<open>\<open>ToolAgentMode.run\<close>; \<open>close\<close> releases the clients the mode owns, whose failures are ignored.\<close>

definition tool_agent_run ::
  "'w mode_model \<Rightarrow> 'w tool_runtime \<Rightarrow> ('w \<Rightarrow> 'w) \<Rightarrow> task_input \<Rightarrow> 'w \<Rightarrow> 'w \<times> execution_answer result" where
  "tool_agent_run model R close goal w =
     (let (w, r) = safe_answer (\<lambda>e. ''tool-agent execution failed'')
            (with_runtime R (tool_agent_body model R (conversation_model_input goal)) w)
      in (close w, r))"

subsection \<open>The durable run as a mode\<close>

text \<open>\<open>PlanExecuteMode.run\<close> and \<open>_durable_answer\<close> of \<open>agent/durable.py\<close>.\<close>

definition step_handoff :: "agent_state \<Rightarrow> string option" where
  "step_handoff s = (case List.find (\<lambda>e. se_status e = Completed) (rev (as_execs s)) of
       None \<Rightarrow> None | Some e \<Rightarrow> se_result e)"

definition durable_answer :: "run_answer \<Rightarrow> execution_answer result" where
  "durable_answer r =
     (if rn_status r = ''blocked'' then mk_execution_answer None ''blocked'' (Some ''plan-execute run blocked'')
      else if rn_status r \<noteq> ''completed'' then failed_answer ''plan-execute run did not complete''
      else case (case rn_state r of None \<Rightarrow> None | Some s \<Rightarrow> step_handoff s) of
        Some t \<Rightarrow> if t = [] then failed_answer ''plan-execute run completed without a step handoff''
                  else completed_answer t
      | None \<Rightarrow> failed_answer ''plan-execute run completed without a step handoff'')"

definition plan_execute_failure_message :: "exn \<Rightarrow> string" where
  "plan_execute_failure_message e = (case e of
       PlanningValidationError m \<Rightarrow> ''planning failed: '' @ m
     | ProviderError m (Some code) \<Rightarrow>
         ''plan-execute execution failed: provider returned HTTP '' @ show_int code
         @ (if code = 402 then '' (Insufficient Balance)'' else [])
     | _ \<Rightarrow> ''plan-execute execution failed'')"

fun current_goal :: "task_input \<Rightarrow> string" where
  "current_goal (PlainGoal goal) = goal"
| "current_goal (ConversationGoal history current_input) = current_input"

fun durable_input :: "task_input \<Rightarrow> pyval option" where
  "durable_input (PlainGoal goal) = None"
| "durable_input (ConversationGoal history current_input) =
     Some (PDict [(''history'', PList history), (''current_input'', PStr current_input)])"

text \<open>A completed run without a state fails to be read, which is caught like every exception.\<close>

definition plan_execute_run ::
  "('w \<Rightarrow> agent_state \<Rightarrow> pyval option \<Rightarrow> 'w \<times> run_answer result) \<Rightarrow> task_input \<Rightarrow> 'w
     \<Rightarrow> 'w \<times> execution_answer result" where
  "plan_execute_run durable goal w =
     safe_answer plan_execute_failure_message
       (bindW (liftW w (mk_agent_state (current_goal goal) [] [] None)) (\<lambda>w s.
        bindW (durable w s (durable_input goal)) (\<lambda>w r.
        (w, if rn_status r = ''completed'' \<and> rn_state r = None
            then Inl (TypeError ''NoneType'') else durable_answer r))))"

subsection \<open>Selecting a mode\<close>

datatype selected_mode =
    SelectPlanExecute | SelectToolAgent | SelectReact | SelectDirect | SelectUnavailable string

definition create_execution_mode ::
  "string \<Rightarrow> string \<Rightarrow> bool \<Rightarrow> bool \<Rightarrow> bool \<Rightarrow> pyval list \<Rightarrow> selected_mode result" where
  "create_execution_mode mode layout durable model_given configured credentials =
     (let model = (model_given \<or> configured) in
      if mode \<notin> set [''direct'', ''tool_agent'', ''react'', ''plan_execute'']
      then Inl (ValueError ''mode must be direct, tool_agent, react, or plan_execute'')
      else if layout \<notin> set [''grouped'', ''messages'']
      then Inl (ValueError (''runtime context layout must be '' @ [CHR 0x27] @ ''grouped'' @ [CHR 0x27]
             @ '' or '' @ [CHR 0x27] @ ''messages'' @ [CHR 0x27]))
      else if mode = ''plan_execute'' then Inr (if durable then SelectPlanExecute else SelectUnavailable mode)
      else if mode = ''tool_agent'' then Inr (if model then SelectToolAgent else SelectUnavailable mode)
      else if mode = ''react'' then Inr (if model then SelectReact else SelectUnavailable mode)
      else if \<not> model \<and> (\<exists>v\<in>set credentials. nonblank_str v = None)
      then Inl (ValueError ''direct mode requires an injected model or explicit provider values'')
      else Inr SelectDirect)"

definition unavailable_run :: "string \<Rightarrow> execution_answer result" where
  "unavailable_run mode = failed_answer (''execution mode '' @ repr_str mode @ '' is not implemented'')"

end
