(* ===== verification/React.thy ===== *)
theory React
  imports Execution Executor
begin

section \<open>The ReAct mode\<close>

text \<open>
  \<open>ReactMode\<close> of \<open>agent/execution.py\<close>: rounds of model and tool calls until a proposed answer
  passes completion judgment.  The concurrent tool calls of one round are made in order.
  A Runtime context policy is used through \<open>context_ops\<close>.
\<close>

subsection \<open>Prompts\<close>

definition react_prompt :: string where
  \<open>react_prompt = join [CHR 0x0A]
    [''You are an execution agent. Treat the user''
      @ [CHR 0x27]
      @ ''s requested outcome as the fixed'',
     ''completion standard. Before every tool call, check all three conditions: the requested'',
     ''action or deliverable actually exists (investigation alone does not complete a change'',
     ''request); available evidence directly verifies the outcome to a level proportionate to ''
      @ ''its'',
     ''risk; and no required part of the request remains. If all conditions are met, stop using'',
     ''tools and return the final answer. Otherwise, call only a tool that closes a specific'',
     ''remaining gap, inspect its result, and correct course when it fails. Do not repeat an'',
     ''equivalent inspection or gather extra corroboration after the completion standard is ''
      @ ''met.'',
     ''When sufficient evidence shows that a pending requested outcome requires modifying a ''
      @ ''file,'',
     ''your next tool call must use an available bound write tool. Do not make further read-only'',
     ''tool calls. If no bound write tool is available, return a final answer that explicitly'',
     ''reports the outcome as blocked because no write tool is available.'',
     ''Native function calls take precedence over accompanying text. When no tool call is needed,'',
     ''return exactly one REACT_DECISION Line Protocol block with no surrounding prose:'',
     ''completed requires STATUS="completed" and a nonempty ANSWER; failed requires'',
     ''STATUS="failed" and a nonempty ERROR; need_tool requires STATUS="need_tool" only.'',
     ''ANSWER and ERROR values must each be one JSON string literal on one physical protocol'',
     ''line. Serialize a multiline or quoted answer before emitting it: use `''
      @ [CHR 0x5C]
      @ ''n` for newlines'',
     ''and `''
      @ [CHR 0x5C]
      @ ''"` for embedded double quotes; never put literal newlines inside either field.'',
     ''Use need_tool when you need another round to select a tool. Example:'',
     ''BEGIN REACT_DECISION'',
     ''STATUS="completed"'',
     ''ANSWER="The requested result is ready."'',
     ''END REACT_DECISION'',
     ''Accompanying text on a tool-call response is intermediate reasoning.'',
     '''']\<close>

definition react_repair_instructions :: string where
  \<open>react_repair_instructions = join [CHR 0x0A]
    [''Return one valid REACT_DECISION block.'',
     ''ANSWER must be one JSON string literal on one physical line; ERROR uses the same rule.'',
     ''Encode literal newlines as `''
      @ [CHR 0x5C]
      @ ''n` and embedded double quotes as `''
      @ [CHR 0x5C]
      @ ''"`. For example:'',
     ''BEGIN REACT_DECISION'',
     ''STATUS="completed"'',
     ''ANSWER="First line''
      @ [CHR 0x5C]
      @ ''n''
      @ [CHR 0x5C]
      @ ''nA quoted value: ''
      @ [CHR 0x5C]
      @ ''"example''
      @ [CHR 0x5C]
      @ ''""'',
     ''END REACT_DECISION'']\<close>

definition goal_judge_instructions :: string where
  \<open>goal_judge_instructions = join [CHR 0x0A]
    [''You are a tool-free Completion judge. Judge whether the whole Goal is'',
     ''currently satisfied by the available evidence and ReAct''
      @ [CHR 0x27]
      @ ''s candidate answer. Return exactly'',
     ''one GOAL_JUDGMENT Line Protocol block without prose. Use COMPLETED=true and nonempty'',
     ''EVIDENCE when the Goal is met; otherwise use COMPLETED=false and nonempty GAP.'',
     ''An explanatory answer may satisfy a Goal without Tool calls. Do not treat a claimed'',
     ''external effect as verified solely because ReAct says it happened.'',
     '''']\<close>

definition goal_judge_format :: string where
  \<open>goal_judge_format = join [CHR 0x0A]
    [''Use Line Protocol, not Markdown, JSON, prose, or a table. Your entire'',
     ''response must start with `BEGIN GOAL_JUDGMENT` and end with `END GOAL_JUDGMENT`.'',
     ''Use exactly one `NAME=JSON_LITERAL` field per line, with `=` (never `:`).'',
     ''When the Goal is satisfied, use COMPLETED=true and a nonempty JSON-quoted EVIDENCE;'',
     ''otherwise use COMPLETED=false and a nonempty JSON-quoted GAP.'',
     '''',
     ''Example when the Goal is satisfied:'',
     ''BEGIN GOAL_JUDGMENT'',
     ''COMPLETED=true'',
     ''EVIDENCE="The requested file exists and contains the required content."'',
     ''END GOAL_JUDGMENT'',
     '''',
     ''Example when the Goal is not satisfied:'',
     ''BEGIN GOAL_JUDGMENT'',
     ''COMPLETED=false'',
     ''GAP="The requested file has not been verified."'',
     ''END GOAL_JUDGMENT'']\<close>

definition completion_judge_format :: string where
  \<open>completion_judge_format = join [CHR 0x0A]
    [''Use Line Protocol, not Markdown, JSON, prose, or a table. Your entire'',
     ''response must start with `BEGIN COMPLETION_PROGRESS` and end with `END COMPLETION_PROGRESS`.'',
     ''Write one `NAME=JSON_LITERAL` field per line: use `=` (never `:`), JSON booleans (`true` ''
      @ ''or'',
     ''`false`), and JSON-quoted strings for EVIDENCE and GAP. Put every verdict in its own'',
     ''`BEGIN CRITERION_VERDICT` / `END CRITERION_VERDICT` block.'',
     '''',
     ''Example when two criteria are verified:'',
     ''BEGIN COMPLETION_PROGRESS'',
     ''ALL_COMPLETED=true'',
     ''BEGIN CRITERION_VERDICT'',
     ''NUMBER=1'',
     ''VERIFIED=true'',
     ''EVIDENCE="The requested file exists."'',
     ''END CRITERION_VERDICT'',
     ''BEGIN CRITERION_VERDICT'',
     ''NUMBER=2'',
     ''VERIFIED=true'',
     ''EVIDENCE="Its required contents were inspected."'',
     ''END CRITERION_VERDICT'',
     ''END COMPLETION_PROGRESS'',
     '''',
     ''Example when the second criterion remains unverified:'',
     ''BEGIN COMPLETION_PROGRESS'',
     ''ALL_COMPLETED=false'',
     ''BEGIN CRITERION_VERDICT'',
     ''NUMBER=1'',
     ''VERIFIED=true'',
     ''EVIDENCE="The requested file exists."'',
     ''END CRITERION_VERDICT'',
     ''BEGIN CRITERION_VERDICT'',
     ''NUMBER=2'',
     ''VERIFIED=false'',
     ''GAP="Its required contents are not available in the evidence."'',
     ''END CRITERION_VERDICT'',
     ''END COMPLETION_PROGRESS'']\<close>

definition completion_judge_instructions :: string where
  \<open>completion_judge_instructions = join [CHR 0x0A]
    [''You are a tool-free Completion judge for a terminal ReAct proposal.'',
     ''Evaluate every ordered criterion against the current evidence and return exactly one'',
     ''COMPLETION_PROGRESS block with one CRITERION_VERDICT for each criterion. Each verdict'',
     ''must contain NUMBER, VERIFIED, and exactly one nonempty EVIDENCE when VERIFIED=true or'',
     ''GAP when VERIFIED=false. Numbers must be one-based and ordered. ALL_COMPLETED must equal'',
     ''the conjunction of the current VERIFIED values. Never write the user-facing answer.'',
     '''',
     completion_judge_format,
     '''']\<close>

subsection \<open>Reading a response\<close>

text \<open>\<open>(?im)^BEGIN[ _]REACT_DECISION(?:[ \t]*)$\<close>, searched.\<close>

definition react_decision_line :: "string \<Rightarrow> bool" where
  "react_decision_line l \<longleftrightarrow>
     upper (take 20 l) \<in> set [''BEGIN REACT_DECISION'', ''BEGIN_REACT_DECISION'']
     \<and> (\<forall>c\<in>set (drop 20 l). c = CHR '' '' \<or> c = CHR 0x09)"

definition contains_react_decision_block :: "string \<Rightarrow> bool" where
  "contains_react_decision_block content \<longleftrightarrow> (\<exists>l\<in>set (split_at CHR 0x0A content). react_decision_line l)"

text \<open>\<open>(?i)^BEGIN[ _][A-Z][A-Z0-9_]*[ \t]*(?:\r?\n|$)\<close>, matched at the start.\<close>

definition begins_line_protocol_block :: "string \<Rightarrow> bool" where
  "begins_line_protocol_block content \<longleftrightarrow>
     upper (take 5 content) = ''BEGIN''
     \<and> (case drop 5 content of
          s # c # r \<Rightarrow>
            (s = CHR '' '' \<or> s = CHR ''_'') \<and> is_letter c
            \<and> (let r = dropWhile (\<lambda>c. is_letter c \<or> is_digit c \<or> c = CHR ''_'') r;
                   r = dropWhile (\<lambda>c. c = CHR '' '' \<or> c = CHR 0x09) r
               in r = [] \<or> hd r = CHR 0x0A \<or> take 2 r = [CHR 0x0D, CHR 0x0A])
        | _ \<Rightarrow> False)"

text \<open>
  A response without tool calls is decoded; prose outside the protocol is a candidate answer.
\<close>

definition response_decision :: "string \<Rightarrow> react_decision result" where
  "response_decision content = (case decode_react_decision content of
       Inr d \<Rightarrow> Inr d
     | Inl e \<Rightarrow>
         if is_line_protocol_error e \<and> \<not> blank content \<and> \<not> begins_line_protocol_block content
            \<and> lower (strip content) \<notin> set [''done'', ''still done'']
         then Inr \<lparr>rd_status = ''completed'', rd_answer = Some content, rd_error = None\<rparr>
         else Inl e)"

subsection \<open>Rendering for the judge\<close>

definition render_judge_message :: "message \<Rightarrow> string \<Rightarrow> string" where
  "render_judge_message m heading =
     (case message_reference m of
        PDict d \<Rightarrow> unlines ((heading @ '' ('' @ message_type m @ '')'') # message_text m
          # map (\<lambda>(name, v). ''- '' @ name @ '': '' @ json_dumps True v) (pop ''content'' (pop ''message_type'' d)))
      | _ \<Rightarrow> [])"

definition numbered :: "'a list \<Rightarrow> (nat \<times> 'a) list" where
  "numbered xs = zip [1..<length xs + 1] xs"

definition rendered_exchange :: "message list \<Rightarrow> string" where
  "rendered_exchange ms = unlines (map (\<lambda>(n, m). render_judge_message m (''Message '' @ show_nat n)) (numbered ms))"

definition completion_criteria_status :: "string list \<Rightarrow> int list \<Rightarrow> string" where
  "completion_criteria_status criteria completed =
     unlines (map (\<lambda>(n, c). show_nat n @ ''. ['' @ (if int n \<in> set completed then ''completed'' else ''pending'')
       @ ''] '' @ c) (numbered criteria))"

definition criterion_judge_evidence ::
  "message list \<Rightarrow> message \<Rightarrow> (int \<times> string list) list \<Rightarrow> string \<Rightarrow> string" where
  "criterion_judge_evidence request m history progress =
     join [CHR 0x0A, CHR 0x0A]
       [''## ReAct completion review'',
        ''### Goal'' @ [CHR 0x0A] @ message_text (request ! 1),
        ''### Candidate answer'' @ [CHR 0x0A] @ message_text m,
        ''### Ordered completion criteria'' @ [CHR 0x0A] @ progress,
        join [CHR 0x0A, CHR 0x0A] (''### Historically confirmed criterion evidence''
          # concat (map (\<lambda>(n, ts). map (\<lambda>(i, t). show_int n @ ''.'' @ show_nat i @ ''. '' @ t) (numbered ts))
              (sort_key fst history))),
        ''### Current ReAct request and response'' @ [CHR 0x0A] @ rendered_exchange (request @ [m])]"

definition criterion_judgment_feedback :: "completion_judgment \<Rightarrow> string" where
  "criterion_judgment_feedback j =
     unlines ([''BEGIN COMPLETION_PROGRESS'', ''ALL_COMPLETED='' @ show_bool_lower (cj_all_completed j)]
       @ concat (map (\<lambda>(n, verified, detail).
           [''BEGIN CRITERION_VERDICT'', ''NUMBER='' @ show_int n, ''VERIFIED='' @ show_bool_lower verified,
            (if verified then ''EVIDENCE'' else ''GAP'') @ ''='' @ json_string detail,
            ''END CRITERION_VERDICT'']) (cj_verdicts j))
       @ [''END COMPLETION_PROGRESS''])"

definition goal_judgment_feedback :: "string \<Rightarrow> string" where
  "goal_judgment_feedback gap =
     unlines [''BEGIN GOAL_JUDGMENT'', ''COMPLETED=false'', ''GAP='' @ json_string gap, ''END GOAL_JUDGMENT'']"

subsection \<open>The collaborators and the state of a run\<close>

record 'w react_env =
  re_model :: "'w mode_model"
  re_runtime :: "'w tool_runtime"
  re_policy :: "'w context_ops option"
  re_new_policy :: "'w context_ops"
  re_context_model :: bool
  re_chat_model :: bool
  re_messages_layout :: bool
  re_max_rounds :: nat
  re_criteria :: "string list"
  re_close :: "'w \<Rightarrow> 'w"

definition check_react_options :: "pyval \<Rightarrow> unit result" where
  "check_react_options max_rounds =
     (if (case max_rounds of PInt n \<Rightarrow> n \<le> 0 | _ \<Rightarrow> True)
      then Inl (ValueError ''max_rounds must be a positive integer'') else Inr ())"

text \<open>The policy of an invocation: the given one, or a new one where the model supports it.\<close>

definition policy_for_invocation :: "'w react_env \<Rightarrow> 'w context_ops option" where
  "policy_for_invocation E = (case re_policy E of
       Some P \<Rightarrow> Some P
     | None \<Rightarrow> if re_context_model E \<or> re_chat_model E \<or> re_messages_layout E 
              then Some ((re_new_policy E)\<lparr>cp_messages := re_messages_layout E\<rparr>) else None)"

record react_state =
  rs_messages :: "message list"
  rs_pending :: "message list"
  rs_goal_judgment :: "message option"
  rs_criterion_judgment :: "message option"
  rs_history :: "(int \<times> string list) list"

definition uses_messages_layout :: "'w context_ops option \<Rightarrow> bool" where
  "uses_messages_layout policy = (case policy of None \<Rightarrow> False | Some P \<Rightarrow> cp_messages P)"

definition react_response ::
  "'w mode_model \<Rightarrow> mcp_tool list \<Rightarrow> 'w \<Rightarrow> message list \<Rightarrow> 'w \<times> message result" where
  "react_response model tools w messages = (case model of
       ChatModel f \<Rightarrow> f tools w messages
     | StreamModel f \<Rightarrow>
         bindW (f None (responses_tools tools) w (responses_input messages)) (\<lambda>w events.
         let (text, calls) = collect_events events in liftW w (mk_ai_message (PStr text) calls)))"

definition criteria_status :: "'w react_env \<Rightarrow> react_state \<Rightarrow> string option" where
  "criteria_status E st =
     (if re_criteria E = [] then None
      else Some (completion_criteria_status (re_criteria E) (map fst (rs_history st))))"

definition react_request ::
  "'w react_env \<Rightarrow> 'w context_ops option \<Rightarrow> 'w \<Rightarrow> string \<Rightarrow> react_state \<Rightarrow> 'w \<times> message list result" where
  "react_request E policy w goal st =
     (let status = criteria_status E st; durable = PDict [(''goal'', PStr goal)] in
      case policy of
        None \<Rightarrow> (w, Inr (rs_messages st @ (case status of None \<Rightarrow> []
                   | Some s \<Rightarrow> [HumanMessage (''## Completion criteria'' @ [CHR 0x0A, CHR 0x0A] @ s)])))
      | Some P \<Rightarrow>
          if cp_messages P
          then bindW (cp_maintain P (cp_use P w) durable (rs_messages st) (rs_pending st) status) (\<lambda>w c.
               liftW w (as_messages c status (rs_messages st) (rs_pending st)))
          else bindW (cp_maintain P (cp_use P w) durable [] [] status) (\<lambda>w c.
               bindW (liftW w (as_messages c status [] [])) (\<lambda>w ms.
               (w, Inr (take 2 (rs_messages st) @ ms @ rs_pending st)))))"

subsection \<open>The completion judge\<close>

definition invoke_completion_judge ::
  "'w react_env \<Rightarrow> 'w context_ops option \<Rightarrow> 'w \<Rightarrow> message list \<Rightarrow> 'w \<times> message result" where
  "invoke_completion_judge E policy w messages =
     react_response (re_model E) [] (case policy of None \<Rightarrow> w | Some P \<Rightarrow> cp_use P w) messages"

definition is_goal_heading :: "message \<Rightarrow> bool" where
  "is_goal_heading m = (case msg_content m of PStr t \<Rightarrow> startswith t ''## Goal'' | _ \<Rightarrow> False)"

definition insert_feedback_before_goal :: "message list \<Rightarrow> message list \<Rightarrow> message list" where
  "insert_feedback_before_goal messages feedback =
     takeWhile (\<lambda>m. \<not> is_goal_heading m) messages @ feedback @ dropWhile (\<lambda>m. \<not> is_goal_heading m) messages"

definition judge_repair :: "exn \<Rightarrow> string \<Rightarrow> string \<Rightarrow> string \<Rightarrow> message" where
  "judge_repair e output block_name format =
     HumanMessage (''Validation error: '' @ exn_str e @ [CHR 0x0A] @ ''Rejected output (JSON-encoded): ''
       @ json_string output @ [CHR 0x0A] @ ''Return the corrected '' @ block_name @ '' block only.''
       @ [CHR 0x0A, CHR 0x0A] @ format)"

text \<open>\<open>_judge_with_single_repair\<close>: a judgment, or the protocol error of the second response.\<close>

definition judge_with_single_repair ::
  "'w react_env \<Rightarrow> 'w context_ops option \<Rightarrow> 'w \<Rightarrow> message list \<Rightarrow> (string \<Rightarrow> 'a result) \<Rightarrow> string \<Rightarrow> string
     \<Rightarrow> 'w \<times> (exn + 'a) result" where
  "judge_with_single_repair E policy w context decode block_name format =
     bindW (invoke_completion_judge E policy w context) (\<lambda>w judged.
     case decode (message_text judged) of
       Inr v \<Rightarrow> (w, Inr (Inr v))
     | Inl e \<Rightarrow>
         if \<not> is_line_protocol_error e then (w, Inl e)
         else
           let repair = [judge_repair e (message_text judged) block_name format];
               messages = (if uses_messages_layout policy then insert_feedback_before_goal context repair
                           else context @ repair)
           in bindW (invoke_completion_judge E policy w messages) (\<lambda>w repaired.
              case decode (message_text repaired) of
                Inr v \<Rightarrow> (w, Inr (Inr v))
              | Inl e \<Rightarrow> if is_line_protocol_error e then (w, Inr (Inl e)) else (w, Inl e)))"

definition messages_judge_context ::
  "'w context_ops \<Rightarrow> 'w \<Rightarrow> string \<Rightarrow> message list \<Rightarrow> string \<Rightarrow> message \<Rightarrow> string option \<Rightarrow> 'w \<times> message list result" where
  "messages_judge_context P w goal request instructions m status =
     (if length request \<le> 1 then (w, Inl IndexError)
      else
        let prefix = [SystemMessage instructions, request ! 1];
            feedback = [HumanMessage (''## Candidate answer'' @ [CHR 0x0A, CHR 0x0A] @ message_text m)]
        in bindW (cp_maintain P (cp_use P w) (PDict [(''goal'', PStr goal)]) prefix feedback status) (\<lambda>w c.
           liftW w (as_messages c status prefix feedback)))"

definition criteria_progress :: "string list \<Rightarrow> string" where
  "criteria_progress criteria = unlines (map (\<lambda>(n, c). show_nat n @ ''. '' @ c) (numbered criteria))"

definition judge_context ::
  "'w context_ops option \<Rightarrow> 'w \<Rightarrow> string \<Rightarrow> message list \<Rightarrow> message \<Rightarrow> string \<Rightarrow> string option \<Rightarrow> string
     \<Rightarrow> 'w \<times> message list result" where
  "judge_context policy w goal request m instructions status evidence =
     (case policy of
        None \<Rightarrow> (w, Inr [SystemMessage instructions, HumanMessage evidence])
      | Some P \<Rightarrow>
          if cp_messages P then messages_judge_context P w goal request instructions m status
          else (w, Inr [SystemMessage instructions, HumanMessage evidence]))"

definition judge_completion ::
  "'w react_env \<Rightarrow> 'w context_ops option \<Rightarrow> 'w \<Rightarrow> string \<Rightarrow> message list \<Rightarrow> message \<Rightarrow> react_state
     \<Rightarrow> 'w \<times> completion_judgment option result" where
  "judge_completion E policy w goal request m st =
     bindW (judge_context policy w goal request m completion_judge_instructions
              (Some (completion_criteria_status (re_criteria E) (map fst (rs_history st))))
              (criterion_judge_evidence request m (rs_history st) (criteria_progress (re_criteria E)))) (\<lambda>w context.
     bindW (judge_with_single_repair E policy w context
              (\<lambda>t. decode_completion_judgment t (length (re_criteria E))) ''COMPLETION_PROGRESS''
              completion_judge_format) (\<lambda>w r.
     (w, Inr (case r of Inl e \<Rightarrow> None | Inr j \<Rightarrow> Some j))))"

definition goal_judge_evidence :: "string \<Rightarrow> string \<Rightarrow> message list \<Rightarrow> message \<Rightarrow> string" where
  "goal_judge_evidence goal candidate request m =
     unlines [''Goal: '' @ goal, ''Candidate answer: '' @ candidate, ''Current ReAct request and response:'',
       rendered_exchange (request @ [m])]"

definition judge_goal ::
  "'w react_env \<Rightarrow> 'w context_ops option \<Rightarrow> 'w \<Rightarrow> string \<Rightarrow> message list \<Rightarrow> message \<Rightarrow> string
     \<Rightarrow> 'w \<times> (exn + bool \<times> string) result" where
  "judge_goal E policy w goal request m candidate =
     bindW (judge_context policy w goal request m goal_judge_instructions None
              (goal_judge_evidence goal candidate request m)) (\<lambda>w context.
     judge_with_single_repair E policy w context decode_goal_judgment ''GOAL_JUDGMENT'' goal_judge_format)"

subsection \<open>One round\<close>

definition react_budget_exhausted :: execution_answer where
  "react_budget_exhausted = \<lparr>ea_answer = None, ea_status = ''failed'',
     ea_error = Some ''react round budget exhausted''\<rparr>"

text \<open>\<open>Inl\<close> ends the run; after the last round every other outcome is the exhausted budget.\<close>

definition next_round ::
  "'w react_env \<Rightarrow> nat \<Rightarrow> 'w \<Rightarrow> react_state \<Rightarrow> 'w \<times> (execution_answer + react_state) result" where
  "next_round E n w st =
     (w, Inr (if n = re_max_rounds E then Inl react_budget_exhausted else Inr st))"

text \<open>A correction joins the transcript with the response, or is pending for one round.\<close>

definition correct_response :: "'w context_ops option \<Rightarrow> message \<Rightarrow> string \<Rightarrow> react_state \<Rightarrow> react_state" where
  "correct_response policy m text st = (case policy of
       None \<Rightarrow> st\<lparr>rs_messages := rs_messages st @ [m, HumanMessage text]\<rparr>
     | Some P \<Rightarrow> st\<lparr>rs_pending := [HumanMessage text]\<rparr>)"

text \<open>Only the latest judgment stays in the transcript; the rejected candidate does not.\<close>

definition replace_message :: "message option \<Rightarrow> message \<Rightarrow> message list \<Rightarrow> message list" where
  "replace_message old new ms = (case old of None \<Rightarrow> ms | Some m \<Rightarrow> remove1 m ms) @ [new]"

definition criteria_answer ::
  "'w react_env \<Rightarrow> 'w context_ops option \<Rightarrow> 'w \<Rightarrow> string \<Rightarrow> nat \<Rightarrow> react_state \<Rightarrow> message list \<Rightarrow> message
     \<Rightarrow> string option \<Rightarrow> 'w \<times> (execution_answer + react_state) result" where
  "criteria_answer E policy w goal n st request m answer =
     bindW (judge_completion E policy w goal request m st) (\<lambda>w judged.
     if (case judged of None \<Rightarrow> False | Some j \<Rightarrow> cj_all_completed j)
     then bindW (liftW w (mk_execution_answer answer ''completed'' None)) (\<lambda>w a. (w, Inr (Inl a)))
     else
       let history = (case judged of
              None \<Rightarrow> rs_history st
            | Some j \<Rightarrow> fold (\<lambda>(i, verified, detail) h. if verified then push i detail h else h)
                          (cj_verdicts j) (rs_history st));
           feedback = HumanMessage (case judged of
              None \<Rightarrow> ''Completion judge validation failed after one repair request. ''
                @ ''Continue ReAct without treating the rejected candidate as complete.''
            | Some j \<Rightarrow> criterion_judgment_feedback j);
           st = st\<lparr>rs_history := history\<rparr>
       in next_round E n w (case policy of
            None \<Rightarrow> st\<lparr>rs_messages := replace_message (rs_criterion_judgment st) feedback (rs_messages st),
                       rs_criterion_judgment := Some feedback\<rparr>
          | Some P \<Rightarrow> st\<lparr>rs_pending := [feedback]\<rparr>))"

definition goal_answer ::
  "'w react_env \<Rightarrow> 'w context_ops option \<Rightarrow> 'w \<Rightarrow> string \<Rightarrow> nat \<Rightarrow> react_state \<Rightarrow> message list \<Rightarrow> message
     \<Rightarrow> string option \<Rightarrow> 'w \<times> (execution_answer + react_state) result" where
  "goal_answer E policy w goal n st request m answer =
     bindW (judge_goal E policy w goal request m (case answer of None \<Rightarrow> ''None'' | Some t \<Rightarrow> t)) (\<lambda>w judged.
     if (case judged of Inl e \<Rightarrow> False | Inr (completed, detail) \<Rightarrow> completed)
     then bindW (liftW w (mk_execution_answer answer ''completed'' None)) (\<lambda>w a. (w, Inr (Inl a)))
     else
       let feedback = HumanMessage (case judged of
              Inl e \<Rightarrow> ''Completion judge validation failed after one repair request: '' @ exn_str e
                @ ''. Continue ReAct without treating the rejected candidate as complete.''
            | Inr (completed, gap) \<Rightarrow> goal_judgment_feedback gap)
       in next_round E n w (case policy of
            None \<Rightarrow> st\<lparr>rs_messages := replace_message (rs_goal_judgment st) feedback (rs_messages st),
                       rs_goal_judgment := Some feedback\<rparr>
          | Some P \<Rightarrow> st\<lparr>rs_pending := [feedback]\<rparr>))"

definition tool_call_conflict :: string where
  "tool_call_conflict = ''Protocol error: a response with Tool calls cannot declare a ''
     @ ''REACT_DECISION status. Return ordinary reasoning with Tool calls ''
     @ ''or one valid REACT_DECISION block without Tool calls.''"

definition react_answer_round ::
  "'w react_env \<Rightarrow> 'w context_ops option \<Rightarrow> 'w \<Rightarrow> string \<Rightarrow> nat \<Rightarrow> react_state \<Rightarrow> message list \<Rightarrow> message \<Rightarrow> string
     \<Rightarrow> 'w \<times> (execution_answer + react_state) result" where
  "react_answer_round E policy w goal n st request m content =
     (case response_decision content of
        Inl e \<Rightarrow>
          if is_line_protocol_error e
          then next_round E n w (correct_response policy m
                 (''Protocol error: '' @ exn_str e @ ''. '' @ react_repair_instructions) st)
          else (w, Inl e)
      | Inr d \<Rightarrow>
          if rd_status d = ''failed''
          then bindW (liftW w (mk_execution_answer None ''failed'' (rd_error d))) (\<lambda>w a. (w, Inr (Inl a)))
          else if rd_status d = ''need_tool''
          then next_round E n w (correct_response policy m
                 ''Select a Tool in the next round or explicitly fail.'' st)
          else if re_criteria E \<noteq> [] then criteria_answer E policy w goal n st request m (rd_answer d)
          else goal_answer E policy w goal n st request m (rd_answer d))"

subsection \<open>Tool rounds\<close>

text \<open>\<open>_invoke_for_react\<close>: the rendered result, whether it is a failure, and the raw result.\<close>

definition failed_invocation :: "pyval \<Rightarrow> (string \<times> bool \<times> pyval) result" where
  "failed_invocation v = bindE (render_tool_result v) (\<lambda>t. Inr (''MCP tool failed: '' @ t, True, v))"

definition invoke_for_react ::
  "'w tool_runtime \<Rightarrow> mcp_tool list \<Rightarrow> 'w \<Rightarrow> tool_call \<Rightarrow> 'w \<times> (string \<times> bool \<times> pyval) result" where
  "invoke_for_react R tools w call =
     (case runtime_invoke R (Some tools) w call of
        (w, Inl (ToolExecutionError v)) \<Rightarrow> (w, failed_invocation v)
      | (w, Inl (Raised e)) \<Rightarrow>
          (w, if is_exception e then failed_invocation (PDict [(''error'', PStr (exn_str e))]) else Inl e)
      | (w, Inr v) \<Rightarrow>
          (w, case render_tool_result v of
                Inr t \<Rightarrow> Inr (t, False, v)
              | Inl e \<Rightarrow> failed_invocation (PDict [(''error'', PStr (exn_str e))])))"

fun invoke_batch ::
  "'w tool_runtime \<Rightarrow> mcp_tool list \<Rightarrow> 'w \<Rightarrow> tool_call list \<Rightarrow> 'w \<times> (string \<times> bool \<times> pyval) list result" where
  "invoke_batch R tools w [] = (w, Inr [])"
| "invoke_batch R tools w (c # cs) =
     bindW (invoke_for_react R tools w c) (\<lambda>w r.
     bindW (invoke_batch R tools w cs) (\<lambda>w rs. (w, Inr (r # rs))))"

definition result_message :: "tool_call \<times> string \<times> bool \<times> pyval \<Rightarrow> message" where
  "result_message r = (case r of (call, content, failed, v) \<Rightarrow>
     ToolMessage (PStr content) (call_id call) (Some (call_name call)) (if failed then ''error'' else ''success''))"

definition react_decision_context :: "string \<Rightarrow> (string \<times> pyval) list" where
  "react_decision_context goal = [(''goal'', PStr goal), (''execution_mode'', PStr ''react''),
     (''plan_step'', PNone), (''completion_criterion'', PNone)]"

definition react_tool_round ::
  "'w react_env \<Rightarrow> 'w context_ops option \<Rightarrow> mcp_tool list \<Rightarrow> 'w \<Rightarrow> string \<Rightarrow> nat \<Rightarrow> react_state \<Rightarrow> message
     \<Rightarrow> 'w \<times> (execution_answer + react_state) result" where
  "react_tool_round E policy tools w goal n st m =
     (let calls = msg_calls m in
      bindW (invoke_batch (re_runtime E) tools w calls) (\<lambda>w results.
      case policy of
        None \<Rightarrow> next_round E n w
          (st\<lparr>rs_messages := rs_messages st @ [m] @ map result_message (zip calls results)\<rparr>)
      | Some P \<Rightarrow>
          bindW (cp_record P w n calls (map (\<lambda>(content, failed, v). v) results)
                   (map (\<lambda>(content, failed, v). if failed then Some content else None) results)
                   (react_decision_context goal) False) (\<lambda>w _.
          next_round E n w (st\<lparr>rs_pending :=
            (if cp_messages P then []
             else map result_message (filter (\<lambda>(call, content, failed, v). failed) (zip calls results)))\<rparr>))))"

definition response_text :: "message \<Rightarrow> string" where
  "response_text m = (if msg_content m \<in> set [PNone, PStr []] then [] else message_text m)"

definition react_round ::
  "'w react_env \<Rightarrow> 'w context_ops option \<Rightarrow> mcp_tool list \<Rightarrow> string \<Rightarrow> nat \<Rightarrow> 'w \<Rightarrow> react_state
     \<Rightarrow> 'w \<times> (execution_answer + react_state) result" where
  "react_round E policy tools goal n w st =
     bindW (react_request E policy w goal st) (\<lambda>w request.
     bindW (react_response (re_model E) (canonical_mcp_tool_set tools) w request) (\<lambda>w m.
     if msg_calls m \<noteq> [] \<and> contains_react_decision_block (response_text m)
     then next_round E n w (correct_response policy m tool_call_conflict st)
     else if msg_calls m = [] then react_answer_round E policy w goal n st request m (response_text m)
     else react_tool_round E policy tools w goal n st m))"

subsection \<open>The run\<close>

lemma next_round_goes_on: "next_round E n w st = (w', Inr (Inr st')) \<Longrightarrow> n \<noteq> re_max_rounds E"
  by (auto simp: next_round_def split: if_splits)

lemma react_round_goes_on:
  "react_round E policy tools goal n w st = (w', Inr (Inr st')) \<Longrightarrow> n \<noteq> re_max_rounds E"
  unfolding react_round_def
  by (elim bindW_InrE)
    (auto simp: react_answer_round_def criteria_answer_def goal_answer_def react_tool_round_def Let_def
      dest: next_round_goes_on split: if_splits sum.splits option.splits)

text \<open>Round numbers run from 1; the last one always ends the run.\<close>

function react_loop ::
  "'w react_env \<Rightarrow> 'w context_ops option \<Rightarrow> mcp_tool list \<Rightarrow> string \<Rightarrow> nat \<Rightarrow> 'w \<Rightarrow> react_state
     \<Rightarrow> 'w \<times> execution_answer result" where
  "react_loop E policy tools goal n w st =
     (if n > re_max_rounds E then (w, failed_answer ''react execution failed'')
      else case react_round E policy tools goal n w st of
        (w, Inl e) \<Rightarrow> (w, Inl e)
      | (w, Inr (Inl a)) \<Rightarrow> (w, Inr a)
      | (w, Inr (Inr st)) \<Rightarrow> react_loop E policy tools goal (n + 1) w st)"
  by pat_completeness auto
termination
  by (relation "measure (\<lambda>(E, policy, tools, goal, n, w, st). Suc (re_max_rounds E) - n)")
    (auto dest!: react_round_goes_on [OF sym])

declare react_loop.simps [simp del]

definition react_start :: "string \<Rightarrow> react_state" where
  "react_start goal = \<lparr>rs_messages = [SystemMessage react_prompt, HumanMessage goal], rs_pending = [],
     rs_goal_judgment = None, rs_criterion_judgment = None, rs_history = []\<rparr>"

definition react_body ::
  "'w react_env \<Rightarrow> string \<Rightarrow> mcp_tool list \<Rightarrow> 'w \<Rightarrow> 'w \<times> execution_answer result" where
  "react_body E goal tools w =
     (let policy = policy_for_invocation E in
      react_loop E policy tools goal 1 (case policy of None \<Rightarrow> w | Some P \<Rightarrow> cp_fresh P w) (react_start goal))"

definition react_failure :: "exn \<Rightarrow> string" where
  "react_failure e =
     (if is_line_protocol_error e then ''react model returned an invalid protocol response: '' @ exn_str e
      else ''react execution failed'')"

definition react_run :: "'w react_env \<Rightarrow> task_input \<Rightarrow> 'w \<Rightarrow> 'w \<times> execution_answer result" where
  "react_run E goal w =
     (let (w, r) = safe_answer react_failure
            (with_runtime (re_runtime E) (react_body E (conversation_model_input goal)) w)
      in (re_close E w, r))"

end
