(* ===== verification/React_Correct.thy ===== *)
theory React_Correct
  imports React Executor_Correct
begin

section \<open>The whole-task modes keep their promises\<close>

text \<open>
  Every mode answers a well-formed execution answer unless it is cancelled; the ReAct mode
  completes only on a judgment and within its round budget; the feedback it gives the model is
  itself a document of the protocol.
\<close>

subsection \<open>Answers\<close>

lemma failed_answer_Inr: "failed_answer m = Inr a \<longleftrightarrow>
    a = \<lparr>ea_answer = None, ea_status = ''failed'', ea_error = Some m\<rparr> \<and> \<not> blank m"
  by (auto simp: failed_answer_def mk_execution_answer_Inr wf_answer_def blank_text_def)

lemma completed_answer_Inr: "completed_answer t = Inr a \<longleftrightarrow>
    a = \<lparr>ea_answer = Some t, ea_status = ''completed'', ea_error = None\<rparr> \<and> \<not> blank t"
  by (auto simp: completed_answer_def mk_execution_answer_Inr wf_answer_def blank_text_def)

text \<open>Computations whose answers are well-formed.\<close>

definition sound :: "'w \<times> execution_answer result \<Rightarrow> bool" where
  "sound r \<longleftrightarrow> (\<forall>w a. r = (w, Inr a) \<longrightarrow> wf_answer a)"

named_theorems sound_intros

lemma sound_mk [sound_intros]: "sound (w, mk_execution_answer a s e)"
  by (simp add: sound_def mk_execution_answer_Inr)

lemma sound_Inl [sound_intros]: "sound (w, Inl e)"
  by (simp add: sound_def)

lemma sound_completed [sound_intros]: "sound (w, completed_answer t)"
  by (simp add: completed_answer_def sound_mk)

lemma sound_failed [sound_intros]: "sound (w, failed_answer t)"
  by (simp add: failed_answer_def sound_mk)

lemma sound_bindW [sound_intros]: "(\<And>w x. sound (f w x)) \<Longrightarrow> sound (bindW m f)"
  by (cases m; cases "snd m") (auto simp: sound_def)

lemma sound_bindE [sound_intros]: "(\<And>x. sound (w, f x)) \<Longrightarrow> sound (w, bindE m f)"
  by (cases m) (auto simp: sound_def)

text \<open>A mode that catches its exceptions answers, whatever happens, unless it is cancelled.\<close>

lemma safe_answer_answers:
  assumes "sound r" and "\<And>e. \<not> blank (message e)"
  shows "(\<exists>a. snd (safe_answer message r) = Inr a \<and> wf_answer a) \<or> snd (safe_answer message r) = Inl CancelledError"
proof (cases r)
  case (Pair w x)
  show ?thesis
  proof (cases x)
    case (Inl e)
    have "\<exists>a. failed_answer (message e) = Inr a \<and> wf_answer a"
      using assms(2) by (auto simp: failed_answer_def mk_execution_answer_Inr wf_answer_def blank_text_def)
    with Inl Pair show ?thesis by (auto simp: safe_answer_def is_exception_def)
  next
    case (Inr a)
    with Pair assms(1) show ?thesis by (auto simp: safe_answer_def sound_def)
  qed
qed

lemma decode_answer_text: "decode_answer t = Inr answer \<Longrightarrow> \<not> blank answer"
  by (auto simp: decode_answer_def bindE_Inr text_of_Inr)

lemma sound_with_runtime [sound_intros]:
  assumes "\<And>tools w. sound (body tools w)"
  shows "sound (with_runtime R body w)"
proof -
  have "sound (w', r)" if "body tools w = (w', r)" for tools w w' r
    using assms [of tools w] that by simp
  then show ?thesis
    unfolding with_runtime_def
    by (intro sound_bindW) (fastforce simp: sound_def split: prod.split)
qed

lemma sound_tool_agent [sound_intros]: "sound (tool_agent_body model R goal tools w)"
proof -
  have "sound (tool_agent_invoke R tools w c)" for tools w c
    unfolding tool_agent_invoke_def
    by (auto intro: sound_intros split: prod.split sum.split tool_failure.split)
  then show ?thesis
    unfolding tool_agent_body_def Let_def
    by (auto intro!: sound_intros split: prod.split sum.split)
qed

lemma sound_durable_answer [sound_intros]: "sound (w, durable_answer r)"
  unfolding durable_answer_def by (auto intro: sound_intros split: option.split)

lemma sound_plan_execute [sound_intros]:
  "sound (bindW (liftW w (mk_agent_state g ps es m)) (\<lambda>w s. bindW (durable w s) (\<lambda>w r.
     (w, if rn_status r = ''completed'' \<and> rn_state r = None then Inl (TypeError t) else durable_answer r))))"
  by (intro sound_intros) (auto intro: sound_intros)

text \<open>A round ends with a well-formed answer, and so does the loop.\<close>

definition sound_round :: "'w \<times> (execution_answer + react_state) result \<Rightarrow> bool" where
  "sound_round r \<longleftrightarrow> (\<forall>w a. r = (w, Inr (Inl a)) \<longrightarrow> wf_answer a)"

named_theorems round_intros

lemma round_bindW [round_intros]: "(\<And>w x. sound_round (f w x)) \<Longrightarrow> sound_round (bindW m f)"
  by (cases m; cases "snd m") (auto simp: sound_round_def)

lemma round_Inl [round_intros]: "sound_round (w, Inl e)"
  by (simp add: sound_round_def)

lemma round_next [round_intros]: "sound_round (next_round E n w st)"
  by (simp add: sound_round_def next_round_def react_budget_exhausted_def wf_answer_def blank_text_def blank_iff
      is_space_def)

lemma round_answer [round_intros]:
  "sound_round (bindW (liftW w (mk_execution_answer a s e)) (\<lambda>w a. (w, Inr (Inl a))))"
  by (cases "mk_execution_answer a s e") (auto simp: sound_round_def liftW_def mk_execution_answer_Inr)

lemma round_criteria [round_intros]: "sound_round (criteria_answer E policy w goal n st request m answer)"
  unfolding criteria_answer_def Let_def by (rule round_bindW) (auto intro: round_intros)

lemma round_goal [round_intros]: "sound_round (goal_answer E policy w goal n st request m answer)"
  unfolding goal_answer_def Let_def by (rule round_bindW) (auto intro: round_intros)

lemma round_sound: "sound_round (react_round E policy tools goal n w st)"
proof -
  have t: "sound_round (react_tool_round E policy tools w goal n st m)" for w m
    unfolding react_tool_round_def Let_def by (auto intro!: round_intros split: option.split)
  have a: "sound_round (react_answer_round E policy w goal n st request m c)" for w request m c
    unfolding react_answer_round_def by (auto intro: round_intros split: sum.split)
  show ?thesis
    unfolding react_round_def by (intro round_bindW) (auto intro: round_intros t a)
qed

lemma sound_react_loop: "sound (react_loop E policy tools goal n w st)"
proof (induction E policy tools goal n w st rule: react_loop.induct)
  case (1 E policy tools goal n w st)
  show ?case
    using 1 round_sound [of E policy tools goal n w st]
    by (subst react_loop.simps)
      (auto intro: sound_intros simp: sound_round_def split: prod.split sum.split, simp add: sound_def)
qed

lemma sound_react [sound_intros]: "sound (react_body E goal tools w)"
  unfolding react_body_def Let_def by (rule sound_react_loop)

lemma direct_failure_text:
  "\<not> blank (if b then ''direct model returned an invalid ANSWER response'' else ''direct model invocation failed'')"
  by (simp add: blank_iff is_space_def)

lemma direct_answers:
  "(\<exists>a. snd (direct_run model goal w) = Inr a \<and> wf_answer a) \<or> snd (direct_run model goal w) = Inl CancelledError"
proof (cases "validated_text (request_plan_text model (conversation_model_input goal)) answer_instructions decode_answer w")
  case (Pair w' r)
  show ?thesis
  proof (cases r)
    case (Inl e)
    have "direct_run model goal w = safe_answer (\<lambda>e. if is_line_protocol_error e
            then ''direct model returned an invalid ANSWER response'' else ''direct model invocation failed'') (w', Inl e)"
      unfolding direct_run_def Pair Inl by (simp only: prod.case sum.case)
    then show ?thesis
      by (simp only:) (rule safe_answer_answers [OF sound_Inl direct_failure_text])
  next
    case (Inr t)
    obtain out where "decode_answer out = Inr t" using validated_text_Inr [OF Pair [unfolded Inr]] ..
    then have "\<not> blank t" by (rule decode_answer_text)
    with Pair Inr show ?thesis
      by (simp add: direct_run_def completed_answer_Inr) (simp add: wf_answer_def blank_text_def)
  qed
qed

text \<open>Releasing owned clients after the answer does not change it.\<close>

lemma tool_agent_answers:
  "(\<exists>a. snd (tool_agent_run model R close goal w) = Inr a \<and> wf_answer a)
   \<or> snd (tool_agent_run model R close goal w) = Inl CancelledError"
proof -
  have "snd (tool_agent_run model R close goal w) = snd (safe_answer (\<lambda>e. ''tool-agent execution failed'')
      (with_runtime R (tool_agent_body model R (conversation_model_input goal)) w))"
    by (simp add: tool_agent_run_def split: prod.split)
  moreover have "\<not> blank ''tool-agent execution failed''" by (simp add: blank_iff is_space_def)
  moreover have "sound (with_runtime R (tool_agent_body model R (conversation_model_input goal)) w)"
    by (intro sound_intros)
  ultimately show ?thesis
    using safe_answer_answers [of "with_runtime R (tool_agent_body model R (conversation_model_input goal)) w"
        "\<lambda>e. ''tool-agent execution failed''"] by simp
qed

lemma react_failure_text: "\<not> blank (react_failure e)"
  by (simp add: react_failure_def blank_iff is_space_def)

lemma react_run_snd:
  "snd (react_run E goal w) = snd (safe_answer react_failure
     (with_runtime (re_runtime E) (react_body E (conversation_model_input goal)) w))"
  by (simp add: react_run_def split: prod.split)

lemma react_answers:
  "(\<exists>a. snd (react_run E goal w) = Inr a \<and> wf_answer a) \<or> snd (react_run E goal w) = Inl CancelledError"
proof -
  have "sound (with_runtime (re_runtime E) (react_body E (conversation_model_input goal)) w)"
    by (intro sound_intros)
  then show ?thesis
    using safe_answer_answers [of _ react_failure] react_failure_text by (simp add: react_run_snd)
qed

lemma plan_failure_text: "\<not> blank (plan_execute_failure_message e)"
  by (cases e) (simp_all add: plan_execute_failure_message_def blank_iff is_space_def split: option.split)

lemma plan_execute_answers:
  "(\<exists>a. snd (plan_execute_run durable goal w) = Inr a \<and> wf_answer a)
   \<or> snd (plan_execute_run durable goal w) = Inl CancelledError"
  unfolding plan_execute_run_def by (intro safe_answer_answers sound_intros plan_failure_text)
    (auto intro: sound_intros)

subsection \<open>A completed run was judged complete\<close>

text \<open>What a judge, asked without tools, said: a message that decodes.\<close>

definition react_judge_said :: "'w react_env \<Rightarrow> (string \<Rightarrow> 'a result) \<Rightarrow> 'a \<Rightarrow> bool" where
  "react_judge_said E decode v \<longleftrightarrow>
     (\<exists>m w0 w1 request. react_response (re_model E) [] w0 request = (w1, Inr m) \<and> decode (message_text m) = Inr v)"

lemma react_judge_saidI:
  "react_response (re_model E) [] w0 request = (w1, Inr m) \<Longrightarrow> decode (message_text m) = Inr v \<Longrightarrow>
   react_judge_said E decode v"
  by (auto simp: react_judge_said_def)

lemma judge_with_single_repair_said:
  assumes "judge_with_single_repair E policy w context decode name format = (w', Inr (Inr v))"
  shows "react_judge_said E decode v"
  using assms unfolding judge_with_single_repair_def Let_def invoke_completion_judge_def
  by (elim bindW_InrE) (auto split: sum.splits if_splits intro: react_judge_saidI elim!: bindW_InrE)

definition judged_complete :: "'w react_env \<Rightarrow> bool" where
  "judged_complete E \<longleftrightarrow>
     (if re_criteria E = [] then \<exists>evidence. react_judge_said E decode_goal_judgment (True, evidence)
      else \<exists>j. react_judge_said E (\<lambda>t. decode_completion_judgment t (length (re_criteria E))) j
         \<and> cj_all_completed j)"

lemma next_round_incomplete:
  "next_round E n w st = (w', Inr (Inl a)) \<Longrightarrow> ea_status a = ''failed''"
  by (auto simp: next_round_def react_budget_exhausted_def split: if_splits)

lemma criteria_answer_judged:
  assumes "criteria_answer E policy w goal n st request m answer = (w', Inr (Inl a))"
    and "ea_status a = ''completed''" and "re_criteria E \<noteq> []"
  shows "judged_complete E"
proof -
  from assms(1) obtain w1 judged where j: "judge_completion E policy w goal request m st = (w1, Inr judged)"
    and r: "(if (case judged of None \<Rightarrow> False | Some j \<Rightarrow> cj_all_completed j) then True else ea_status a = ''failed'')"
    unfolding criteria_answer_def Let_def
    by (elim bindW_InrE) (auto split: if_splits dest: next_round_incomplete)
  with assms(2) obtain v where v: "judged = Some v" "cj_all_completed v" by (auto split: if_splits option.splits)
  from j v(1) have "react_judge_said E (\<lambda>t. decode_completion_judgment t (length (re_criteria E))) v"
    unfolding judge_completion_def
    by (elim bindW_InrE) (auto split: sum.splits dest: judge_with_single_repair_said)
  with v assms(3) show ?thesis by (auto simp: judged_complete_def)
qed

lemma goal_answer_judged:
  assumes "goal_answer E policy w goal n st request m answer = (w', Inr (Inl a))"
    and "ea_status a = ''completed''" and "re_criteria E = []"
  shows "judged_complete E"
proof -
  from assms(1) obtain w1 judged candidate where j: "judge_goal E policy w goal request m candidate = (w1, Inr judged)"
    and r: "(case judged of Inl e \<Rightarrow> False | Inr (c, d) \<Rightarrow> c) \<or> ea_status a = ''failed''"
    unfolding goal_answer_def Let_def
    by (elim bindW_InrE) (auto split: if_splits dest: next_round_incomplete)
  with assms(2) obtain d where "judged = Inr (True, d)" by (auto split: sum.splits)
  with j have "react_judge_said E decode_goal_judgment (True, d)"
    unfolding judge_goal_def by (elim bindW_InrE) (auto dest: judge_with_single_repair_said)
  with assms(3) show ?thesis by (auto simp: judged_complete_def)
qed

lemma react_round_judged:
  assumes "react_round E policy tools goal n w st = (w', Inr (Inl a))" and "ea_status a = ''completed''"
  shows "judged_complete E"
proof -
  have t: "ea_status a = ''failed''" if "react_tool_round E policy tools w0 goal n st m = (w', Inr (Inl a))" for w0 m
    using that unfolding react_tool_round_def Let_def
    by (elim bindW_InrE) (auto split: option.splits dest: next_round_incomplete elim!: bindW_InrE)
  have r: "judged_complete E" if r: "react_answer_round E policy w0 goal n st request m c = (w', Inr (Inl a))" for w0 request m c
  proof -
    show ?thesis
    proof (cases "response_decision c")
      case (Inl e)
      with r assms(2) show ?thesis
        by (auto simp: react_answer_round_def dest: next_round_incomplete split: if_splits)
    next
      case (Inr d)
      show ?thesis
      proof (cases "rd_status d = ''failed'' \<or> rd_status d = ''need_tool''")
        case True
        with Inr r assms(2) show ?thesis
          by (auto simp: react_answer_round_def mk_execution_answer_Inr dest: next_round_incomplete
              split: if_splits elim!: bindW_InrE)
      next
        case False
        with Inr r have "if re_criteria E \<noteq> [] then criteria_answer E policy w0 goal n st request m (rd_answer d) = (w', Inr (Inl a))
            else goal_answer E policy w0 goal n st request m (rd_answer d) = (w', Inr (Inl a))"
          by (simp add: react_answer_round_def split: if_splits)
        then show ?thesis
          using criteria_answer_judged [OF _ assms(2)] goal_answer_judged [OF _ assms(2)] by metis
      qed
    qed
  qed
  from assms(1) show ?thesis
    unfolding react_round_def
    by (elim bindW_InrE) (use assms(2) in \<open>auto split: if_splits dest!: t r next_round_incomplete\<close>)
qed

lemma react_loop_judged:
  "react_loop E policy tools goal n w st = (w', Inr a) \<Longrightarrow> ea_status a = ''completed'' \<Longrightarrow> judged_complete E"
proof (induction E policy tools goal n w st rule: react_loop.induct)
  case (1 E policy tools goal n w st)
  from 1(2,3) have "\<not> n > re_max_rounds E"
    by (auto simp: react_loop.simps [of E policy tools goal n w st] failed_answer_Inr)
  with 1 show ?case
    by (auto simp: react_loop.simps [of E policy tools goal n w st] split: prod.splits sum.splits
        dest: react_round_judged)
qed

lemma react_run_judged:
  assumes "react_run E goal w = (w', Inr a)" and "ea_status a = ''completed''"
  shows "judged_complete E"
proof -
  have "snd (safe_answer react_failure (with_runtime (re_runtime E)
      (react_body E (conversation_model_input goal)) w)) = Inr a"
    using assms(1) react_run_snd [of E goal w] by simp
  then have "snd (with_runtime (re_runtime E) (react_body E (conversation_model_input goal)) w) = Inr a"
    using assms(2) by (auto simp: safe_answer_def failed_answer_Inr split: prod.splits sum.splits if_splits)
  then obtain w1 where "with_runtime (re_runtime E) (react_body E (conversation_model_input goal)) w = (w1, Inr a)"
    by (metis prod.collapse)
  then obtain tools w2 w3 where "react_body E (conversation_model_input goal) tools w2 = (w3, Inr a)"
    unfolding with_runtime_def by (elim bindW_InrE) (auto split: prod.splits elim!: bindW_InrE)
  with assms(2) show ?thesis
    unfolding react_body_def Let_def by (auto dest: react_loop_judged)
qed

subsection \<open>What a run may spend\<close>

text \<open>\<open>count\<close> grows by at most \<open>k\<close>, whether the computation answers or raises.\<close>

definition spends :: "('w \<Rightarrow> nat) \<Rightarrow> nat \<Rightarrow> 'w \<Rightarrow> 'w \<times> 'a \<Rightarrow> bool" where
  "spends count k w r \<longleftrightarrow> count (fst r) \<le> count w + k"

named_theorems spends_intros

lemma spends_return [spends_intros]: "spends count 0 w (w, x)"
  by (simp add: spends_def)

lemma spends_liftW [spends_intros]: "spends count 0 w (liftW w x)"
  by (simp add: spends_def liftW_def)

lemma spends_bind:
  assumes "spends count k w m" and "\<And>w' x. spends count l w' (f w' x)"
  shows "spends count (k + l) w (bindW m f)"
proof (cases m)
  case (Pair w' r)
  show ?thesis
  proof (cases r)
    case (Inr x)
    have "count (fst (f w' x)) \<le> count w' + l" using assms(2) by (simp add: spends_def)
    with assms(1) Pair Inr show ?thesis by (simp add: spends_def)
  qed (use assms(1) Pair in \<open>simp add: spends_def\<close>)
qed

lemma spends_bind_0 [spends_intros]:
  "spends count 0 w m \<Longrightarrow> (\<And>w' x. spends count l w' (f w' x)) \<Longrightarrow> spends count l w (bindW m f)"
  using spends_bind [of count 0 w m l f] by simp

lemma spends_mono: "spends count k w r \<Longrightarrow> k \<le> l \<Longrightarrow> spends count l w r"
  by (simp add: spends_def)

lemma spends_any: "spends count 0 w r \<Longrightarrow> spends count k w r"
  by (simp add: spends_def)

lemma spends_next [spends_intros]: "spends count 0 w (next_round E n w st)"
  by (simp add: next_round_def spends_return)

text \<open>A count of model requests: only a request raises it, and by one.\<close>

definition counts_requests :: "'w react_env \<Rightarrow> ('w \<Rightarrow> nat) \<Rightarrow> bool" where
  "counts_requests E count \<longleftrightarrow>
     (\<forall>tools w ms. spends count 1 w (react_response (re_model E) tools w ms))
     \<and> (\<forall>w. spends count 0 w (tr_open (re_runtime E) w)) \<and> (\<forall>w. spends count 0 w (tr_close (re_runtime E) w))
     \<and> (\<forall>w name args. spends count 0 w (tr_call (re_runtime E) w name args))
     \<and> (\<forall>w. count (re_close E w) \<le> count w)
     \<and> (\<forall>P. P = re_new_policy E \<or> re_policy E = Some P \<longrightarrow> (\<forall>w. count (cp_use P w) \<le> count w)
          \<and> (\<forall>w. count (cp_fresh P w) \<le> count w)
          \<and> (\<forall>w d p f s. spends count 0 w (cp_maintain P w d p f s))
          \<and> (\<forall>w r c vs es d b. spends count 0 w (cp_record P w r c vs es d b)))"

definition free_policy :: "('w \<Rightarrow> nat) \<Rightarrow> 'w context_ops option \<Rightarrow> bool" where
  "free_policy count policy \<longleftrightarrow> (\<forall>P. policy = Some P \<longrightarrow> (\<forall>w. count (cp_use P w) \<le> count w)
     \<and> (\<forall>w. count (cp_fresh P w) \<le> count w)
     \<and> (\<forall>w d p f s. spends count 0 w (cp_maintain P w d p f s))
     \<and> (\<forall>w r c vs es d b. spends count 0 w (cp_record P w r c vs es d b)))"

lemma free_policy_invocation: "counts_requests E count \<Longrightarrow> free_policy count (policy_for_invocation E)"
  by (auto simp: counts_requests_def free_policy_def policy_for_invocation_def split: option.splits if_splits)

lemma free_maintain:
  "free_policy count (Some P) \<Longrightarrow> spends count 0 w (cp_maintain P (cp_use P w) d p f s)"
  by (simp add: free_policy_def spends_def) (meson order_trans)

lemma spends_judge:
  assumes "counts_requests E count" and "free_policy count policy"
  shows "spends count 1 w (invoke_completion_judge E policy w ms)"
proof -
  have "spends count 1 w' (react_response (re_model E) [] w' ms)" for w'
    using assms(1) by (simp add: counts_requests_def)
  moreover have "count (case policy of None \<Rightarrow> w | Some P \<Rightarrow> cp_use P w) \<le> count w"
    using assms(2) by (auto simp: free_policy_def split: option.split)
  ultimately show ?thesis by (auto simp: invoke_completion_judge_def spends_def intro: order_trans)
qed

lemma spends_repair:
  assumes "counts_requests E count" and "free_policy count policy"
  shows "spends count 2 w (judge_with_single_repair E policy w ctx decode name format)"
proof -
  note judge = spends_judge [OF assms]
  have once: "spends count (Suc 0) w (bindW (invoke_completion_judge E policy w ms) f)"
    if "\<And>w x. spends count 0 w (f w x)" for w ms and f :: "'a \<Rightarrow> message \<Rightarrow> 'a \<times> 'c result"
    using spends_bind [OF judge, of 0 f] that by simp
  have "spends count (1 + 1) w (judge_with_single_repair E policy w ctx decode name format)"
    unfolding judge_with_single_repair_def Let_def
    by (rule spends_bind [OF judge])
      (auto intro!: once spends_return intro: spends_any [OF spends_return] split: sum.split)
  then show ?thesis by (simp add: numeral_2_eq_2)
qed

lemma spends_judge_context:
  assumes "free_policy count policy"
  shows "spends count 0 w (judge_context policy w goal request m i status evidence)"
proof -
  have "spends count 0 w (cp_maintain P (cp_use P w) d p f s)" if "policy = Some P" for P d p f s
    using assms that by (intro free_maintain) simp
  then show ?thesis
    unfolding judge_context_def messages_judge_context_def Let_def
    by (auto intro!: spends_intros split: option.split)
qed

lemma spends_request:
  assumes "free_policy count policy"
  shows "spends count 0 w (react_request E policy w goal st)"
proof -
  have "spends count 0 w (cp_maintain P (cp_use P w) d p f s)" if "policy = Some P" for P d p f s
    using assms that by (intro free_maintain) simp
  then show ?thesis
    unfolding react_request_def Let_def by (auto intro!: spends_intros split: option.split)
qed

lemma spends_answer_round:
  assumes "counts_requests E count" and "free_policy count policy"
  shows "spends count 2 w (react_answer_round E policy w goal n st request m content)"
proof -
  note repair = spends_repair [OF assms] and ctx = spends_judge_context [OF assms(2)]
  have two: "spends count 2 w (bindW (judge_with_single_repair E policy w c d name fmt) f)"
    if "\<And>w x. spends count 0 w (f w x)" for w c name fmt and d :: "string \<Rightarrow> 'c result"
      and f :: "'a \<Rightarrow> exn + 'c \<Rightarrow> 'a \<times> 'd result"
    using spends_bind [OF repair, of 0 f] that by simp
  have crit: "spends count 2 w (criteria_answer E policy w goal n st request m a)" for w a
  proof -
    have "spends count 2 w (judge_completion E policy w goal request m st)" for w
      unfolding judge_completion_def by (intro spends_bind_0 [OF ctx] two spends_return)
    then have "spends count (2 + 0) w (criteria_answer E policy w goal n st request m a)"
      unfolding criteria_answer_def Let_def by (rule spends_bind) (auto intro!: spends_intros)
    then show ?thesis by simp
  qed
  have goal: "spends count 2 w (goal_answer E policy w goal n st request m a)" for w a
  proof -
    have "spends count 2 w (judge_goal E policy w goal request m c)" for w c
      unfolding judge_goal_def by (intro spends_bind_0 [OF ctx] repair)
    then have "spends count (2 + 0) w (goal_answer E policy w goal n st request m a)"
      unfolding goal_answer_def Let_def by (rule spends_bind) (auto intro!: spends_intros)
    then show ?thesis by simp
  qed
  show ?thesis
    unfolding react_answer_round_def
    by (auto intro!: crit goal intro: spends_any spends_intros split: sum.split)
qed

lemma spends_invoke:
  assumes "\<And>w name args. spends count 0 w (tr_call R w name args)"
  shows "spends count 0 w (runtime_invoke R active w c)"
proof -
  have "count w2 \<le> count w" if "tr_call R w name args = (w2, x)" for name args w2 x
    using assms [of w name args] that by (simp add: spends_def)
  then show ?thesis
    by (auto simp: runtime_invoke_def spends_def split: sum.split option.split prod.split)
qed

lemma spends_batch:
  assumes "\<And>w name args. spends count 0 w (tr_call R w name args)"
  shows "spends count 0 w (invoke_batch R tools w calls)"
proof (induction calls arbitrary: w)
  case (Cons c cs)
  have "count w2 \<le> count w" if "runtime_invoke R (Some tools) w c = (w2, x)" for w2 x
    using spends_invoke [OF assms, of w "Some tools" c] that by (simp add: spends_def)
  then have "spends count 0 w (invoke_for_react R tools w c)"
    by (auto simp: invoke_for_react_def spends_def split: prod.split sum.split tool_failure.split)
  then show ?case by (auto intro!: spends_intros Cons)
qed (simp add: spends_return)

lemma spends_round:
  assumes "counts_requests E count" and "free_policy count policy"
  shows "spends count 3 w (react_round E policy tools goal n w st)"
proof -
  have call: "spends count 0 w (tr_call (re_runtime E) w name args)" for w name args
    using assms(1) by (simp add: counts_requests_def)
  have tool: "spends count 0 w (react_tool_round E policy tools w goal n st m)" for w m
  proof -
    have "spends count 0 w (cp_record P w r c vs es d b)" if "policy = Some P" for P w r c vs es d b
      using assms(2) that by (simp add: free_policy_def)
    then show ?thesis
      unfolding react_tool_round_def Let_def
      by (auto intro!: spends_intros spends_batch [OF call] split: option.split)
  qed
  have "spends count 1 w (react_response (re_model E) ts w ms)" for w ts ms
    using assms(1) by (simp add: counts_requests_def)
  then have "spends count (1 + 2) w (bindW (react_response (re_model E) ts w ms) (\<lambda>w m.
     if msg_calls m \<noteq> [] \<and> contains_react_decision_block (response_text m)
     then next_round E n w (correct_response policy m tool_call_conflict st)
     else if msg_calls m = [] then react_answer_round E policy w goal n st ms m (response_text m)
     else react_tool_round E policy tools w goal n st m))" for w ts ms
    by (rule spends_bind) (auto intro!: spends_answer_round [OF assms] intro: spends_any spends_next tool)
  then show ?thesis
    unfolding react_round_def by (intro spends_bind_0 [OF spends_request [OF assms(2)]]) (simp add: eval_nat_numeral)
qed

lemma spends_loop:
  assumes "counts_requests E count" and "free_policy count policy"
  shows "spends count (3 * (Suc (re_max_rounds E) - n)) w (react_loop E policy tools goal n w st)"
  using assms
proof (induction E policy tools goal n w st rule: react_loop.induct)
  case (1 E policy tools goal n w st)
  show ?case
  proof (cases "n > re_max_rounds E")
    case False
    obtain w1 r where r: "react_round E policy tools goal n w st = (w1, r)" by fastforce
    with spends_round [OF 1(2,3), of w tools goal n st] have w1: "count w1 \<le> count w + 3" by (simp add: spends_def)
    have k: "3 * (Suc (re_max_rounds E) - n) = 3 + 3 * (Suc (re_max_rounds E) - (n + 1))" using False by simp
    show ?thesis
    proof (cases r)
      case (Inl e)
      with r w1 k False show ?thesis by (simp add: react_loop.simps [of E policy tools goal n w st] spends_def)
    next
      case (Inr x)
      show ?thesis
      proof (cases x)
        case (Inl a)
        with r w1 k False Inr show ?thesis
          by (simp add: react_loop.simps [of E policy tools goal n w st] spends_def)
      next
        case (Inr st')
        from 1(1) [OF False r [symmetric]] \<open>r = Inr x\<close> Inr 1(2,3)
        have "spends count (3 * (Suc (re_max_rounds E) - (n + 1))) w1 (react_loop E policy tools goal (n + 1) w1 st')"
          by simp
        with r w1 k False \<open>r = Inr x\<close> Inr show ?thesis
          by (simp add: react_loop.simps [of E policy tools goal n w st] spends_def)
      qed
    qed
  qed (simp add: react_loop.simps [of E policy tools goal n w st] spends_def)
qed

lemma spends_runtime:
  assumes "\<And>w. spends count 0 w (tr_open R w)" and "\<And>w. spends count 0 w (tr_close R w)"
    and "\<And>tools w. spends count k w (body tools w)"
  shows "spends count k w (with_runtime R body w)"
proof -
  have "spends count k w (let (w, r) = body tools w in bindW (tr_close R w) (\<lambda>w _. (w, r)))" for tools w
  proof -
    obtain w1 r where b: "body tools w = (w1, r)" by fastforce
    with assms(3) [of w tools] have "count w1 \<le> count w + k" by (simp add: spends_def)
    moreover have "spends count 0 w1 (bindW (tr_close R w1) (\<lambda>w _. (w, r)))"
      by (intro spends_intros assms(2))
    ultimately show ?thesis using b by (simp add: spends_def)
  qed
  moreover have "spends count 0 w (enter_runtime R None w)"
    unfolding enter_runtime_def by (auto intro!: spends_intros assms(1))
  ultimately show ?thesis unfolding with_runtime_def by (intro spends_bind_0)
qed

lemma safe_answer_world: "fst (safe_answer message r) = fst r"
  by (cases r; cases "snd r") (auto simp: safe_answer_def)

lemma react_run_spends:
  assumes "counts_requests E count"
  shows "count (fst (react_run E goal w)) \<le> count w + 3 * re_max_rounds E"
proof -
  have body: "spends count (3 * re_max_rounds E) w (react_body E g tools w)" for g tools w
  proof -
    let ?w = "case policy_for_invocation E of None \<Rightarrow> w | Some P \<Rightarrow> cp_fresh P w"
    have "count ?w \<le> count w"
      using free_policy_invocation [OF assms] by (auto simp: free_policy_def split: option.split)
    with spends_loop [OF assms free_policy_invocation [OF assms], of 1 ?w tools g "react_start g"]
    show ?thesis by (simp add: react_body_def spends_def Let_def)
  qed
  have "spends count (3 * re_max_rounds E) w (with_runtime (re_runtime E) (react_body E (conversation_model_input goal)) w)"
    by (rule spends_runtime [OF _ _ body]) (use assms in \<open>simp_all add: counts_requests_def\<close>)
  then have "count (fst (with_runtime (re_runtime E) (react_body E (conversation_model_input goal)) w))
      \<le> count w + 3 * re_max_rounds E"
    by (simp add: spends_def)
  moreover have "fst (react_run E goal w) = re_close E (fst (with_runtime (re_runtime E)
      (react_body E (conversation_model_input goal)) w))"
    using safe_answer_world [of react_failure "with_runtime (re_runtime E) (react_body E (conversation_model_input goal)) w"]
    by (auto simp: react_run_def split: prod.split)
  moreover have "count (re_close E v) \<le> count v" for v using assms by (simp add: counts_requests_def)
  ultimately show ?thesis by (metis order_trans)
qed

text \<open>A tool agent run makes at most one tool call and at most two model requests.\<close>

lemma tool_agent_spends:
  assumes ask: "\<And>goal i tools w. spends count k w (tool_agent_model_response model goal i tools w)"
    and call: "\<And>w name args. spends count l w (tr_call R w name args)"
    and "\<And>w. spends count 0 w (tr_open R w)" and "\<And>w. spends count 0 w (tr_close R w)"
    and close: "\<And>w. count (close w) \<le> count w"
  shows "count (fst (tool_agent_run model R close goal w)) \<le> count w + 2 * k + l"
proof -
  have invoke: "spends count l w (tool_agent_invoke R tools w c)" for tools w c
  proof -
    have "count w2 \<le> count w + l" if "tr_call R w name args = (w2, x)" for name args w2 x
      using call [of w name args] that by (simp add: spends_def)
    then have "count w2 \<le> count w + l" if "runtime_invoke R (Some tools) w c = (w2, x)" for w2 x
      using that by (auto simp: runtime_invoke_def split: sum.splits option.splits prod.splits if_splits)
    then show ?thesis
      by (auto simp: tool_agent_invoke_def spends_def split: prod.split sum.split tool_failure.split)
  qed
  have last: "spends count l w (if cs \<noteq> [] then tool_agent_invoke R tools w (hd cs) else (w, r))" for tools w cs r
    by (simp add: invoke spends_any spends_return)
  have body: "spends count (k + (k + l)) w (tool_agent_body model R g tools w)" for g tools w
    unfolding tool_agent_body_def Let_def
  proof (rule spends_bind [OF ask], clarsimp split: sum.split, intro conjI impI allI)
    fix w' cs e t
    show "spends count (k + l) w' (tool_agent_invoke R tools w' (hd cs))"
      by (rule spends_mono [OF invoke]) simp
    show "spends count (k + l) w' (bindW (tool_agent_model_response model g
        (validation_feedback_instructions tool_agent_instructions e t) (canonical_mcp_tool_set tools) w')
      (\<lambda>w (text, calls). if calls \<noteq> [] then tool_agent_invoke R tools w (hd calls)
               else (w, bindE (decode_answer text) completed_answer)))"
      by (rule spends_bind [OF ask]) (use last in \<open>auto split: prod.split\<close>)
  qed (auto intro: spends_any spends_return spends_mono [OF invoke])
  have "spends count (k + (k + l)) w (with_runtime R (tool_agent_body model R (conversation_model_input goal)) w)"
    by (rule spends_runtime [OF assms(3,4) body])
  then have "count (fst (with_runtime R (tool_agent_body model R (conversation_model_input goal)) w)) \<le> count w + 2 * k + l"
    by (simp add: spends_def)
  moreover have "fst (tool_agent_run model R close goal w) = close (fst (with_runtime R
      (tool_agent_body model R (conversation_model_input goal)) w))"
    using safe_answer_world [of "\<lambda>e. ''tool-agent execution failed''"
        "with_runtime R (tool_agent_body model R (conversation_model_input goal)) w"]
    by (auto simp: tool_agent_run_def split: prod.split)
  ultimately show ?thesis using close by (metis order_trans)
qed

subsection \<open>Feedback is a document\<close>

definition verdict_block :: "int \<times> bool \<times> string \<Rightarrow> block" where
  "verdict_block v = (case v of (n, verified, detail) \<Rightarrow>
     Block ''CRITERION_VERDICT'' [(''NUMBER'', [PInt n]), (''VERIFIED'', [PBool verified]),
       (if verified then ''EVIDENCE'' else ''GAP'', [PStr detail])] [])"

definition judgment_block :: "completion_judgment \<Rightarrow> block" where
  "judgment_block j = Block ''COMPLETION_PROGRESS'' [(''ALL_COMPLETED'', [PBool (cj_all_completed j)])]
     (map verdict_block (cj_verdicts j))"

text \<open>What a decoded judgment is (\<open>decode_completion_judgment_answers\<close>).\<close>

definition wf_judgment :: "completion_judgment \<Rightarrow> bool" where
  "wf_judgment j \<longleftrightarrow> cj_verdicts j \<noteq> [] \<and> cj_answer j = None
     \<and> map fst (cj_verdicts j) = map int [1..<length (cj_verdicts j) + 1]
     \<and> (\<forall>(i, ok, t)\<in>set (cj_verdicts j). \<not> blank t \<and> strip t = t)
     \<and> cj_all_completed j = (\<forall>(i, ok, t)\<in>set (cj_verdicts j). ok)"

lemma feedback_renders: "criterion_judgment_feedback j = render_block (judgment_block j)"
proof -
  have "block_lines (verdict_block (n, verified, detail)) =
      [''BEGIN CRITERION_VERDICT'', ''NUMBER='' @ show_int n, ''VERIFIED='' @ show_bool_lower verified,
       (if verified then ''EVIDENCE'' else ''GAP'') @ ''='' @ json_string detail, ''END CRITERION_VERDICT'']"
    for n verified detail
    by (simp add: verdict_block_def field_lines_def)
  then have "concat (map block_lines (map verdict_block vs)) = concat (map (\<lambda>(n, verified, detail).
      [''BEGIN CRITERION_VERDICT'', ''NUMBER='' @ show_int n, ''VERIFIED='' @ show_bool_lower verified,
       (if verified then ''EVIDENCE'' else ''GAP'') @ ''='' @ json_string detail, ''END CRITERION_VERDICT'']) vs)" for vs
    by (induction vs) auto
  then show ?thesis
    by (simp add: criterion_judgment_feedback_def render_block_def judgment_block_def unlines_def field_lines_def
        del: map_map)
qed

lemma registry_judgment [simp]:
  "map_of codec_registry ''COMPLETION_PROGRESS'' =
     Some \<lparr>cd_fields = [''ALL_COMPLETED'', ''ANSWER''], cd_arrays = [],
       cd_children = [''CRITERION_VERDICT'', ''COMPLETED_CRITERION'']\<rparr>"
  "map_of codec_registry ''CRITERION_VERDICT'' =
     Some \<lparr>cd_fields = [''NUMBER'', ''VERIFIED'', ''EVIDENCE'', ''GAP''], cd_arrays = [], cd_children = []\<rparr>"
  by code_simp+

lemma show_nat_length: "length (show_nat n) \<le> Suc n"
proof (induction n rule: show_nat.induct)
  case (1 n)
  show ?case
  proof (cases "n < 10")
    case False
    with 1 have "length (show_nat (n div 10)) \<le> Suc (n div 10)" by blast
    moreover have "Suc (Suc (n div 10)) \<le> Suc n" using False by linarith
    ultimately show ?thesis using False by (subst show_nat.simps) simp
  qed (simp add: show_nat_small)
qed

lemma judgment_names [simp]:
  "plain_name ''COMPLETION_PROGRESS'' \<and> plain_name ''CRITERION_VERDICT'' \<and> plain_name ''ALL_COMPLETED''
   \<and> plain_name ''NUMBER'' \<and> plain_name ''VERIFIED'' \<and> plain_name ''EVIDENCE'' \<and> plain_name ''GAP''"
  by (simp add: plain_name_def is_name_def upper_def upper_char_def is_letter_def is_digit_def Let_def)

lemma judgment_number:
  assumes "wf_judgment j" and "(i, ok, t) \<in> set (cj_verdicts j)"
  shows "1 \<le> i \<and> i \<le> int (length (cj_verdicts j))"
proof -
  have "i \<in> set (map fst (cj_verdicts j))" using assms(2) by force
  also have "\<dots> = set (map int [1..<length (cj_verdicts j) + 1])" using assms(1) by (simp only: wf_judgment_def)
  finally show ?thesis by auto
qed

lemma judgment_block_ok:
  assumes "wf_judgment j" and "length (cj_verdicts j) < 4300"
  shows "renderable (judgment_block j)" and "conforms (judgment_block j)"
proof -
  have "length (show_nat (nat \<bar>i\<bar>)) \<le> 4300" if "(i, ok, t) \<in> set (cj_verdicts j)" for i ok t
    using judgment_number [OF assms(1) that] assms(2) show_nat_length [of "nat \<bar>i\<bar>"] by linarith
  then show "renderable (judgment_block j)"
    by (auto simp: judgment_block_def verdict_block_def)
  show "conforms (judgment_block j)"
    by (auto simp: judgment_block_def verdict_block_def)
qed

lemma decode_verdict_block:
  assumes "wf_judgment j" and "v \<in> set (cj_verdicts j)"
  shows "decode_criterion_verdict (length (cj_verdicts j)) (verdict_block v) = Inr v"
proof -
  obtain i ok t where v: "v = (i, ok, t)" by (cases v)
  with assms judgment_number have "1 \<le> i" "i \<le> int (length (cj_verdicts j))" "\<not> blank t" "strip t = t"
    by (force simp: wf_judgment_def)+
  with v show ?thesis
    by (auto simp: decode_criterion_verdict_def verdict_block_def require_def fields_within_def has_fields_def
        single_def bool_of_def text_of_def Let_def)
qed

lemma decode_feedback:
  assumes "wf_judgment j" and "length (cj_verdicts j) < 4300"
  shows "decode_completion_judgment (criterion_judgment_feedback j) (length (cj_verdicts j)) = Inr j"
proof -
  have parse: "parse_line_protocol (criterion_judgment_feedback j) = Inr (judgment_block j)"
    unfolding feedback_renders
    using judgment_block_ok [OF assms] by (rule parse_render) (simp add: judgment_block_def)
  have "mapE (decode_criterion_verdict (length (cj_verdicts j))) (map verdict_block (cj_verdicts j)) = Inr (cj_verdicts j)"
    using assms(1) by (intro mapE_map decode_verdict_block)
  moreover have "children_are (judgment_block j) ''CRITERION_VERDICT''"
    by (auto simp: children_are_def judgment_block_def verdict_block_def)
  moreover have "bk_type (judgment_block j) = ''COMPLETION_PROGRESS''"
    "bk_children (judgment_block j) = map verdict_block (cj_verdicts j)"
    "has_fields (judgment_block j) [''ALL_COMPLETED'']"
    "single (judgment_block j) ''ALL_COMPLETED'' = Inr (PBool (cj_all_completed j))"
    by (auto simp: judgment_block_def has_fields_def single_def)
  ultimately show ?thesis
    using assms(1) by (simp add: decode_completion_judgment_def parse require_def bool_of_def wf_judgment_def)
qed

end
