(* ===== verification/Mode_Properties.thy ===== *)
theory Mode_Properties
  imports React_Correct Examples
begin

section \<open>Properties of the execution modes\<close>

text \<open>
  An example environment: one tool, a model that answers in prose when it has tools and judges
  the goal satisfied when it has none.  The world counts the model requests.
\<close>

definition goal_block :: block where
  "goal_block = Block ''GOAL_JUDGMENT'' [(''COMPLETED'', [PBool True]), (''EVIDENCE'', [PStr ''Seen''])] []"

definition decision_block :: block where
  "decision_block = Block ''REACT_DECISION'' [(''STATUS'', [PStr ''completed'']), (''ANSWER'', [PStr ''All set''])] []"

lemma goal_block_accepts: "decode_goal_judgment (render_block goal_block) = Inr (True, ''Seen'')"
proof -
  have "parse_line_protocol (render_block goal_block) = Inr goal_block"
  proof (rule parse_render)
    show "renderable goal_block"
      by (simp add: goal_block_def plain_name_def is_name_def upper_def upper_char_def is_letter_def is_digit_def Let_def)
    show "conforms goal_block" unfolding goal_block_def by code_simp
    show "bk_type goal_block \<noteq> ''STEP''" by (simp add: goal_block_def)
  qed
  then show ?thesis
    by (simp add: decode_goal_judgment_def, simp add: goal_block_def require_def has_fields_def single_def bool_of_def
        text_of_def blank_iff is_space_def)
qed

definition demo_tool :: mcp_tool where
  "demo_tool = \<lparr>mt_name = ''ls'', mt_description = [], mt_schema = ArgsSchema PNone\<rparr>"

definition demo_runtime :: "nat tool_runtime" where
  "demo_runtime = \<lparr>tr_open = (\<lambda>w. (w, Inr [demo_tool])), tr_call = (\<lambda>w name args. (w, Inr (PStr ''files''))),
     tr_close = (\<lambda>w. (w, Inr ())), tr_cwd = Some ''/tmp'', tr_allowlist = None\<rparr>"

definition demo_react :: "nat react_env" where
  "demo_react = \<lparr>re_model = ChatModel (\<lambda>tools w ms. (w + 1, Inr (AIMessage
       (PStr (if tools = [] then render_block goal_block else render_block decision_block)) [] []))),
     re_runtime = demo_runtime, re_policy = None,
     re_new_policy = \<lparr>cp_messages = False, cp_fresh = id, cp_use = id,
        cp_maintain = (\<lambda>w durable fixed feedback status. (w, Inl IndexError)),
        cp_record = (\<lambda>w n calls results errors ctx suppress. (w, Inr ()))\<rparr>,
     re_context_model = False, re_chat_model = False, re_messages_layout = False, re_max_rounds = 2,
     re_criteria = [], re_close = id\<rparr>"

lemma demo_react_simps [simp]:
  "react_response (re_model demo_react) tools w ms =
     (w + 1, Inr (AIMessage (PStr (if tools = [] then render_block goal_block else render_block decision_block)) [] []))"
  "re_runtime demo_react = demo_runtime" "re_policy demo_react = None" "re_max_rounds demo_react = 2"
  "re_criteria demo_react = []" "re_close demo_react = id" "policy_for_invocation demo_react = None"
  by (simp_all add: demo_react_def react_response_def policy_for_invocation_def)

lemma demo_candidate:
  "response_decision (render_block decision_block) =
     Inr \<lparr>rd_status = ''completed'', rd_answer = Some ''All set'', rd_error = None\<rparr>"
proof -
  have "parse_line_protocol (render_block decision_block) = Inr decision_block"
  proof (rule parse_render)
    show "renderable decision_block"
      by (simp add: decision_block_def plain_name_def is_name_def upper_def upper_char_def is_letter_def is_digit_def Let_def)
    show "conforms decision_block" unfolding decision_block_def by code_simp
    show "bk_type decision_block \<noteq> ''STEP''" by (simp add: decision_block_def)
  qed
  then show ?thesis
    by (simp add: response_decision_def decode_react_decision_def, simp add: decision_block_def require_def
        has_fields_def single_def react_decision_fields_def text_of_def blank_iff is_space_def)
qed

lemma decision_text: "render_block decision_block \<noteq> []" "render_block goal_block \<noteq> []"
  by (simp_all add: render_block_def decision_block_def goal_block_def field_lines_def)

definition demo_answer :: execution_answer where
  "demo_answer = \<lparr>ea_answer = Some ''All set'', ea_status = ''completed'', ea_error = None\<rparr>"

lemma demo_judge_goal:
  "judge_goal demo_react None w goal request m t = (w + 1, Inr (Inr (True, ''Seen'')))"
  by (simp add: judge_goal_def judge_context_def judge_with_single_repair_def invoke_completion_judge_def
      message_text_def goal_block_accepts)

lemma demo_react_round:
  "react_round demo_react None [demo_tool] goal 1 w st = (w + 2, Inr (Inl demo_answer))"
  by (simp add: react_round_def react_request_def criteria_status_def canonical_mcp_tool_set_def response_text_def
      message_text_def react_answer_round_def demo_candidate decision_text goal_answer_def demo_judge_goal
      mk_execution_answer_def blank_text_def blank_iff is_space_def demo_answer_def)

lemma demo_react_run: "react_run demo_react (PlainGoal ''Ship'') 0 = (2, Inr demo_answer)"
proof -
  have "react_body demo_react ''Ship'' [demo_tool] 0 = (2, Inr demo_answer)"
    by (simp add: react_body_def react_loop.simps [of demo_react None "[demo_tool]" "''Ship''" 1]
        demo_react_round del: One_nat_def)
  then show ?thesis
    by (simp add: react_run_def with_runtime_def enter_runtime_def demo_runtime_def safe_answer_def)
qed





text \<open>
  what the model is told about a rejected candidate is the judgment itself: the feedback
  decodes, as a completion judgment for the same number of criteria, to the judgment it was
  written from.
\<close>

theorem judgment_feedback_round_trip:
  assumes "decode_completion_judgment document n = Inr j" and "n < 4300"
  shows "decode_completion_judgment (criterion_judgment_feedback j) n = Inr j"
proof -
  note a = decode_completion_judgment_answers [OF assms(1)]
  then have n: "length (cj_verdicts j) = n" by (metis length_map length_upt diff_add_inverse2)
  have "cj_answer j = None"
    using assms(1) by (auto simp: decode_completion_judgment_def bindE_Inr)
  with a n have "wf_judgment j" by (auto simp: wf_judgment_def)
  from decode_feedback [OF this] n assms(2) show ?thesis by simp
qed

definition demo_judgment :: completion_judgment where
  "demo_judgment = \<lparr>cj_verdicts = [(1, True, ''Seen''), (2, False, ''Not run'')], cj_all_completed = False, cj_answer = None\<rparr>"

lemma demo_judgment_decodes: "decode_completion_judgment (criterion_judgment_feedback demo_judgment) 2 = Inr demo_judgment"
proof -
  have "wf_judgment demo_judgment"
    by (simp add: wf_judgment_def demo_judgment_def blank_iff is_space_def strip_def upt_rec)
  from decode_feedback [OF this] show ?thesis by (simp add: demo_judgment_def numeral_2_eq_2)
qed

theorem judgment_feedback_round_trip_witness:
  "decode_completion_judgment (criterion_judgment_feedback demo_judgment) 2 = Inr demo_judgment"
  by (rule judgment_feedback_round_trip [OF demo_judgment_decodes]) simp

text \<open>
  The tool-agent mode makes at most one tool call and at most two model requests: counting
  calls of tools and requests of the model with any weights, a run adds no more than one call
  and two requests.
\<close>

theorem tool_agent_single_call:
  assumes "\<And>goal i tools w. spends count k w (tool_agent_model_response model goal i tools w)"
    and "\<And>w name args. spends count l w (tr_call R w name args)"
    and "\<And>w. spends count 0 w (tr_open R w)" and "\<And>w. spends count 0 w (tr_close R w)"
    and "\<And>w. count (close w) \<le> count w"
  shows "count (fst (tool_agent_run model R close goal w)) \<le> count w + 2 * k + l"
  using assms by (rule tool_agent_spends)

definition call_model :: "nat mode_model" where
  "call_model = ChatModel (\<lambda>tools w ms. (w, Inr (AIMessage (PStr [])
     [\<lparr>tc_id = Some ''1'', tc_name = Some ''ls'', tc_args = PDict []\<rparr>] [])))"

definition counted_runtime :: "nat tool_runtime" where
  "counted_runtime = demo_runtime\<lparr>tr_call := \<lambda>w name args. (w + 1, Inr (PStr ''files''))\<rparr>"

theorem tool_agent_single_call_witness:
  "id (fst (tool_agent_run call_model counted_runtime id (PlainGoal ''List'') 0)) \<le> id 0 + 2 * 0 + 1"
  by (rule tool_agent_single_call)
    (simp_all add: spends_def call_model_def counted_runtime_def demo_runtime_def)

definition settled_answer :: "execution_answer result \<Rightarrow> bool" where
  "settled_answer r \<longleftrightarrow> (\<exists>a. r = Inr a \<and> wf_answer a) \<or> r = Inl CancelledError"


end
