(* ===== verification/Task_Routing.thy ===== *)
theory Task_Routing
  imports React
begin

section \<open>Task analysis and routing\<close>

text \<open>
  \<open>agent/task_analyzer.py\<close>, and the composition of the router with the execution modes
  (\<open>_task_router\<close>, \<open>_routed_result\<close> of \<open>agent/durable.py\<close>).
\<close>

subsection \<open>Instructions\<close>

definition task_analyzer_instructions :: string where
  \<open>task_analyzer_instructions = join [CHR 0x0A]
    ['''',
     ''You are a Task Analyzer in an agent runtime.'',
     '''',
     ''Your job is not to solve the user''
      @ [CHR 0x27]
      @ ''s task and not to choose an agent architecture directly.'',
     '''',
     ''Your only job is to analyze the task and produce structured task characteristics that ''
      @ ''a deterministic router can use to select the appropriate execution architecture.'',
     '''',
     ''Analyze the user''
      @ [CHR 0x27]
      @ ''s request based only on currently available information.'',
     '''',
     ''## Principles'',
     '''',
     ''1. Do not overestimate complexity.'',
     ''2. Prefer the simplest reasonable interpretation of the task.'',
     ''3. Do not assume hidden sub-tasks unless they are strongly implied by the request.'',
     ''4. A long workflow is not necessarily an agentic task.'',
     ''5. Do not mark a task as complex merely because it involves multiple tools.'',
     ''6. Estimate task characteristics, not the implementation architecture.'',
     '''',
     ''## Analyze the following dimensions'',
     '''',
     ''### goal_clarity'',
     '''',
     ''How clearly defined is the final desired outcome?'',
     '''',
     ''Range:'',
     '''',
     ''* 0.0 = highly ambiguous goal'',
     ''* 1.0 = clearly defined output or success condition'',
     '''',
     ''### needs_tools'',
     '''',
     ''Whether external tools, APIs, databases, files, browsers, code execution, or other environment ''
      @ ''interaction are required.'',
     '''',
     ''Boolean.'',
     '''',
     ''### expected_steps'',
     '''',
     ''Estimate the number of meaningful execution steps.'',
     '''',
     ''Use an integer.'',
     '''',
     ''Do not count trivial internal reasoning steps.'',
     '''',
     ''Examples:'',
     '''',
     ''* answer factual question ''
      @ [CHR 0xE2, CHR 0x86, CHR 0x92]
      @ '' 1'',
     ''* call one API and summarize ''
      @ [CHR 0xE2, CHR 0x86, CHR 0x92]
      @ '' 2'',
     ''* investigate production incident ''
      @ [CHR 0xE2, CHR 0x86, CHR 0x92]
      @ '' potentially 5-15+'',
     '''',
     ''### expected_horizon'',
     '''',
     ''One of:'',
     '''',
     ''* "short"'',
     ''* "medium"'',
     ''* "long"'',
     '''',
     ''Guideline:'',
     '''',
     ''* short: usually <= 3 meaningful steps'',
     ''* medium: roughly 4-8 steps'',
     ''* long: usually > 8 steps or requires sustained state tracking'',
     '''',
     ''### task_type'',
     '''',
     ''Choose the closest semantic task type:'',
     '''',
     ''* "generation"'',
     ''* "transformation"'',
     ''* "retrieval"'',
     ''* "tool_action"'',
     ''* "workflow"'',
     ''* "diagnosis"'',
     ''* "research"'',
     ''* "coding"'',
     ''* "planning"'',
     ''* "mixed"'',
     '''',
     ''## Important distinctions'',
     '''',
     ''### Plan-oriented task'',
     '''',
     ''If the task contains multiple dependent subgoals, competing hypotheses, or requires maintaining ''
      @ ''global progress across many steps:'',
     '''',
     ''Example:'',
     ''"Investigate why conversion dropped over the last 3 months and propose solutions."'',
     '''',
     ''Then typically:'',
     '''',
     ''* expected_horizon = long'',
     '''',
     ''Do not recommend an architecture, expose chain-of-thought, or include implementation ''
      @ ''details.'',
     '''',
     ''For tasks whose own characteristics are needs_tools=true, expected_steps>1,'',
     ''and expected_horizon is not "long", also list each independently verifiable'',
     ''completion criterion for the user''
      @ [CHR 0x27]
      @ ''s requested outcome. Keep criteria concise,'',
     ''specific, and in stable order. For other tasks, omit completion criteria.'',
     '''']\<close>
definition task_output_requirements :: string where
  \<open>task_output_requirements = join [CHR 0x0A]
    ['''',
     ''## Output requirements'',
     '''',
     ''Return exactly one Line Protocol block as plain text.'',
     '''',
     ''Do not wrap the block in Markdown code fences such as ``` or ```text. Do not'',
     ''add any explanation, commentary, reasoning, labels, or other text before or'',
     ''after the block. The first output characters must be BEGIN TASK_ANALYSIS and'',
     ''the last output characters must be END TASK_ANALYSIS.'',
     '''',
     ''The block must contain these six required fields exactly once and in this exact'',
     ''order: TASK_TYPE, GOAL_CLARITY, NEEDS_TOOLS, EXPECTED_STEPS,'',
     ''EXPECTED_HORIZON, REASONING_SUMMARY. REASONING_SUMMARY is required; never omit'',
     ''it. COMPLETION_CRITERION is the only optional field. Include one or more'',
     ''COMPLETION_CRITERION fields only when needs_tools=true, expected_steps>1, and'',
     ''expected_horizon is not "long"; otherwise include none. When included, place'',
     ''them after REASONING_SUMMARY.'',
     '''',
     ''BEGIN TASK_ANALYSIS'',
     ''TASK_TYPE="coding"'',
     ''GOAL_CLARITY=0.8'',
     ''NEEDS_TOOLS=true'',
     ''EXPECTED_STEPS=3'',
     ''EXPECTED_HORIZON="short"'',
     ''REASONING_SUMMARY="Briefly explain the main task characteristics without recommending ''
      @ ''an architecture."'',
     ''COMPLETION_CRITERION="One independently verifiable requested outcome"'',
     ''END TASK_ANALYSIS'',
     '''',
     ''Use uppercase snake-case field names exactly as shown. Scalar values must be JSON'',
     ''literals (strings quoted and escaped). Repeat COMPLETION_CRITERION for each'',
     ''criterion when the task characteristics require it. Do not include prose or'',
     ''additional fields.'',
     '''']\<close>
definition task_analysis_instructions :: string where
  "task_analysis_instructions = task_analyzer_instructions @ task_output_requirements"

subsection \<open>Analyses\<close>

record task_analysis =
  ta_task_type :: string
  ta_goal_clarity :: pyval
  ta_needs_tools :: bool
  ta_expected_steps :: int
  ta_expected_horizon :: string
  ta_reasoning_summary :: string
  ta_completion_criteria :: "string list"

definition task_types :: "string list" where
  "task_types = [''generation'', ''transformation'', ''retrieval'', ''tool_action'', ''workflow'', ''diagnosis'',
     ''research'', ''coding'', ''planning'', ''mixed'']"

definition horizons :: "string list" where
  "horizons = [''short'', ''medium'', ''long'']"

definition analysis_fields :: "string list" where
  "analysis_fields = [''TASK_TYPE'', ''GOAL_CLARITY'', ''NEEDS_TOOLS'', ''EXPECTED_STEPS'', ''EXPECTED_HORIZON'',
     ''REASONING_SUMMARY'']"

definition route :: "bool \<Rightarrow> int \<Rightarrow> string \<Rightarrow> string" where
  "route needs_tools steps horizon =
     (if \<not> needs_tools then ''direct''
      else if steps \<le> 1 then ''tool_agent''
      else if horizon = ''long'' then ''plan_execute''
      else ''react'')"

text \<open>
  \<open>type(v) in {int, float} and 0 <= v <= 1\<close>.  A float literal is rounded to the nearest binary64
  number: it counts as at most 1 up to \<open>1 + 2^-53\<close>, as at least 0 down to \<open>-2^-1075\<close>.
\<close>

definition scaled_le :: "nat \<Rightarrow> int \<Rightarrow> nat \<Rightarrow> nat \<Rightarrow> bool" where
  "scaled_le m x p q \<longleftrightarrow> (if x \<ge> 0 then m * 10 ^ nat x * q \<le> p else m * q \<le> p * 10 ^ nat (- x))"

definition is_score :: "pyval \<Rightarrow> bool" where
  "is_score v = (case v of
       PInt n \<Rightarrow> 0 \<le> n \<and> n \<le> 1
     | PFloat f \<Rightarrow> (case decimal_parts f of
           None \<Rightarrow> False
         | Some (neg, m, x) \<Rightarrow>
             if neg then scaled_le m x 1 (2 ^ 1075) else scaled_le m x (2 ^ 53 + 1) (2 ^ 53))
     | _ \<Rightarrow> False)"

definition as_float :: "pyval \<Rightarrow> pyval" where
  "as_float v = (case v of PInt n \<Rightarrow> PFloat (show_int n @ ''.0'') | _ \<Rightarrow> v)"

abbreviation analysis_error :: "string \<Rightarrow> 'a result" where
  "analysis_error m \<equiv> Inl (TaskAnalysisValidationError m)"

definition required :: "bool \<Rightarrow> string \<Rightarrow> unit result" where
  "required b m = (if b then Inr () else analysis_error m)"

text \<open>Membership in a frozen set of strings, which hashes the value.\<close>

definition member_of :: "string list \<Rightarrow> pyval \<Rightarrow> bool result" where
  "member_of names v =
     (if \<not> hashable v then Inl (TypeError ''unhashable type'')
      else Inr (case v of PStr s \<Rightarrow> s \<in> set names | _ \<Rightarrow> False))"

definition analysis_field :: "block \<Rightarrow> string \<Rightarrow> pyval result" where
  "analysis_field b name = (case map_of (bk_fields b) name of
       Some [v] \<Rightarrow> Inr v
     | _ \<Rightarrow> analysis_error (''task analysis field '' @ name @ '' must occur exactly once''))"

definition text_value :: "pyval \<Rightarrow> string" where
  "text_value v = (case v of PStr s \<Rightarrow> s | _ \<Rightarrow> [])"

definition parse_analysis_block :: "block \<Rightarrow> task_analysis result" where
  "parse_analysis_block b =
     bindE (required (bk_type b = ''TASK_ANALYSIS'') ''expected BEGIN TASK_ANALYSIS'') (\<lambda>_.
     bindE (required (bk_children b = []) ''TASK_ANALYSIS cannot contain child blocks'') (\<lambda>_.
     bindE (required (\<forall>k\<in>set (map fst (bk_fields b)). k \<in> set (''COMPLETION_CRITERION'' # analysis_fields))
              ''TASK_ANALYSIS contains undeclared fields'') (\<lambda>_.
     bindE (required (\<forall>k\<in>set analysis_fields. k \<in> set (map fst (bk_fields b)))
              ''task analysis must contain exactly the required fields'') (\<lambda>_.
     bindE (analysis_field b ''TASK_TYPE'') (\<lambda>task_type.
     bindE (analysis_field b ''GOAL_CLARITY'') (\<lambda>clarity.
     bindE (analysis_field b ''NEEDS_TOOLS'') (\<lambda>needs_tools.
     bindE (analysis_field b ''EXPECTED_STEPS'') (\<lambda>steps.
     bindE (analysis_field b ''EXPECTED_HORIZON'') (\<lambda>horizon.
     bindE (analysis_field b ''REASONING_SUMMARY'') (\<lambda>summary.
     bindE (required (is_score clarity) ''task analysis goal_clarity must be a score from 0 to 1'') (\<lambda>_.
     bindE (required (case steps of PInt n \<Rightarrow> 1 \<le> n | _ \<Rightarrow> False)
              ''task analysis expected_steps must be a non-negative integer'') (\<lambda>_.
     bindE (required (case needs_tools of PBool x \<Rightarrow> True | _ \<Rightarrow> False)
              ''task analysis needs_tools must be a boolean'') (\<lambda>_.
     bindE (member_of task_types task_type) (\<lambda>known_type.
     bindE (if known_type then member_of horizons horizon else Inr False) (\<lambda>known.
     bindE (required known ''task analysis contains an unsupported category'') (\<lambda>_.
     bindE (required (nonblank_str summary \<noteq> None) ''task analysis reasoning_summary must be non-empty text'') (\<lambda>_.
     let criteria = (case map_of (bk_fields b) ''COMPLETION_CRITERION'' of None \<Rightarrow> [] | Some vs \<Rightarrow> vs);
         texts = map text_value criteria in
     bindE (required (\<forall>v\<in>set criteria. nonblank_str v \<noteq> None) ''completion criteria must be non-empty text'') (\<lambda>_.
     bindE (required (distinct (map strip texts)) ''completion criteria must be distinct'') (\<lambda>_.
     let tools = (needs_tools = PBool True);
         n = (case steps of PInt n \<Rightarrow> n | _ \<Rightarrow> 0);
         react = (route tools n (text_value horizon) = ''react'') in
     bindE (required (react \<longrightarrow> criteria \<noteq> []) ''react task analysis requires completion criteria'') (\<lambda>_.
     bindE (required (\<not> react \<longrightarrow> criteria = []) ''completion criteria are only valid for react tasks'') (\<lambda>_.
     Inr \<lparr>ta_task_type = text_value task_type, ta_goal_clarity = as_float clarity, ta_needs_tools = tools,
          ta_expected_steps = n, ta_expected_horizon = text_value horizon,
          ta_reasoning_summary = text_value summary, ta_completion_criteria = texts\<rparr>)))))))))))))))))))))"

definition parse_analysis :: "string \<Rightarrow> task_analysis result" where
  "parse_analysis output = (case parse_line_protocol output of
       Inl e \<Rightarrow> if is_line_protocol_error e then analysis_error (exn_str e) else Inl e
     | Inr b \<Rightarrow> parse_analysis_block b)"

subsection \<open>The analyzer\<close>

definition analysis_input :: "string \<Rightarrow> pyval option \<Rightarrow> string result" where
  "analysis_input goal conv = (case conv of
       None \<Rightarrow> Inr goal
     | Some c \<Rightarrow>
         bindE (get_item c ''history'') (\<lambda>history.
         bindE (get_item c ''current_input'') (\<lambda>current_input.
         bindE (iter_items history) (\<lambda>items.
         Inr (json_dumps True (PDict [(''conversation_history'', PList items), (''current_input'', current_input)]))))))"

definition analyze_task ::
  "'w text_model \<Rightarrow> string \<Rightarrow> pyval option \<Rightarrow> 'w \<Rightarrow> 'w \<times> task_analysis result" where
  "analyze_task model goal conv w =
     (if blank goal then (w, Inl (ValueError ''goal must be a non-empty string''))
      else bindW (liftW w (analysis_input goal conv)) (\<lambda>w model_input.
        validated_text (request_plan_text model model_input) task_analysis_instructions parse_analysis w))"

subsection \<open>The router\<close>

record routed_answer =
  ro_execution :: execution_answer
  ro_mode :: string
  ro_analysis :: "task_analysis option"
  ro_error :: "string option"

definition analysis_route :: "task_analysis \<Rightarrow> string" where
  "analysis_route a = route (ta_needs_tools a) (ta_expected_steps a) (ta_expected_horizon a)"

definition router_run ::
  "(string \<Rightarrow> 'w \<Rightarrow> 'w \<times> task_analysis result)
     \<Rightarrow> (string \<Rightarrow> task_analysis option \<Rightarrow> string \<Rightarrow> 'w \<Rightarrow> 'w \<times> execution_answer result)
     \<Rightarrow> string \<Rightarrow> 'w \<Rightarrow> 'w \<times> routed_answer result" where
  "router_run analyze factory goal w =
     (case analyze goal w of
        (w, Inr a) \<Rightarrow>
          bindW (factory (analysis_route a) (Some a) goal w) (\<lambda>w answer.
          (w, Inr \<lparr>ro_execution = answer, ro_mode = analysis_route a, ro_analysis = Some a, ro_error = None\<rparr>))
      | (w, Inl e) \<Rightarrow>
          if \<not> is_exception e then (w, Inl e)
          else bindW (factory ''plan_execute'' None goal w) (\<lambda>w answer.
            (w, Inr \<lparr>ro_execution = answer, ro_mode = ''plan_execute'', ro_analysis = None,
                 ro_error = Some ''task analysis failed''\<rparr>)))"

subsection \<open>The router over the execution modes\<close>

record 'w mode_env =
  me_direct :: "'w text_model"
  me_tool_agent :: "'w mode_model"
  me_runtime :: "'w tool_runtime"
  me_react :: "'w react_env"
  me_durable :: "'w \<Rightarrow> agent_state \<Rightarrow> pyval option \<Rightarrow> 'w \<times> run_answer result"
  me_close :: "'w \<Rightarrow> 'w"
  me_layout :: string

text \<open>Every provider is configured; the criteria go to the ReAct mode only.\<close>

definition run_mode ::
  "'w mode_env \<Rightarrow> string \<Rightarrow> task_analysis option \<Rightarrow> string \<Rightarrow> 'w \<Rightarrow> 'w \<times> execution_answer result" where
  "run_mode M mode analysis goal w =
     bindW (liftW w (create_execution_mode mode (me_layout M) True False True [])) (\<lambda>w selected.
     case selected of
       SelectPlanExecute \<Rightarrow> plan_execute_run (me_durable M) (PlainGoal goal) w
     | SelectDirect \<Rightarrow> direct_run (me_direct M) (PlainGoal goal) w
     | SelectToolAgent \<Rightarrow> tool_agent_run (me_tool_agent M) (me_runtime M) (me_close M) (PlainGoal goal) w
     | SelectReact \<Rightarrow>
         react_run ((me_react M)\<lparr>re_criteria := (case analysis of None \<Rightarrow> [] | Some a \<Rightarrow> ta_completion_criteria a),
                                 re_runtime := me_runtime M, re_messages_layout := (me_layout M = ''messages'')\<rparr>)
           (PlainGoal goal) w
     | SelectUnavailable name \<Rightarrow> (w, unavailable_run name))"

definition task_router :: "'w text_model \<Rightarrow> 'w mode_env \<Rightarrow> string \<Rightarrow> 'w \<Rightarrow> 'w \<times> routed_answer result" where
  "task_router analyzer M = router_run (\<lambda>goal. analyze_task analyzer goal None) (run_mode M)"

definition analysis_value :: "task_analysis \<Rightarrow> pyval" where
  "analysis_value a = PDict
     [(''task_type'', PStr (ta_task_type a)), (''goal_clarity'', ta_goal_clarity a),
      (''needs_tools'', PBool (ta_needs_tools a)), (''expected_steps'', PInt (ta_expected_steps a)),
      (''expected_horizon'', PStr (ta_expected_horizon a)), (''reasoning_summary'', PStr (ta_reasoning_summary a)),
      (''completion_criteria'', PList (map PStr (ta_completion_criteria a)))]"

definition answer_value :: "execution_answer \<Rightarrow> pyval" where
  "answer_value a = PDict [(''answer'', opt_str (ea_answer a)), (''status'', PStr (ea_status a)),
     (''error'', opt_str (ea_error a))]"

definition routed_result :: "string \<Rightarrow> routed_answer \<Rightarrow> pyval" where
  "routed_result run_id r = PDict
     [(''run_id'', PStr run_id), (''status'', PStr (ea_status (ro_execution r))),
      (''execution_mode'', PStr (ro_mode r)), (''execution'', answer_value (ro_execution r)),
      (''analysis'', case ro_analysis r of None \<Rightarrow> PNone | Some a \<Rightarrow> analysis_value a),
      (''analysis_error'', opt_str (ro_error r))]"

end
