(* ===== verification/Conversation.thy ===== *)
theory Conversation
  imports Task_Routing Registry
begin

section \<open>Conversations\<close>

text \<open>
  \<open>agent/conversation.py\<close>: ordered turns, their stores, and the service that runs, resumes and
  shows them.  The MySQL store is modelled over its two tables; a transaction that raises leaves
  them as they were.  Runners, the mode selector, the result of a durable run and fresh UUIDs are
  collaborators of the service; column widths are not modelled.
\<close>

subsection \<open>Turns\<close>

record turn =
  ct_conv :: string
  ct_sequence :: int
  ct_run :: string
  ct_mode :: string
  ct_input :: string
  ct_status :: string
  ct_answer :: "string option"
  ct_error :: "string option"

definition active_turn :: "turn \<Rightarrow> bool" where
  "active_turn t \<longleftrightarrow> ct_status t \<in> set [''pending'', ''running'']"

definition find_active :: "turn list \<Rightarrow> turn option" where
  "find_active ts = List.find active_turn ts"

definition turn_public :: "turn \<Rightarrow> pyval" where
  "turn_public t = PDict
     [(''sequence'', PInt (ct_sequence t)), (''user_input'', PStr (ct_input t)),
      (''execution_mode'', PStr (ct_mode t)), (''run_id'', PStr (ct_run t)), (''status'', PStr (ct_status t)),
      (''answer'', opt_str (ct_answer t)), (''error'', opt_str (ct_error t))]"

definition busy_error :: "turn \<Rightarrow> exn" where
  "busy_error t = ConversationBusyError
     (''conversation busy: turn '' @ show_int (ct_sequence t) @ '' (run '' @ ct_run t @ '') is active'')
     (ct_conv t) (ct_sequence t) (ct_run t)"

definition unknown_conversation :: "string \<Rightarrow> exn" where
  "unknown_conversation conv = ConversationNotFoundError (''unknown conversation: '' @ conv)"

definition sequence_conflict :: exn where
  "sequence_conflict = ConversationError ''conversation turn sequence conflict''"

definition unknown_turn :: exn where
  "unknown_turn = ConversationError ''unknown conversation turn''"

record 'st store_ops =
  so_append :: "'st \<Rightarrow> turn \<Rightarrow> 'st \<times> unit result"
  so_get :: "'st \<Rightarrow> string \<Rightarrow> turn list result"
  so_update :: "'st \<Rightarrow> turn \<Rightarrow> 'st \<times> unit result"

subsection \<open>The in-memory store\<close>

type_synonym mem_conversations = "(string \<times> turn list) list"

text \<open>\<open>setdefault\<close> creates the conversation even when the append is refused.\<close>

definition mem_append :: "mem_conversations \<Rightarrow> turn \<Rightarrow> mem_conversations \<times> unit result" where
  "mem_append st t =
     (let ts = (case map_of st (ct_conv t) of None \<Rightarrow> [] | Some ts \<Rightarrow> ts);
          st = (if map_of st (ct_conv t) = None then AList.update (ct_conv t) [] st else st)
      in case find_active ts of
           Some a \<Rightarrow> (st, Inl (busy_error a))
         | None \<Rightarrow>
             if ct_sequence t \<noteq> int (length ts) + 1 then (st, Inl sequence_conflict)
             else (AList.update (ct_conv t) (ts @ [t]) st, Inr ()))"

definition mem_conversation :: "mem_conversations \<Rightarrow> string \<Rightarrow> turn list result" where
  "mem_conversation st conv = (case map_of st conv of
       None \<Rightarrow> Inl (unknown_conversation conv) | Some ts \<Rightarrow> Inr ts)"

text \<open>The first turn of the sequence number is replaced.\<close>

fun replace_turn :: "turn \<Rightarrow> turn list \<Rightarrow> turn list option" where
  "replace_turn t [] = None"
| "replace_turn t (x # xs) =
     (if ct_sequence x = ct_sequence t then Some (t # xs)
      else map_option (\<lambda>xs. x # xs) (replace_turn t xs))"

definition mem_update_turn :: "mem_conversations \<Rightarrow> turn \<Rightarrow> mem_conversations \<times> unit result" where
  "mem_update_turn st t =
     bindW (liftW st (mem_conversation st (ct_conv t))) (\<lambda>st ts.
     case replace_turn t ts of
       None \<Rightarrow> (st, Inl unknown_turn)
     | Some ts \<Rightarrow> (AList.update (ct_conv t) ts st, Inr ()))"

definition memory_ops :: "mem_conversations store_ops" where
  "memory_ops = \<lparr>so_append = mem_append, so_get = mem_conversation, so_update = mem_update_turn\<rparr>"

subsection \<open>The MySQL store\<close>

record conversation_tables =
  tb_conversations :: "string list"
  tb_turns :: "turn list"

definition turns_of :: "conversation_tables \<Rightarrow> string \<Rightarrow> turn list" where
  "turns_of tb conv = sort_key ct_sequence (filter (\<lambda>t. ct_conv t = conv) (tb_turns tb))"

text \<open>\<open>COALESCE(MAX(sequence), 0)\<close>.\<close>

definition max_sequence :: "turn list \<Rightarrow> int" where
  "max_sequence ts = (if ts = [] then 0 else Max (set (map ct_sequence ts)))"

definition sql_append :: "conversation_tables \<Rightarrow> turn \<Rightarrow> conversation_tables \<times> unit result" where
  "sql_append tb t =
     (let known = (ct_conv t \<in> set (tb_conversations tb)); ts = turns_of tb (ct_conv t) in
      if \<not> known \<and> ct_sequence t \<noteq> 1 then (tb, Inl (unknown_conversation (ct_conv t)))
      else case find_active ts of
        Some a \<Rightarrow> (tb, Inl (busy_error a))
      | None \<Rightarrow>
          if ct_sequence t \<noteq> max_sequence ts + 1 then (tb, Inl sequence_conflict)
          else if ct_run t \<in> ct_run ` set (tb_turns tb)
             \<or> (ct_conv t, ct_sequence t) \<in> (\<lambda>r. (ct_conv r, ct_sequence r)) ` set (tb_turns tb)
          then (tb, Inl IntegrityError)
          else (\<lparr>tb_conversations = (if known then tb_conversations tb else tb_conversations tb @ [ct_conv t]),
                 tb_turns = tb_turns tb @ [t]\<rparr>, Inr ()))"

definition sql_conversation :: "conversation_tables \<Rightarrow> string \<Rightarrow> turn list result" where
  "sql_conversation tb conv =
     (if conv \<notin> set (tb_conversations tb) then Inl (unknown_conversation conv) else Inr (turns_of tb conv))"

text \<open>The row count is the number of changed rows.\<close>

definition sql_update_turn :: "conversation_tables \<Rightarrow> turn \<Rightarrow> conversation_tables \<times> unit result" where
  "sql_update_turn tb t =
     (let (turns, changed) = sql_update
            (\<lambda>r. ct_conv r = ct_conv t \<and> ct_sequence r = ct_sequence t)
            (\<lambda>r. r\<lparr>ct_status := ct_status t, ct_answer := ct_answer t, ct_error := ct_error t\<rparr>) (tb_turns tb)
      in (tb\<lparr>tb_turns := turns\<rparr>, if changed \<noteq> 1 then Inl unknown_turn else Inr ()))"

definition mysql_ops :: "conversation_tables store_ops" where
  "mysql_ops = \<lparr>so_append = sql_append, so_get = sql_conversation, so_update = sql_update_turn\<rparr>"

subsection \<open>UUIDs\<close>

text \<open>\<open>int(s, 16)\<close> and \<open>uuid.UUID(s).version == 4\<close> of the standard library.\<close>

definition strip_prefix :: "string \<Rightarrow> string \<Rightarrow> string" where
  "strip_prefix p s = (if startswith s p then drop (length p) s else s)"

definition hex_int :: "string \<Rightarrow> int option" where
  "hex_int s =
     (let t = strip s;
          neg = startswith t ''-'';
          body = (if neg \<or> startswith t ''+'' then drop 1 t else t);
          prefixed = (lower (take 2 body) = ''0x'');
          body = (if prefixed then strip_prefix ''_'' (drop 2 body) else body);
          groups = split_at CHR ''_'' body
      in if \<forall>g\<in>set groups. g \<noteq> [] \<and> (\<forall>c\<in>set g. hex_val c \<noteq> None)
         then Some ((if neg then -1 else 1) * int (fold (\<lambda>c n. 16 * n + the (hex_val c)) (concat groups) 0))
         else None)"

fun remove_all :: "string \<Rightarrow> string \<Rightarrow> string" where
  "remove_all p [] = []"
| "remove_all p (c # s) =
     (if p \<noteq> [] \<and> startswith (c # s) p then remove_all p (drop (length p - 1) s) else c # remove_all p s)"

definition strip_braces :: "string \<Rightarrow> string" where
  "strip_braces s =
     (let brace = (\<lambda>c. c = CHR 0x7B \<or> c = CHR 0x7D) in rev (dropWhile brace (rev (dropWhile brace s))))"

definition is_uuid4 :: "string \<Rightarrow> bool" where
  "is_uuid4 s =
     (let hex = filter (\<lambda>c. c \<noteq> CHR ''-'') (strip_braces (remove_all ''uuid:'' (remove_all ''urn:'' s)))
      in length hex = 32
         \<and> (case hex_int hex of
              None \<Rightarrow> False
            | Some n \<Rightarrow> 0 \<le> n \<and> n < 2 ^ 128 \<and> (n div 2 ^ 62) mod 4 = 2 \<and> (n div 2 ^ 76) mod 16 = 4))"

definition validate_uuid4 :: "string \<Rightarrow> unit result" where
  "validate_uuid4 s = (if is_uuid4 s then Inr () else Inl (ValueError ''conversation requires a UUIDv4 conv_id''))"

subsection \<open>The service\<close>

text \<open>
  The state of a service: its store, the run ids of the ephemeral turns it is running, and the
  world of its collaborators.
\<close>

record ('st, 'w) service =
  sv_store :: 'st
  sv_ephemeral :: "string list"
  sv_world :: 'w

type_synonym 'w runner = "pyval list \<Rightarrow> string \<Rightarrow> 'w \<Rightarrow> 'w \<times> execution_answer result"

record 'w service_env =
  cv_fresh_id :: "'w \<Rightarrow> 'w \<times> string"
  cv_runner :: "string \<Rightarrow> string \<Rightarrow> string list \<Rightarrow> string \<Rightarrow> 'w \<Rightarrow> 'w \<times> 'w runner result"
  cv_recovery :: "string \<Rightarrow> 'w \<Rightarrow> 'w \<times> (string option \<Rightarrow> 'w \<Rightarrow> 'w \<times> execution_answer result) result"
  cv_result :: "(string \<Rightarrow> 'w \<Rightarrow> 'w \<times> pyval result) option"
  cv_select :: "(pyval list \<Rightarrow> string \<Rightarrow> string \<Rightarrow> 'w \<Rightarrow> 'w \<times> (string \<times> task_analysis option) result) option"

definition in_store :: "('st, 'w) service \<Rightarrow> 'st \<times> 'a result \<Rightarrow> ('st, 'w) service \<times> 'a result" where
  "in_store s r = (case r of (st, x) \<Rightarrow> (s\<lparr>sv_store := st\<rparr>, x))"

definition in_world :: "('st, 'w) service \<Rightarrow> 'w \<times> 'a \<Rightarrow> ('st, 'w) service \<times> 'a" where
  "in_world s r = (case r of (w, x) \<Rightarrow> (s\<lparr>sv_world := w\<rparr>, x))"

definition modes :: "string list" where
  "modes = [''direct'', ''tool_agent'', ''react'', ''plan_execute'']"

definition ephemeral_modes :: "string list" where
  "ephemeral_modes = [''direct'', ''tool_agent'', ''react'']"

definition settle_turn :: "turn \<Rightarrow> execution_answer \<Rightarrow> turn" where
  "settle_turn t a = t\<lparr>ct_status := ea_status a, ct_answer := ea_answer a, ct_error := ea_error a\<rparr>"

text \<open>\<open>_reconcile_active\<close>.\<close>

definition result_text :: "(string \<times> pyval) list \<Rightarrow> string \<Rightarrow> string option" where
  "result_text d k = (case dict_value d k of PStr s \<Rightarrow> Some s | _ \<Rightarrow> None)"

definition reconcile_active ::
  "'st store_ops \<Rightarrow> 'w service_env \<Rightarrow> ('st, 'w) service \<Rightarrow> turn list \<Rightarrow> ('st, 'w) service \<times> unit result" where
  "reconcile_active Q V s ts =
     (case find_active ts of
        None \<Rightarrow> (s, Inr ())
      | Some a \<Rightarrow>
          if ct_mode a \<in> set ephemeral_modes
          then if ct_run a \<in> set (sv_ephemeral s) then (s, Inr ())
            else in_store s (so_update Q (sv_store s) (a\<lparr>ct_status := ''failed'', ct_answer := None,
                   ct_error := Some ''ephemeral conversation turn could not be recovered''\<rparr>))
          else case cv_result V of
            None \<Rightarrow> (s, Inr ())
          | Some result \<Rightarrow>
              bindW (in_world s (result (ct_run a) (sv_world s))) (\<lambda>s v.
              case as_dict v of
                None \<Rightarrow> (s, Inr ())
              | Some d \<Rightarrow>
                  if dict_value d ''status'' \<notin> PStr ` set [''completed'', ''failed'', ''blocked''] then (s, Inr ())
                  else in_store s (so_update Q (sv_store s) (a\<lparr>ct_status := text_value (dict_value d ''status''),
                         ct_answer := result_text d ''answer'', ct_error := result_text d ''error''\<rparr>))))"

text \<open>The conversation a turn belongs to: its id, the public history and the next sequence number.\<close>

definition open_conversation ::
  "'st store_ops \<Rightarrow> 'w service_env \<Rightarrow> ('st, 'w) service \<Rightarrow> string option \<Rightarrow> bool
     \<Rightarrow> ('st, 'w) service \<times> (string \<times> pyval list \<times> int) result" where
  "open_conversation Q V s conv create =
     (case conv of
        None \<Rightarrow> (let (s, c) = in_world s (cv_fresh_id V (sv_world s)) in (s, Inr (c, [], 1)))
      | Some c \<Rightarrow>
          bindW (liftW s (validate_uuid4 c)) (\<lambda>s _.
          if create then (s, Inr (c, [], 1))
          else
            bindW (liftW s (so_get Q (sv_store s) c)) (\<lambda>s ts.
            bindW (reconcile_active Q V s ts) (\<lambda>s _.
            bindW (liftW s (so_get Q (sv_store s) c)) (\<lambda>s ts.
            case find_active ts of
              Some a \<Rightarrow> (s, Inl (busy_error a))
            | None \<Rightarrow> (s, Inr (c, map turn_public (filter (\<lambda>t. \<not> active_turn t) ts), int (length ts) + 1)))))))"

definition choose_mode ::
  "'w service_env \<Rightarrow> ('st, 'w) service \<Rightarrow> string option \<Rightarrow> pyval list \<Rightarrow> string \<Rightarrow> string
     \<Rightarrow> ('st, 'w) service \<times> (string \<times> string list) result" where
  "choose_mode V s mode history user_input run_id =
     (case (mode, cv_select V) of
        (Some m, _) \<Rightarrow> (s, Inr (m, []))
      | (None, None) \<Rightarrow> (s, Inr (''direct'', []))
      | (None, Some select) \<Rightarrow>
          bindW (in_world s (select history user_input run_id (sv_world s))) (\<lambda>s (m, analysis).
          if m \<notin> set modes then (s, Inl (TypeError ''task analyzer returned an invalid execution mode''))
          else (s, Inr (m, case analysis of
              Some a \<Rightarrow> if m = ''react'' then ta_completion_criteria a else []
            | None \<Rightarrow> []))))"

text \<open>The answer that stands for an exception of a runner; some exceptions are raised on.\<close>

fun raised_on :: "exn \<Rightarrow> bool" where
  "raised_on (RunBusyError m) = True"
| "raised_on (ConfigurationMismatchError m) = True"
| "raised_on CancelledError = True"
| "raised_on e = False"

definition exception_answer :: "string \<Rightarrow> exn \<Rightarrow> execution_answer" where
  "exception_answer message e = \<lparr>ea_answer = None, ea_status = ''failed'',
     ea_error = Some (case e of PlanningValidationError m \<Rightarrow> ''planning failed: '' @ m | _ \<Rightarrow> message)\<rparr>"

definition interrupted_answer :: execution_answer where
  "interrupted_answer = \<lparr>ea_answer = None, ea_status = ''failed'', ea_error = Some ''conversation execution interrupted''\<rparr>"

definition finish_turn ::
  "'st store_ops \<Rightarrow> ('st, 'w) service \<Rightarrow> turn \<Rightarrow> execution_answer \<Rightarrow> ('st, 'w) service \<times> turn result" where
  "finish_turn Q s t a =
     bindW (in_store s (so_update Q (sv_store s) (settle_turn t a))) (\<lambda>s _. (s, Inr (settle_turn t a)))"

definition run_turn ::
  "'st store_ops \<Rightarrow> ('st, 'w) service \<Rightarrow> turn \<Rightarrow> pyval list \<Rightarrow> 'w runner \<Rightarrow> ('st, 'w) service \<times> turn result" where
  "run_turn Q s t history runner =
     (let discard = (\<lambda>s. s\<lparr>sv_ephemeral := removeAll (ct_run t) (sv_ephemeral s)\<rparr>);
          (s, r) = in_world s (runner history (ct_input t) (sv_world s))
      in case r of
           Inr a \<Rightarrow> finish_turn Q (discard s) t a
         | Inl e \<Rightarrow>
             if e = CancelledError
             then bindW (in_store s (so_update Q (sv_store s) (settle_turn t interrupted_answer))) (\<lambda>s _.
                  (discard s, Inl e))
             else if raised_on e then (s, Inl e)
             else finish_turn Q (discard s) t (exception_answer ''conversation execution failed'' e))"

text \<open>\<open>ConversationService.run\<close>; the result is the terminal turn, whose public form it is.\<close>

definition service_run ::
  "'st store_ops \<Rightarrow> 'w service_env \<Rightarrow> string \<Rightarrow> string option \<Rightarrow> string option \<Rightarrow> bool \<Rightarrow> string
     \<Rightarrow> ('st, 'w) service \<Rightarrow> ('st, 'w) service \<times> turn result" where
  "service_run Q V user_input mode conv create layout s =
     (if blank user_input then (s, Inl (ValueError ''conversation run requires nonempty user input''))
      else if (case mode of None \<Rightarrow> False | Some m \<Rightarrow> m \<notin> set modes)
      then (s, Inl (ValueError ''execution mode must be direct, tool_agent, react, or plan_execute''))
      else
        bindW (open_conversation Q V s conv create) (\<lambda>s (c, history, n).
        let (s, run_id) = in_world s (cv_fresh_id V (sv_world s)) in
        bindW (choose_mode V s mode history user_input run_id) (\<lambda>s (m, criteria).
        let t = \<lparr>ct_conv = c, ct_sequence = n, ct_run = run_id, ct_mode = m, ct_input = user_input,
                 ct_status = ''pending'', ct_answer = None, ct_error = None\<rparr> in
        bindW (in_store s (so_append Q (sv_store s) t)) (\<lambda>s _.
        let t = t\<lparr>ct_status := ''running''\<rparr> in
        bindW (in_store s (so_update Q (sv_store s) t)) (\<lambda>s _.
        let s = (if m \<in> set ephemeral_modes then s\<lparr>sv_ephemeral := List.insert run_id (sv_ephemeral s)\<rparr> else s) in
        bindW (in_world s (cv_runner V m run_id criteria layout (sv_world s))) (\<lambda>s runner.
        run_turn Q s t history runner))))))"

definition service_resume ::
  "'st store_ops \<Rightarrow> 'w service_env \<Rightarrow> string \<Rightarrow> string option \<Rightarrow> ('st, 'w) service \<Rightarrow> ('st, 'w) service \<times> turn result" where
  "service_resume Q V conv recovery s =
     bindW (liftW s (validate_uuid4 conv)) (\<lambda>s _.
     bindW (liftW s (so_get Q (sv_store s) conv)) (\<lambda>s ts.
     case find_active ts of
       None \<Rightarrow> (s, Inl (ConversationError ''conversation has no active turn''))
     | Some a \<Rightarrow>
         if ct_mode a \<noteq> ''plan_execute''
         then (s, Inl (ConversationError ''only a plan_execute turn can be resumed''))
         else
           bindW (in_world s (cv_recovery V (ct_run a) (sv_world s))) (\<lambda>s runner.
           let (s, r) = in_world s (runner recovery (sv_world s)) in
           case r of
             Inr answer \<Rightarrow> finish_turn Q s a answer
           | Inl e \<Rightarrow>
               if raised_on e then (s, Inl e)
               else finish_turn Q s a (exception_answer ''conversation recovery failed'' e))))"

definition service_show ::
  "'st store_ops \<Rightarrow> string \<Rightarrow> ('st, 'w) service \<Rightarrow> ('st, 'w) service \<times> pyval list result" where
  "service_show Q conv s =
     bindW (liftW s (validate_uuid4 conv)) (\<lambda>s _.
     bindW (liftW s (so_get Q (sv_store s) conv)) (\<lambda>s ts. (s, Inr (map turn_public ts))))"

subsection \<open>The runners of a conversation\<close>

text \<open>
  \<open>DurableConversationRunner\<close> of \<open>agent/durable.py\<close>: its answer is read outside the handler, so a
  run that completed without a readable state raises.
\<close>

definition durable_conversation_answer :: "'w \<times> run_answer result \<Rightarrow> 'w \<times> execution_answer result" where
  "durable_conversation_answer r = (case r of
       (w, Inl e) \<Rightarrow> (w, if is_exception e then failed_answer (plan_execute_failure_message e) else Inl e)
     | (w, Inr a) \<Rightarrow> (w, durable_answer a))"

definition durable_conversation_run ::
  "('w \<Rightarrow> agent_state \<Rightarrow> pyval option \<Rightarrow> 'w \<times> run_answer result) \<Rightarrow> 'w runner" where
  "durable_conversation_run durable history user_input w =
     durable_conversation_answer
       (bindW (liftW w (mk_agent_state user_input [] [] None)) (\<lambda>w s.
        durable w s (durable_input (ConversationGoal history user_input))))"

definition durable_conversation_resume ::
  "('w \<Rightarrow> string option \<Rightarrow> 'w \<times> run_answer result) \<Rightarrow> string option \<Rightarrow> 'w \<Rightarrow> 'w \<times> execution_answer result" where
  "durable_conversation_resume durable recovery w = durable_conversation_answer (durable w recovery)"

text \<open>\<open>_select_conversation_mode\<close>: a failed analysis selects the durable mode.\<close>

definition select_conversation_mode ::
  "'w text_model \<Rightarrow> pyval list \<Rightarrow> string \<Rightarrow> string \<Rightarrow> 'w \<Rightarrow> 'w \<times> (string \<times> task_analysis option) result" where
  "select_conversation_mode analyzer history user_input run_id w =
     (case analyze_task analyzer user_input (durable_input (ConversationGoal history user_input)) w of
        (w, Inr a) \<Rightarrow> (w, Inr (analysis_route a, Some a))
      | (w, Inl e) \<Rightarrow> (w, if is_exception e then Inr (''plan_execute'', None) else Inl e))"

text \<open>\<open>_make_ephemeral_runner\<close>: a mode over a tool runtime of its own.\<close>

definition ephemeral_runner :: "'w mode_env \<Rightarrow> string \<Rightarrow> string list \<Rightarrow> string \<Rightarrow> 'w \<Rightarrow> 'w \<times> 'w runner result" where
  "ephemeral_runner M mode criteria layout w =
     bindW (liftW w (create_execution_mode mode layout False False True [])) (\<lambda>w selected.
        (w, Inr (\<lambda>history user_input.
          let goal = ConversationGoal history user_input in
          case selected of
            SelectDirect \<Rightarrow> direct_run (me_direct M) goal
          | SelectToolAgent \<Rightarrow> tool_agent_run (me_tool_agent M) (me_runtime M) (me_close M) goal
          | SelectReact \<Rightarrow> react_run ((me_react M)\<lparr>re_criteria := criteria, re_runtime := me_runtime M,
                re_messages_layout := (layout = ''messages'')\<rparr>) goal
          | _ \<Rightarrow> (\<lambda>w. (w, unavailable_run mode)))))"

text \<open>
  \<open>_run_mysql_conversation\<close>, \<open>_resume_mysql_conversation\<close> and \<open>_show_mysql_conversation\<close>: each
  checks the schema and makes a service of its own over the tables, with no ephemeral runs yet.
\<close>

definition with_service ::
  "unit result \<Rightarrow> ((conversation_tables, 'w) service \<Rightarrow> (conversation_tables, 'w) service \<times> 'a result)
     \<Rightarrow> conversation_tables \<times> 'w \<Rightarrow> (conversation_tables \<times> 'w) \<times> 'a result" where
  "with_service schema act s = (case schema of
       Inl e \<Rightarrow> (s, Inl e)
     | Inr _ \<Rightarrow>
         (case act \<lparr>sv_store = fst s, sv_ephemeral = [], sv_world = snd s\<rparr> of
            (sv, r) \<Rightarrow> ((sv_store sv, sv_world sv), r)))"

definition run_mysql_conversation ::
  "unit result \<Rightarrow> 'w service_env \<Rightarrow> string \<Rightarrow> string option \<Rightarrow> string option \<Rightarrow> bool \<Rightarrow> string
     \<Rightarrow> conversation_tables \<times> 'w \<Rightarrow> (conversation_tables \<times> 'w) \<times> turn result" where
  "run_mysql_conversation schema V user_input conv mode create layout =
     with_service schema (service_run mysql_ops V user_input mode conv create layout)"

definition resume_mysql_conversation ::
  "unit result \<Rightarrow> 'w service_env \<Rightarrow> string \<Rightarrow> string option
     \<Rightarrow> conversation_tables \<times> 'w \<Rightarrow> (conversation_tables \<times> 'w) \<times> turn result" where
  "resume_mysql_conversation schema V conv recovery =
     with_service schema (service_resume mysql_ops V conv recovery)"

definition show_mysql_conversation ::
  "unit result \<Rightarrow> string \<Rightarrow> conversation_tables \<times> 'w \<Rightarrow> (conversation_tables \<times> 'w) \<times> pyval list result" where
  "show_mysql_conversation schema conv s =
     (case validate_uuid4 conv of
        Inl e \<Rightarrow> (s, Inl e)
      | Inr _ \<Rightarrow> with_service schema (service_show mysql_ops conv) s)"

text \<open>\<open>ConversationResult.as_dict\<close> of the terminal turn.\<close>

definition result_fields :: "turn \<Rightarrow> (string \<times> pyval) list" where
  "result_fields t =
     [(''conv_id'', PStr (ct_conv t)), (''sequence'', PInt (ct_sequence t)), (''run_id'', PStr (ct_run t)),
      (''execution_mode'', PStr (ct_mode t)), (''status'', PStr (ct_status t)), (''answer'', opt_str (ct_answer t)),
      (''error'', opt_str (ct_error t))]"

text \<open>\<open>_mysql_run_result\<close> over the run table.\<close>

definition mysql_run_result :: "run_row list \<Rightarrow> string \<Rightarrow> pyval result" where
  "mysql_run_result table run_id =
     bindE (sql_get_run table run_id) (\<lambda>r.
     Inr (case ru_terminal r of
            Some v \<Rightarrow> if truthy v then v else PDict [(''status'', PStr (ru_status r))]
          | None \<Rightarrow> PDict [(''status'', PStr (ru_status r))]))"

end
