(* ===== verification/Routing_Properties.thy ===== *)
theory Routing_Properties
  imports Conversation Mode_Properties
begin

section \<open>Properties of task analysis and routing\<close>

subsection \<open>Accepted analyses\<close>

text \<open>The characteristics of a task: known categories, a score, and criteria exactly where a judge needs them.\<close>

definition wf_analysis :: "task_analysis \<Rightarrow> bool" where
  "wf_analysis a \<longleftrightarrow> ta_task_type a \<in> set task_types \<and> ta_expected_horizon a \<in> set horizons
     \<and> 1 \<le> ta_expected_steps a \<and> is_score (ta_goal_clarity a) \<and> \<not> blank (ta_reasoning_summary a)
     \<and> (\<forall>c\<in>set (ta_completion_criteria a). \<not> blank c) \<and> distinct (map strip (ta_completion_criteria a))
     \<and> (analysis_route a = ''react'' \<longleftrightarrow> ta_completion_criteria a \<noteq> [])"

lemma required_Inr [simp]: "required b m = Inr u \<longleftrightarrow> b"
  by (simp add: required_def)

lemma member_of_Inr: "member_of names v = Inr True \<Longrightarrow> text_value v \<in> set names"
  by (auto simp: member_of_def text_value_def split: pyval.splits if_splits)

lemma nonblank_text_value: "nonblank_str v \<noteq> None \<Longrightarrow> \<not> blank (text_value v)"
  by (cases v) (auto simp: text_value_def split: if_splits)

lemma show_int_score [simp]: "show_int 0 = ''0''" "show_int 1 = ''1''"
  by (simp_all add: show_int_def show_nat_small digit_char_def char_of_def bit_0)

lemma as_float_score: "is_score v \<Longrightarrow> is_score (as_float v)"
proof (cases v)
  case (PInt n)
  assume "is_score v"
  with PInt have "n = 0 \<or> n = 1" by (auto simp: is_score_def)
  moreover have "is_score (PFloat ''0.0'')" "is_score (PFloat ''1.0'')"
    by (simp_all add: is_score_def decimal_parts_def scaled_le_def is_digit_def read_nat_def digit_val_def)
  ultimately show ?thesis using PInt by (auto simp: as_float_def)
qed (simp_all add: as_float_def)

lemma parse_analysis_block_wf:
  assumes "parse_analysis_block b = Inr a"
  shows "wf_analysis a"
proof -
  let ?n = "\<lambda>st. case st of PInt n \<Rightarrow> n | _ \<Rightarrow> 0"
  from assms obtain clarity summary tt hz ns st criteria kt k where
    score: "is_score clarity" and steps: "case st of PInt n \<Rightarrow> 1 \<le> n | _ \<Rightarrow> False"
    and kt: "member_of task_types tt = Inr kt" and k: "(if kt then member_of horizons hz else Inr False) = Inr k" "k"
    and summary: "nonblank_str summary \<noteq> None" and texts: "\<forall>v\<in>set criteria. nonblank_str v \<noteq> None"
    and distinct: "distinct (map strip (map text_value criteria))"
    and react: "route (ns = PBool True) (?n st) (text_value hz) = ''react'' \<longrightarrow> criteria \<noteq> []"
      "route (ns = PBool True) (?n st) (text_value hz) \<noteq> ''react'' \<longrightarrow> criteria = []"
    and a: "Inr \<lparr>ta_task_type = text_value tt, ta_goal_clarity = as_float clarity, ta_needs_tools = (ns = PBool True),
          ta_expected_steps = ?n st, ta_expected_horizon = text_value hz,
          ta_reasoning_summary = text_value summary, ta_completion_criteria = map text_value criteria\<rparr> = (Inr a :: task_analysis result)"
    unfolding parse_analysis_block_def Let_def
    by (elim bindE_InrE) (unfold required_Inr, rule that, assumption+)
  have tt: "member_of task_types tt = Inr True" and hz: "member_of horizons hz = Inr True"
    using kt k by (auto split: if_splits)
  have a: "a = \<lparr>ta_task_type = text_value tt, ta_goal_clarity = as_float clarity, ta_needs_tools = (ns = PBool True),
          ta_expected_steps = ?n st, ta_expected_horizon = text_value hz,
          ta_reasoning_summary = text_value summary, ta_completion_criteria = map text_value criteria\<rparr>"
    using a by simp
  have "\<forall>c\<in>set (map text_value criteria). \<not> blank c" using texts nonblank_text_value by auto
  moreover have "1 \<le> ta_expected_steps a" using steps a by (auto split: pyval.splits)
  ultimately show ?thesis
    using score as_float_score tt hz member_of_Inr summary nonblank_text_value distinct react
    by (auto simp: wf_analysis_def a analysis_route_def)
qed

lemma parse_analysis_wf: "parse_analysis output = Inr a \<Longrightarrow> wf_analysis a"
  using parse_analysis_block_wf by (auto simp: parse_analysis_def split: sum.splits if_splits)

text \<open>
  Every analysis the analyzer accepts is well-formed: its categories are the declared ones,
  its clarity is a score, it has at least one step, and it lists completion criteria, distinct and
  not empty, exactly when it is routed to the ReAct mode, whose judge needs them.
\<close>

theorem accepted_analysis_wf:
  assumes "parse_analysis output = Inr a"
  shows "wf_analysis a"
  using assms parse_analysis_block_wf by (auto simp: parse_analysis_def split: sum.splits if_splits)


definition analysis_block :: block where
  "analysis_block = Block ''TASK_ANALYSIS''
     [(''TASK_TYPE'', [PStr ''coding'']), (''GOAL_CLARITY'', [PInt 1]), (''NEEDS_TOOLS'', [PBool True]),
      (''EXPECTED_STEPS'', [PInt 3]), (''EXPECTED_HORIZON'', [PStr ''short'']),
      (''REASONING_SUMMARY'', [PStr ''Edit'']), (''COMPLETION_CRITERION'', [PStr ''Tests pass''])] []"

definition demo_analysis :: task_analysis where
  "demo_analysis = \<lparr>ta_task_type = ''coding'', ta_goal_clarity = PFloat ''1.0'', ta_needs_tools = True,
     ta_expected_steps = 3, ta_expected_horizon = ''short'', ta_reasoning_summary = ''Edit'',
     ta_completion_criteria = [''Tests pass'']\<rparr>"

lemma demo_analysis_parses: "parse_analysis (render_block analysis_block) = Inr demo_analysis"
proof -
  have "parse_line_protocol (render_block analysis_block) = Inr analysis_block"
  proof (rule parse_render)
    show "renderable analysis_block"
      by (simp add: analysis_block_def show_nat_small plain_name_def is_name_def upper_def upper_char_def is_letter_def is_digit_def Let_def)
    show "conforms analysis_block" unfolding analysis_block_def by code_simp
    show "bk_type analysis_block \<noteq> ''STEP''" by (simp add: analysis_block_def)
  qed
  moreover have "is_score (PInt 1)" by (simp add: is_score_def)
  moreover have "as_float (PInt 1) = PFloat ''1.0''" by (simp add: as_float_def)
  ultimately show ?thesis
    by (simp add: parse_analysis_def parse_analysis_block_def, simp add: analysis_block_def required_def
        analysis_fields_def analysis_field_def member_of_def task_types_def horizons_def text_value_def route_def
        blank_iff is_space_def demo_analysis_def)
qed

theorem accepted_analysis_wf_witness: "wf_analysis demo_analysis"
  by (rule accepted_analysis_wf [OF demo_analysis_parses])

subsection \<open>Routed runs\<close>

lemma analyze_task_wf: "analyze_task model goal conv w = (w', Inr a) \<Longrightarrow> wf_analysis a"
  by (auto simp: analyze_task_def liftW_def split: if_splits sum.splits elim!: bindW_InrE
      dest!: validated_text_Inr parse_analysis_wf)

definition judged_criteria :: "'w react_env \<Rightarrow> nat \<Rightarrow> bool" where
  "judged_criteria E n \<longleftrightarrow> (\<exists>m v v' request j. react_response (re_model E) [] v request = (v', Inr m)
     \<and> decode_completion_judgment (message_text m) n = Inr j \<and> cj_all_completed j)"

definition routed_as :: "routed_answer \<Rightarrow> bool" where
  "routed_as r \<longleftrightarrow> (case ro_analysis r of
       None \<Rightarrow> ro_mode r = ''plan_execute'' \<and> ro_error r = Some ''task analysis failed''
     | Some a \<Rightarrow> wf_analysis a \<and> ro_mode r = analysis_route a \<and> ro_error r = None)"

lemma route_modes: "route b n h \<in> set modes"
  by (simp add: route_def modes_def)

text \<open>A run in a mode settles, and in the ReAct mode completes only when every criterion was judged.\<close>

lemma run_mode_settles:
  assumes "mode \<in> set modes" and "me_layout M \<in> set [''grouped'', ''messages'']"
  shows "settled_answer (snd (run_mode M mode analysis goal w))"
proof -
  have "mode = ''direct'' \<or> mode = ''tool_agent'' \<or> mode = ''react'' \<or> mode = ''plan_execute''"
    using assms(1) by (auto simp: modes_def)
  with assms(2) show ?thesis
    by (elim disjE) (simp_all add: run_mode_def create_execution_mode_def liftW_def settled_answer_def
        direct_answers tool_agent_answers react_answers plan_execute_answers)
qed

lemma run_react_judged:
  assumes "run_mode M ''react'' (Some a) goal w = (w', Inr x)" and "me_layout M \<in> set [''grouped'', ''messages'']"
    and "ea_status x = ''completed''" and "ta_completion_criteria a \<noteq> []"
  shows "judged_criteria (me_react M) (length (ta_completion_criteria a))"
proof -
  let ?E = "(me_react M)\<lparr>re_criteria := ta_completion_criteria a,
     re_runtime := me_runtime M, re_messages_layout := (me_layout M = ''messages'')\<rparr>"
  have "react_run ?E (PlainGoal goal) w = (w', Inr x)"
    using assms(1,2) by (auto simp: run_mode_def create_execution_mode_def liftW_def)
  from react_run_judged [OF this assms(3)] assms(4) show ?thesis
    by (auto simp: judged_complete_def react_judge_said_def judged_criteria_def)
qed



definition demo_verified :: completion_judgment where
  "demo_verified = \<lparr>cj_verdicts = [(1, True, ''Seen'')], cj_all_completed = True, cj_answer = None\<rparr>"

definition judging_react :: "nat react_env" where
  "judging_react = demo_react\<lparr>re_model := ChatModel (\<lambda>tools w ms. (w + 1, Inr (AIMessage
     (PStr (if tools = [] then criterion_judgment_feedback demo_verified else render_block decision_block)) [] [])))\<rparr>"

definition demo_modes :: "nat mode_env" where
  "demo_modes = \<lparr>me_direct = CompleteText (\<lambda>w i ins. (w, Inr [])), me_tool_agent = ChatModel (\<lambda>tools w ms. (w, Inl IndexError)),
     me_runtime = demo_runtime, me_react = judging_react, me_durable = (\<lambda>w s g. (w, Inl IndexError)),
     me_close = id, me_layout = ''grouped''\<rparr>"

definition demo_analyzer :: "nat text_model" where
  "demo_analyzer = CompleteText (\<lambda>w i ins. (w, Inr (render_block analysis_block)))"

definition routed_env :: "nat react_env" where
  "routed_env = judging_react\<lparr>re_criteria := [''Tests pass''], re_runtime := demo_runtime, re_messages_layout := False\<rparr>"

lemma routed_env_simps [simp]:
  "react_response (re_model routed_env) tools w ms = (w + 1, Inr (AIMessage
     (PStr (if tools = [] then criterion_judgment_feedback demo_verified else render_block decision_block)) [] []))"
  "re_runtime routed_env = demo_runtime" "re_policy routed_env = None" "re_max_rounds routed_env = 2"
  "re_criteria routed_env = [''Tests pass'']" "re_close routed_env = id" "policy_for_invocation routed_env = None"
  by (simp_all add: routed_env_def judging_react_def demo_react_def react_response_def policy_for_invocation_def)

lemma demo_verified_decodes:
  "decode_completion_judgment (criterion_judgment_feedback demo_verified) 1 = Inr demo_verified"
proof -
  have "wf_judgment demo_verified"
    by (simp add: wf_judgment_def demo_verified_def blank_iff is_space_def strip_def upt_rec)
  from decode_feedback [OF this] show ?thesis by (simp add: demo_verified_def)
qed

lemma routed_round:
  "react_round routed_env None [demo_tool] goal 1 w st = (w + 2, Inr (Inl demo_answer))"
proof -
  have "judge_completion routed_env None w' goal request m st' = (w' + 1, Inr (Some demo_verified))" for w' request m st'
    using demo_verified_decodes
    by (simp add: judge_completion_def judge_context_def judge_with_single_repair_def invoke_completion_judge_def message_text_def)
  moreover have "cj_all_completed demo_verified" by (simp add: demo_verified_def)
  ultimately show ?thesis
    by (simp add: react_round_def react_request_def criteria_status_def canonical_mcp_tool_set_def response_text_def
      message_text_def react_answer_round_def demo_candidate decision_text criteria_answer_def
      mk_execution_answer_def blank_text_def blank_iff is_space_def demo_answer_def)
qed

definition demo_routed :: routed_answer where
  "demo_routed = \<lparr>ro_execution = demo_answer, ro_mode = ''react'', ro_analysis = Some demo_analysis, ro_error = None\<rparr>"

lemma demo_routed_run: "task_router demo_analyzer demo_modes ''Ship'' 0 = (2, Inr demo_routed)"
proof -
  have "react_body routed_env ''Ship'' [demo_tool] 0 = (2, Inr demo_answer)"
    by (simp add: react_body_def react_loop.simps [of routed_env None "[demo_tool]" "''Ship''" 1] routed_round
        del: One_nat_def)
  then have react: "react_run routed_env (PlainGoal ''Ship'') 0 = (2, Inr demo_answer)"
    by (simp add: react_run_def with_runtime_def enter_runtime_def demo_runtime_def safe_answer_def)
  have route: "analysis_route demo_analysis = ''react''" by (simp add: analysis_route_def route_def demo_analysis_def)
  have crit: "ta_completion_criteria demo_analysis = [''Tests pass'']" by (simp add: demo_analysis_def)
  have env: "(me_react demo_modes)\<lparr>re_criteria := [''Tests pass''], re_runtime := me_runtime demo_modes,
      re_messages_layout := (me_layout demo_modes = ''messages'')\<rparr> = routed_env"
    by (simp add: demo_modes_def routed_env_def)
  have layout: "me_layout demo_modes = ''grouped''" by (simp add: demo_modes_def)
  have "run_mode demo_modes ''react'' (Some demo_analysis) ''Ship'' 0 = (2, Inr demo_answer)"
    using react env layout by (simp add: run_mode_def create_execution_mode_def crit)
  moreover have "analyze_task demo_analyzer ''Ship'' None 0 = (0, Inr demo_analysis)"
    by (simp add: analyze_task_def demo_analyzer_def analysis_input_def validated_text_def demo_analysis_parses
        blank_iff is_space_def)
  ultimately show ?thesis
    by (simp add: task_router_def router_run_def route demo_routed_def)
qed



end
