(* ===== verification/Conversation_Correct.thy ===== *)
theory Conversation_Correct
  imports Conversation Recovery_Correct
begin

section \<open>Conversations are append-only sequences of turns\<close>

text \<open>
  The contract of a conversation store is the list of turns of each conversation; both stores
  satisfy it.  The service is verified inside the contract: whatever its collaborators do, turns
  that have ended stay as they are, and a conversation has at most one active turn, the last.
\<close>

subsection \<open>Sequences of turns\<close>

definition sequential :: "turn list \<Rightarrow> bool" where
  "sequential ts \<longleftrightarrow> map ct_sequence ts = map int [1..<length ts + 1]"

definition same_turn :: "turn \<Rightarrow> turn \<Rightarrow> bool" where
  "same_turn t u \<longleftrightarrow> ct_conv u = ct_conv t \<and> ct_sequence u = ct_sequence t \<and> ct_run u = ct_run t
     \<and> ct_mode u = ct_mode t \<and> ct_input u = ct_input t"

text \<open>At most the last turn is active.\<close>

definition serial :: "turn list \<Rightarrow> bool" where
  "serial ts \<longleftrightarrow> (\<forall>t\<in>set (butlast ts). \<not> active_turn t)"

text \<open>Turns that have ended stay; an active one may change its status, answer and error.\<close>

definition extends :: "turn list \<Rightarrow> turn list \<Rightarrow> bool" where
  "extends ts us \<longleftrightarrow> length ts \<le> length us
     \<and> (\<forall>i<length ts. us ! i = ts ! i \<or> (active_turn (ts ! i) \<and> same_turn (ts ! i) (us ! i)))"

lemma same_turn_refl [simp]: "same_turn t t"
  by (simp add: same_turn_def)

lemma extends_refl [simp]: "extends ts ts"
  by (simp add: extends_def)

lemma extends_trans: "extends ts us \<Longrightarrow> extends us vs \<Longrightarrow> extends ts vs"
  by (auto simp: extends_def same_turn_def) (smt (verit) order_less_le_trans)+

lemma extends_snoc [simp]: "extends ts (ts @ [t])"
  by (simp add: extends_def nth_append)

lemma extends_last: "active_turn t \<Longrightarrow> same_turn t u \<Longrightarrow> extends (ts @ [t]) (ts @ [u])"
  by (auto simp: extends_def nth_append less_Suc_eq)

lemma sequential_snoc: "sequential ts \<Longrightarrow> sequential (ts @ [t]) \<longleftrightarrow> ct_sequence t = int (length ts) + 1"
  by (auto simp: sequential_def)

lemma sequential_Nil [simp]: "sequential []"
  by (simp add: sequential_def)

lemma sequential_distinct: "sequential ts \<Longrightarrow> distinct (map ct_sequence ts)"
  by (simp add: sequential_def distinct_map)

lemma sequential_bound: "sequential ts \<Longrightarrow> t \<in> set ts \<Longrightarrow> 1 \<le> ct_sequence t \<and> ct_sequence t \<le> int (length ts)"
proof -
  assume s: "sequential ts" and "t \<in> set ts"
  then have "ct_sequence t \<in> set (map ct_sequence ts)" by simp
  also have "\<dots> = set (map int [1..<length ts + 1])" using s by (simp only: sequential_def)
  finally show ?thesis by auto
qed

lemma replace_turn_map:
  assumes "distinct (map ct_sequence ts)" and "ct_sequence t \<in> ct_sequence ` set ts"
  shows "replace_turn t ts = Some (map (\<lambda>x. if ct_sequence x = ct_sequence t then t else x) ts)"
  using assms
proof (induction ts)
  case (Cons x xs)
  show ?case
  proof (cases "ct_sequence x = ct_sequence t")
    case True
    with Cons.prems(1) have "\<forall>y\<in>set xs. ct_sequence y \<noteq> ct_sequence t" by (auto simp: image_iff)
    then have "map (\<lambda>x. if ct_sequence x = ct_sequence t then t else x) xs = xs" by (simp add: map_idI)
    with True show ?thesis by simp
  qed (use Cons in auto)
qed simp

lemma replace_turn_None: "replace_turn t ts = None \<longleftrightarrow> ct_sequence t \<notin> ct_sequence ` set ts"
  by (induction ts) auto

lemma replace_turn_sequences: "replace_turn t ts = Some us \<Longrightarrow> map ct_sequence us = map ct_sequence ts \<and> set us \<subseteq> insert t (set ts)"
  by (induction ts arbitrary: us) (auto split: if_splits)

lemma replace_turn_last:
  assumes "sequential (ts @ [t])" and "ct_sequence u = ct_sequence t"
  shows "replace_turn u (ts @ [t]) = Some (ts @ [u])"
proof -
  have "ct_sequence t \<notin> ct_sequence ` set ts" using sequential_distinct [OF assms(1)] by auto
  then have "replace_turn u (ts @ [t]) = map_option (\<lambda>r. ts @ r) (replace_turn u [t])"
    using assms(2) by (induction ts) (auto simp: option.map_comp comp_def)
  with assms(2) show ?thesis by simp
qed

subsection \<open>The contract of a store\<close>

definition turns_or_none :: "turn list option \<Rightarrow> turn list" where
  "turns_or_none x = (case x of None \<Rightarrow> [] | Some ts \<Rightarrow> ts)"

lemma turns_or_none_simps [simp]: "turns_or_none None = []" "turns_or_none (Some ts) = ts"
  by (simp_all add: turns_or_none_def)

definition turns_kept :: "('st \<Rightarrow> string \<Rightarrow> turn list option) \<Rightarrow> 'st \<Rightarrow> 'st \<Rightarrow> bool" where
  "turns_kept turns st st' \<longleftrightarrow> (\<forall>c ts. turns st c = Some ts \<longrightarrow> (\<exists>us. turns st' c = Some us \<and> extends ts us))"

definition sound_store :: "('st \<Rightarrow> string \<Rightarrow> turn list option) \<Rightarrow> ('st \<Rightarrow> bool) \<Rightarrow> 'st \<Rightarrow> bool" where
  "sound_store turns good st \<longleftrightarrow> good st \<and> (\<forall>c ts. turns st c = Some ts \<longrightarrow> serial ts)"

lemma turns_kept_refl [simp]: "turns_kept turns st st"
  by (auto simp: turns_kept_def)

lemma turns_kept_trans: "turns_kept turns st st' \<Longrightarrow> turns_kept turns st' st'' \<Longrightarrow> turns_kept turns st st''"
  by (fastforce simp: turns_kept_def intro: extends_trans)

locale conversation_store =
  fixes Q :: "'st store_ops" and turns :: "'st \<Rightarrow> string \<Rightarrow> turn list option" and good :: "'st \<Rightarrow> bool"
  assumes good_turns: "good st \<Longrightarrow> turns st c = Some ts \<Longrightarrow> sequential ts \<and> (\<forall>t\<in>set ts. ct_conv t = c)"
    and get_law: "good st \<Longrightarrow>
      so_get Q st c = (case turns st c of None \<Rightarrow> Inl (unknown_conversation c) | Some ts \<Rightarrow> Inr ts)"
    and append_law: "good st \<Longrightarrow> so_append Q st t = (st', Inr x) \<Longrightarrow>
      good st' \<and> find_active (turns_or_none (turns st (ct_conv t))) = None
        \<and> ct_sequence t = int (length (turns_or_none (turns st (ct_conv t)))) + 1
        \<and> turns st' = (turns st)(ct_conv t \<mapsto> turns_or_none (turns st (ct_conv t)) @ [t])"
    and append_refused: "good st \<Longrightarrow> so_append Q st t = (st', Inl e) \<Longrightarrow>
      good st' \<and> (\<forall>c. turns st' c = turns st c \<or> (turns st c = None \<and> turns st' c = Some []))"
    and update_law: "good st \<Longrightarrow> turns st (ct_conv t) = Some ts \<Longrightarrow>
      (\<forall>u\<in>set ts. ct_sequence u = ct_sequence t \<longrightarrow> same_turn u t) \<Longrightarrow> so_update Q st t = (st', Inr x) \<Longrightarrow>
      good st' \<and> (\<exists>us. replace_turn t ts = Some us \<and> turns st' = (turns st)(ct_conv t \<mapsto> us))"
    and update_refused: "good st \<Longrightarrow> turns st (ct_conv t) = Some ts \<Longrightarrow>
      (\<forall>u\<in>set ts. ct_sequence u = ct_sequence t \<longrightarrow> same_turn u t) \<Longrightarrow> so_update Q st t = (st', Inl e) \<Longrightarrow>
      good st' \<and> turns st' = turns st"
begin

text \<open>The one update the service makes: of the last turn, which it may end.\<close>

lemma update_last:
  assumes "sound_store turns good st" and "turns st (ct_conv t) = Some (ts @ [t])" and "same_turn t u"
    and "so_update Q st u = (st', r)" and "active_turn t"
  shows "sound_store turns good st' \<and> turns_kept turns st st'
     \<and> (\<forall>x. r = Inr x \<longrightarrow> turns st' = (turns st)(ct_conv t \<mapsto> ts @ [u]))
     \<and> (\<forall>e. r = Inl e \<longrightarrow> turns st' = turns st)"
proof -
  have g: "good st" and s: "sequential (ts @ [t])" and c: "ct_conv u = ct_conv t"
    using assms good_turns by (auto simp: sound_store_def same_turn_def)
  have "\<forall>v\<in>set (ts @ [t]). ct_sequence v = ct_sequence u \<longrightarrow> v = t"
    using sequential_distinct [OF s] assms(3) by (auto simp: same_turn_def image_iff)
  then have same: "\<forall>v\<in>set (ts @ [t]). ct_sequence v = ct_sequence u \<longrightarrow> same_turn v u"
    using assms(3) by blast
  have ser: "serial (ts @ [u])" if "serial (ts @ [t])" using that by (simp add: serial_def)
  have old: "serial (ts @ [t])" using assms(1,2) by (auto simp: sound_store_def)
  have rep: "replace_turn u (ts @ [t]) = Some (ts @ [u])"
    using replace_turn_last [OF s] assms(3) by (simp add: same_turn_def)
  show ?thesis
  proof (cases r)
    case (Inl e)
    with update_refused [OF g _ same] assms(2,4) c have "good st' \<and> turns st' = turns st" by simp
    with Inl assms(1) show ?thesis by (auto simp: sound_store_def turns_kept_def)
  next
    case (Inr x)
    with update_law [OF g _ same] assms(2,4) c rep
    have st': "good st' \<and> turns st' = (turns st)(ct_conv t \<mapsto> ts @ [u])" by fastforce
    with assms(1) ser old have "sound_store turns good st'" by (auto simp: sound_store_def)
    moreover have "turns_kept turns st st'"
      using st' assms(2) extends_last [OF assms(5,3)] by (auto simp: turns_kept_def)
    ultimately show ?thesis using Inr st' by simp
  qed
qed

lemma append_last:
  assumes "sound_store turns good st" and "so_append Q st t = (st', r)"
  shows "sound_store turns good st' \<and> turns_kept turns st st'
     \<and> (\<forall>x. r = Inr x \<longrightarrow> turns st' (ct_conv t) = Some (turns_or_none (turns st (ct_conv t)) @ [t]))"
proof (cases r)
  case (Inl e)
  with append_refused [of st t st' e] assms have g: "good st'"
    and t: "turns st' c = turns st c \<or> (turns st c = None \<and> turns st' c = Some [])" for c
    by (auto simp: sound_store_def)
  have "serial ts" if "turns st' c = Some ts" for c ts
    using t [of c] that assms(1) by (auto simp: sound_store_def) (simp add: serial_def)
  moreover have "turns_kept turns st st'" using t by (auto simp: turns_kept_def) (metis extends_refl option.distinct(1))
  ultimately show ?thesis using g Inl by (auto simp: sound_store_def)
next
  case (Inr x)
  let ?ts = "turns_or_none (turns st (ct_conv t))"
  from append_law [of st t st' x] Inr assms have g: "good st'" and a: "find_active ?ts = None"
    and st': "turns st' = (turns st)(ct_conv t \<mapsto> ?ts @ [t])"
    by (auto simp: sound_store_def)
  have "serial (?ts @ [t])" using a by (simp add: serial_def find_active_def find_None_all)
  with g st' assms(1) have "sound_store turns good st'" by (auto simp: sound_store_def)
  moreover have "turns_kept turns st st'" using st' by (auto simp: turns_kept_def)
  ultimately show ?thesis using st' Inr by simp
qed

end

subsection \<open>The service keeps the contract\<close>

definition serves :: "('st \<Rightarrow> string \<Rightarrow> turn list option) \<Rightarrow> ('st \<Rightarrow> bool) \<Rightarrow> ('st, 'w) service
    \<Rightarrow> ('st, 'w) service \<times> 'a \<Rightarrow> bool" where
  "serves turns good s r \<longleftrightarrow> (sound_store turns good (sv_store s) \<longrightarrow>
     sound_store turns good (sv_store (fst r)) \<and> turns_kept turns (sv_store s) (sv_store (fst r)))"

named_theorems serves_intros

lemma serves_same: "sv_store (fst r) = sv_store s \<Longrightarrow> serves turns good s r"
  by (simp add: serves_def)

lemma serves_return [serves_intros]: "serves turns good s (s, x)"
  by (simp add: serves_same)

lemma serves_liftW [serves_intros]: "serves turns good s (liftW s m)"
  by (simp add: serves_same liftW_def)

lemma in_world_store [simp]: "sv_store (fst (in_world s r)) = sv_store s"
  by (simp add: in_world_def split: prod.split)

lemma serves_world [serves_intros]: "serves turns good s (in_world s r)"
  by (simp add: serves_same)

lemma in_world_eq: "in_world s r = (s', x) \<Longrightarrow> sv_store s' = sv_store s"
  by (auto simp: in_world_def split: prod.splits)

lemma choose_mode_store: "choose_mode V s mode history user_input run_id = (s', Inr x) \<Longrightarrow> sv_store s' = sv_store s"
  unfolding choose_mode_def
  by (auto split: option.splits if_splits elim!: bindW_InrE dest: in_world_eq)

lemma liftW_store [simp]: "sv_store (fst (liftW s m)) = sv_store s"
  by (simp add: liftW_def)

lemma serves_bind [serves_intros]:
  assumes "serves turns good s m"
    and "\<And>s' x. sound_store turns good (sv_store s) \<Longrightarrow> m = (s', Inr x) \<Longrightarrow> serves turns good s' (f s' x)"
  shows "serves turns good s (bindW m f)"
proof (cases "sound_store turns good (sv_store s)")
  case True
  obtain s' r where m: "m = (s', r)" by (cases m)
  show ?thesis
  proof (cases r)
    case (Inr x)
    with assms(2) m True have "serves turns good s' (f s' x)" by simp
    with assms(1) m Inr show ?thesis by (auto simp: serves_def intro: turns_kept_trans)
  qed (use assms(1) m in \<open>simp add: serves_def\<close>)
qed (simp add: serves_def)

lemma serves_from:
  "sv_store s' = sv_store s \<Longrightarrow> serves turns good s' r \<Longrightarrow> serves turns good s r"
  by (simp add: serves_def)

lemma bindW_eq_Inr: "bindW m f = (s', Inr y) \<longleftrightarrow> (\<exists>w x. m = (w, Inr x) \<and> f w x = (s', Inr y))"
  by (cases m; cases "snd m") auto

lemma in_store_simps [simp]:
  "sv_store (fst (in_store s r)) = fst r" "snd (in_store s r) = snd r"
  by (simp_all add: in_store_def split: prod.split)

lemma in_store_eq: "in_store s r = (s', x) \<longleftrightarrow> s' = s\<lparr>sv_store := fst r\<rparr> \<and> x = snd r"
  by (auto simp: in_store_def split: prod.splits)

lemma serial_active_last:
  assumes "serial ts" and "find_active ts = Some a"
  obtains us where "ts = us @ [a]" and "active_turn a"
proof -
  have a: "a \<in> set ts" "active_turn a" using assms(2) by (auto simp: find_active_def dest!: find_Some_in)
  then have "ts = butlast ts @ [last ts]" by (cases ts rule: rev_cases) auto
  moreover have "a = last ts" using a assms(1) calculation unfolding serial_def
    by (metis Un_iff empty_iff empty_set insert_iff list.simps(15) set_append)
  ultimately show ?thesis using that a(2) by metis
qed

subsection \<open>The world of the collaborators\<close>

text \<open>The answer of a turn is the runner's, or stands for its exception.\<close>

definition answered_by :: "execution_answer result \<Rightarrow> execution_answer \<Rightarrow> bool" where
  "answered_by r a \<longleftrightarrow> (case r of
       Inr x \<Rightarrow> a = x
     | Inl e \<Rightarrow> \<not> raised_on e \<and> a = exception_answer ''conversation execution failed'' e)"

text \<open>What everything that happens before the runner is made keeps.\<close>

definition setup_keeps :: "'w service_env \<Rightarrow> ('w \<Rightarrow> bool) \<Rightarrow> bool" where
  "setup_keeps V P \<longleftrightarrow> (\<forall>w. P w \<longrightarrow> P (fst (cv_fresh_id V w)))
     \<and> (\<forall>f r w. cv_result V = Some f \<longrightarrow> P w \<longrightarrow> P (fst (f r w)))
     \<and> (\<forall>f h i r w. cv_select V = Some f \<longrightarrow> P w \<longrightarrow> P (fst (f h i r w)))"

definition leaves :: "('w \<Rightarrow> bool) \<Rightarrow> ('st, 'w) service \<times> 'a \<Rightarrow> bool" where
  "leaves P r \<longleftrightarrow> P (sv_world (fst r))"

lemma leaves_simps [simp]:
  "leaves P (s, x) = P (sv_world s)" "leaves P (in_world s q) = P (fst q)"
  "leaves P (in_store s p) = P (sv_world s)" "leaves P (liftW s m) = P (sv_world s)"
  by (simp_all add: leaves_def in_world_def in_store_def liftW_def split: prod.split)

lemma leaves_bind:
  assumes "leaves P m" and "\<And>s x. P (sv_world s) \<Longrightarrow> leaves P (f s x)"
  shows "leaves P (bindW m f)"
  using assms by (cases "(m, f)" rule: bindW.cases) (auto simp: leaves_def)

lemma leaves_reconcile:
  assumes "setup_keeps V P" and "P (sv_world s)"
  shows "leaves P (reconcile_active Q V s ts)"
proof (cases "cv_result V")
  case None
  with assms(2) show ?thesis by (simp add: reconcile_active_def split: option.split)
next
  case (Some f)
  with assms have "P (fst (f r (sv_world s)))" for r by (simp add: setup_keeps_def)
  with assms(2) Some show ?thesis
    by (auto simp: reconcile_active_def intro!: leaves_bind split: option.split)
qed

lemma leaves_open:
  assumes "setup_keeps V P" and "P (sv_world s)"
  shows "leaves P (open_conversation Q V s conv create)"
proof (cases conv)
  case None
  obtain w c where "cv_fresh_id V (sv_world s) = (w, c)" by (cases "cv_fresh_id V (sv_world s)")
  moreover from this assms have "P w" by (auto simp: setup_keeps_def dest: spec [of _ "sv_world s"])
  ultimately show ?thesis by (simp add: None open_conversation_def in_world_def)
next
  case (Some c)
  then show ?thesis
    unfolding open_conversation_def
    by (auto intro!: leaves_bind leaves_reconcile [OF assms(1)] simp: assms(2) split: option.split)
qed

lemma leaves_choose:
  assumes "setup_keeps V P" and "P (sv_world s)"
  shows "leaves P (choose_mode V s mode history user_input run_id)"
proof (cases "cv_select V")
  case None
  with assms(2) show ?thesis by (simp add: choose_mode_def split: option.split)
next
  case (Some f)
  with assms have "P (fst (f history user_input run_id (sv_world s)))" by (simp add: setup_keeps_def)
  with assms(2) Some show ?thesis
    by (auto simp: choose_mode_def intro!: leaves_bind split: option.split)
qed

lemma finish_world: "finish_turn Q s t a = (s', Inr b) \<Longrightarrow> sv_world s' = sv_world s"
  unfolding finish_turn_def by (auto simp: in_store_eq elim!: bindW_InrE)

context conversation_store
begin

lemma serves_update_last:
  assumes "sound_store turns good (sv_store s) \<Longrightarrow> turns (sv_store s) (ct_conv t) = Some (us @ [t])"
    and "same_turn t u" and "active_turn t"
  shows "serves turns good s (in_store s (so_update Q (sv_store s) u))"
  using update_last [OF _ assms(1,2) _ assms(3)] by (auto simp: serves_def) (metis prod.collapse)+

lemma get_turns:
  assumes "sound_store turns good st" and "so_get Q st c = Inr ts"
  shows "turns st c = Some ts \<and> serial ts \<and> (\<forall>t\<in>set ts. ct_conv t = c)"
  using assms get_law [of st c] good_turns [of st c ts] by (auto simp: sound_store_def split: option.splits)

lemma reconcile_serves:
  assumes "so_get Q (sv_store s) c = Inr ts"
  shows "serves turns good s (reconcile_active Q V s ts)"
proof (cases "sound_store turns good (sv_store s) \<and> find_active ts \<noteq> None")
  case True
  then obtain a where a: "find_active ts = Some a" by blast
  note g = get_turns [OF _ assms]
  obtain us where us: "ts = us @ [a]" "active_turn a"
    using serial_active_last [OF _ a] g True by blast
  then have c: "ct_conv a = c" using g True by simp
  have upd: "serves turns good s' (in_store s' (so_update Q (sv_store s') u))"
    if "sv_store s' = sv_store s" "same_turn a u" for s' :: "('st, 'a) service" and u
    by (rule serves_update_last [where t = a and us = us]) (use that us c g True in simp_all)
  show ?thesis
    unfolding reconcile_active_def a
    by (auto intro!: serves_intros upd dest: in_world_eq split: option.split simp: same_turn_def)
next
  case False
  then show ?thesis
    by (auto simp: serves_def reconcile_active_def)
qed

lemma open_serves: "serves turns good s (open_conversation Q V s conv create)"
proof (cases conv)
  case (Some c)
  have "serves turns good s' (bindW (liftW s' (so_get Q (sv_store s') c)) (\<lambda>s ts.
            bindW (reconcile_active Q V s ts) (\<lambda>s _.
            bindW (liftW s (so_get Q (sv_store s) c)) (\<lambda>s ts.
            case find_active ts of
              Some a \<Rightarrow> (s, Inl (busy_error a))
            | None \<Rightarrow> (s, Inr (c, map turn_public (filter (\<lambda>t. \<not> active_turn t) ts), int (length ts) + 1))))))"
    for s' :: "('st, 'a) service"
    by (intro serves_bind) (auto intro: serves_intros reconcile_serves split: option.split)
  then show ?thesis unfolding open_conversation_def Some
    by (auto intro!: serves_intros)
qed (auto simp: open_conversation_def serves_same split: prod.split dest: in_world_eq)

lemma open_answers:
  assumes "open_conversation Q V s conv create = (s', Inr (c, history, n))" and "sound_store turns good (sv_store s)"
    and "conv \<noteq> None" and "\<not> create"
  shows "\<exists>ts. turns (sv_store s') c = Some ts \<and> (\<forall>t\<in>set ts. \<not> active_turn t)
     \<and> history = map turn_public ts \<and> n = int (length ts) + 1 \<and> conv = Some c"
proof -
  obtain d where conv: "conv = Some d" using assms(3) by blast
  have "bindW (liftW s (validate_uuid4 d)) (\<lambda>s _. bindW (liftW s (so_get Q (sv_store s) d)) (\<lambda>s ts.
      bindW (reconcile_active Q V s ts) (\<lambda>s _. bindW (liftW s (so_get Q (sv_store s) d)) (\<lambda>s ts.
      case find_active ts of Some a \<Rightarrow> (s, Inl (busy_error a))
        | None \<Rightarrow> (s, Inr (d, map turn_public (filter (\<lambda>t. \<not> active_turn t) ts), int (length ts) + 1))))))
      = (s', Inr (c, history, n))"
    using assms(1,4) conv by (simp add: open_conversation_def)
  then obtain ts1 s2 ts u where g1: "so_get Q (sv_store s) d = Inr ts1"
    and r: "reconcile_active Q V s ts1 = (s2, Inr u)" and g2: "so_get Q (sv_store s2) d = Inr ts"
    and rest: "(case find_active ts of Some a \<Rightarrow> (s2, Inl (busy_error a))
        | None \<Rightarrow> (s2, Inr (d, map turn_public (filter (\<lambda>t. \<not> active_turn t) ts), int (length ts) + 1)))
      = (s', Inr (c, history, n))"
    unfolding bindW_eq_Inr liftW_Inr by (elim exE conjE) (hypsubst, rule that, assumption+)
  then have f: "find_active ts = None" and s': "s' = s2" and c: "c = d" and n: "n = int (length ts) + 1"
    and h: "history = map turn_public (filter (\<lambda>t. \<not> active_turn t) ts)"
    by (simp_all split: option.splits)
  have "sound_store turns good (sv_store s2)"
    using reconcile_serves [OF g1, of V] r assms(2) by (simp add: serves_def)
  with g2 get_turns have t: "turns (sv_store s2) d = Some ts" by blast
  have "\<forall>t\<in>set ts. \<not> active_turn t" using f by (simp add: find_active_def find_None_all)
  moreover from this have "filter (\<lambda>t. \<not> active_turn t) ts = ts" by (simp add: filter_id_conv)
  ultimately show ?thesis using t s' c n h conv by simp
qed

lemma finish_serves:
  assumes "turns (sv_store s) (ct_conv t) = Some (us @ [t])" and "active_turn t"
  shows "serves turns good s (finish_turn Q s t a)"
    and "sound_store turns good (sv_store s) \<Longrightarrow> finish_turn Q s t a = (s', Inr b) \<Longrightarrow>
         b = settle_turn t a \<and> turns (sv_store s') (ct_conv t) = Some (us @ [b])"
proof -
  have same: "same_turn t (settle_turn t a)" by (simp add: same_turn_def settle_turn_def)
  show "serves turns good s (finish_turn Q s t a)"
    unfolding finish_turn_def
    by (intro serves_bind serves_update_last [where t = t and us = us]) (use assms same in \<open>auto intro: serves_intros\<close>)
  show "b = settle_turn t a \<and> turns (sv_store s') (ct_conv t) = Some (us @ [b])"
    if "sound_store turns good (sv_store s)" "finish_turn Q s t a = (s', Inr b)"
  proof -
    from that(2) obtain st x where u: "so_update Q (sv_store s) (settle_turn t a) = (st, Inr x)"
      and b: "b = settle_turn t a" and s': "sv_store s' = st"
      unfolding finish_turn_def by (auto simp: in_store_def split: prod.splits elim!: bindW_InrE)
    from update_last [OF that(1) assms(1) same u assms(2)] b s' show ?thesis by simp
  qed
qed

lemma run_turn_serves:
  assumes "turns (sv_store s) (ct_conv t) = Some (us @ [t])" and "active_turn t"
  shows "serves turns good s (run_turn Q s t history runner)"
    and "sound_store turns good (sv_store s) \<Longrightarrow> run_turn Q s t history runner = (s', Inr b) \<Longrightarrow>
         turns (sv_store s') (ct_conv t) = Some (us @ [b])
         \<and> sv_world s' = fst (runner history (ct_input t) (sv_world s))
         \<and> (\<exists>a. b = settle_turn t a \<and> answered_by (snd (runner history (ct_input t) (sv_world s))) a)"
proof -
  obtain s1 r where r: "in_world s (runner history (ct_input t) (sv_world s)) = (s1, r)"
    by (cases "in_world s (runner history (ct_input t) (sv_world s))")
  then have st: "sv_store s1 = sv_store s" by (rule in_world_eq)
  have res: "r = snd (runner history (ct_input t) (sv_world s))"
    using r by (simp add: in_world_def split: prod.splits)
  let ?d = "\<lambda>s :: ('st, 'a) service. s\<lparr>sv_ephemeral := removeAll (ct_run t) (sv_ephemeral s)\<rparr>"
  have t1: "turns (sv_store (?d s1)) (ct_conv t) = Some (us @ [t])" using assms(1) st by simp
  note fin = finish_serves [OF t1 assms(2)]
  have same: "same_turn t (settle_turn t interrupted_answer)" by (simp add: same_turn_def settle_turn_def)
  have cancel: "serves turns good s1 (bindW (in_store s1 (so_update Q (sv_store s1) (settle_turn t interrupted_answer)))
      (\<lambda>s _. (?d s, Inl CancelledError)))"
    by (intro serves_bind serves_update_last [where t = t and us = us]) (use assms same st in \<open>auto intro: serves_same\<close>)
  show "serves turns good s (run_turn Q s t history runner)"
  proof (rule serves_from [OF st])
    have f: "serves turns good s1 (finish_turn Q (?d s1) t a)" for a
      by (rule serves_from [of "?d s1"]) (use fin(1) in simp_all)
    show "serves turns good s1 (run_turn Q s t history runner)"
      unfolding run_turn_def Let_def r
      by (auto intro!: f cancel intro: serves_intros split: sum.split)
  qed
  show "turns (sv_store s') (ct_conv t) = Some (us @ [b])
         \<and> sv_world s' = fst (runner history (ct_input t) (sv_world s))
         \<and> (\<exists>a. b = settle_turn t a \<and> answered_by (snd (runner history (ct_input t) (sv_world s))) a)"
    if "sound_store turns good (sv_store s)" "run_turn Q s t history runner = (s', Inr b)"
  proof -
    have s: "sound_store turns good (sv_store (?d s1))" using that(1) st by simp
    from that(2) obtain a where f: "finish_turn Q (?d s1) t a = (s', Inr b)"
      and a: "answered_by r a"
      unfolding run_turn_def Let_def r
      by (auto simp: answered_by_def split: sum.splits if_splits elim!: bindW_InrE)
    have "sv_world s1 = fst (runner history (ct_input t) (sv_world s))"
      using r by (auto simp: in_world_def split: prod.splits)
    with fin(2) [OF s f] finish_world [OF f] a res show ?thesis by auto
  qed
qed

text \<open>From the append on, the turn is the last of its conversation.\<close>

lemma started_turn:
  assumes "sound_store turns good (sv_store s)"
    and "in_store s (so_append Q (sv_store s) t) = (s1, Inr u)" and "active_turn t"
    and "in_store s1 (so_update Q (sv_store s1) (t\<lparr>ct_status := ''running''\<rparr>)) = (s2, Inr v)"
  shows "turns (sv_store s2) (ct_conv t)
     = Some (turns_or_none (turns (sv_store s) (ct_conv t)) @ [t\<lparr>ct_status := ''running''\<rparr>])"
proof -
  obtain st where a: "so_append Q (sv_store s) t = (st, Inr u)" and s1: "sv_store s1 = st"
    using assms(2) by (auto simp: in_store_def split: prod.splits)
  note l = append_last [OF assms(1) a]
  obtain st' where b: "so_update Q st (t\<lparr>ct_status := ''running''\<rparr>) = (st', Inr v)" and s2: "sv_store s2 = st'"
    using assms(4) s1 by (auto simp: in_store_def split: prod.splits)
  have "same_turn t (t\<lparr>ct_status := ''running''\<rparr>)" by (simp add: same_turn_def)
  with update_last [OF _ _ _ b assms(3)] l s2 show ?thesis by simp
qed

lemma serves_append: "serves turns good s (in_store s (so_append Q (sv_store s) t))"
  using append_last [of "sv_store s" t] by (auto simp: serves_def) (metis prod.collapse)+

lemma service_run_serves: "serves turns good s (service_run Q V user_input mode conv create layout s)"
proof -
  have body: "serves turns good s (bindW (in_store s (so_append Q (sv_store s) t)) (\<lambda>s _.
        let t = t\<lparr>ct_status := ''running''\<rparr> in
        bindW (in_store s (so_update Q (sv_store s) t)) (\<lambda>s _.
        let s = (if m \<in> set ephemeral_modes then s\<lparr>sv_ephemeral := List.insert run_id (sv_ephemeral s)\<rparr> else s) in
        bindW (in_world s (cv_runner V m run_id criteria layout (sv_world s))) (\<lambda>s runner.
        run_turn Q s t history runner))))" (is "serves _ _ s (bindW ?append ?f)")
    if act: "active_turn t" for s :: "('st, 'a) service" and t m run_id criteria history
  proof (rule serves_bind [OF serves_append])
    fix s1 u assume sound: "sound_store turns good (sv_store s)" and app: "?append = (s1, Inr u)"
    let ?t = "t\<lparr>ct_status := ''running''\<rparr>" and ?us = "turns_or_none (turns (sv_store s) (ct_conv t))"
    have t1: "turns (sv_store s1) (ct_conv t) = Some (?us @ [t])"
      using append_last [OF sound, of t] app by (auto simp: in_store_def split: prod.splits)
    have go: "serves turns good s2 (bindW (in_world s3 (cv_runner V m run_id criteria layout (sv_world s3)))
        (\<lambda>s runner. run_turn Q s ?t history runner))"
      if "in_store s1 (so_update Q (sv_store s1) ?t) = (s2, Inr v)" "sv_store s3 = sv_store s2"
      for s2 v and s3 :: "('st, 'a) service"
    proof (rule serves_from [OF that(2)], rule serves_bind [OF serves_world])
      fix s4 runner assume "in_world s3 (cv_runner V m run_id criteria layout (sv_world s3)) = (s4, Inr runner)"
      then have "sv_store s4 = sv_store s2" using that(2) in_world_eq by metis
      then have "turns (sv_store s4) (ct_conv ?t) = Some (?us @ [?t])"
        using started_turn [OF sound app act that(1)] by simp
      then show "serves turns good s4 (run_turn Q s4 ?t history runner)"
        by (rule run_turn_serves) (simp add: active_turn_def)
    qed
    show "serves turns good s1 (?f s1 u)"
      unfolding Let_def
    proof (rule serves_bind)
      show "serves turns good s1 (in_store s1 (so_update Q (sv_store s1) ?t))"
        by (rule serves_update_last [where t = t and us = ?us]) (use t1 act in \<open>simp_all add: same_turn_def\<close>)
      fix s2 v assume "in_store s1 (so_update Q (sv_store s1) ?t) = (s2, Inr v)"
      then show "serves turns good s2 (bindW (in_world (if m \<in> set ephemeral_modes
            then s2\<lparr>sv_ephemeral := List.insert run_id (sv_ephemeral s2)\<rparr> else s2)
          (cv_runner V m run_id criteria layout (sv_world (if m \<in> set ephemeral_modes
            then s2\<lparr>sv_ephemeral := List.insert run_id (sv_ephemeral s2)\<rparr> else s2)))) (\<lambda>s runner. run_turn Q s ?t history runner))"
        by (rule go) simp
    qed
  qed
  have choose: "serves turns good s (choose_mode V s mode history user_input run_id)" for s history run_id
    unfolding choose_mode_def by (auto intro!: serves_intros split: option.split)
  have act: "active_turn \<lparr>ct_conv = c, ct_sequence = n, ct_run = r, ct_mode = m, ct_input = i,
      ct_status = ''pending'', ct_answer = None, ct_error = None\<rparr>" for c n r m i
    by (simp add: active_turn_def)
  let ?go = "\<lambda>s (c, history, n).
        let (s, run_id) = in_world s (cv_fresh_id V (sv_world s)) in
        bindW (choose_mode V s mode history user_input run_id) (\<lambda>s (m, criteria).
        let t = \<lparr>ct_conv = c, ct_sequence = n, ct_run = run_id, ct_mode = m, ct_input = user_input,
                 ct_status = ''pending'', ct_answer = None, ct_error = None\<rparr> in
        bindW (in_store s (so_append Q (sv_store s) t)) (\<lambda>s _.
        let t = t\<lparr>ct_status := ''running''\<rparr> in
        bindW (in_store s (so_update Q (sv_store s) t)) (\<lambda>s _.
        let s = (if m \<in> set ephemeral_modes then s\<lparr>sv_ephemeral := List.insert run_id (sv_ephemeral s)\<rparr> else s) in
        bindW (in_world s (cv_runner V m run_id criteria layout (sv_world s))) (\<lambda>s runner.
        run_turn Q s t history runner))))"
  have go: "serves turns good s' (?go s' x)" for s' x
  proof -
    obtain c history n where x: "x = (c, history, n)" by (cases x)
    obtain s1 run_id where w: "in_world s' (cv_fresh_id V (sv_world s')) = (s1, run_id)"
      by (cases "in_world s' (cv_fresh_id V (sv_world s'))")
    have "serves turns good s1 (?go s' x)"
      unfolding x w Let_def prod.case
      by (rule serves_bind [OF choose]) (simp only: split_paired_all prod.case body [unfolded Let_def, OF act])
    with in_world_eq [OF w] show ?thesis by (rule serves_from)
  qed
  have "service_run Q V user_input mode conv create layout s =
     (if blank user_input then (s, Inl (ValueError ''conversation run requires nonempty user input''))
      else if (case mode of None \<Rightarrow> False | Some m \<Rightarrow> m \<notin> set modes)
      then (s, Inl (ValueError ''execution mode must be direct, tool_agent, react, or plan_execute''))
      else bindW (open_conversation Q V s conv create) ?go)"
    by (simp only: service_run_def)
  moreover have "serves turns good s (bindW (open_conversation Q V s conv create) ?go)"
    by (rule serves_bind [OF open_serves go])
  ultimately show ?thesis by (simp add: serves_return)
qed

text \<open>
  What a run answers: the last turn of its conversation, settled with the runner's answer to the
  public history of the turns before it.
\<close>

lemma service_run_answers:
  assumes "service_run Q V user_input mode conv create layout s = (s', Inr b)"
    and "sound_store turns good (sv_store s)"
  obtains us a m run_id criteria w1 w2 runner where
    "turns (sv_store s') (ct_conv b) = Some (us @ [b])" and "ct_input b = user_input"
    and "ct_run b = run_id" and "ct_mode b = m"
    and "ct_status b = ea_status a" and "ct_answer b = ea_answer a" and "ct_error b = ea_error a"
    and "\<forall>c. conv = Some c \<longrightarrow> ct_conv b = c"
    and "\<forall>P. setup_keeps V P \<longrightarrow> P (sv_world s) \<longrightarrow> P w1" and "\<forall>x. mode = Some x \<longrightarrow> m = x"
    and "cv_runner V m run_id criteria layout w1 = (w2, Inr runner)"
    and "answered_by (snd (runner (map turn_public us) user_input w2)) a"
    and "sv_world s' = fst (runner (map turn_public us) user_input w2)"
proof -
  from assms(1) obtain s1 x where open_c: "open_conversation Q V s conv create = (s1, Inr x)"
    and rest: "(\<lambda>(c, history, n).
        let (s, run_id) = in_world s1 (cv_fresh_id V (sv_world s1)) in
        bindW (choose_mode V s mode history user_input run_id) (\<lambda>s (m, criteria).
        let t = \<lparr>ct_conv = c, ct_sequence = n, ct_run = run_id, ct_mode = m, ct_input = user_input,
                 ct_status = ''pending'', ct_answer = None, ct_error = None\<rparr> in
        bindW (in_store s (so_append Q (sv_store s) t)) (\<lambda>s _.
        let t = t\<lparr>ct_status := ''running''\<rparr> in
        bindW (in_store s (so_update Q (sv_store s) t)) (\<lambda>s _.
        let s = (if m \<in> set ephemeral_modes then s\<lparr>sv_ephemeral := List.insert run_id (sv_ephemeral s)\<rparr> else s) in
        bindW (in_world s (cv_runner V m run_id criteria layout (sv_world s))) (\<lambda>s runner.
        run_turn Q s t history runner))))) x = (s', Inr b)"
    unfolding service_run_def by (auto split: if_splits elim!: bindW_InrE)
  obtain c history n where x: "x = (c, history, n)" by (cases x)
  obtain s2 run_id where w: "in_world s1 (cv_fresh_id V (sv_world s1)) = (s2, run_id)"
    by (cases "in_world s1 (cv_fresh_id V (sv_world s1))")
  let ?t = "\<lambda>m. \<lparr>ct_conv = c, ct_sequence = n, ct_run = run_id, ct_mode = m, ct_input = user_input,
                 ct_status = ''pending'', ct_answer = None, ct_error = None\<rparr>"
  let ?live = "\<lambda>m s. if m \<in> set ephemeral_modes then s\<lparr>sv_ephemeral := List.insert run_id (sv_ephemeral s)\<rparr> else s"
  from rest obtain s3 m criteria s4 u s5 v s7 runner where choose: "choose_mode V s2 mode history user_input run_id = (s3, Inr (m, criteria))"
    and app: "in_store s3 (so_append Q (sv_store s3) (?t m)) = (s4, Inr u)"
    and upd: "in_store s4 (so_update Q (sv_store s4) ((?t m)\<lparr>ct_status := ''running''\<rparr>)) = (s5, Inr v)"
    and r: "in_world (?live m s5) (cv_runner V m run_id criteria layout (sv_world (?live m s5))) = (s7, Inr runner)"
    and final: "run_turn Q s7 ((?t m)\<lparr>ct_status := ''running''\<rparr>) history runner = (s', Inr b)"
    unfolding x w Let_def prod.case by (elim bindW_InrE) (simp only: split_paired_all prod.case, elim bindW_InrE, rule that)
  have sound1: "sound_store turns good (sv_store s1)"
    using open_serves [of s V conv create] open_c assms(2) by (simp add: serves_def)
  have st3: "sv_store s3 = sv_store s1"
    using choose_mode_store [OF choose] in_world_eq [OF w] by simp
  let ?us = "turns_or_none (turns (sv_store s1) c)"
  have act: "active_turn (?t m)" by (simp add: active_turn_def)
  have sound3: "sound_store turns good (sv_store s3)" using sound1 st3 by simp
  have t5: "turns (sv_store s5) c = Some (?us @ [(?t m)\<lparr>ct_status := ''running''\<rparr>])"
    using started_turn [OF sound3 app act upd] st3 by simp
  have sound5: "sound_store turns good (sv_store s5)"
  proof -
    obtain st where a: "so_append Q (sv_store s3) (?t m) = (st, Inr u)" and s4: "sv_store s4 = st"
      using app by (auto simp: in_store_def split: prod.splits)
    note l = append_last [OF sound3 a]
    obtain st' where b: "so_update Q st ((?t m)\<lparr>ct_status := ''running''\<rparr>) = (st', Inr v)" and s5: "sv_store s5 = st'"
      using upd s4 by (auto simp: in_store_def split: prod.splits)
    have "same_turn (?t m) ((?t m)\<lparr>ct_status := ''running''\<rparr>)" by (simp add: same_turn_def)
    with update_last [OF _ _ _ b act] l s5 show ?thesis by simp
  qed
  have st7: "sv_store s7 = sv_store s5" using in_world_eq [OF r] by simp
  have "turns (sv_store s7) (ct_conv ((?t m)\<lparr>ct_status := ''running''\<rparr>)) = Some (?us @ [(?t m)\<lparr>ct_status := ''running''\<rparr>])"
    using t5 st7 by simp
  from run_turn_serves(2) [OF this _ _ final] sound5 st7
  obtain a where b: "turns (sv_store s') c = Some (?us @ [b])" "b = settle_turn ((?t m)\<lparr>ct_status := ''running''\<rparr>) a"
    and a: "answered_by (snd (runner history user_input (sv_world s7))) a"
    and w': "sv_world s' = fst (runner history user_input (sv_world s7))"
    by (auto simp: active_turn_def)
  have hist: "history = map turn_public ?us \<and> (\<forall>d. conv = Some d \<longrightarrow> c = d)"
  proof (cases "conv = None \<or> create")
    case True
    then have "history = [] \<and> n = 1 \<and> (\<forall>d. conv = Some d \<longrightarrow> c = d)"
      using open_c x by (auto simp: open_conversation_def in_world_def split: prod.splits option.splits elim!: bindW_InrE)
    moreover have "n = int (length ?us) + 1"
      using append_law [of "sv_store s3" "?t m"] app sound3 st3
      by (auto simp: sound_store_def in_store_def split: prod.splits)
    ultimately show ?thesis by simp
  next
    case False
    with open_answers [OF open_c [unfolded x] assms(2)] show ?thesis by auto
  qed
  have world: "sv_world s5 = sv_world s3" using app upd by (auto simp: in_store_eq)
  have made: "cv_runner V m run_id criteria layout (sv_world s3) = (sv_world s7, Inr runner)"
    using r world by (auto simp: in_world_def split: prod.splits if_splits)
  have kept: "P (sv_world s3)" if "setup_keeps V P" "P (sv_world s)" for P
  proof -
    have "P (sv_world s1)" using leaves_open [of V P s Q conv create] that open_c by simp
    moreover have "sv_world s2 = fst (cv_fresh_id V (sv_world s1))"
      using w by (auto simp: in_world_def split: prod.splits)
    ultimately have "P (sv_world s2)" using that(1) by (simp add: setup_keeps_def)
    with leaves_choose [of V P s2 mode history user_input run_id] that(1) choose show ?thesis by simp
  qed
  then have before: "\<forall>P. setup_keeps V P \<longrightarrow> P (sv_world s) \<longrightarrow> P (sv_world s3)" by blast
  have chosen: "\<forall>x. mode = Some x \<longrightarrow> m = x"
    using choose by (auto simp: choose_mode_def)
  show ?thesis
    by (rule that [of ?us run_id m a, OF _ _ _ _ _ _ _ _ before chosen made])
      (use b a w' hist kept in \<open>simp_all add: settle_turn_def\<close>)
qed

lemma service_resume_serves: "serves turns good s (service_resume Q V conv recovery s)"
proof -
  have "serves turns good s (case find_active ts of
       None \<Rightarrow> (s, Inl (ConversationError ''conversation has no active turn''))
     | Some a \<Rightarrow>
         if ct_mode a \<noteq> ''plan_execute''
         then (s, Inl (ConversationError ''only a plan_execute turn can be resumed''))
         else
           bindW (in_world s (cv_recovery V (ct_run a) (sv_world s))) (\<lambda>s runner.
           let (s, r) = in_world s (runner recovery (sv_world s)) in
           case r of
             Inr answer \<Rightarrow> finish_turn Q s a answer
           | Inl e \<Rightarrow>
               if raised_on e then (s, Inl e)
               else finish_turn Q s a (exception_answer ''conversation recovery failed'' e)))"
    if g: "so_get Q (sv_store s) conv = Inr ts" for s :: "('st, 'a) service" and ts
  proof (cases "sound_store turns good (sv_store s) \<and> find_active ts \<noteq> None")
    case True
    then obtain a where a: "find_active ts = Some a" by blast
    obtain us where us: "ts = us @ [a]" "active_turn a"
      using serial_active_last [OF _ a] get_turns [OF _ g] True by blast
    then have t: "turns (sv_store s) (ct_conv a) = Some (us @ [a])" using get_turns [OF _ g] True by auto
    have fin: "serves turns good s2 (finish_turn Q s2 a answer)" if "sv_store s2 = sv_store s" for s2 :: "('st, 'a) service" and answer
      by (rule finish_serves) (use t us that in simp_all)
    have "serves turns good s1 (let (s, r) = in_world s1 (runner recovery (sv_world s1)) in
           case r of
             Inr answer \<Rightarrow> finish_turn Q s a answer
           | Inl e \<Rightarrow>
               if raised_on e then (s, Inl e)
               else finish_turn Q s a (exception_answer ''conversation recovery failed'' e))"
      if "sv_store s1 = sv_store s" for s1 :: "('st, 'a) service" and runner
    proof -
      obtain s2 r where w: "in_world s1 (runner recovery (sv_world s1)) = (s2, r)"
        by (cases "in_world s1 (runner recovery (sv_world s1))")
      from in_world_eq [OF w] that have s2: "sv_store s2 = sv_store s" by simp
      show ?thesis
        unfolding w Let_def prod.case
        by (rule serves_from [OF in_world_eq [OF w]]) (auto intro: fin [OF s2] serves_return split: sum.split)
    qed
    then show ?thesis
      unfolding a by (auto intro!: serves_bind serves_world serves_return dest: in_world_eq)
  qed (auto simp: serves_def)
  then show ?thesis
    unfolding service_resume_def
    by (intro serves_bind serves_liftW) (simp only: liftW_Inr)
qed

end

end
