(* ===== verification/Conversation_Stores.thy ===== *)
theory Conversation_Stores
  imports Conversation_Correct
begin

section \<open>Both conversation stores satisfy the contract\<close>

text \<open>
  The in-memory store holds the turns of each conversation as a list; the turns of a conversation
  in the MySQL store are the rows of the turn table in the order of their sequence numbers.
\<close>

subsection \<open>The in-memory store\<close>

definition mem_good :: "mem_conversations \<Rightarrow> bool" where
  "mem_good st \<longleftrightarrow> (\<forall>c ts. map_of st c = Some ts \<longrightarrow> sequential ts \<and> (\<forall>t\<in>set ts. ct_conv t = c))"

lemma mem_append_Inr:
  assumes "mem_append st t = (st', Inr x)"
  shows "find_active (turns_or_none (map_of st (ct_conv t))) = None
    \<and> ct_sequence t = int (length (turns_or_none (map_of st (ct_conv t)))) + 1
    \<and> map_of st' = (map_of st)(ct_conv t \<mapsto> turns_or_none (map_of st (ct_conv t)) @ [t])"
  using assms by (auto simp: mem_append_def turns_or_none_def Let_def update_conv' split: option.splits if_splits)

lemma mem_append_Inl:
  assumes "mem_append st t = (st', Inl e)"
  shows "map_of st' c = map_of st c \<or> (map_of st c = None \<and> map_of st' c = Some [])"
  using assms by (auto simp: mem_append_def Let_def update_conv' split: option.splits if_splits)

lemma mem_update_Inr:
  assumes "map_of st (ct_conv t) = Some ts" and "mem_update_turn st t = (st', Inr x)"
  shows "\<exists>us. replace_turn t ts = Some us \<and> map_of st' = (map_of st)(ct_conv t \<mapsto> us)"
  using assms by (auto simp: mem_update_turn_def mem_conversation_def liftW_def update_conv' split: option.splits)

lemma mem_update_Inl:
  assumes "map_of st (ct_conv t) = Some ts" and "mem_update_turn st t = (st', Inl e)"
  shows "st' = st"
  using assms by (auto simp: mem_update_turn_def mem_conversation_def liftW_def split: option.splits)

lemma sequential_replace:
  assumes "replace_turn t ts = Some us" and "sequential ts"
  shows "sequential us"
proof -
  have "map ct_sequence us = map ct_sequence ts" using replace_turn_sequences [OF assms(1)] by blast
  moreover from this have "length us = length ts" by (metis length_map)
  ultimately show ?thesis using assms(2) by (simp add: sequential_def)
qed

interpretation mem: conversation_store memory_ops map_of mem_good
proof
  fix st :: mem_conversations and c ts
  assume "mem_good st" and "map_of st c = Some ts"
  then show "sequential ts \<and> (\<forall>t\<in>set ts. ct_conv t = c)" by (simp add: mem_good_def)
next
  fix st :: mem_conversations and c
  show "so_get memory_ops st c = (case map_of st c of None \<Rightarrow> Inl (unknown_conversation c) | Some ts \<Rightarrow> Inr ts)"
    by (simp add: memory_ops_def mem_conversation_def)
next
  fix st st' :: mem_conversations and t :: turn and x
  let ?ts = "turns_or_none (map_of st (ct_conv t))"
  assume g: "mem_good st" and a: "so_append memory_ops st t = (st', Inr x)"
  from a have m: "mem_append st t = (st', Inr x)" by (simp add: memory_ops_def)
  note l = mem_append_Inr [OF m]
  have "sequential ?ts \<and> (\<forall>u\<in>set ?ts. ct_conv u = ct_conv t)"
    using g by (cases "map_of st (ct_conv t)") (simp_all add: mem_good_def)
  with l g have "mem_good st'" by (auto simp: mem_good_def sequential_snoc)
  with l show "mem_good st' \<and> find_active ?ts = None \<and> ct_sequence t = int (length ?ts) + 1
      \<and> map_of st' = (map_of st)(ct_conv t \<mapsto> ?ts @ [t])" by simp
next
  fix st st' :: mem_conversations and t :: turn and e
  assume g: "mem_good st" and "so_append memory_ops st t = (st', Inl e)"
  then have "mem_append st t = (st', Inl e)" by (simp add: memory_ops_def)
  note l = mem_append_Inl [OF this]
  have "sequential ts \<and> (\<forall>t\<in>set ts. ct_conv t = c)" if "map_of st' c = Some ts" for c ts
    using l [of c]
  proof
    assume "map_of st' c = map_of st c"
    with g that show ?thesis by (simp add: mem_good_def)
  qed (use that in simp)
  then have "mem_good st'" by (simp add: mem_good_def)
  with l show "mem_good st' \<and> (\<forall>c. map_of st' c = map_of st c \<or> (map_of st c = None \<and> map_of st' c = Some []))"
    by blast
next
  fix st st' :: mem_conversations and t :: turn and ts x
  assume g: "mem_good st" and t: "map_of st (ct_conv t) = Some ts" and "so_update memory_ops st t = (st', Inr x)"
  then have "mem_update_turn st t = (st', Inr x)" by (simp add: memory_ops_def)
  from mem_update_Inr [OF t this] obtain us
    where us: "replace_turn t ts = Some us" "map_of st' = (map_of st)(ct_conv t \<mapsto> us)" by blast
  have "sequential us" using sequential_replace [OF us(1)] g t by (simp add: mem_good_def)
  moreover have "\<forall>u\<in>set us. ct_conv u = ct_conv t"
    using replace_turn_sequences [OF us(1)] g t by (auto simp: mem_good_def)
  ultimately have "mem_good st'" using g us(2) by (auto simp: mem_good_def)
  with us show "mem_good st' \<and> (\<exists>us. replace_turn t ts = Some us \<and> map_of st' = (map_of st)(ct_conv t \<mapsto> us))"
    by blast
next
  fix st st' :: mem_conversations and t :: turn and ts e
  assume g: "mem_good st" and t: "map_of st (ct_conv t) = Some ts" and "so_update memory_ops st t = (st', Inl e)"
  then have "mem_update_turn st t = (st', Inl e)" by (simp add: memory_ops_def)
  from mem_update_Inl [OF t this] g show "mem_good st' \<and> map_of st' = map_of st" by simp
qed

subsection \<open>The MySQL store\<close>

definition table_turns :: "conversation_tables \<Rightarrow> string \<Rightarrow> turn list option" where
  "table_turns tb c = (if c \<in> set (tb_conversations tb) then Some (turns_of tb c) else None)"

text \<open>Every row belongs to a known conversation, whose rows are numbered without gaps.\<close>

definition sql_good :: "conversation_tables \<Rightarrow> bool" where
  "sql_good tb \<longleftrightarrow> (\<forall>t\<in>set (tb_turns tb). ct_conv t \<in> set (tb_conversations tb)) \<and> (\<forall>c. sequential (turns_of tb c))"

lemma set_turns_of: "set (turns_of tb c) = {t \<in> set (tb_turns tb). ct_conv t = c}"
  by (simp add: turns_of_def)

lemma max_sequence_sequential: "sequential ts \<Longrightarrow> max_sequence ts = int (length ts)"
proof -
  assume "sequential ts"
  then have s: "set (map ct_sequence ts) = int ` {1..<length ts + 1}"
    by (simp only: sequential_def set_map set_upt)
  show ?thesis
  proof (cases "ts = []")
    case False
    then have m: "int (length ts) \<in> int ` {1..<length ts + 1}" by (cases ts) (auto simp: image_iff intro!: bexI [of _ "length ts"])
    have "Max (set (map ct_sequence ts)) = int (length ts)"
      unfolding s by (rule Max_eqI) (use m in auto)
    with False show ?thesis by (simp add: max_sequence_def)
  qed (simp add: max_sequence_def)
qed

lemma turns_of_append:
  assumes "sequential (turns_of tb (ct_conv t))" and "ct_sequence t = int (length (turns_of tb (ct_conv t))) + 1"
  shows "turns_of \<lparr>tb_conversations = cs, tb_turns = tb_turns tb @ [t]\<rparr> c
     = (if c = ct_conv t then turns_of tb c @ [t] else turns_of tb c)"
proof (cases "c = ct_conv t")
  case True
  have "ct_sequence u \<le> ct_sequence t" if "u \<in> set (tb_turns tb)" "ct_conv u = ct_conv t" for u
    using sequential_bound [OF assms(1), of u] assms(2) that by (simp add: set_turns_of)
  then show ?thesis using True by (simp add: turns_of_def sort_key_snoc)
qed (simp add: turns_of_def)

lemma sql_append_Inr:
  assumes "sql_good tb" and "sql_append tb t = (tb', Inr x)"
  shows "sql_good tb' \<and> find_active (turns_or_none (table_turns tb (ct_conv t))) = None
    \<and> ct_sequence t = int (length (turns_or_none (table_turns tb (ct_conv t)))) + 1
    \<and> table_turns tb' = (table_turns tb)(ct_conv t \<mapsto> turns_or_none (table_turns tb (ct_conv t)) @ [t])"
proof -
  let ?c = "ct_conv t" and ?k = "ct_conv t \<in> set (tb_conversations tb)"
  have s: "sequential (turns_of tb ?c)" using assms(1) by (simp add: sql_good_def)
  from assms(2) have a: "find_active (turns_of tb ?c) = None"
    and n: "ct_sequence t = max_sequence (turns_of tb ?c) + 1"
    and tb': "tb' = \<lparr>tb_conversations = (if ?k then tb_conversations tb else tb_conversations tb @ [?c]),
                 tb_turns = tb_turns tb @ [t]\<rparr>"
    by (simp_all add: sql_append_def Let_def split: option.splits if_splits)
  have n': "ct_sequence t = int (length (turns_of tb ?c)) + 1" using n max_sequence_sequential [OF s] by simp
  have none: "turns_of tb ?c = []" if "\<not> ?k"
    using that assms(1) set_turns_of [of tb ?c] by (auto simp: sql_good_def simp flip: set_empty)
  then have tn: "turns_or_none (table_turns tb ?c) = turns_of tb ?c" by (simp add: table_turns_def)
  note to = turns_of_append [OF s n']
  have "table_turns tb' = (table_turns tb)(?c \<mapsto> turns_of tb ?c @ [t])"
    by (rule ext) (simp add: table_turns_def tb' to)
  moreover have "sql_good tb'"
    unfolding sql_good_def tb' to using assms(1) s n' by (auto simp: sql_good_def sequential_snoc)
  ultimately show ?thesis using a n' by (simp only: tn)
qed

lemma sql_append_Inl: "sql_append tb t = (tb', Inl e) \<Longrightarrow> tb' = tb"
  by (auto simp: sql_append_def Let_def split: option.splits if_splits)

text \<open>An update writes at most one row.\<close>

definition settled_row :: "turn \<Rightarrow> turn \<Rightarrow> turn" where
  "settled_row t r = (if ct_conv r = ct_conv t \<and> ct_sequence r = ct_sequence t
     then r\<lparr>ct_status := ct_status t, ct_answer := ct_answer t, ct_error := ct_error t\<rparr> else r)"

lemma settled_row_same [simp]:
  "ct_conv (settled_row t r) = ct_conv r" "ct_sequence (settled_row t r) = ct_sequence r"
  by (simp_all add: settled_row_def)

lemma sql_update_turn_rows: "sql_update_turn tb t = (tb', x) \<Longrightarrow> tb' = tb\<lparr>tb_turns := map (settled_row t) (tb_turns tb)\<rparr>"
  by (auto simp: sql_update_turn_def sql_update_def settled_row_def [abs_def] Let_def split: if_splits)

lemma turns_of_update: "turns_of (tb\<lparr>tb_turns := map (settled_row t) (tb_turns tb)\<rparr>) c = map (settled_row t) (turns_of tb c)"
  by (simp add: turns_of_def filter_map comp_def map_sort_key [of ct_sequence "settled_row t" ct_sequence])

lemma settled_row_eq: "same_turn r t \<Longrightarrow> settled_row t r = t"
  by (simp add: settled_row_def same_turn_def)

lemma settled_row_other: "ct_conv r \<noteq> ct_conv t \<or> ct_sequence r \<noteq> ct_sequence t \<Longrightarrow> settled_row t r = r"
  by (auto simp: settled_row_def)

lemma sql_good_update:
  assumes "sql_good tb"
  shows "sql_good (tb\<lparr>tb_turns := map (settled_row t) (tb_turns tb)\<rparr>)"
proof -
  have "sequential (map (settled_row t) ts)" if "sequential ts" for ts
    using that by (simp add: sequential_def comp_def)
  with assms show ?thesis by (auto simp: sql_good_def turns_of_update)
qed

lemma sql_update_turns:
  assumes "sql_good tb" and "table_turns tb (ct_conv t) = Some ts" and "ct_sequence t \<in> ct_sequence ` set ts"
    and "\<forall>u\<in>set ts. ct_sequence u = ct_sequence t \<longrightarrow> same_turn u t"
  shows "\<exists>us. replace_turn t ts = Some us
     \<and> table_turns (tb\<lparr>tb_turns := map (settled_row t) (tb_turns tb)\<rparr>) = (table_turns tb)(ct_conv t \<mapsto> us)"
proof -
  have ts: "ts = turns_of tb (ct_conv t)" and k: "ct_conv t \<in> set (tb_conversations tb)"
    using assms(2) by (simp_all add: table_turns_def split: if_splits)
  have s: "sequential ts" using assms(1) ts by (simp add: sql_good_def)
  have "map (settled_row t) ts = map (\<lambda>x. if ct_sequence x = ct_sequence t then t else x) ts"
    using assms(4) by (auto simp: settled_row_eq settled_row_other)
  moreover have "map (settled_row t) (turns_of tb c) = turns_of tb c" if "c \<noteq> ct_conv t" for c
    using that by (intro map_idI settled_row_other) (auto simp: set_turns_of)
  ultimately have "table_turns (tb\<lparr>tb_turns := map (settled_row t) (tb_turns tb)\<rparr>)
      = (table_turns tb)(ct_conv t \<mapsto> map (\<lambda>x. if ct_sequence x = ct_sequence t then t else x) ts)"
    using k ts by (intro ext) (simp add: table_turns_def turns_of_update)
  with replace_turn_map [OF sequential_distinct [OF s] assms(3)] show ?thesis by blast
qed

text \<open>A refused update found no row to change.\<close>

lemma length_filter_key: "distinct (map f xs) \<Longrightarrow> length (filter (\<lambda>x. f x = k \<and> P x) xs) \<le> 1"
proof (induction xs)
  case (Cons x xs)
  show ?case
  proof (cases "f x = k")
    case True
    with Cons.prems have "filter (\<lambda>x. f x = k \<and> P x) xs = []" by (auto simp: filter_empty_conv image_iff)
    then show ?thesis by simp
  qed (use Cons in simp)
qed simp

lemma distinct_map_sort: "distinct (map f (sort_key k xs)) \<Longrightarrow> distinct (map f xs)"
  by (rule card_distinct) (drule distinct_card, simp)

lemma sql_update_refused:
  assumes "sql_good tb" and "sql_update_turn tb t = (tb', Inl e)"
  shows "tb' = tb"
proof -
  let ?rows = "filter (\<lambda>r. ct_conv r = ct_conv t) (tb_turns tb)"
  let ?hit = "\<lambda>r. settled_row t r \<noteq> r"
  have "distinct (map ct_sequence (turns_of tb (ct_conv t)))"
    using assms(1) by (simp add: sql_good_def sequential_distinct)
  then have "distinct (map ct_sequence ?rows)"
    unfolding turns_of_def by (rule distinct_map_sort)
  then have "length (filter (\<lambda>r. ct_sequence r = ct_sequence t \<and> ?hit r) ?rows) \<le> 1"
    by (rule length_filter_key)
  moreover have "filter (\<lambda>r. ct_sequence r = ct_sequence t \<and> ?hit r) ?rows = filter ?hit (tb_turns tb)"
    by (auto simp: filter_filter settled_row_def intro!: filter_cong)
  ultimately have one: "length (filter ?hit (tb_turns tb)) \<le> 1" by simp
  have hit: "(\<lambda>r. (ct_conv r = ct_conv t \<and> ct_sequence r = ct_sequence t)
      \<and> r\<lparr>ct_status := ct_status t, ct_answer := ct_answer t, ct_error := ct_error t\<rparr> \<noteq> r) = ?hit"
    by (rule ext) (auto simp: settled_row_def)
  have "length (filter ?hit (tb_turns tb)) \<noteq> 1"
    using assms(2) unfolding sql_update_turn_def sql_update_def Let_def hit prod.case by (auto split: if_splits)
  with one have "length (filter ?hit (tb_turns tb)) = 0" by linarith
  then have "\<forall>r\<in>set (tb_turns tb). settled_row t r = r" by (simp add: filter_empty_conv)
  then have "map (settled_row t) (tb_turns tb) = tb_turns tb" by (simp add: map_idI)
  with sql_update_turn_rows [OF assms(2)] show ?thesis by simp
qed

lemma sql_update_found:
  assumes "sql_update_turn tb t = (tb', Inr x)"
  shows "\<exists>r\<in>set (tb_turns tb). ct_conv r = ct_conv t \<and> ct_sequence r = ct_sequence t"
proof (rule ccontr)
  assume "\<not> ?thesis"
  then have "filter (\<lambda>r. (ct_conv r = ct_conv t \<and> ct_sequence r = ct_sequence t)
      \<and> r\<lparr>ct_status := ct_status t, ct_answer := ct_answer t, ct_error := ct_error t\<rparr> \<noteq> r) (tb_turns tb) = []"
    by (auto simp: filter_empty_conv)
  with assms show False by (simp add: sql_update_turn_def sql_update_def Let_def)
qed

interpretation sql: conversation_store mysql_ops table_turns sql_good
proof
  fix tb c ts
  assume "sql_good tb" and "table_turns tb c = Some ts"
  then show "sequential ts \<and> (\<forall>t\<in>set ts. ct_conv t = c)"
    by (auto simp: sql_good_def table_turns_def set_turns_of split: if_splits)
next
  fix tb c
  show "so_get mysql_ops tb c = (case table_turns tb c of None \<Rightarrow> Inl (unknown_conversation c) | Some ts \<Rightarrow> Inr ts)"
    by (simp add: mysql_ops_def sql_conversation_def table_turns_def)
next
  fix tb tb' and t :: turn and x
  assume "sql_good tb" and "so_append mysql_ops tb t = (tb', Inr x)"
  then show "sql_good tb' \<and> find_active (turns_or_none (table_turns tb (ct_conv t))) = None
    \<and> ct_sequence t = int (length (turns_or_none (table_turns tb (ct_conv t)))) + 1
    \<and> table_turns tb' = (table_turns tb)(ct_conv t \<mapsto> turns_or_none (table_turns tb (ct_conv t)) @ [t])"
    by (simp add: mysql_ops_def sql_append_Inr)
next
  fix tb tb' and t :: turn and e
  assume "sql_good tb" and "so_append mysql_ops tb t = (tb', Inl e)"
  then show "sql_good tb' \<and> (\<forall>c. table_turns tb' c = table_turns tb c \<or> (table_turns tb c = None \<and> table_turns tb' c = Some []))"
    using sql_append_Inl [of tb t tb' e] by (simp add: mysql_ops_def)
next
  fix tb tb' and t :: turn and ts x
  assume g: "sql_good tb" and t: "table_turns tb (ct_conv t) = Some ts"
    and same: "\<forall>u\<in>set ts. ct_sequence u = ct_sequence t \<longrightarrow> same_turn u t"
    and "so_update mysql_ops tb t = (tb', Inr x)"
  then have u: "sql_update_turn tb t = (tb', Inr x)" by (simp add: mysql_ops_def)
  have "ct_sequence t \<in> ct_sequence ` set ts"
    using sql_update_found [OF u] t by (auto simp: table_turns_def set_turns_of split: if_splits) (metis (mono_tags) image_eqI mem_Collect_eq)
  from sql_update_turns [OF g t this same] sql_good_update [OF g] sql_update_turn_rows [OF u]
  show "sql_good tb' \<and> (\<exists>us. replace_turn t ts = Some us \<and> table_turns tb' = (table_turns tb)(ct_conv t \<mapsto> us))"
    by simp
next
  fix tb tb' and t :: turn and ts e
  assume g: "sql_good tb" and "so_update mysql_ops tb t = (tb', Inl e)"
  then have "sql_update_turn tb t = (tb', Inl e)" by (simp add: mysql_ops_def)
  from sql_update_refused [OF g this] g show "sql_good tb' \<and> table_turns tb' = table_turns tb" by simp
qed

end
