(* ===== verification/Conversation_Properties.thy ===== *)
theory Conversation_Properties
  imports Conversation_Stores
begin

section \<open>Properties of conversations\<close>

text \<open>An example: one ended turn, a runner that answers its input, and a world that counts.\<close>

definition demo_conv :: string where
  "demo_conv = ''00000000-0000-4000-8000-000000000000''"

definition first_turn :: turn where
  "first_turn = \<lparr>ct_conv = demo_conv, ct_sequence = 1, ct_run = ''r0'', ct_mode = ''direct'', ct_input = ''Hello'',
     ct_status = ''completed'', ct_answer = Some ''Hi'', ct_error = None\<rparr>"

definition demo_tables :: conversation_tables where
  "demo_tables = \<lparr>tb_conversations = [demo_conv], tb_turns = [first_turn]\<rparr>"

definition demo_service_env :: "nat service_env" where
  "demo_service_env = \<lparr>cv_fresh_id = (\<lambda>w. (w + 1, replicate w CHR ''x'')),
     cv_runner = (\<lambda>m r criteria layout w. (w, Inr (\<lambda>history user_input w.
        (w + 1, Inr \<lparr>ea_answer = Some user_input, ea_status = ''completed'', ea_error = None\<rparr>)))),
     cv_recovery = (\<lambda>r w. (w, Inl IndexError)), cv_result = None, cv_select = None\<rparr>"

definition demo_service :: "(conversation_tables, nat) service" where
  "demo_service = \<lparr>sv_store = demo_tables, sv_ephemeral = [], sv_world = 0\<rparr>"

definition second_turn :: turn where
  "second_turn = \<lparr>ct_conv = demo_conv, ct_sequence = 2, ct_run = [], ct_mode = ''direct'', ct_input = ''Next'',
     ct_status = ''completed'', ct_answer = Some ''Next'', ct_error = None\<rparr>"

lemma demo_sound: "sound_store table_turns sql_good demo_tables"
proof -
  have t: "turns_of demo_tables c = (if c = demo_conv then [first_turn] else [])" for c
    by (simp add: turns_of_def demo_tables_def first_turn_def)
  have "sequential [first_turn]" by (simp add: sequential_def first_turn_def)
  moreover have "ct_conv first_turn = demo_conv" by (simp add: first_turn_def)
  ultimately have "sql_good demo_tables" by (simp add: sql_good_def t) (simp add: demo_tables_def)
  moreover have "serial ts" if "table_turns demo_tables c = Some ts" for c ts
    using that by (auto simp: table_turns_def t serial_def split: if_splits)
  ultimately show ?thesis by (auto simp: sound_store_def)
qed

lemma demo_hex: "hex_int ''00000000000040008000000000000000'' = Some 302240678275694148452352"
  by (simp add: hex_int_def strip_def is_space_def lower_def lower_char_def hex_val_def)

lemma demo_uuid: "is_uuid4 demo_conv"
proof -
  have "remove_all ''urn:'' demo_conv = demo_conv" "remove_all ''uuid:'' demo_conv = demo_conv"
    unfolding demo_conv_def by simp_all
  moreover have "strip_braces demo_conv = demo_conv" unfolding demo_conv_def by (simp add: strip_braces_def)
  moreover have "filter (\<lambda>c. c \<noteq> CHR ''-'') demo_conv = ''00000000000040008000000000000000''"
    unfolding demo_conv_def by simp
  ultimately show ?thesis by (simp add: is_uuid4_def demo_hex)
qed

lemma demo_service_run:
  "service_run mysql_ops demo_service_env ''Next'' None (Some demo_conv) False ''grouped'' demo_service
   = (\<lparr>sv_store = \<lparr>tb_conversations = [demo_conv], tb_turns = [first_turn, second_turn]\<rparr>,
       sv_ephemeral = [], sv_world = 2\<rparr>, Inr second_turn)"
proof -
  have first: "ct_conv first_turn = demo_conv" "ct_sequence first_turn = 1" "ct_run first_turn = ''r0''" "\<not> active_turn first_turn"
    by (simp_all add: first_turn_def active_turn_def)
  show ?thesis
    by (simp add: service_run_def blank_iff is_space_def open_conversation_def demo_uuid validate_uuid4_def liftW_def
        mysql_ops_def sql_conversation_def demo_service_def demo_tables_def turns_of_def first find_active_def
        reconcile_active_def in_world_def in_store_def choose_mode_def demo_service_env_def sql_append_def
        max_sequence_def sql_update_turn_def sql_update_def run_turn_def finish_turn_def settle_turn_def
        ephemeral_modes_def second_turn_def)
qed

text \<open>
  C14: conversations are append-only and serial.  Whatever the runners, the mode selector and the
  results of durable runs do, and however a run or a resume of the service ends, turns that have
  ended stay as they are, an active turn keeps its identity, input and mode, and no conversation
  ever has an active turn before its last.
\<close>

theorem conversation_turns_kept:
  assumes "sound_store table_turns sql_good (sv_store s)"
  shows "sound_store table_turns sql_good (sv_store (fst (service_run mysql_ops V user_input mode conv create layout s)))
     \<and> turns_kept table_turns (sv_store s) (sv_store (fst (service_run mysql_ops V user_input mode conv create layout s)))
     \<and> sound_store table_turns sql_good (sv_store (fst (service_resume mysql_ops V c recovery s)))
     \<and> turns_kept table_turns (sv_store s) (sv_store (fst (service_resume mysql_ops V c recovery s)))"
  using sql.service_run_serves [of s V user_input mode conv create layout] sql.service_resume_serves [of s V c recovery] assms
  by (simp add: serves_def)

theorem conversation_turns_kept_witness:
  "turns_kept table_turns demo_tables \<lparr>tb_conversations = [demo_conv], tb_turns = [first_turn, second_turn]\<rparr>"
proof -
  have "sound_store table_turns sql_good (sv_store demo_service)" by (simp add: demo_service_def demo_sound)
  from conversation_turns_kept [OF this, of demo_service_env "''Next''" None "Some demo_conv" False "''grouped''"]
  show ?thesis by (simp add: demo_service_run) (simp add: demo_service_def)
qed

text \<open>
  C15: what a run answers.  Its turn is the last one of its conversation, with the input, the run
  id and the mode its runner was made for; the runner was given the public form of all the turns
  before it and ran once, last of all, and the turn is settled with its answer, or with a safe
  answer when it raised an error that is not passed on.
\<close>

theorem conversation_run_answers:
  assumes "service_run mysql_ops V user_input mode conv create layout s = (s', Inr b)"
    and "sound_store table_turns sql_good (sv_store s)"
  shows "\<exists>us a criteria w1 w2 runner. table_turns (sv_store s') (ct_conv b) = Some (us @ [b])
     \<and> ct_input b = user_input
     \<and> ct_status b = ea_status a \<and> ct_answer b = ea_answer a \<and> ct_error b = ea_error a
     \<and> cv_runner V (ct_mode b) (ct_run b) criteria layout w1 = (w2, Inr runner)
     \<and> sv_world s' = fst (runner (map turn_public us) user_input w2)
     \<and> answered_by (snd (runner (map turn_public us) user_input w2)) a"
  by (rule sql.service_run_answers [OF assms]) blast

theorem conversation_run_answers_witness:
  "\<exists>us. table_turns \<lparr>tb_conversations = [demo_conv], tb_turns = [first_turn, second_turn]\<rparr> demo_conv = Some (us @ [second_turn])
     \<and> ct_input second_turn = ''Next''"
proof -
  have "sound_store table_turns sql_good (sv_store demo_service)" by (simp add: demo_service_def demo_sound)
  from conversation_run_answers [OF demo_service_run this] obtain us
    where "table_turns (sv_store \<lparr>sv_store = \<lparr>tb_conversations = [demo_conv], tb_turns = [first_turn, second_turn]\<rparr>,
        sv_ephemeral = [], sv_world = 2 :: nat\<rparr>) (ct_conv second_turn) = Some (us @ [second_turn])"
      and "ct_input second_turn = ''Next''" by (elim exE conjE)
  moreover have "ct_conv second_turn = demo_conv" by (simp add: second_turn_def)
  ultimately show ?thesis by auto
qed

text \<open>
  C16: the MySQL conversation store refines the in-memory one.  From stores that hold the same
  turns, both answer the same turns of a conversation, and whatever the MySQL store accepts, an
  appended turn or an update of a turn, the in-memory store accepts with the same turns after it.
\<close>

theorem conversation_store_refines:
  assumes "sql_good tb" and "table_turns tb = map_of st"
  shows "sql_conversation tb c = mem_conversation st c
     \<and> (sql_append tb t = (tb', Inr ()) \<longrightarrow> (\<exists>st'. mem_append st t = (st', Inr ()) \<and> table_turns tb' = map_of st'))
     \<and> (table_turns tb (ct_conv t) = Some ts \<longrightarrow> (\<forall>u\<in>set ts. ct_sequence u = ct_sequence t \<longrightarrow> same_turn u t)
        \<longrightarrow> sql_update_turn tb t = (tb', Inr ())
        \<longrightarrow> (\<exists>st'. mem_update_turn st t = (st', Inr ()) \<and> table_turns tb' = map_of st'))"
proof (intro conjI impI)
  show "sql_conversation tb c = mem_conversation st c"
    using sql.get_law [OF assms(1), of c] assms(2) by (simp add: mysql_ops_def mem_conversation_def)
next
  assume "sql_append tb t = (tb', Inr ())"
  note l = sql_append_Inr [OF assms(1) this, unfolded assms(2)]
  then show "\<exists>st'. mem_append st t = (st', Inr ()) \<and> table_turns tb' = map_of st'"
    by (cases "map_of st (ct_conv t)") (simp_all add: mem_append_def update_conv')
next
  assume t: "table_turns tb (ct_conv t) = Some ts" and same: "\<forall>u\<in>set ts. ct_sequence u = ct_sequence t \<longrightarrow> same_turn u t"
    and "sql_update_turn tb t = (tb', Inr ())"
  with sql.update_law [OF assms(1) t same, of tb' "()"] obtain us
    where "replace_turn t ts = Some us" and "table_turns tb' = (table_turns tb)(ct_conv t \<mapsto> us)"
    by (auto simp: mysql_ops_def)
  with t assms(2) show "\<exists>st'. mem_update_turn st t = (st', Inr ()) \<and> table_turns tb' = map_of st'"
    by (simp add: mem_update_turn_def mem_conversation_def liftW_def update_conv')
qed

definition next_turn :: turn where
  "next_turn = \<lparr>ct_conv = demo_conv, ct_sequence = 2, ct_run = ''r1'', ct_mode = ''direct'', ct_input = ''Next'',
     ct_status = ''pending'', ct_answer = None, ct_error = None\<rparr>"

theorem conversation_store_refines_witness:
  "\<exists>st'. mem_append [(demo_conv, [first_turn])] next_turn = (st', Inr ())
     \<and> table_turns \<lparr>tb_conversations = [demo_conv], tb_turns = [first_turn, next_turn]\<rparr> = map_of st'"
proof -
  have "sql_good demo_tables" using demo_sound by (simp add: sound_store_def)
  moreover have "table_turns demo_tables = map_of [(demo_conv, [first_turn])]"
    by (rule ext) (simp add: table_turns_def demo_tables_def turns_of_def first_turn_def)
  moreover have "sql_append demo_tables next_turn
      = (\<lparr>tb_conversations = [demo_conv], tb_turns = [first_turn, next_turn]\<rparr>, Inr ())"
    by (simp add: sql_append_def demo_tables_def turns_of_def find_active_def active_turn_def max_sequence_def
        first_turn_def next_turn_def)
  ultimately show ?thesis
    using conversation_store_refines [of demo_tables "[(demo_conv, [first_turn])]" demo_conv next_turn
        "\<lparr>tb_conversations = [demo_conv], tb_turns = [first_turn, next_turn]\<rparr>"] by blast
qed

end
