(* ===== verification/Migration.thy ===== *)
theory Migration
  imports Json
begin

section \<open>Schema migration\<close>

text \<open>
  \<open>agent/migration.py\<close>.  The database is the list of its tables, each with its columns, and the
  rows of the migration history; column types, keys and time stamps are left out.  The server
  version and the set-up of the checkpoint saver are parameters.
\<close>

subsection \<open>Server versions\<close>

text \<open>The tuple of a version, ordered lexicographically as tuples are.\<close>

datatype version = Version nat nat nat

instantiation version :: linorder
begin

definition less_eq_version :: "version \<Rightarrow> version \<Rightarrow> bool" where
  "less_eq_version v w = (case (v, w) of (Version a b c, Version d e f) \<Rightarrow>
     a < d \<or> a = d \<and> (b < e \<or> b = e \<and> c \<le> f))"

definition less_version :: "version \<Rightarrow> version \<Rightarrow> bool" where
  "less_version v w \<longleftrightarrow> v \<le> w \<and> \<not> w \<le> v"

instance
  by standard (auto simp: less_eq_version_def less_version_def split: version.splits)

end

lemma version_le [simp]: "Version a b c \<le> Version d e f \<longleftrightarrow> a < d \<or> a = d \<and> (b < e \<or> b = e \<and> c \<le> f)"
  by (simp add: less_eq_version_def)

definition min_mysql_version :: version where
  "min_mysql_version = Version 8 0 19"

definition max_mysql_version :: version where
  "max_mysql_version = Version 9 5 99"

definition project_schema_version :: int where
  "project_schema_version = 3"

text \<open>\<open>(\d+)\.(\d+)\.(\d+)\<close> at the start of a text; a group never gives digits back.\<close>

definition digits_dot :: "string \<Rightarrow> (string \<times> string) option" where
  "digits_dot s =
     (let ds = takeWhile is_digit s; r = dropWhile is_digit s
      in if ds \<noteq> [] \<and> startswith r ''.'' then Some (ds, drop 1 r) else None)"

definition version_at :: "string \<Rightarrow> version option" where
  "version_at s = (case digits_dot s of
       None \<Rightarrow> None
     | Some (a, r) \<Rightarrow> (case digits_dot r of
           None \<Rightarrow> None
         | Some (b, r) \<Rightarrow>
             let c = takeWhile is_digit r
             in if c = [] then None else Some (Version (read_nat a) (read_nat b) (read_nat c))))"

text \<open>\<open>re.search\<close> with \<open>(?<!\d)\<close>: the flag says whether the character before is a digit.\<close>

fun search_version :: "bool \<Rightarrow> string \<Rightarrow> version option" where
  "search_version after_digit [] = None"
| "search_version after_digit (c # s) =
     (case (if after_digit then None else version_at (c # s)) of
        Some v \<Rightarrow> Some v
      | None \<Rightarrow> search_version (is_digit c) s)"

definition mysql_version :: "string \<Rightarrow> version result" where
  "mysql_version raw = (case search_version False raw of
       None \<Rightarrow> Inl (MigrationConfigurationError ''could not determine MySQL version'')
     | Some v \<Rightarrow> Inr v)"

definition unsupported_version :: "string \<Rightarrow> exn" where
  "unsupported_version raw = MigrationConfigurationError (''unsupported MySQL version: '' @ raw)"

definition validate_mysql_version :: "string \<Rightarrow> version result" where
  "validate_mysql_version raw =
     (if contains ''mariadb'' (lower raw) then Inl (unsupported_version raw)
      else bindE (mysql_version raw) (\<lambda>v.
        if min_mysql_version \<le> v \<and> v \<le> max_mysql_version then Inr v
        else Inl (unsupported_version raw)))"

subsection \<open>Database URLs\<close>

text \<open>
  \<open>urllib.parse.urlparse\<close> and \<open>unquote\<close> of the standard library, for the parts the program reads.
  Whether a bracketed host is an IP address is the parameter \<open>ip_ok\<close> (the \<open>ipaddress\<close> module).
\<close>

definition partition_at :: "char \<Rightarrow> string \<Rightarrow> string \<times> bool \<times> string" where
  "partition_at c s = (takeWhile (\<lambda>x. x \<noteq> c) s, c \<in> set s, drop 1 (dropWhile (\<lambda>x. x \<noteq> c) s))"

definition rpartition_at :: "char \<Rightarrow> string \<Rightarrow> string \<times> bool \<times> string" where
  "rpartition_at c s =
     (rev (drop 1 (dropWhile (\<lambda>x. x \<noteq> c) (rev s))), c \<in> set s, rev (takeWhile (\<lambda>x. x \<noteq> c) (rev s)))"

definition is_alpha :: "char \<Rightarrow> bool" where
  "is_alpha c = (let n = (of_char c :: nat) in 65 \<le> n \<and> n \<le> 90 \<or> 97 \<le> n \<and> n \<le> 122)"

definition is_scheme_char :: "char \<Rightarrow> bool" where
  "is_scheme_char c \<longleftrightarrow> is_alpha c \<or> is_digit c \<or> c \<in> set ''+-.''"

record url_parts =
  ur_scheme :: string
  ur_netloc :: string
  ur_path :: string

definition split_scheme :: "string \<Rightarrow> string \<times> string" where
  "split_scheme s =
     (let (p, found, r) = partition_at CHR '':'' s
      in if found \<and> p \<noteq> [] \<and> is_alpha (hd p) \<and> (\<forall>c\<in>set p. is_scheme_char c) then (lower p, r) else ([], s))"

definition check_brackets :: "(string \<Rightarrow> bool) \<Rightarrow> string \<Rightarrow> unit result" where
  "check_brackets ip_ok netloc =
     (let opened = (CHR ''['' \<in> set netloc); closed = (CHR '']'' \<in> set netloc)
      in if opened \<noteq> closed then Inl (ValueError ''Invalid IPv6 URL'')
         else if opened \<and> \<not> ip_ok (fst (partition_at CHR '']'' (snd (snd (partition_at CHR ''['' netloc)))))
         then Inl (ValueError ''not an IP address'')
         else Inr ())"

definition urlparse :: "(string \<Rightarrow> bool) \<Rightarrow> string \<Rightarrow> url_parts result" where
  "urlparse ip_ok url =
     (let s = filter (\<lambda>c. c \<notin> set [CHR 0x09, CHR 0x0A, CHR 0x0D]) (dropWhile (\<lambda>c. (of_char c :: nat) \<le> 32) url);
          (scheme, r) = split_scheme s;
          has_netloc = startswith r ''//'';
          stop = (\<lambda>c. c \<in> set ''/?#'');
          netloc = (if has_netloc then takeWhile (\<lambda>c. \<not> stop c) (drop 2 r) else []);
          r = (if has_netloc then dropWhile (\<lambda>c. \<not> stop c) (drop 2 r) else r)
      in bindE (check_brackets ip_ok netloc) (\<lambda>_.
         Inr \<lparr>ur_scheme = scheme, ur_netloc = netloc, ur_path = takeWhile (\<lambda>c. c \<noteq> CHR ''?'' \<and> c \<noteq> CHR ''#'') r\<rparr>))"

definition host_and_port :: "string \<Rightarrow> string \<times> string" where
  "host_and_port netloc =
     (let (_, _, info) = rpartition_at CHR ''@'' netloc;
          (_, bracketed, r) = partition_at CHR ''['' info
      in if bracketed
         then let (host, _, r) = partition_at CHR '']'' r in (host, snd (snd (partition_at CHR '':'' r)))
         else let (host, _, port) = partition_at CHR '':'' info in (host, port))"

definition url_hostname :: "string \<Rightarrow> string option" where
  "url_hostname netloc =
     (let host = fst (host_and_port netloc);
          name = takeWhile (\<lambda>c. c \<noteq> CHR ''%'') host
      in if host = [] then None else Some (lower name @ drop (length name) host))"

definition url_port :: "string \<Rightarrow> nat option result" where
  "url_port netloc =
     (let port = snd (host_and_port netloc)
      in if port = [] then Inr None
         else if \<not> (\<forall>c\<in>set port. is_digit c) then Inl (ValueError ''Port could not be cast to integer value'')
         else if read_nat port > 65535 then Inl (ValueError ''Port out of range 0-65535'')
         else Inr (Some (read_nat port)))"

text \<open>User name and password; the password is absent without a colon.\<close>

definition url_user :: "string \<Rightarrow> string" where
  "url_user netloc = fst (partition_at CHR '':'' (fst (rpartition_at CHR ''@'' netloc)))"

definition url_password :: "string \<Rightarrow> string" where
  "url_password netloc = snd (snd (partition_at CHR '':'' (fst (rpartition_at CHR ''@'' netloc))))"

fun unquote :: "string \<Rightarrow> string" where
  "unquote (c # a # b # r) =
     (case (if c = CHR ''%'' then (hex_val a, hex_val b) else (None, None)) of
        (Some i, Some j) \<Rightarrow> char_of (16 * i + j) # unquote r
      | _ \<Rightarrow> c # unquote (a # b # r))"
| "unquote (c # s) = c # unquote s"
| "unquote [] = []"

record connection_options =
  co_host :: string
  co_port :: nat
  co_user :: string
  co_password :: string
  co_db :: string

definition parse_url :: "(string \<Rightarrow> bool) \<Rightarrow> string \<Rightarrow> connection_options result" where
  "parse_url ip_ok url =
     bindE (urlparse ip_ok url) (\<lambda>u.
     case url_hostname (ur_netloc u) of
       None \<Rightarrow> Inl (MigrationConfigurationError ''CODEX_MYSQL_URL must be a MySQL URL'')
     | Some host \<Rightarrow>
         if ur_scheme u \<notin> set [''mysql'', ''mysql+aiomysql'']
         then Inl (MigrationConfigurationError ''CODEX_MYSQL_URL must be a MySQL URL'')
         else if \<forall>c\<in>set (ur_path u). c = CHR ''/''
         then Inl (MigrationConfigurationError ''CODEX_MYSQL_URL must name a database'')
         else
           bindE (url_port (ur_netloc u)) (\<lambda>port.
           Inr \<lparr>co_host = host, co_port = (case port of None \<Rightarrow> 3306 | Some p \<Rightarrow> if p = 0 then 3306 else p),
                co_user = unquote (url_user (ur_netloc u)), co_password = unquote (url_password (ur_netloc u)),
                co_db = dropWhile (\<lambda>c. c = CHR ''/'') (ur_path u)\<rparr>))"

subsection \<open>The schema\<close>

record database =
  db_tables :: "(string \<times> string list) list"
  db_versions :: "int list"

definition project_tables :: "(string \<times> string list) list" where
  "project_tables =
     [(''codex_migration_history'', [''version'', ''applied_at'']),
      (''agent_runs'', [''run_id'', ''thread_id'', ''status'', ''config_snapshot'', ''config_fingerprint'',
         ''terminal_result'', ''lease_owner'', ''lease_expires_at'', ''created_at'', ''updated_at'']),
      (''step_recovery_attempts'', [''record_id'', ''run_id'', ''revision'', ''step_id'', ''attempt'', ''status'',
         ''result'', ''error'', ''completion_evidence'', ''context_update'', ''recovery'', ''common_version'',
         ''created_at'']),
      (''conversations'', [''conv_id'', ''created_at'']),
      (''conversation_turns'', [''conv_id'', ''sequence'', ''run_id'', ''execution_mode'', ''user_input'', ''status'',
         ''answer'', ''error'', ''created_at'', ''updated_at''])]"

definition create_table :: "string \<times> string list \<Rightarrow> database \<Rightarrow> database" where
  "create_table t db = (if fst t \<in> fst ` set (db_tables db) then db else db\<lparr>db_tables := db_tables db @ [t]\<rparr>)"

definition add_column :: "string \<Rightarrow> string \<Rightarrow> database \<Rightarrow> database" where
  "add_column table column db = db\<lparr>db_tables :=
     map (\<lambda>(t, cs). (t, if t = table \<and> column \<notin> set cs then cs @ [column] else cs)) (db_tables db)\<rparr>"

definition record_version :: "int \<Rightarrow> database \<Rightarrow> database" where
  "record_version v db = db\<lparr>db_versions := append_unique (db_versions db) [v]\<rparr>"

text \<open>The statements of a migration in their order.\<close>

definition project_migration :: "database \<Rightarrow> database" where
  "project_migration db =
     record_version project_schema_version
       (fold create_table (drop 3 project_tables)
         (add_column ''step_recovery_attempts'' ''completion_evidence''
           (fold create_table (take 3 project_tables) db)))"

definition migrate_database ::
  "(string \<Rightarrow> bool) \<Rightarrow> (database \<Rightarrow> database \<times> unit result) \<Rightarrow> string \<Rightarrow> string \<Rightarrow> database \<Rightarrow> database \<times> unit result" where
  "migrate_database ip_ok saver_setup server_version url db =
     bindW (liftW db (parse_url ip_ok url)) (\<lambda>db _.
     bindW (liftW db (validate_mysql_version server_version)) (\<lambda>db _.
     saver_setup (project_migration db)))"

definition has_table :: "database \<Rightarrow> string \<Rightarrow> bool" where
  "has_table db t \<longleftrightarrow> t \<in> fst ` set (db_tables db)"

text \<open>A query of a missing table raises, which is reported like a missing version.\<close>

definition ensure_schema_initialized :: "database \<Rightarrow> unit result" where
  "ensure_schema_initialized db =
     (if has_table db ''codex_migration_history'' \<and> project_schema_version \<in> set (db_versions db)
         \<and> (\<forall>t\<in>set [''agent_runs'', ''step_recovery_attempts'', ''conversations'', ''conversation_turns'',
              ''checkpoint_migrations'']. has_table db t)
      then Inr ()
      else Inl (MigrationConfigurationError ''persistence schema is not initialized; run agent migrate''))"

end
