(* ===== verification/Configuration.thy ===== *)
theory Configuration
  imports PyValue Messages
begin

section \<open>Component provider configuration\<close>

text \<open>
  \<open>agent/configuration.py\<close>.  The file is a parameter: what reading and parsing it gives, a YAML
  document or the text of an \<open>OSError\<close> or \<open>YAMLError\<close>.  The mappings of a document have string
  keys.
\<close>

subsection \<open>Loading\<close>

record provider =
  pv_base_url :: string
  pv_api_key :: string
  pv_model_name :: string
  pv_stream :: bool

record components =
  cf_planner :: provider
  cf_executor :: provider
  cf_task_analyzer :: provider
  cf_runtime_context :: "provider option"
  cf_direct :: provider
  cf_tool_agent :: provider
  cf_react :: provider

definition provider_fields :: "string list" where
  "provider_fields = [''base_url'', ''api_key'', ''model_name'', ''stream'']"

definition configuration_sections :: "string list" where
  "configuration_sections = [''model'', ''planner'', ''executor'', ''task_analyzer'', ''runtime_context'', ''direct'',
     ''tool_agent'', ''react'']"

type_synonym yaml_map = "(string \<times> pyval) list"

definition check_keys :: "yaml_map \<Rightarrow> string list \<Rightarrow> string \<Rightarrow> unit result" where
  "check_keys values allowed name =
     (if ''response_format'' \<in> fst ` set values
      then Inl (ConfigurationError (name @ ''.response_format was removed; non-tool model responses use Line Protocol''))
      else
        let unknown = sort (filter (\<lambda>k. k \<notin> set allowed) (map fst values))
        in if unknown \<noteq> []
           then Inl (ConfigurationError (name @ '' contains unknown field(s): '' @ join '', '' unknown))
           else Inr ())"

definition mapping_of :: "pyval \<Rightarrow> string \<Rightarrow> yaml_map result" where
  "mapping_of value name = (case as_dict value of
       None \<Rightarrow> Inl (ConfigurationError (name @ '' must be a YAML mapping''))
     | Some d \<Rightarrow> Inr d)"

text \<open>\<open>dict.update\<close>: values of known keys are replaced in place, new keys come last.\<close>

definition dict_update :: "yaml_map \<Rightarrow> yaml_map \<Rightarrow> yaml_map" where
  "dict_update d e =
     map (\<lambda>(k, v). (k, case map_of e k of None \<Rightarrow> v | Some v' \<Rightarrow> v')) d
       @ filter (\<lambda>(k, v). k \<notin> fst ` set d) e"

definition resolve :: "yaml_map \<Rightarrow> pyval \<Rightarrow> string \<Rightarrow> yaml_map result" where
  "resolve shared override name =
     (if override = PNone then Inr shared
      else bindE (mapping_of override name) (\<lambda>d. Inr (dict_update shared d)))"

definition provider_text :: "yaml_map \<Rightarrow> string \<Rightarrow> string \<Rightarrow> string result" where
  "provider_text values name field = (case nonblank_str (dict_value values field) of
       None \<Rightarrow> Inl (ConfigurationError (name @ ''.'' @ field @ '' must be a non-empty string''))
     | Some s \<Rightarrow> Inr s)"

definition provider_of :: "yaml_map \<Rightarrow> string \<Rightarrow> provider result" where
  "provider_of values name =
     bindE (check_keys values provider_fields name) (\<lambda>_.
     let missing = filter (\<lambda>k. k \<notin> fst ` set values) [''base_url'', ''api_key'', ''model_name''] in
     if missing \<noteq> []
     then Inl (ConfigurationError (name @ '' is missing required field(s): '' @ join '', '' missing))
     else
       bindE (provider_text values name ''base_url'') (\<lambda>base_url.
       bindE (provider_text values name ''api_key'') (\<lambda>api_key.
       bindE (provider_text values name ''model_name'') (\<lambda>model_name.
       bindE (case map_of values ''stream'' of
                None \<Rightarrow> Inr False
              | Some (PBool b) \<Rightarrow> Inr b
              | Some _ \<Rightarrow> Inl (ConfigurationError (name @ ''.stream must be a boolean''))) (\<lambda>stream.
       Inr \<lparr>pv_base_url = base_url, pv_api_key = api_key, pv_model_name = model_name, pv_stream = stream\<rparr>)))))"

text \<open>\<open>load_configuration\<close> from what the file holds.\<close>

definition load_configuration :: "string + pyval \<Rightarrow> components result" where
  "load_configuration content = (case content of
     Inl e \<Rightarrow> Inl (ConfigurationError (''cannot read configuration: '' @ e))
   | Inr v \<Rightarrow> (case as_dict v of
       None \<Rightarrow> Inl (ConfigurationError ''configuration must be a YAML mapping'')
     | Some doc \<Rightarrow>
         bindE (check_keys doc configuration_sections ''configuration'') (\<lambda>_.
         bindE (mapping_of (dict_value doc ''model'') ''model'') (\<lambda>shared.
         bindE (resolve shared (dict_value doc ''planner'') ''planner'') (\<lambda>planner.
         bindE (resolve shared (dict_value doc ''executor'') ''executor'') (\<lambda>executor.
         bindE (resolve planner (dict_value doc ''task_analyzer'') ''task_analyzer'') (\<lambda>task_analyzer.
         bindE (case map_of doc ''runtime_context'' of
                  None \<Rightarrow> Inr None
                | Some v \<Rightarrow> bindE (resolve shared v ''runtime_context'') (\<lambda>d. Inr (Some d))) (\<lambda>runtime_context.
         bindE (resolve shared (dict_value doc ''direct'') ''direct'') (\<lambda>direct.
         bindE (resolve shared (dict_value doc ''tool_agent'') ''tool_agent'') (\<lambda>tool_agent.
         bindE (resolve shared (dict_value doc ''react'') ''react'') (\<lambda>react.
         bindE (provider_of planner ''planner'') (\<lambda>planner.
         bindE (provider_of executor ''executor'') (\<lambda>executor.
         bindE (provider_of task_analyzer ''task_analyzer'') (\<lambda>task_analyzer.
         bindE (case runtime_context of
                  None \<Rightarrow> Inr None
                | Some d \<Rightarrow> bindE (provider_of d ''runtime_context'') (\<lambda>p. Inr (Some p))) (\<lambda>runtime_context.
         bindE (provider_of direct ''direct'') (\<lambda>direct.
         bindE (provider_of tool_agent ''tool_agent'') (\<lambda>tool_agent.
         bindE (provider_of react ''react'') (\<lambda>react.
         Inr \<lparr>cf_planner = planner, cf_executor = executor, cf_task_analyzer = task_analyzer,
              cf_runtime_context = runtime_context, cf_direct = direct, cf_tool_agent = tool_agent,
              cf_react = react\<rparr>))))))))))))))))))"

text \<open>The attributes of a provider as a dictionary.\<close>

definition provider_value :: "provider \<Rightarrow> pyval" where
  "provider_value p = PDict [(''base_url'', PStr (pv_base_url p)), (''api_key'', PStr (pv_api_key p)),
     (''model_name'', PStr (pv_model_name p)), (''stream'', PBool (pv_stream p))]"

subsection \<open>The layers of a section\<close>

text \<open>
  The specification of the merge: the value of a field is the one of the first layer that has it.
\<close>

fun first_of :: "yaml_map list \<Rightarrow> string \<Rightarrow> pyval option" where
  "first_of [] k = None"
| "first_of (d # ds) k = (case map_of d k of None \<Rightarrow> first_of ds k | Some v \<Rightarrow> Some v)"

definition section_map :: "yaml_map \<Rightarrow> string \<Rightarrow> yaml_map" where
  "section_map doc s = (case dict_value doc s of PDict d \<Rightarrow> d | _ \<Rightarrow> [])"

definition layers :: "yaml_map \<Rightarrow> string \<Rightarrow> yaml_map list" where
  "layers doc s = section_map doc s # (if s = ''task_analyzer'' then [section_map doc ''planner''] else [])
     @ [section_map doc ''model'']"

definition set_by :: "yaml_map list \<Rightarrow> provider \<Rightarrow> bool" where
  "set_by ds p \<longleftrightarrow> first_of ds ''base_url'' = Some (PStr (pv_base_url p)) \<and> \<not> blank (pv_base_url p)
     \<and> first_of ds ''api_key'' = Some (PStr (pv_api_key p)) \<and> \<not> blank (pv_api_key p)
     \<and> first_of ds ''model_name'' = Some (PStr (pv_model_name p)) \<and> \<not> blank (pv_model_name p)
     \<and> (first_of ds ''stream'' = Some (PBool (pv_stream p)) \<or> first_of ds ''stream'' = None \<and> \<not> pv_stream p)
     \<and> (\<forall>k. first_of ds k \<noteq> None \<longrightarrow> k \<in> set provider_fields)"

lemma map_of_dict_update: "map_of (dict_update d e) k = (case map_of e k of None \<Rightarrow> map_of d k | Some v \<Rightarrow> Some v)"
proof -
  have "map_of (map (\<lambda>(k, v). (k, f k v)) d) k = map_option (f k) (map_of d k)" for f :: "string \<Rightarrow> pyval \<Rightarrow> pyval"
    by (induction d) auto
  moreover have "map_of (filter (\<lambda>(k, v). k \<notin> A) e) k = (if k \<in> A then None else map_of e k)" for A
    by (induction e) auto
  moreover have "map_of d k = None \<longleftrightarrow> k \<notin> fst ` set d" by (rule map_of_eq_None_iff)
  ultimately show ?thesis
    by (auto simp: dict_update_def map_add_def split: option.splits)
qed

lemma first_of_update: "map_of d = first_of ds \<Longrightarrow> map_of (dict_update d e) = first_of (e # ds)"
  by (rule ext) (simp add: map_of_dict_update split: option.split)

lemma resolve_layers:
  assumes "resolve d (dict_value doc s) s = Inr r" and "map_of d = first_of ds"
  shows "map_of r = first_of (section_map doc s # ds)"
proof (cases "dict_value doc s = PNone")
  case True
  with assms show ?thesis by (auto simp: resolve_def section_map_def)
next
  case False
  with assms(1) obtain e where "dict_value doc s = PDict e" and "r = dict_update d e"
    by (cases "dict_value doc s") (auto simp: resolve_def mapping_of_def)
  with assms(2) show ?thesis by (simp add: section_map_def first_of_update del: first_of.simps)
qed

lemma provider_text_Inr:
  "provider_text values name k = Inr s \<longleftrightarrow> map_of values k = Some (PStr s) \<and> \<not> blank s"
  by (cases "map_of values k") (auto simp: provider_text_def dict_value_def nonblank_str_Some split: option.splits if_splits)

lemma check_keys_Inr: "check_keys values allowed name = Inr u \<Longrightarrow> fst ` set values \<subseteq> set allowed"
proof -
  assume "check_keys values allowed name = Inr u"
  then have "sort (filter (\<lambda>k. k \<notin> set allowed) (map fst values)) = []"
    by (simp add: check_keys_def Let_def split: if_splits)
  then have "set (filter (\<lambda>k. k \<notin> set allowed) (map fst values)) = {}"
    by (metis set_empty set_sort)
  then show ?thesis by auto
qed

lemma provider_of_set_by:
  assumes "provider_of values name = Inr p" and "map_of values = first_of ds"
  shows "set_by ds p"
proof -
  from assms(1) obtain u where keys: "check_keys values provider_fields name = Inr u"
    and b: "provider_text values name ''base_url'' = Inr (pv_base_url p)"
    and a: "provider_text values name ''api_key'' = Inr (pv_api_key p)"
    and m: "provider_text values name ''model_name'' = Inr (pv_model_name p)"
    and s: "map_of values ''stream'' = Some (PBool (pv_stream p)) \<or> map_of values ''stream'' = None \<and> \<not> pv_stream p"
    by (auto simp: provider_of_def Let_def split: if_splits option.splits pyval.splits)
  have "k \<in> set provider_fields" if "map_of values k \<noteq> None" for k
    using check_keys_Inr [OF keys] that by (auto simp: map_of_eq_None_iff)
  with b a m s show ?thesis
    unfolding set_by_def assms(2) [symmetric] by (simp add: provider_text_Inr)
qed

text \<open>A configuration is accepted only with every provider set by its layers.\<close>

lemma load_configuration_set:
  assumes "load_configuration (Inr (PDict doc)) = Inr c"
  shows "set_by (layers doc ''planner'') (cf_planner c) \<and> set_by (layers doc ''executor'') (cf_executor c)
     \<and> set_by (layers doc ''task_analyzer'') (cf_task_analyzer c) \<and> set_by (layers doc ''direct'') (cf_direct c)
     \<and> set_by (layers doc ''tool_agent'') (cf_tool_agent c) \<and> set_by (layers doc ''react'') (cf_react c)
     \<and> (case cf_runtime_context c of
          None \<Rightarrow> ''runtime_context'' \<notin> fst ` set doc
        | Some p \<Rightarrow> ''runtime_context'' \<in> fst ` set doc \<and> set_by (layers doc ''runtime_context'') p)"
proof -
  from assms obtain sh pl ex ta rc di to re where sh: "mapping_of (dict_value doc ''model'') ''model'' = Inr sh"
    and r: "resolve sh (dict_value doc ''planner'') ''planner'' = Inr pl"
      "resolve sh (dict_value doc ''executor'') ''executor'' = Inr ex"
      "resolve pl (dict_value doc ''task_analyzer'') ''task_analyzer'' = Inr ta"
      "(case map_of doc ''runtime_context'' of None \<Rightarrow> Inr None
        | Some v \<Rightarrow> bindE (resolve sh v ''runtime_context'') (\<lambda>d. Inr (Some d))) = Inr rc"
      "resolve sh (dict_value doc ''direct'') ''direct'' = Inr di"
      "resolve sh (dict_value doc ''tool_agent'') ''tool_agent'' = Inr to"
      "resolve sh (dict_value doc ''react'') ''react'' = Inr re"
    and p: "provider_of pl ''planner'' = Inr (cf_planner c)" "provider_of ex ''executor'' = Inr (cf_executor c)"
      "provider_of ta ''task_analyzer'' = Inr (cf_task_analyzer c)"
      "(case rc of None \<Rightarrow> Inr None | Some d \<Rightarrow> bindE (provider_of d ''runtime_context'') (\<lambda>p. Inr (Some p)))
         = Inr (cf_runtime_context c)"
      "provider_of di ''direct'' = Inr (cf_direct c)" "provider_of to ''tool_agent'' = Inr (cf_tool_agent c)"
      "provider_of re ''react'' = Inr (cf_react c)"
    unfolding load_configuration_def sum.case as_dict.simps option.case
    by (elim bindE_InrE) (rule that, assumption+, simp_all only: sum.inject, auto)
  have "map_of sh = first_of [section_map doc ''model'']"
    using sh by (cases "dict_value doc ''model''") (auto simp: mapping_of_def section_map_def split: option.split)
  note res = resolve_layers [OF _ this]
  have pl: "map_of pl = first_of (layers doc ''planner'')" using res [OF r(1)] by (simp add: layers_def)
  have ta: "map_of ta = first_of (layers doc ''task_analyzer'')"
    using resolve_layers [OF r(3) res [OF r(1)]] by (simp add: layers_def)
  have rc: "case cf_runtime_context c of None \<Rightarrow> ''runtime_context'' \<notin> fst ` set doc
     | Some p \<Rightarrow> ''runtime_context'' \<in> fst ` set doc \<and> set_by (layers doc ''runtime_context'') p"
  proof (cases "map_of doc ''runtime_context''")
    case None
    with r(4) p(4) have "cf_runtime_context c = None" by simp
    with None show ?thesis by (simp add: map_of_eq_None_iff)
  next
    case (Some v)
    with r(4) p(4) obtain d q where d: "resolve sh v ''runtime_context'' = Inr d"
      and q: "provider_of d ''runtime_context'' = Inr q" "cf_runtime_context c = Some q" by auto
    have "v = dict_value doc ''runtime_context''" using Some by (simp add: dict_value_def)
    with d res have "map_of d = first_of (layers doc ''runtime_context'')" by (simp add: layers_def)
    with provider_of_set_by [OF q(1)] Some q(2) show ?thesis by (force dest: map_of_SomeD)
  qed
  show ?thesis
    using provider_of_set_by [OF p(1) pl] provider_of_set_by [OF p(2)] res [OF r(2)]
      provider_of_set_by [OF p(3) ta] provider_of_set_by [OF p(5)] res [OF r(5)]
      provider_of_set_by [OF p(6)] res [OF r(6)] provider_of_set_by [OF p(7)] res [OF r(7)] rc
    by (simp add: layers_def)
qed

subsection \<open>Rejections\<close>

definition configures :: "'a result \<Rightarrow> bool" where
  "configures r \<longleftrightarrow> (\<forall>e. r = Inl e \<longrightarrow> (\<exists>m. e = ConfigurationError m))"

named_theorems configures_intros

lemma configures_Inr [configures_intros]: "configures (Inr x)"
  by (simp add: configures_def)

lemma configures_Inl [configures_intros]: "configures (Inl (ConfigurationError m))"
  by (simp add: configures_def)

lemma configures_bind [configures_intros]: "configures m \<Longrightarrow> (\<And>x. configures (f x)) \<Longrightarrow> configures (bindE m f)"
  by (cases m) (auto simp: configures_def)

lemma configures_check [configures_intros]: "configures (check_keys values allowed name)"
  by (simp add: check_keys_def Let_def configures_def)

lemma configures_mapping [configures_intros]: "configures (mapping_of value name)"
  by (simp add: mapping_of_def configures_def split: option.split)

lemma configures_resolve [configures_intros]: "configures (resolve shared override name)"
  by (auto simp: resolve_def intro!: configures_intros)

lemma configures_text [configures_intros]: "configures (provider_text values name field)"
  by (simp add: provider_text_def configures_def split: option.split)

lemma configures_provider [configures_intros]: "configures (provider_of values name)"
  unfolding provider_of_def Let_def
  by (auto intro!: configures_intros split: option.split pyval.split)

lemma load_configuration_configures: "configures (load_configuration content)"
  unfolding load_configuration_def
  by (auto split: sum.split option.split intro!: configures_intros)

end
