(* ===== verification/Run_Entry.thy ===== *)
theory Run_Entry
  imports Conversation Registry_Correct Migration Configuration State_Codec
begin

section \<open>The lifecycle of a registered run\<close>

text \<open>
  \<open>_run\<close>, \<open>run_agent\<close> and \<open>resume_agent\<close> of \<open>agent/durable.py\<close>, and the adapter of
  \<open>agent/conversation.py\<close> on them: configuration snapshot, schema check, registry row, lease,
  work, terminal result, release.  The lease is renewed by a task of its own while the run works
  and other processes use the registry; what happens to the registry meanwhile is a list of
  events.  The durable agent, the router, the clean-up after a cancellation and the closing of
  the clients act on the rest of the world.
\<close>

subsection \<open>Results\<close>

definition run_result_value :: "run_answer \<Rightarrow> pyval" where
  "run_result_value r = PDict [(''run_id'', PStr (rn_run_id r)), (''status'', PStr (rn_status r)),
     (''state'', case rn_state r of None \<Rightarrow> PNone | Some s \<Rightarrow> serialize_agent_state s)]"

text \<open>\<open>_durable_answer\<close> on the dictionary of a result.\<close>

definition durable_answer_of :: "pyval \<Rightarrow> execution_answer result" where
  "durable_answer_of v =
     bindE (dict_get v ''status'' PNone) (\<lambda>status.
     if status = PStr ''blocked'' then mk_execution_answer None ''blocked'' (Some ''plan-execute run blocked'')
     else if status \<noteq> PStr ''completed'' then failed_answer ''plan-execute run did not complete''
     else
       bindE (dict_get v ''state'' PNone) (\<lambda>state.
       case state of
         PDict d \<Rightarrow>
           bindE (deserialize_agent_state state) (\<lambda>s.
           case step_handoff s of
             None \<Rightarrow> failed_answer ''plan-execute run completed without a step handoff''
           | Some t \<Rightarrow> if t = [] then failed_answer ''plan-execute run completed without a step handoff''
                       else completed_answer t)
       | _ \<Rightarrow> Inl (TypeError ''state'')))"

definition terminal_statuses :: "string list" where
  "terminal_statuses = [''completed'', ''blocked'', ''failed'']"

subsection \<open>The registry while a run works\<close>

text \<open>
  \<open>Tick\<close> is a wake-up of \<open>_renew_lease\<close> at a time of the server's clock, with the error of the
  database if it has one; the task ends with its first error.
\<close>

datatype run_event = Tick int "exn option" | Foreign lease_event

definition renew_tick :: "string \<Rightarrow> string \<Rightarrow> int \<Rightarrow> exn option \<Rightarrow> run_row list \<Rightarrow> run_row list \<times> exn option" where
  "renew_tick run_id owner now fault table = (case fault of
       Some e \<Rightarrow> (table, Some e)
     | None \<Rightarrow> (case sql_renew table run_id owner now of
           (table, Inl e) \<Rightarrow> (table, Some e)
         | (table, Inr _) \<Rightarrow> (table, None)))"

fun while_working :: "string \<Rightarrow> string \<Rightarrow> run_event list \<Rightarrow> run_row list \<Rightarrow> run_row list \<times> exn option" where
  "while_working run_id owner [] table = (table, None)"
| "while_working run_id owner (Foreign ev # evs) table =
     while_working run_id owner evs
       (lease_apply sql_acquire sql_renew_op sql_release sql_set_terminal run_id ev table)"
| "while_working run_id owner (Tick now fault # evs) table =
     (case renew_tick run_id owner now fault table of
        (table, None) \<Rightarrow> while_working run_id owner evs table
      | (table, Some e) \<Rightarrow> (fst (while_working run_id owner (filter (\<lambda>ev. \<exists>f. ev = Foreign f) evs) table), Some e))"

subsection \<open>The work of a run\<close>

record 'w run_env =
  rv_owner :: string
  rv_now :: int
  rv_events :: "run_event list"
  rv_durable :: "string \<Rightarrow> agent_state option \<Rightarrow> string option \<Rightarrow> pyval option \<Rightarrow> 'w \<Rightarrow> 'w \<times> run_answer result"
  rv_route :: "string \<Rightarrow> 'w \<Rightarrow> 'w \<times> routed_answer result"
  rv_interrupt :: "string \<Rightarrow> 'w \<Rightarrow> 'w"
  rv_close :: "'w \<Rightarrow> 'w \<times> unit result"
  rv_close_analyzer :: "'w \<Rightarrow> 'w \<times> unit result"

text \<open>A \<open>finally\<close> that closes a client: an error of the closing replaces the outcome.\<close>

definition closing :: "('w \<Rightarrow> 'w \<times> unit result) \<Rightarrow> 'w \<times> 'a result \<Rightarrow> 'w \<times> 'a result" where
  "closing close r = (case r of (w, x) \<Rightarrow> (case close w of (w, Inl e) \<Rightarrow> (w, Inl e) | (w, Inr _) \<Rightarrow> (w, x)))"

definition run_work ::
  "'w run_env \<Rightarrow> string \<Rightarrow> string option \<Rightarrow> string option \<Rightarrow> string option \<Rightarrow> pyval option \<Rightarrow> 'w \<Rightarrow> 'w \<times> pyval result" where
  "run_work E run_id goal recovery mode conv w =
     bindW (liftW w (case goal of
              None \<Rightarrow> Inr None
            | Some g \<Rightarrow> bindE (mk_agent_state g [] [] None) (\<lambda>s. Inr (Some s)))) (\<lambda>w initial.
     if goal = None \<or> mode = Some ''plan_execute''
     then bindW (rv_durable E run_id initial recovery conv w) (\<lambda>w r. (w, Inr (run_result_value r)))
     else closing (rv_close_analyzer E)
       (bindW (rv_route E (case goal of None \<Rightarrow> [] | Some g \<Rightarrow> g) w) (\<lambda>w r. (w, Inr (routed_result run_id r)))))"

definition guarded_work ::
  "'w run_env \<Rightarrow> string \<Rightarrow> string option \<Rightarrow> string option \<Rightarrow> string option \<Rightarrow> pyval option \<Rightarrow> 'w \<Rightarrow> 'w \<times> pyval result" where
  "guarded_work E run_id goal recovery mode conv w =
     closing (rv_close E) (case run_work E run_id goal recovery mode conv w of
       (w, r) \<Rightarrow> (if r = Inl CancelledError then rv_interrupt E run_id w else w, r))"

subsection \<open>The lifecycle\<close>

text \<open>The result is recorded when it is terminal; the end of the renewal task comes before the release.\<close>

definition record_result :: "string \<Rightarrow> string \<Rightarrow> run_row list \<Rightarrow> pyval result \<Rightarrow> run_row list \<times> pyval result" where
  "record_result run_id owner table r =
     bindW (liftW table r) (\<lambda>table v.
     bindW (liftW table (get_item v ''status'')) (\<lambda>table status.
     if status \<in> PStr ` set terminal_statuses
     then bindW (sql_set_terminal table run_id owner v) (\<lambda>table _. (table, Inr v))
     else (table, Inr v)))"

definition run_leased ::
  "'w run_env \<Rightarrow> string \<Rightarrow> string option \<Rightarrow> string option \<Rightarrow> string option \<Rightarrow> pyval option
     \<Rightarrow> run_row list \<times> 'w \<Rightarrow> (run_row list \<times> 'w) \<times> pyval result" where
  "run_leased E run_id goal recovery mode conv s =
     (case s of (table, w) \<Rightarrow>
      case guarded_work E run_id goal recovery mode conv w of (w, r) \<Rightarrow>
      case while_working run_id (rv_owner E) (rv_events E) table of (table, failure) \<Rightarrow>
      case record_result run_id (rv_owner E) table r of (table, r) \<Rightarrow>
      case failure of
        Some e \<Rightarrow> ((table, w), Inl e)
      | None \<Rightarrow> ((fst (sql_release table run_id (rv_owner E)), w), r))"

definition run_snapshot :: "components \<Rightarrow> string \<Rightarrow> string \<Rightarrow> pyval result" where
  "run_snapshot cf tool_cwd layout =
     configuration_snapshot
       (PDict [(''command'', PStr ''poetry''), (''args'', PList [PStr ''run'', PStr ''atom-mcp'']),
               (''cwd'', PStr ''/home/xzp/workspace/atom-mcp''), (''tool_cwd'', PStr tool_cwd)])
       (Some (provider_value (cf_planner cf))) (Some (provider_value (cf_executor cf)))
       (Some (provider_value (cf_task_analyzer cf))) (map_option provider_value (cf_runtime_context cf))
       None None layout"

text \<open>A new run is created; an old one is checked, and answers at once when its result is recorded.\<close>

definition open_run :: "run_row list \<Rightarrow> string \<Rightarrow> string option \<Rightarrow> pyval \<Rightarrow> run_row list \<times> pyval option result" where
  "open_run table run_id goal snap =
     (if goal \<noteq> None then bindW (sql_create table run_id snap) (\<lambda>table _. (table, Inr None))
      else bindW (liftW table (sql_ensure_compatible table run_id snap)) (\<lambda>table r.
        (table, case ru_terminal r of
            None \<Rightarrow> Inr None
          | Some v \<Rightarrow>
              if ru_status r \<notin> set terminal_statuses \<or> v = PNone then Inr None
              else (case as_dict v of None \<Rightarrow> Inl (TypeError ''dict'') | Some _ \<Rightarrow> Inr (Some v)))))"

definition run_entry ::
  "'w run_env \<Rightarrow> (string \<Rightarrow> bool) \<Rightarrow> database \<Rightarrow> string \<Rightarrow> components option \<Rightarrow> string \<Rightarrow> string
     \<Rightarrow> string \<Rightarrow> string option \<Rightarrow> string option \<Rightarrow> string option \<Rightarrow> pyval option
     \<Rightarrow> run_row list \<times> 'w \<Rightarrow> (run_row list \<times> 'w) \<times> pyval result" where
  "run_entry E ip_ok db url cf tool_cwd layout run_id goal recovery mode conv s =
     (case cf of
        None \<Rightarrow> (s, Inl (ValueError ''an explicit component provider configuration is required''))
      | Some cf \<Rightarrow>
          bindW (liftW s (run_snapshot cf tool_cwd layout)) (\<lambda>s snap.
          bindW (liftW s (parse_url ip_ok url)) (\<lambda>s _.
          bindW (liftW s (ensure_schema_initialized db)) (\<lambda>s _.
          case open_run (fst s) run_id goal snap of
            (table, Inl e) \<Rightarrow> ((table, snd s), Inl e)
          | (table, Inr (Some v)) \<Rightarrow> ((table, snd s), Inr v)
          | (table, Inr None) \<Rightarrow>
              (case sql_acquire table run_id (rv_owner E) (rv_now E) of
                 (table, Inl e) \<Rightarrow> ((table, snd s), Inl e)
               | (table, Inr _) \<Rightarrow> run_leased E run_id goal recovery mode conv (table, snd s))))))"

text \<open>\<open>resume_agent\<close>, and \<open>run_agent\<close> with a fresh run id.\<close>

definition resume_agent ::
  "'w run_env \<Rightarrow> (string \<Rightarrow> bool) \<Rightarrow> database \<Rightarrow> string \<Rightarrow> components option \<Rightarrow> string \<Rightarrow> string
     \<Rightarrow> string \<Rightarrow> string option \<Rightarrow> run_row list \<times> 'w \<Rightarrow> (run_row list \<times> 'w) \<times> pyval result" where
  "resume_agent E ip_ok db url cf tool_cwd layout run_id recovery =
     run_entry E ip_ok db url cf tool_cwd layout run_id None recovery None None"

definition run_agent ::
  "'w run_env \<Rightarrow> (string \<Rightarrow> bool) \<Rightarrow> database \<Rightarrow> string \<Rightarrow> components option \<Rightarrow> string \<Rightarrow> string
     \<Rightarrow> string \<Rightarrow> string \<Rightarrow> string option \<Rightarrow> run_row list \<times> 'w \<Rightarrow> (run_row list \<times> 'w) \<times> pyval result" where
  "run_agent E ip_ok db url cf tool_cwd layout new_run_id goal mode =
     run_entry E ip_ok db url cf tool_cwd layout new_run_id (Some goal) None mode None"

text \<open>
  \<open>_MySQLDurableAgent.run\<close>: a recovered run works in the directory its snapshot records.  \<open>expand\<close>
  makes the working directory absolute, the current one when there is none.
\<close>

definition restored_cwd :: "run_row list \<Rightarrow> string \<Rightarrow> string option result" where
  "restored_cwd table run_id =
     bindE (sql_get_run table run_id) (\<lambda>r.
     bindE (dict_get (ru_snapshot r) ''mcp'' (PDict [])) (\<lambda>mcp.
     bindE (dict_get mcp ''tool_cwd'' PNone) (\<lambda>v.
     case v of PNone \<Rightarrow> Inr None | PStr c \<Rightarrow> Inr (Some c) | _ \<Rightarrow> Inl (TypeError ''tool_cwd''))))"

definition mysql_durable_agent_run ::
  "'w run_env \<Rightarrow> (string \<Rightarrow> bool) \<Rightarrow> (string option \<Rightarrow> string) \<Rightarrow> database \<Rightarrow> string \<Rightarrow> components option
     \<Rightarrow> string option \<Rightarrow> bool \<Rightarrow> string \<Rightarrow> string \<Rightarrow> string option \<Rightarrow> string option \<Rightarrow> pyval option
     \<Rightarrow> run_row list \<times> 'w \<Rightarrow> (run_row list \<times> 'w) \<times> pyval result" where
  "mysql_durable_agent_run E ip_ok expand db url cf cwd restore layout run_id goal recovery conv s =
     bindW (liftW s (if goal = None \<and> restore
                     then bindE (parse_url ip_ok url) (\<lambda>_. restored_cwd (fst s) run_id)
                     else Inr cwd)) (\<lambda>s cwd.
     run_entry E ip_ok db url cf (expand cwd) layout run_id goal recovery (Some ''plan_execute'') conv s)"

end
