(* ===== verification/Run_Entry_Correct.thy ===== *)
theory Run_Entry_Correct
  imports Run_Entry
begin

section \<open>A registered run settles\<close>

text \<open>
  While the lease is renewed in time, nobody else changes the row of the run; the result of the
  work is recorded and the lease is free again when the run ends, however the work ends.
\<close>

subsection \<open>One row of the registry\<close>

lemma row_in: "row_of table run = Some r \<Longrightarrow> r \<in> set table \<and> rw_run_id r = run"
  by (auto simp: row_of_def dest: find_Some_in)

lemma good_row_unique:
  "good_table table \<Longrightarrow> row_of table run = Some r \<Longrightarrow> q \<in> set table \<Longrightarrow> rw_run_id q = run \<Longrightarrow> q = r"
  by (auto simp: good_table_def distinct_map dest: row_in inj_onD)

lemma update_no_row:
  assumes "good_table table" and "row_of table run = Some r" and "\<not> c r"
  shows "sql_update (\<lambda>r. rw_run_id r = run \<and> c r) f table = (table, 0)"
proof -
  have no: "\<not> (rw_run_id q = run \<and> c q)" if "q \<in> set table" for q
    using good_row_unique [OF assms(1,2) that] assms(3) by auto
  then show ?thesis by (auto simp: sql_update_def filter_empty_conv intro!: map_idI)
qed

lemma update_the_row:
  assumes "good_table table" and "row_of table run = Some r" and "c r"
    and "\<And>r. rw_run_id (f r) = rw_run_id r" and "good_lease (rw_owner (f r)) (rw_expires (f r))"
  shows "good_table (fst (sql_update (\<lambda>r. rw_run_id r = run \<and> c r) f table))"
    and "row_of (fst (sql_update (\<lambda>r. rw_run_id r = run \<and> c r) f table)) run = Some (f r)"
    and "snd (sql_update (\<lambda>r. rw_run_id r = run \<and> c r) f table) = 0 \<longleftrightarrow> f r = r"
proof -
  show "good_table (fst (sql_update (\<lambda>r. rw_run_id r = run \<and> c r) f table))"
    by (rule good_table_update) (use assms good_row_unique [OF assms(1,2)] in auto)
  show "row_of (fst (sql_update (\<lambda>r. rw_run_id r = run \<and> c r) f table)) run = Some (f r)"
    using row_of_update [of f _ table run, OF assms(4)] assms(2,3) row_in [OF assms(2)] by simp
  show "snd (sql_update (\<lambda>r. rw_run_id r = run \<and> c r) f table) = 0 \<longleftrightarrow> f r = r"
    using update_one(2) [of table f run c, OF assms(1) assms(4)] assms(2,3) by simp
qed

lemma get_run_row:
  "row_of table run = Some r \<Longrightarrow> row_of table' run = Some (r\<lparr>rw_owner := x, rw_expires := y\<rparr>) \<Longrightarrow>
   sql_get_run table run = Inr q \<Longrightarrow> \<exists>q. sql_get_run table' run = Inr q"
  by (auto simp: sql_get_run_def row_of_def split: option.splits)

subsection \<open>Renewals in time\<close>

text \<open>
  The clock moves on between renewals, each comes before the expiry of the lease and reaches the
  database, and so do the attempts of others.
\<close>

fun timely :: "string \<Rightarrow> int \<Rightarrow> run_event list \<Rightarrow> bool" where
  "timely owner e [] = True"
| "timely owner e (Foreign ev # evs) = (le_owner ev \<notin> {[], owner} \<and> le_time ev < e \<and> timely owner e evs)"
| "timely owner e (Tick now fault # evs) =
     (fault = None \<and> e < now + lease_time \<and> now < e \<and> timely owner (now + lease_time) evs)"

lemma foreign_refused:
  assumes "good_table table" and "row_of table run = Some r" and "rw_owner r = Some owner" and "rw_expires r = Some e"
    and "le_owner ev \<notin> {[], owner}" and "le_time ev < e"
  shows "lease_apply sql_acquire sql_renew_op sql_release sql_set_terminal run ev table = table"
proof -
  note no = update_no_row [OF assms(1,2)]
  show ?thesis
  proof (cases "le_op ev")
    case Acquire
    have "sql_update (\<lambda>r. rw_run_id r = run \<and> (rw_owner r = None \<or> rw_owner r = Some (le_owner ev)
        \<or> (case rw_expires r of None \<Rightarrow> False | Some e \<Rightarrow> e \<le> le_time ev))) f table = (table, 0)" for f
      by (rule no) (use assms(3-6) in auto)
    with Acquire show ?thesis by (simp add: lease_apply_def sql_acquire_def)
  next
    case Renew
    have "sql_update (\<lambda>r. rw_run_id r = run \<and> rw_owner r = Some (le_owner ev)
        \<and> (case rw_expires r of None \<Rightarrow> False | Some e \<Rightarrow> le_time ev < e)) f table = (table, 0)" for f
      by (rule no) (use assms(3-5) in auto)
    with Renew show ?thesis by (simp add: lease_apply_def sql_renew_op_def sql_renew_def)
  next
    case Release
    have "sql_update (\<lambda>r. rw_run_id r = run \<and> rw_owner r = Some (le_owner ev)) f table = (table, 0)" for f
      by (rule no) (use assms(3-5) in auto)
    with Release show ?thesis by (simp add: lease_apply_def sql_release_def)
  next
    case (SetTerminal v)
    have "sql_update (\<lambda>r. rw_run_id r = run \<and> rw_owner r = Some (le_owner ev)) f table = (table, 0)" for f
      by (rule no) (use assms(3-5) in auto)
    with SetTerminal show ?thesis
      by (cases "bindE (get_item v ''status'') status_text") (simp_all add: lease_apply_def sql_set_terminal_def liftW_def)
  qed
qed

lemma renewed:
  assumes "good_table table" and "row_of table run = Some r" and "rw_owner r = Some owner" and "rw_expires r = Some e"
    and "owner \<noteq> []" and "e < now + lease_time" and "now < e" and "sql_get_run table run = Inr q"
  shows "\<exists>table'. renew_tick run owner now None table = (table', None) \<and> good_table table'
     \<and> row_of table' run = Some (r\<lparr>rw_expires := Some (now + lease_time)\<rparr>) \<and> (\<exists>q. sql_get_run table' run = Inr q)"
proof -
  let ?c = "\<lambda>r. rw_owner r = Some owner \<and> (case rw_expires r of None \<Rightarrow> False | Some e \<Rightarrow> now < e)"
  let ?f = "\<lambda>r :: run_row. r\<lparr>rw_expires := Some (now + lease_time)\<rparr>"
  let ?u = "sql_update (\<lambda>r. rw_run_id r = run \<and> ?c r) ?f table"
  have u: "good_table (fst ?u)" "row_of (fst ?u) run = Some (?f r)" "snd ?u = 0 \<longleftrightarrow> ?f r = r"
  proof -
    have c: "?c r" and k: "\<And>r. rw_run_id (?f r) = rw_run_id r" and g: "good_lease (rw_owner (?f r)) (rw_expires (?f r))"
      using assms(3-5,7) by simp_all
    show "good_table (fst ?u)" "row_of (fst ?u) run = Some (?f r)" "snd ?u = 0 \<longleftrightarrow> ?f r = r"
      using update_the_row [of table run r ?c ?f, OF assms(1,2) c k g] by simp_all
  qed
  have "?f r \<noteq> r"
  proof
    assume "?f r = r"
    then have "rw_expires (?f r) = rw_expires r" by (rule arg_cong)
    with assms(4,6) show False by simp
  qed
  moreover obtain q' where "sql_get_run (fst ?u) run = Inr q'"
    using get_run_row [OF assms(2), where x = "rw_owner r" and y = "Some (now + lease_time)" and table' = "fst ?u"] u(2) assms(8)
    by auto
  ultimately show ?thesis
    using u by (auto simp: renew_tick_def sql_renew_def split: prod.split)
qed

lemma while_timely:
  assumes "good_table table" and "row_of table run = Some r" and "rw_owner r = Some owner" and "rw_expires r = Some e"
    and "owner \<noteq> []" and "timely owner e evs" and "sql_get_run table run = Inr q"
  shows "\<exists>table' e'. while_working run owner evs table = (table', None) \<and> good_table table'
     \<and> row_of table' run = Some (r\<lparr>rw_expires := Some e'\<rparr>)"
  using assms
proof (induction owner e evs arbitrary: table r q rule: timely.induct)
  case (1 owner e0)
  then have "r\<lparr>rw_expires := Some e0\<rparr> = r" by simp
  with 1 show ?case by (intro exI [of _ table] exI [of _ e0]) simp
next
  case (2 owner e0 ev evs)
  then have "lease_apply sql_acquire sql_renew_op sql_release sql_set_terminal run ev table = table"
    by (intro foreign_refused) auto
  with 2 show ?case by simp
next
  case (3 owner e0 now fault evs)
  then obtain table1 q1 where t: "renew_tick run owner now None table = (table1, None)" "good_table table1"
    "row_of table1 run = Some (r\<lparr>rw_expires := Some (now + lease_time)\<rparr>)" "sql_get_run table1 run = Inr q1"
    using renewed [of table run r owner e0 now q] by auto
  from 3 have time: "timely owner (now + lease_time) evs" and ow: "owner \<noteq> []" "rw_owner r = Some owner" by simp_all
  from "3.IH" [OF t(2,3) _ _ ow(1) time t(4)] ow(2)
  obtain table' e' where "while_working run owner evs table1 = (table', None)" "good_table table'"
    "row_of table' run = Some (r\<lparr>rw_expires := Some e'\<rparr>)" by auto
  with t(1) 3 show ?case by auto
qed

subsection \<open>The end of a run\<close>

lemma run_work_status:
  "run_work E run_id goal recovery mode conv w = (w', Inr v) \<Longrightarrow> \<exists>st. get_item v ''status'' = Inr (PStr st)"
  by (auto simp: run_work_def closing_def run_result_value_def routed_result_def split: prod.splits sum.splits if_splits elim!: bindW_InrE)

lemma guarded_work_status:
  "guarded_work E run_id goal recovery mode conv w = (w', Inr v) \<Longrightarrow> \<exists>st. get_item v ''status'' = Inr (PStr st)"
  by (auto simp: guarded_work_def closing_def split: prod.splits sum.splits if_splits dest!: run_work_status)

lemma release_frees:
  assumes "good_table table" and "row_of table run = Some r" and "rw_owner r = Some owner" and "owner \<noteq> []"
  shows "row_of (fst (sql_release table run owner)) run = Some (r\<lparr>rw_owner := None, rw_expires := None\<rparr>)
     \<and> good_table (fst (sql_release table run owner))"
  using update_the_row [OF assms(1,2), of "\<lambda>r. rw_owner r = Some owner" "\<lambda>r. r\<lparr>rw_owner := None, rw_expires := None\<rparr>"] assms(3)
  by (simp add: sql_release_def)

lemma result_recorded:
  assumes "good_table table" and "row_of table run = Some r" and "rw_owner r = Some owner" and "rw_expires r = Some e"
    and "owner \<noteq> []" and "rw_status r \<notin> set terminal_statuses" and "get_item v ''status'' = Inr (PStr st)"
  shows "\<exists>table' r'. record_result run owner table (Inr v) = (table', Inr v) \<and> good_table table'
     \<and> row_of table' run = Some r' \<and> rw_owner r' = Some owner
     \<and> r' = (if st \<in> set terminal_statuses then r\<lparr>rw_status := st, rw_terminal := Some (json_ascii True v)\<rparr> else r)"
proof (cases "st \<in> set terminal_statuses")
  case True
  let ?f = "\<lambda>r. r\<lparr>rw_status := st, rw_terminal := Some (json_ascii True v)\<rparr>"
  let ?u = "sql_update (\<lambda>r. rw_run_id r = run \<and> rw_owner r = Some owner) ?f table"
  have u: "good_table (fst ?u)" "row_of (fst ?u) run = Some (?f r)" "snd ?u = 0 \<longleftrightarrow> ?f r = r"
  proof -
    have c: "(\<lambda>r. rw_owner r = Some owner) r" and k: "\<And>r. rw_run_id (?f r) = rw_run_id r"
      and g: "good_lease (rw_owner (?f r)) (rw_expires (?f r))"
      using assms(3-5) by simp_all
    show "good_table (fst ?u)" "row_of (fst ?u) run = Some (?f r)" "snd ?u = 0 \<longleftrightarrow> ?f r = r"
      using update_the_row [of table run r "\<lambda>r. rw_owner r = Some owner" ?f, OF assms(1,2) c k g] by simp_all
  qed
  have "?f r \<noteq> r"
  proof
    assume "?f r = r"
    then have "rw_status (?f r) = rw_status r" by (rule arg_cong)
    with True assms(6) show False by simp
  qed
  with u True assms(3,7) show ?thesis
    by (auto simp: record_result_def liftW_def sql_set_terminal_def status_text_def split: prod.split)
next
  case False
  then have "PStr st \<notin> PStr ` set terminal_statuses" by auto
  with assms False show ?thesis by (auto simp: record_result_def liftW_def)
qed

text \<open>The run ends with the outcome of its work, recorded when terminal, and its lease is free.\<close>

lemma run_leased_settles:
  assumes "good_table table" and "row_of table run_id = Some r" and "rw_owner r = Some (rv_owner E)"
    and "rw_expires r = Some e" and "rv_owner E \<noteq> []" and "rw_status r \<notin> set terminal_statuses"
    and "sql_get_run table run_id = Inr q" and "timely (rv_owner E) e (rv_events E)"
    and "guarded_work E run_id goal recovery mode conv w = (w', res)"
  shows "\<exists>table' r'. run_leased E run_id goal recovery mode conv (table, w) = ((table', w'), res)
     \<and> good_table table' \<and> row_of table' run_id = Some r' \<and> rw_owner r' = None \<and> rw_expires r' = None
     \<and> (\<forall>v st. res = Inr v \<longrightarrow> get_item v ''status'' = Inr (PStr st) \<longrightarrow> st \<in> set terminal_statuses \<longrightarrow>
          rw_status r' = st \<and> rw_terminal r' = Some (json_ascii True v))"
proof -
  from while_timely [OF assms(1-4) assms(5,8,7)] obtain t1 e1
    where t1: "while_working run_id (rv_owner E) (rv_events E) table = (t1, None)" "good_table t1"
      "row_of t1 run_id = Some (r\<lparr>rw_expires := Some e1\<rparr>)" by blast
  have rest: "run_leased E run_id goal recovery mode conv (table, w) =
      ((fst (sql_release (fst (record_result run_id (rv_owner E) t1 res)) run_id (rv_owner E)), w'),
       snd (record_result run_id (rv_owner E) t1 res))"
    using assms(9) t1(1) by (simp add: run_leased_def split: prod.split)
  show ?thesis
  proof (cases res)
    case (Inl x)
    with t1 release_frees [OF t1(2,3)] assms(3,5) rest show ?thesis
      by (simp add: record_result_def liftW_def)
  next
    case (Inr v)
    from guarded_work_status [OF assms(9) [unfolded Inr]] obtain st where st: "get_item v ''status'' = Inr (PStr st)" by blast
    from result_recorded [OF t1(2,3) _ _ assms(5) _ st] assms(3,6) obtain t2 r2
      where t2: "record_result run_id (rv_owner E) t1 (Inr v) = (t2, Inr v)" "good_table t2" "row_of t2 run_id = Some r2"
        "rw_owner r2 = Some (rv_owner E)"
        "r2 = (if st \<in> set terminal_statuses
               then r\<lparr>rw_expires := Some e1, rw_status := st, rw_terminal := Some (json_ascii True v)\<rparr>
               else r\<lparr>rw_expires := Some e1\<rparr>)"
      by auto
    from release_frees [OF t2(2,3,4) assms(5)] t2 rest Inr st show ?thesis by auto
  qed
qed

subsection \<open>From the entry to the lease\<close>

text \<open>A finished run has its result, a mapping, in the registry.\<close>

definition finished_recorded :: "run_row list \<Rightarrow> bool" where
  "finished_recorded table \<longleftrightarrow> (\<forall>r\<in>set table. rw_status r \<in> set terminal_statuses \<longrightarrow>
     (\<exists>t d. rw_terminal r = Some t \<and> json_loads True t = Some (PDict d)))"

lemma get_run_Inr:
  assumes "sql_get_run table run = Inr q"
  obtains r where "row_of table run = Some r" and "ru_status q = rw_status r"
    and "ru_terminal q = (case rw_terminal r of None \<Rightarrow> None | Some t \<Rightarrow> json_loads True t)"
    and "\<And>t. rw_terminal r = Some t \<Longrightarrow> json_loads True t \<noteq> None"
  using assms by (auto simp: sql_get_run_def row_of_def split: option.splits)

lemma created_row:
  assumes "good_table table" and "sql_create table run snap = (table', Inr q)"
  shows "good_table table' \<and> row_of table run = None \<and> sql_get_run table' run = Inr q
     \<and> (\<exists>r. row_of table' run = Some r \<and> rw_status r = ''running'' \<and> rw_owner r = None \<and> rw_expires r = None)
     \<and> sql_lease table' = sql_lease table"
proof -
  let ?r = "\<lparr>rw_run_id = run, rw_thread_id = run, rw_status = ''running'',
               rw_snapshot = json_ascii True snap, rw_fingerprint = configuration_fingerprint snap,
               rw_terminal = None, rw_owner = None, rw_expires = None\<rparr>"
  have new: "run \<notin> rw_run_id ` set table" and t: "table' = table @ [?r]" and q: "sql_get_run table' run = Inr q"
    using assms(2) by (auto simp: sql_create_def Let_def split: if_splits)
  have none: "row_of table run = None" using new by (auto simp: row_of_def find_None_all)
  have row: "row_of table' c = (if c = run then Some ?r else row_of table c)" for c
    using none unfolding t row_of_def find_append by (auto split: option.split)
  have "sql_lease table' = sql_lease table"
    by (rule ext) (simp add: sql_lease_def row none)
  moreover have "good_table table'" using assms(1) new by (auto simp: good_table_def t)
  ultimately show ?thesis using none q row by simp
qed

lemma opened_row:
  assumes "good_table table" and "finished_recorded table" and "open_run table run goal snap = (table', x)"
  shows "sql_lease table' = sql_lease table"
    and "x = Inr None \<Longrightarrow> good_table table' \<and> (\<exists>q r. sql_get_run table' run = Inr q \<and> row_of table' run = Some r
       \<and> rw_status r \<notin> set terminal_statuses
       \<and> pair_lease (rw_owner r) (rw_expires r) = sql_lease table run)"
    and "x = Inr (Some v) \<Longrightarrow> goal = None \<and> (\<exists>q. sql_get_run table run = Inr q \<and> ru_terminal q = Some v)"
proof -
  have cr: "sql_create table run snap = (table', Inl e) \<Longrightarrow> sql_lease table' = sql_lease table" for e
  proof -
    assume c: "sql_create table run snap = (table', Inl e)"
    show ?thesis
    proof (cases "run \<in> rw_run_id ` set table")
      case True
      with c show ?thesis by (simp add: sql_create_def)
    next
      case False
      let ?r = "\<lparr>rw_run_id = run, rw_thread_id = run, rw_status = ''running'',
               rw_snapshot = json_ascii True snap, rw_fingerprint = configuration_fingerprint snap,
               rw_terminal = None, rw_owner = None, rw_expires = None\<rparr>"
      from False c have t: "table' = table @ [?r]" by (auto simp: sql_create_def Let_def)
      have none: "row_of table run = None" using False by (auto simp: row_of_def find_None_all)
      show ?thesis
        by (rule ext) (use none in \<open>auto simp: sql_lease_def row_of_def t find_append split: option.split\<close>)
    qed
  qed
  show l: "sql_lease table' = sql_lease table"
  proof (cases "goal = None")
    case True
    with assms(3) show ?thesis by (cases "sql_ensure_compatible table run snap") (auto simp: open_run_def liftW_def)
  next
    case False
    obtain t y where c: "sql_create table run snap = (t, y)" by (cases "sql_create table run snap")
    with False assms(3) have "t = table'" by (cases y) (auto simp: open_run_def)
    with c cr created_row [OF assms(1)] show ?thesis by (cases y) auto
  qed
  show "good_table table' \<and> (\<exists>q r. sql_get_run table' run = Inr q \<and> row_of table' run = Some r
       \<and> rw_status r \<notin> set terminal_statuses \<and> pair_lease (rw_owner r) (rw_expires r) = sql_lease table run)"
    if "x = Inr None"
  proof (cases "goal = None")
    case True
    with assms(3) that obtain q where q: "sql_get_run table run = Inr q" and t: "table' = table"
      and open': "ru_terminal q = None \<or> ru_status q \<notin> set terminal_statuses \<or> ru_terminal q = Some PNone"
      by (auto simp: open_run_def liftW_def sql_ensure_compatible_def check_fingerprint_def
          split: sum.splits option.splits if_splits elim!: bindE_InrE bindW_InrE)
    from q obtain r where r: "row_of table run = Some r" "ru_status q = rw_status r"
      "ru_terminal q = (case rw_terminal r of None \<Rightarrow> None | Some t \<Rightarrow> json_loads True t)"
      by (rule get_run_Inr)
    have "rw_status r \<notin> set terminal_statuses"
    proof
      assume f: "rw_status r \<in> set terminal_statuses"
      with assms(2) row_in [OF r(1)] obtain t d where "rw_terminal r = Some t" "json_loads True t = Some (PDict d)"
        by (auto simp: finished_recorded_def)
      with r open' f show False by auto
    qed
    with q r t assms(1) show ?thesis by (simp add: sql_lease_def)
  next
    case False
    with assms(3) that obtain q where "sql_create table run snap = (table', Inr q)"
      by (auto simp: open_run_def)
    from created_row [OF assms(1) this] show ?thesis by (auto simp: sql_lease_def terminal_statuses_def)
  qed
  show "goal = None \<and> (\<exists>q. sql_get_run table run = Inr q \<and> ru_terminal q = Some v)" if "x = Inr (Some v)"
    using assms(3) that
    by (auto simp: open_run_def liftW_def sql_ensure_compatible_def check_fingerprint_def
        split: sum.splits option.splits if_splits elim!: bindE_InrE bindW_InrE)
qed

lemma acquired_row:
  assumes "good_table table" and "row_of table run = Some r" and "owner \<noteq> []" and "sql_get_run table run = Inr q"
    and "rw_owner r \<noteq> Some owner" and "sql_acquire table run owner now = (table', x)"
  shows "(\<exists>e. x = Inl e) \<and> sql_lease table' = sql_lease table
     \<or> (\<exists>q'. x = Inr q') \<and> good_table table' \<and> (\<exists>q. sql_get_run table' run = Inr q)
        \<and> row_of table' run = Some (r\<lparr>rw_owner := Some owner, rw_expires := Some (now + lease_time)\<rparr>)
        \<and> (case sql_lease table run of None \<Rightarrow> True | Some (p, e) \<Rightarrow> e \<le> now)"
proof -
  let ?c = "\<lambda>r. rw_owner r = None \<or> rw_owner r = Some owner \<or> (case rw_expires r of None \<Rightarrow> False | Some e \<Rightarrow> e \<le> now)"
  let ?f = "\<lambda>r :: run_row. r\<lparr>rw_owner := Some owner, rw_expires := Some (now + lease_time)\<rparr>"
  let ?u = "sql_update (\<lambda>r. rw_run_id r = run \<and> ?c r) ?f table"
  show ?thesis
  proof (cases "?c r")
    case False
    then have "?u = (table, 0)" by (rule update_no_row [OF assms(1,2)])
    with assms(6) show ?thesis by (auto simp: sql_acquire_def)
  next
    case True
    have u: "good_table (fst ?u)" "row_of (fst ?u) run = Some (?f r)" "snd ?u = 0 \<longleftrightarrow> ?f r = r"
    proof -
      have k: "\<And>r. rw_run_id (?f r) = rw_run_id r" and g: "good_lease (rw_owner (?f r)) (rw_expires (?f r))"
        using assms(3) by simp_all
      show "good_table (fst ?u)" "row_of (fst ?u) run = Some (?f r)" "snd ?u = 0 \<longleftrightarrow> ?f r = r"
        using update_the_row [of table run r ?c ?f, OF assms(1,2) True k g] by simp_all
    qed
    have "?f r \<noteq> r"
    proof
      assume "?f r = r"
      then have "rw_owner (?f r) = rw_owner r" by (rule arg_cong)
      with assms(5) show False by simp
    qed
    moreover obtain q' where q': "sql_get_run (fst ?u) run = Inr q'"
      using get_run_row [OF assms(2) _ assms(4), where table' = "fst ?u"] u(2) by blast
    moreover have "case sql_lease table run of None \<Rightarrow> True | Some (p, e) \<Rightarrow> e \<le> now"
      using row_of_good [OF assms(1,2)] True assms(2,5)
      by (cases rule: good_leaseE) (auto simp: sql_lease_def)
    moreover have "table' = fst ?u \<and> x = (if snd ?u = 0 then Inl (RunBusyError ''run busy'') else sql_get_run (fst ?u) run)"
      using assms(6) by (auto simp: sql_acquire_def split: prod.splits)
    ultimately show ?thesis using u by simp
  qed
qed

text \<open>
  Either the entry does no work and leaves every lease as it was, or it works under the lease.
\<close>

definition run_ended :: "run_row list \<Rightarrow> string \<Rightarrow> pyval result \<Rightarrow> bool" where
  "run_ended table run res \<longleftrightarrow> sql_lease table run = None
     \<and> (\<forall>v st. res = Inr v \<longrightarrow> get_item v ''status'' = Inr (PStr st) \<longrightarrow> st \<in> set terminal_statuses \<longrightarrow>
          (\<exists>r. row_of table run = Some r \<and> rw_status r = st \<and> rw_terminal r = Some (json_ascii True v)))"

lemma run_entry_cases:
  assumes "good_table table" and "finished_recorded table" and "rv_owner E \<noteq> []"
    and "\<forall>r\<in>set table. rw_owner r \<noteq> Some (rv_owner E)" and "timely (rv_owner E) (rv_now E + lease_time) (rv_events E)"
    and "run_entry E ip_ok db url cf tool_cwd layout run_id goal recovery mode conv (table, w) = ((table', w'), res)"
  shows "w' = w \<and> sql_lease table' = sql_lease table
       \<and> (\<forall>v. res = Inr v \<longrightarrow> goal = None \<and> (\<exists>q. sql_get_run table run_id = Inr q \<and> ru_terminal q = Some v))
     \<or> guarded_work E run_id goal recovery mode conv w = (w', res) \<and> run_ended table' run_id res
       \<and> (case sql_lease table run_id of None \<Rightarrow> True | Some (p, e) \<Rightarrow> e \<le> rv_now E)"
proof -
  let ?refused = "w' = w \<and> sql_lease table' = sql_lease table
       \<and> (\<forall>v. res = Inr v \<longrightarrow> goal = None \<and> (\<exists>q. sql_get_run table run_id = Inr q \<and> ru_terminal q = Some v))"
  show ?thesis
  proof (cases "\<exists>c snap u z. cf = Some c \<and> run_snapshot c tool_cwd layout = Inr snap \<and> parse_url ip_ok url = Inr u
      \<and> ensure_schema_initialized db = Inr z")
    case False
    have ?refused
    proof (cases cf)
      case (Some c)
      with assms(6) False show ?thesis
        by (cases "run_snapshot c tool_cwd layout"; cases "parse_url ip_ok url"; cases "ensure_schema_initialized db")
          (auto simp: run_entry_def liftW_def)
    qed (use assms(6) in \<open>auto simp: run_entry_def\<close>)
    then show ?thesis by blast
  next
    case True
    then obtain c snap u z where pre: "cf = Some c" "run_snapshot c tool_cwd layout = Inr snap" "parse_url ip_ok url = Inr u"
      "ensure_schema_initialized db = Inr z" by blast
    obtain t1 x where o: "open_run table run_id goal snap = (t1, x)" by (cases "open_run table run_id goal snap")
    note opened = opened_row [OF assms(1,2) o]
    have go: "run_entry E ip_ok db url cf tool_cwd layout run_id goal recovery mode conv (table, w) =
       (case x of Inl e \<Rightarrow> ((t1, w), Inl e) | Inr (Some v) \<Rightarrow> ((t1, w), Inr v)
        | Inr None \<Rightarrow> (case sql_acquire t1 run_id (rv_owner E) (rv_now E) of
              (table, Inl e) \<Rightarrow> ((table, w), Inl e)
            | (table, Inr _) \<Rightarrow> run_leased E run_id goal recovery mode conv (table, w)))"
      using pre o by (simp add: run_entry_def liftW_def split: sum.split option.split)
    show ?thesis
    proof (cases x)
      case (Inl e)
      with go assms(6) opened(1) show ?thesis by auto
    next
      case (Inr y)
      show ?thesis
      proof (cases y)
        case (Some v)
        with go Inr assms(6) opened(1) opened(3) [of v] show ?thesis by auto
      next
        case None
        with Inr opened(2) obtain q r where row: "good_table t1" "sql_get_run t1 run_id = Inr q" "row_of t1 run_id = Some r"
          "rw_status r \<notin> set terminal_statuses" "pair_lease (rw_owner r) (rw_expires r) = sql_lease table run_id" by blast
        have new: "rw_owner r \<noteq> Some (rv_owner E)"
        proof
          assume o: "rw_owner r = Some (rv_owner E)"
          with row_of_good [OF row(1,3)] obtain e where "rw_expires r = Some e" by (auto simp: good_lease_def)
          with o row(5) have "sql_lease table run_id = Some (rv_owner E, e)" by simp
          with assms(4) show False
            by (auto simp: sql_lease_def pair_lease_def dest!: row_in split: option.splits)
        qed
        obtain t2 z where a: "sql_acquire t1 run_id (rv_owner E) (rv_now E) = (t2, z)"
          by (cases "sql_acquire t1 run_id (rv_owner E) (rv_now E)")
        from acquired_row [OF row(1,3) assms(3) row(2) new a] show ?thesis
        proof
          assume "(\<exists>e. z = Inl e) \<and> sql_lease t2 = sql_lease t1"
          with go Inr None a assms(6) opened(1) show ?thesis by auto
        next
          assume held: "(\<exists>q'. z = Inr q') \<and> good_table t2 \<and> (\<exists>q. sql_get_run t2 run_id = Inr q)
            \<and> row_of t2 run_id = Some (r\<lparr>rw_owner := Some (rv_owner E), rw_expires := Some (rv_now E + lease_time)\<rparr>)
            \<and> (case sql_lease t1 run_id of None \<Rightarrow> True | Some (p, e) \<Rightarrow> e \<le> rv_now E)"
          then obtain q2 where q2: "sql_get_run t2 run_id = Inr q2" by blast
          obtain w2 res2 where g: "guarded_work E run_id goal recovery mode conv w = (w2, res2)"
            by (cases "guarded_work E run_id goal recovery mode conv w")
          from run_leased_settles [of t2 run_id _ E, OF _ _ _ _ assms(3) _ q2 assms(5) g] held row(4)
          obtain t3 r3 where l: "run_leased E run_id goal recovery mode conv (t2, w) = ((t3, w2), res2)"
            "row_of t3 run_id = Some r3" "rw_owner r3 = None" "rw_expires r3 = None"
            "\<forall>v st. res2 = Inr v \<longrightarrow> get_item v ''status'' = Inr (PStr st) \<longrightarrow> st \<in> set terminal_statuses \<longrightarrow>
               rw_status r3 = st \<and> rw_terminal r3 = Some (json_ascii True v)" by auto
          have "run_ended t3 run_id res2" using l by (simp add: run_ended_def sql_lease_def)
          with l(1) g held go Inr None a assms(6) opened(1) show ?thesis by auto
        qed
      qed
    qed
  qed
qed

subsection \<open>A failed renewal\<close>

lemma record_keeps_lease:
  assumes "good_table table" and "owner \<noteq> []"
  shows "sql_lease (fst (record_result run owner table r)) = sql_lease table"
proof (cases r)
  case (Inr v)
  obtain t y where "sql_set_terminal table run owner v = (t, y)" by (cases "sql_set_terminal table run owner v")
  moreover from mysql_registry.terminal_law [OF assms this] have "sql_lease t = sql_lease table" by blast
  ultimately show ?thesis using Inr
    by (cases "get_item v ''status''"; cases y) (auto simp: record_result_def liftW_def)
qed (simp add: record_result_def liftW_def)

text \<open>
  When the renewal task has failed, its error is raised in place of whatever the work answered, and
  the lease is not released.
\<close>

lemma failed_renewal_discards_result:
  assumes "while_working run_id (rv_owner E) (rv_events E) table = (t1, Some e)" and "good_table t1" and "rv_owner E \<noteq> []"
    and "guarded_work E run_id goal recovery mode conv w = (w', res)"
  shows "\<exists>t2. run_leased E run_id goal recovery mode conv (table, w) = ((t2, w'), Inl e) \<and> sql_lease t2 = sql_lease t1"
  using assms record_keeps_lease [OF assms(2,3), of run_id res]
  by (cases "record_result run_id (rv_owner E) t1 res") (simp add: run_leased_def)

subsection \<open>The recorded result\<close>

lemma step_handoff_durable [simp]: "step_handoff (durable_state s) = step_handoff s"
proof -
  have "map_option se_result (List.find (\<lambda>e. se_status e = Completed) (map durable_evidence es))
      = map_option se_result (List.find (\<lambda>e. se_status e = Completed) es)" for es
    by (induction es) (simp_all add: durable_evidence_def)
  from this [of "rev (as_execs s)"] show ?thesis
    by (auto simp: step_handoff_def durable_state_def rev_map split: option.splits)
qed

text \<open>The dictionary of a run gives the answer of the run itself.\<close>

lemma durable_answer_read_back:
  assumes "case rn_state r of None \<Rightarrow> rn_status r \<noteq> ''completed'' | Some s \<Rightarrow> wf_state s"
  shows "durable_answer_of (run_result_value r) = durable_answer r"
proof (cases "rn_status r = ''completed''")
  case True
  with assms obtain s where s: "rn_state r = Some s" "wf_state s" by (auto split: option.splits)
  from deserialize_serialize [OF s(2)] obtain d where "serialize_agent_state s = PDict d"
    by (cases "serialize_agent_state s") (auto simp: deserialize_agent_state_def)
  with s True deserialize_serialize [OF s(2)] show ?thesis
    by (auto simp: durable_answer_of_def run_result_value_def durable_answer_def split: option.split)
qed (simp add: durable_answer_of_def run_result_value_def durable_answer_def)

text \<open>
  The reconciliation of a conversation reads \<open>answer\<close> and \<open>error\<close> of that dictionary, which it does
  not have: the turn of a run that ended elsewhere is settled without the answer of the run.
\<close>

lemma reconciled_turn_without_answer:
  assumes "find_active ts = Some a" and "ct_mode a = ''plan_execute''"
    and "cv_result V = Some (\<lambda>run_id w. (w, Inr (run_result_value r)))"
    and "rn_status r \<in> set [''completed'', ''failed'', ''blocked'']"
  shows "reconcile_active Q V s ts = in_store s (so_update Q (sv_store s)
     (a\<lparr>ct_status := rn_status r, ct_answer := None, ct_error := None\<rparr>))"
  using assms
  by (auto simp: reconcile_active_def in_world_def run_result_value_def ephemeral_modes_def result_text_def text_value_def dict_value_def)

end
