(* ===== verification/Migration_Correct.thy ===== *)
theory Migration_Correct
  imports Migration
begin

section \<open>Migrations are additive, and what they accept\<close>

text \<open>
  A migration only adds tables, columns and its version, and doing it again changes nothing; then
  the accepted server versions, and the reading of URLs with quoted credentials.
\<close>

subsection \<open>The schema\<close>

definition widens :: "database \<Rightarrow> database \<Rightarrow> bool" where
  "widens db db' \<longleftrightarrow> (\<forall>t cs. map_of (db_tables db) t = Some cs \<longrightarrow>
       (\<exists>cs'. map_of (db_tables db') t = Some cs' \<and> set cs \<subseteq> set cs'))
     \<and> set (db_versions db) \<subseteq> set (db_versions db')"

definition columns :: "database \<Rightarrow> string \<Rightarrow> string list" where
  "columns db t = (case map_of (db_tables db) t of None \<Rightarrow> [] | Some cs \<Rightarrow> cs)"

named_theorems widens_intros

lemma widens_refl [widens_intros]: "widens db db"
  by (simp add: widens_def)

lemma widens_trans: "widens a b \<Longrightarrow> widens b c \<Longrightarrow> widens a c"
  unfolding widens_def by (meson subset_trans)

lemma map_of_keys: "fst t \<notin> fst ` set ts \<Longrightarrow> map_of ts k = Some v \<Longrightarrow> map_of (ts @ [t]) k = Some v"
  by (cases t) (auto simp: map_add_def dest: map_of_SomeD)

lemma widens_create [widens_intros]: "widens db (create_table t db)"
  by (auto simp: widens_def create_table_def map_of_keys)

lemma map_of_add: "map_of (db_tables (add_column table column db)) t
   = map_option (\<lambda>cs. if t = table \<and> column \<notin> set cs then cs @ [column] else cs) (map_of (db_tables db) t)"
proof -
  have "map_of (map (\<lambda>(t, cs). (t, f t cs)) ts) t = map_option (f t) (map_of ts t)"
    for f :: "string \<Rightarrow> string list \<Rightarrow> string list" and ts
    by (induction ts) auto
  then show ?thesis by (simp add: add_column_def)
qed

lemma widens_add [widens_intros]: "widens db (add_column table column db)"
  unfolding widens_def map_of_add by (auto simp: add_column_def)

lemma widens_record [widens_intros]: "widens db (record_version v db)"
  by (auto simp: widens_def record_version_def append_unique_def)

lemma widens_fold: "widens db (fold create_table ts db)"
  by (induction ts arbitrary: db) (auto intro: widens_intros widens_trans)

lemma project_migration_widens: "widens db (project_migration db)"
  unfolding project_migration_def
  by (intro widens_trans [OF widens_fold widens_trans [OF widens_add widens_trans [OF widens_fold widens_record]]])

lemma has_table_create: "has_table (create_table u db) t \<longleftrightarrow> t = fst u \<or> has_table db t"
  by (auto simp: has_table_def create_table_def)

lemma has_table_fold: "has_table (fold create_table ts db) t \<longleftrightarrow> t \<in> fst ` set ts \<or> has_table db t"
  by (induction ts arbitrary: db) (auto simp: has_table_create)

lemma has_table_add [simp]: "has_table (add_column table column db) t = has_table db t"
  by (force simp: has_table_def add_column_def image_image case_prod_beta)

lemma has_table_record [simp]: "has_table (record_version v db) t = has_table db t"
  by (simp add: has_table_def record_version_def)

lemma has_table_widens: "widens db db' \<Longrightarrow> has_table db t \<Longrightarrow> has_table db' t"
  unfolding widens_def has_table_def
  by (metis (no_types, lifting) map_of_eq_None_iff not_None_eq)

lemma columns_widens:
  assumes "widens db db'" and "c \<in> set (columns db t)"
  shows "c \<in> set (columns db' t)"
proof (cases "map_of (db_tables db) t")
  case (Some cs)
  with assms(1) obtain cs' where "map_of (db_tables db') t = Some cs'" "set cs \<subseteq> set cs'"
    unfolding widens_def by meson
  with assms(2) Some show ?thesis by (auto simp: columns_def)
qed (use assms(2) in \<open>simp add: columns_def\<close>)

lemma migrated_table: "t \<in> fst ` set project_tables \<Longrightarrow> has_table (project_migration db) t"
  by (auto simp: project_migration_def has_table_create project_tables_def)

lemma evidence_column: "''completion_evidence'' \<in> set (columns (project_migration db) ''step_recovery_attempts'')"
proof -
  let ?a = "fold create_table (take 3 project_tables) db"
  let ?b = "add_column ''step_recovery_attempts'' ''completion_evidence'' ?a"
  have "has_table ?a ''step_recovery_attempts''" by (simp add: has_table_create project_tables_def)
  then have "map_of (db_tables ?a) ''step_recovery_attempts'' \<noteq> None"
    unfolding has_table_def map_of_eq_None_iff by simp
  then have "''completion_evidence'' \<in> set (columns ?b ''step_recovery_attempts'')"
    unfolding columns_def map_of_add by auto
  moreover have "widens ?b (project_migration db)"
    unfolding project_migration_def by (rule widens_trans [OF widens_fold widens_record])
  ultimately show ?thesis by (rule columns_widens [rotated])
qed

text \<open>Doing a migration again changes nothing.\<close>

definition column_everywhere :: "string \<Rightarrow> string \<Rightarrow> database \<Rightarrow> bool" where
  "column_everywhere table column db \<longleftrightarrow> (\<forall>(t, cs)\<in>set (db_tables db). t = table \<longrightarrow> column \<in> set cs)"

lemma create_present: "has_table db (fst t) \<Longrightarrow> create_table t db = db"
  by (simp add: has_table_def create_table_def)

lemma fold_create_present: "(\<And>t. t \<in> set ts \<Longrightarrow> has_table db (fst t)) \<Longrightarrow> fold create_table ts db = db"
  by (induction ts) (simp_all add: create_present)

lemma add_present: "column_everywhere table column db \<Longrightarrow> add_column table column db = db"
  by (cases db) (auto simp: column_everywhere_def add_column_def intro!: map_idI)

lemma everywhere_add: "column_everywhere table column (add_column table column db)"
  by (auto simp: column_everywhere_def add_column_def)

lemma everywhere_create: "column_everywhere table column db \<Longrightarrow> table \<noteq> fst t \<Longrightarrow>
   column_everywhere table column (create_table t db)"
  by (auto simp: column_everywhere_def create_table_def)

lemma everywhere_fold: "column_everywhere table column db \<Longrightarrow> table \<notin> fst ` set ts \<Longrightarrow>
   column_everywhere table column (fold create_table ts db)"
  by (induction ts arbitrary: db) (simp, simp add: everywhere_create)

lemma project_migration_idem: "project_migration (project_migration db) = project_migration db"
proof -
  let ?m = "project_migration db"
  have present: "has_table ?m (fst t)" if "t \<in> set project_tables" for t
    using that by (intro migrated_table) simp
  have "fold create_table (take 3 project_tables) ?m = ?m"
    by (rule fold_create_present) (blast intro: present dest: in_set_takeD)
  moreover have "column_everywhere ''step_recovery_attempts'' ''completion_evidence'' ?m"
  proof -
    have "column_everywhere ''step_recovery_attempts'' ''completion_evidence''
       (fold create_table (drop 3 project_tables)
         (add_column ''step_recovery_attempts'' ''completion_evidence'' (fold create_table (take 3 project_tables) db)))"
      by (rule everywhere_fold [OF everywhere_add]) (simp add: project_tables_def)
    then show ?thesis unfolding project_migration_def by (simp add: column_everywhere_def record_version_def)
  qed
  then have "add_column ''step_recovery_attempts'' ''completion_evidence'' ?m = ?m" by (rule add_present)
  moreover have "fold create_table (drop 3 project_tables) ?m = ?m"
    by (rule fold_create_present) (blast intro: present dest: in_set_dropD)
  moreover have "record_version project_schema_version ?m = ?m"
    by (simp add: project_migration_def record_version_def append_unique_def)
  ultimately show ?thesis by (subst (1) project_migration_def) simp
qed

lemma migrated_version: "project_schema_version \<in> set (db_versions (project_migration db))"
  by (simp add: project_migration_def record_version_def append_unique_def)

text \<open>
  What the set-up of the checkpoint saver is relied on for: it leaves the tables of others alone,
  and when it succeeds its own table of migrations is there.
\<close>

definition saver_sets_up :: "(database \<Rightarrow> database \<times> unit result) \<Rightarrow> bool" where
  "saver_sets_up saver \<longleftrightarrow> (\<forall>db. widens db (fst (saver db))
     \<and> (snd (saver db) = Inr () \<longrightarrow> has_table (fst (saver db)) ''checkpoint_migrations''))"

definition initialized :: "database \<Rightarrow> bool" where
  "initialized db \<longleftrightarrow> ensure_schema_initialized db = Inr ()
     \<and> ''completion_evidence'' \<in> set (columns db ''step_recovery_attempts'')"

lemma migrated_initialized:
  assumes "widens (project_migration db) db'" and "has_table db' ''checkpoint_migrations''"
  shows "initialized db'"
proof -
  have t: "has_table db' t" if "t \<in> fst ` set project_tables" for t
    by (rule has_table_widens [OF assms(1) migrated_table [OF that]])
  have "project_schema_version \<in> set (db_versions db')"
    using assms(1) migrated_version [of db] by (auto simp: widens_def)
  moreover have "''completion_evidence'' \<in> set (columns db' ''step_recovery_attempts'')"
    by (rule columns_widens [OF assms(1) evidence_column])
  ultimately show ?thesis
    using t assms(2) by (simp add: initialized_def ensure_schema_initialized_def project_tables_def)
qed

lemma migrate_outcome:
  assumes "saver_sets_up saver" and "migrate_database ip_ok saver version url db = (db', r)"
  shows "widens db db'"
    and "r = Inr u \<Longrightarrow> initialized db' \<and> (\<exists>v. validate_mysql_version version = Inr v) \<and> (\<exists>c. parse_url ip_ok url = Inr c)"
    and "validate_mysql_version version = Inl e \<Longrightarrow> db' = db \<and> r \<in> range Inl"
proof -
  have saver: "widens x (fst (saver x))" "snd (saver x) = Inr () \<Longrightarrow> has_table (fst (saver x)) ''checkpoint_migrations''" for x
    using assms(1) by (auto simp: saver_sets_up_def)
  note cases = assms(2) [unfolded migrate_database_def liftW_def]
  show "widens db db'"
    using cases saver(1) [of "project_migration db"] widens_trans [OF project_migration_widens]
    by (cases "parse_url ip_ok url"; cases "validate_mysql_version version") (auto intro: widens_refl)
  show "initialized db' \<and> (\<exists>v. validate_mysql_version version = Inr v) \<and> (\<exists>c. parse_url ip_ok url = Inr c)" if "r = Inr u"
    using cases that saver [of "project_migration db"] migrated_initialized [of db db']
    by (cases "parse_url ip_ok url"; cases "validate_mysql_version version") auto
  show "db' = db \<and> r \<in> range Inl" if "validate_mysql_version version = Inl e"
    using cases that by (cases "parse_url ip_ok url") auto
qed

subsection \<open>Server versions\<close>

definition dotted :: "nat \<Rightarrow> nat \<Rightarrow> nat \<Rightarrow> string" where
  "dotted a b c = show_nat a @ ''.'' @ show_nat b @ ''.'' @ show_nat c"

definition no_digit_first :: "string \<Rightarrow> bool" where
  "no_digit_first r \<longleftrightarrow> r = [] \<or> \<not> is_digit (hd r)"

lemma take_digits: "no_digit_first r \<Longrightarrow> takeWhile is_digit (show_nat n @ r) = show_nat n"
  using show_nat_digits [of n] by (cases r) (auto simp: no_digit_first_def takeWhile_append2)

lemma drop_digits: "no_digit_first r \<Longrightarrow> dropWhile is_digit (show_nat n @ r) = r"
  using show_nat_digits [of n] by (cases r) (auto simp: no_digit_first_def dropWhile_append2)

lemma dot_first [simp]: "no_digit_first (CHR ''.'' # r)"
  by (simp add: no_digit_first_def is_digit_def)

lemma digits_dot_show: "digits_dot (show_nat n @ CHR ''.'' # r) = Some (show_nat n, r)"
  by (simp add: digits_dot_def take_digits drop_digits)

lemma version_at_dotted: "no_digit_first r \<Longrightarrow> version_at (dotted a b c @ r) = Some (Version a b c)"
  by (simp add: version_at_def dotted_def digits_dot_show take_digits)

lemma search_dotted: "no_digit_first r \<Longrightarrow> search_version False (dotted a b c @ r) = Some (Version a b c)"
proof -
  assume r: "no_digit_first r"
  obtain d ds where "dotted a b c @ r = d # ds" by (cases "dotted a b c @ r") (auto simp: dotted_def)
  with version_at_dotted [OF r, of a b c] show ?thesis by simp
qed

lemma search_after: "\<forall>d\<in>set p. \<not> is_digit d \<Longrightarrow> no_digit_first r \<Longrightarrow>
   search_version False (p @ dotted a b c @ r) = Some (Version a b c)"
  by (induction p) (auto simp: search_dotted version_at_def digits_dot_def)

text \<open>The supported releases.\<close>

definition supported :: "nat \<Rightarrow> nat \<Rightarrow> nat \<Rightarrow> bool" where
  "supported a b c \<longleftrightarrow> a = 8 \<and> (0 < b \<or> 19 \<le> c) \<or> a = 9 \<and> (b < 5 \<or> b = 5 \<and> c \<le> 99)"

lemma supported_bounds: "supported a b c \<longleftrightarrow> min_mysql_version \<le> Version a b c \<and> Version a b c \<le> max_mysql_version"
  by (auto simp: supported_def min_mysql_version_def max_mysql_version_def)

lemma validate_dotted:
  assumes "raw = p @ dotted a b c @ r" and "\<forall>d\<in>set p. \<not> is_digit d" and "no_digit_first r"
  shows "validate_mysql_version raw =
     (if contains ''mariadb'' (lower raw) \<or> \<not> supported a b c then Inl (unsupported_version raw) else Inr (Version a b c))"
  using search_after [OF assms(2,3), of a b c] assms(1)
  by (simp add: validate_mysql_version_def mysql_version_def supported_bounds)

subsection \<open>URLs with quoted credentials\<close>

definition quote_char :: "char \<Rightarrow> string" where
  "quote_char c = [CHR ''%'', hex_digit (of_char c div 16), hex_digit (of_char c mod 16)]"

definition quote_all :: "string \<Rightarrow> string" where
  "quote_all s = concat (map quote_char s)"

lemma char_halves: "char_of (16 * (of_char c div 16) + of_char c mod 16 :: nat) = (c :: char)"
  by simp

lemma half_bounds: "of_char (c :: char) div 16 < (16 :: nat)" "of_char (c :: char) mod 16 < (16 :: nat)"
  by (rule less_mult_imp_div_less) (use nat_of_char_less_256 [of c] in simp_all)

lemma unquote_quote: "unquote (quote_all s) = s"
proof (induction s)
  case (Cons c s)
  then show ?case
    using char_halves [of c] by (simp add: quote_all_def quote_char_def hex_val_digit half_bounds)
qed (simp add: quote_all_def)

definition host_char :: "char \<Rightarrow> bool" where
  "host_char c \<longleftrightarrow> is_digit c \<or> 97 \<le> (of_char c :: nat) \<and> (of_char c :: nat) \<le> 122 \<or> c \<in> set ''-.''"

definition name_char :: "char \<Rightarrow> bool" where
  "name_char c \<longleftrightarrow> host_char c \<or> is_alpha c \<or> c = CHR ''_''"

definition mysql_url :: "string \<Rightarrow> string \<Rightarrow> string \<Rightarrow> nat \<Rightarrow> string \<Rightarrow> string" where
  "mysql_url user password host port db =
     ''mysql://'' @ quote_all user @ '':'' @ quote_all password @ ''@'' @ host @ '':'' @ show_nat port @ ''/'' @ db"

lemma quote_chars: "c \<in> set (quote_all s) \<Longrightarrow> c = CHR ''%'' \<or> name_char c"
proof -
  have "name_char (hex_digit n)" if "n < 16" for n
    using that by (auto simp: hex_digit_def name_char_def host_char_def is_digit_def)
  then show "c \<in> set (quote_all s) \<Longrightarrow> ?thesis"
    using half_bounds by (fastforce simp: quote_all_def quote_char_def split: if_splits)
qed

text \<open>No separator of a URL, nor a character that is dropped from it.\<close>

definition plain :: "char \<Rightarrow> bool" where
  "plain c \<longleftrightarrow> c \<notin> set [CHR '':'', CHR ''@'', CHR ''['', CHR '']'', CHR ''/'', CHR ''?'', CHR ''#'', CHR 0x09, CHR 0x0A, CHR 0x0D]"

lemma name_char_plain: "name_char c \<Longrightarrow> plain c \<and> c \<noteq> CHR ''%''"
  by (auto simp: plain_def name_char_def host_char_def is_digit_def is_alpha_def Let_def)

lemma host_char_name: "host_char c \<Longrightarrow> name_char c"
  by (simp add: name_char_def)

lemma digit_name: "is_digit c \<Longrightarrow> name_char c"
  by (simp add: name_char_def host_char_def)

lemma partition_first: "c \<notin> set p \<Longrightarrow> partition_at c (p @ c # r) = (p, True, r)"
  by (simp add: partition_at_def takeWhile_append dropWhile_append)

lemma partition_none: "c \<notin> set p \<Longrightarrow> partition_at c p = (p, False, [])"
proof -
  assume "c \<notin> set p"
  then have "takeWhile (\<lambda>x. x \<noteq> c) p = p" "dropWhile (\<lambda>x. x \<noteq> c) p = []"
    by (auto intro!: takeWhile_eq_all_conv [THEN iffD2] dropWhile_eq_Nil_conv [THEN iffD2])
  with \<open>c \<notin> set p\<close> show ?thesis unfolding partition_at_def by (simp only: drop_Nil simp_thms)
qed

lemma rpartition_last: "c \<notin> set r \<Longrightarrow> rpartition_at c (p @ c # r) = (p, True, r)"
proof -
  assume "c \<notin> set r"
  then have "takeWhile (\<lambda>x. x \<noteq> c) (rev r @ c # rev p) = rev r" "dropWhile (\<lambda>x. x \<noteq> c) (rev r @ c # rev p) = c # rev p"
    by (simp_all add: takeWhile_append dropWhile_append; auto)+
  then show ?thesis by (simp add: rpartition_at_def)
qed

lemma plain_quoted: "c \<in> set (quote_all s) \<Longrightarrow> plain c"
proof -
  have "plain CHR ''%''" by (simp add: plain_def)
  then show "c \<in> set (quote_all s) \<Longrightarrow> plain c"
    using quote_chars [of c s] name_char_plain [of c] by blast
qed

lemma plain_digits: "c \<in> set (show_nat n) \<Longrightarrow> plain c"
  using show_nat_digits [of n] digit_name name_char_plain by blast

lemma plain_host: "\<forall>c\<in>set host. host_char c \<Longrightarrow> c \<in> set host \<Longrightarrow> plain c \<and> c \<noteq> CHR ''%''"
  using host_char_name name_char_plain by blast

lemma plain_not: "plain c \<Longrightarrow> c \<noteq> CHR ''/'' \<and> c \<noteq> CHR ''?'' \<and> c \<noteq> CHR ''#''"
  by (auto simp: plain_def)

lemma not_plain: "c \<in> set [CHR '':'', CHR ''@'', CHR ''['', CHR '']'', CHR ''/'', CHR ''?'', CHR ''#''] \<Longrightarrow> \<not> plain c"
  by (auto simp: plain_def)

lemma lower_host: "\<forall>c\<in>set host. host_char c \<Longrightarrow> lower host = host"
proof -
  have "lower_char c = c" if "host_char c" for c
    using that by (auto simp: host_char_def is_digit_def lower_char_def)
  then show "\<forall>c\<in>set host. host_char c \<Longrightarrow> ?thesis" by (simp add: lower_def map_idI)
qed

text \<open>The parts of the authority \<open>user:password@host:port\<close>.\<close>

definition authority :: "string \<Rightarrow> string \<Rightarrow> string \<Rightarrow> nat \<Rightarrow> string" where
  "authority user password host port =
     quote_all user @ '':'' @ quote_all password @ ''@'' @ host @ '':'' @ show_nat port"

lemma authority_chars:
  assumes "\<forall>c\<in>set host. host_char c" and "c \<in> set (authority user password host port)"
  shows "plain c \<or> c = CHR '':'' \<or> c = CHR ''@''"
  using assms(2) plain_quoted plain_digits plain_host [OF assms(1)] unfolding authority_def by auto

lemma address_plain:
  assumes "\<forall>c\<in>set host. host_char c" and "\<not> plain c" and "c \<noteq> CHR '':''"
  shows "c \<notin> set (host @ '':'' @ show_nat port)"
  using assms(2,3) plain_digits plain_host [OF assms(1)] by auto

lemma authority_split:
  assumes "\<forall>c\<in>set host. host_char c"
  shows "rpartition_at CHR ''@'' (authority user password host port)
     = (quote_all user @ '':'' @ quote_all password, True, host @ '':'' @ show_nat port)"
proof -
  have "CHR ''@'' \<notin> set (host @ '':'' @ show_nat port)"
    by (rule address_plain [OF assms]) (simp_all add: not_plain)
  from rpartition_last [OF this, of "quote_all user @ '':'' @ quote_all password"] show ?thesis
    by (simp add: authority_def)
qed

lemma authority_host:
  assumes "\<forall>c\<in>set host. host_char c"
  shows "host_and_port (authority user password host port) = (host, show_nat port)"
proof -
  have "CHR ''['' \<notin> set (host @ '':'' @ show_nat port)"
    by (rule address_plain [OF assms]) (simp_all add: not_plain)
  note bracket = partition_none [OF this]
  have "CHR '':'' \<notin> set host" using plain_host [OF assms] not_plain [of "CHR '':''"] by auto
  from partition_first [OF this, of "show_nat port"] bracket authority_split [OF assms] show ?thesis
    by (simp add: host_and_port_def)
qed

lemma authority_credentials:
  assumes "\<forall>c\<in>set host. host_char c"
  shows "url_user (authority user password host port) = quote_all user"
    and "url_password (authority user password host port) = quote_all password"
proof -
  have "CHR '':'' \<notin> set (quote_all user)" using plain_quoted not_plain [of "CHR '':''"] by auto
  from partition_first [OF this, of "quote_all password"] authority_split [OF assms]
  show "url_user (authority user password host port) = quote_all user"
    and "url_password (authority user password host port) = quote_all password"
    by (simp_all add: url_user_def url_password_def)
qed

lemma parse_url_authority:
  assumes "\<forall>c\<in>set host. host_char c" and "\<forall>c\<in>set db. name_char c"
  shows "urlparse ip_ok (mysql_url user password host port db)
     = Inr \<lparr>ur_scheme = ''mysql'', ur_netloc = authority user password host port, ur_path = CHR ''/'' # db\<rparr>"
proof -
  let ?N = "authority user password host port"
  have url: "mysql_url user password host port db = ''mysql'' @ CHR '':'' # ''//'' @ ?N @ CHR ''/'' # db"
    by (simp add: mysql_url_def authority_def)
  have all: "plain c \<or> c = CHR '':'' \<or> c = CHR ''@''" if "c \<in> set (?N @ db)" for c
    using that authority_chars [OF assms(1)] assms(2) name_char_plain by auto
  have "filter (\<lambda>c. c \<notin> set [CHR 0x09, CHR 0x0A, CHR 0x0D]) s = s" if "\<forall>c\<in>set s. plain c \<or> c \<in> set '':@/''" for s
    using that by (auto simp: filter_id_conv plain_def)
  moreover have "\<forall>c\<in>set (mysql_url user password host port db). plain c \<or> c \<in> set '':@/''"
  proof
    fix c assume "c \<in> set (mysql_url user password host port db)"
    then consider "c \<in> set ''mysql:/''" | "c \<in> set (?N @ db)" unfolding url by auto
    then show "plain c \<or> c \<in> set '':@/''"
    proof cases
      case 1
      then show ?thesis by (auto simp: plain_def)
    next
      case 2
      from all [OF this] show ?thesis by (elim disjE) simp_all
    qed
  qed
  ultimately have stripped: "filter (\<lambda>c. c \<notin> set [CHR 0x09, CHR 0x0A, CHR 0x0D])
      (dropWhile (\<lambda>c. (of_char c :: nat) \<le> 32) (mysql_url user password host port db)) = mysql_url user password host port db"
    unfolding url by simp
  have scheme: "split_scheme (mysql_url user password host port db) = (''mysql'', ''//'' @ ?N @ CHR ''/'' # db)"
    unfolding url split_scheme_def
    by (subst partition_first) (simp_all add: is_alpha_def is_scheme_char_def lower_def lower_char_def)
  have go: "c \<notin> set ''/?#''" if "c \<in> set ?N" for c
    using authority_chars [OF assms(1) that] not_plain [of c] by auto
  have netloc: "takeWhile (\<lambda>c. c \<notin> set ''/?#'') (?N @ CHR ''/'' # db) = ?N"
    "dropWhile (\<lambda>c. c \<notin> set ''/?#'') (?N @ CHR ''/'' # db) = CHR ''/'' # db"
    by (subst takeWhile_append2, use go in simp, simp) (subst dropWhile_append2, use go in simp, simp)
  have brackets: "check_brackets ip_ok ?N = Inr ()"
  proof -
    have "c \<notin> set ?N" if "c \<in> set ''[]''" for c
      using authority_chars [OF assms(1), of c user password port] not_plain [of c] that by auto
    then show ?thesis by (simp add: check_brackets_def)
  qed
  have path: "takeWhile (\<lambda>c. c \<noteq> CHR ''?'' \<and> c \<noteq> CHR ''#'') (CHR ''/'' # db) = CHR ''/'' # db"
  proof -
    have "c \<noteq> CHR ''?'' \<and> c \<noteq> CHR ''#''" if "c \<in> set db" for c
      using assms(2) that name_char_plain plain_not by blast
    then have "\<forall>c\<in>set (CHR ''/'' # db). c \<noteq> CHR ''?'' \<and> c \<noteq> CHR ''#''" by simp
    then show ?thesis by (rule takeWhile_eq_all_conv [THEN iffD2])
  qed
  show ?thesis
    unfolding urlparse_def stripped Let_def scheme using netloc brackets path by simp
qed

text \<open>Credentials may hold any characters once they are quoted.\<close>

lemma parse_url_quoted:
  assumes "host \<noteq> []" and "\<forall>c\<in>set host. host_char c" and "db \<noteq> []" and "\<forall>c\<in>set db. name_char c"
    and "0 < port" and "port \<le> 65535"
  shows "parse_url ip_ok (mysql_url user password host port db)
     = Inr \<lparr>co_host = host, co_port = port, co_user = user, co_password = password, co_db = db\<rparr>"
proof -
  let ?N = "authority user password host port"
  obtain d ds where db: "db = d # ds" using assms(3) by (cases db) blast
  moreover have "plain d" using assms(4) db name_char_plain by simp
  then have "d \<noteq> CHR ''/''" using plain_not by blast
  ultimately have "\<not> (\<forall>c\<in>set (CHR ''/'' # db). c = CHR ''/'')" "dropWhile (\<lambda>c. c = CHR ''/'') (CHR ''/'' # db) = db"
    by simp_all
  moreover have "url_hostname ?N = Some host"
  proof -
    have "\<forall>c\<in>set host. c \<noteq> CHR ''%''" using plain_host [OF assms(2)] by blast
    then have all: "takeWhile (\<lambda>c. c \<noteq> CHR ''%'') host = host" by (rule takeWhile_eq_all_conv [THEN iffD2])
    show ?thesis
      unfolding url_hostname_def authority_host [OF assms(2)] fst_conv Let_def all
      using assms(1) lower_host [OF assms(2)] by simp
  qed
  moreover have "url_port ?N = Inr (Some port)"
    using assms(6) show_nat_digits [of port] by (simp add: url_port_def authority_host [OF assms(2)])
  ultimately show ?thesis
    using assms(5) by (simp add: parse_url_def parse_url_authority [OF assms(2,4)] authority_credentials [OF assms(2)] unquote_quote)
qed

end
