(* ===== verification/Entry_Properties.thy ===== *)
theory Entry_Properties
  imports Run_Entry_Correct Migration_Correct Examples
begin

section \<open>Properties of the configuration, the schema and the entry of a run\<close>

subsection \<open>Configuration\<close>


subsection \<open>Migration\<close>

definition demo_saver :: "database \<Rightarrow> database \<times> unit result" where
  "demo_saver db = (create_table (''checkpoint_migrations'', [''v'']) db, Inr ())"

definition old_database :: database where
  "old_database = \<lparr>db_tables = [(''step_recovery_attempts'', [''record_id'', ''run_id'', ''extra''])], db_versions = [1]\<rparr>"

definition demo_url :: string where
  "demo_url = mysql_url ''agent'' ''p@ss/word'' ''localhost'' 3307 ''agents''"

lemma demo_saver_sets_up: "saver_sets_up demo_saver"
  by (simp add: saver_sets_up_def demo_saver_def widens_create has_table_create)

lemma demo_url_parses: "parse_url ip_ok demo_url
   = Inr \<lparr>co_host = ''localhost'', co_port = 3307, co_user = ''agent'', co_password = ''p@ss/word'', co_db = ''agents''\<rparr>"
  unfolding demo_url_def by (rule parse_url_quoted) (simp_all add: host_char_def name_char_def)

text \<open>
  C23: a migration is additive and its success is what the entry of a run asks for.  It keeps every
  table, column and recorded version; when it answers, the server was supported, the schema check
  passes and the recovery table has its evidence column, however old the schema was; an unsupported
  server leaves the database untouched; and migrating twice is migrating once.
\<close>

theorem migration_initializes:
  assumes "saver_sets_up saver" and "migrate_database ip_ok saver version url db = (db', r)"
  shows "widens db db'
     \<and> (case r of
          Inr _ \<Rightarrow> initialized db' \<and> (\<exists>v. validate_mysql_version version = Inr v)
        | Inl _ \<Rightarrow> True)
     \<and> (case validate_mysql_version version of Inl _ \<Rightarrow> db' = db \<and> r \<in> range Inl | Inr _ \<Rightarrow> True)
     \<and> project_migration (project_migration db) = project_migration db"
  using migrate_outcome [OF assms] project_migration_idem [of db]
  by (cases r; cases "validate_mysql_version version") auto

theorem migration_initializes_witness:
  "initialized (fst (migrate_database (\<lambda>_. False) demo_saver ''8.0.36'' demo_url old_database))
     \<and> set [''record_id'', ''run_id'', ''extra'']
        \<subseteq> set (columns (fst (migrate_database (\<lambda>_. False) demo_saver ''8.0.36'' demo_url old_database)) ''step_recovery_attempts'')"
proof -
  have v: "validate_mysql_version ''8.0.36'' = Inr (Version 8 0 36)" by code_simp
  obtain db' where m: "migrate_database (\<lambda>_. False) demo_saver ''8.0.36'' demo_url old_database = (db', Inr ())"
    by (simp add: migrate_database_def demo_url_parses v liftW_def demo_saver_def)
  from migration_initializes [OF demo_saver_sets_up m] have "initialized db'" "widens old_database db'" by simp_all
  moreover have "columns old_database ''step_recovery_attempts'' = [''record_id'', ''run_id'', ''extra'']"
    by (simp add: columns_def old_database_def)
  ultimately show ?thesis
    using columns_widens [of old_database db' _ "''step_recovery_attempts''"] unfolding m fst_conv by auto
qed

text \<open>
  The supported servers.  A version text whose first number is a dotted release is accepted
  exactly from 8.0.19 on, through all of 8, up to 9.5.99, and never when it names MariaDB.
\<close>

theorem supported_servers:
  assumes "raw = p @ dotted a b c @ r" and "\<forall>d\<in>set p. \<not> is_digit d" and "r = [] \<or> \<not> is_digit (hd r)"
  shows "validate_mysql_version raw =
     (if contains ''mariadb'' (lower raw) \<or> \<not> (a = 8 \<and> (0 < b \<or> 19 \<le> c) \<or> a = 9 \<and> (b < 5 \<or> b = 5 \<and> c \<le> 99))
      then Inl (unsupported_version raw) else Inr (Version a b c))"
  using validate_dotted [OF assms(1,2)] assms(3) by (simp add: no_digit_first_def supported_def)

lemma demo_dotted: "dotted 8 0 19 = ''8.0.19''" "dotted 8 0 18 = ''8.0.18''"
  by code_simp+

theorem supported_servers_witness:
  "validate_mysql_version ''8.0.19-log'' = Inr (Version 8 0 19)
     \<and> validate_mysql_version ''v8.0.18'' = Inl (unsupported_version ''v8.0.18'')"
proof -
  have d: "\<not> is_digit CHR ''-''" "\<not> is_digit CHR ''v''" by (simp_all add: is_digit_def)
  have m: "\<not> contains ''mariadb'' (lower ''8.0.19-log'')" by code_simp
  show ?thesis
    using supported_servers [of "''8.0.19-log''" "[]" 8 0 19 "''-log''"] supported_servers [of "''v8.0.18''" "''v''" 8 0 18 "[]"] d m
    by (simp add: demo_dotted)
qed

text \<open>
  Reading a database URL gives back what was written, whatever characters the credentials
  hold, once they are percent-encoded.
\<close>

theorem quoted_url_round_trip:
  assumes "host \<noteq> []" and "\<forall>c\<in>set host. host_char c" and "db \<noteq> []" and "\<forall>c\<in>set db. name_char c"
    and "0 < port" and "port \<le> 65535"
  shows "parse_url ip_ok (mysql_url user password host port db)
     = Inr \<lparr>co_host = host, co_port = port, co_user = user, co_password = password, co_db = db\<rparr>"
  by (rule parse_url_quoted [OF assms])

theorem quoted_url_round_trip_witness:
  "parse_url (\<lambda>_. False) (mysql_url ''agent'' ''p@ss/word'' ''db-1'' 3307 ''agents'')
     = Inr \<lparr>co_host = ''db-1'', co_port = 3307, co_user = ''agent'', co_password = ''p@ss/word'', co_db = ''agents''\<rparr>"
  by (rule quoted_url_round_trip) (simp_all add: host_char_def name_char_def is_digit_def)

subsection \<open>The entry of a run\<close>

definition one_provider :: provider where
  "one_provider = \<lparr>pv_base_url = ''u'', pv_api_key = ''k'', pv_model_name = ''m'', pv_stream = False\<rparr>"

definition demo_components :: components where
  "demo_components = \<lparr>cf_planner = one_provider, cf_executor = one_provider, cf_task_analyzer = one_provider,
     cf_runtime_context = None, cf_direct = one_provider, cf_tool_agent = one_provider, cf_react = one_provider\<rparr>"

text \<open>A durable run that counts itself and blocks; the lease is renewed once while it works.\<close>

definition demo_run_env :: "nat run_env" where
  "demo_run_env = \<lparr>rv_owner = ''o1'', rv_now = 0,
     rv_events = [Tick 15000000 None, Foreign \<lparr>le_owner = ''o2'', le_time = 61000000, le_op = Acquire\<rparr>],
     rv_durable = (\<lambda>run_id initial recovery conv w. (w + 1, Inr \<lparr>rn_run_id = run_id, rn_status = ''blocked'', rn_state = None\<rparr>)),
     rv_route = (\<lambda>goal w. (w, Inl IndexError)), rv_interrupt = (\<lambda>run_id w. w),
     rv_close = (\<lambda>w. (w, Inr ())), rv_close_analyzer = (\<lambda>w. (w, Inr ()))\<rparr>"

definition blocked_value :: pyval where
  "blocked_value = PDict [(''run_id'', PStr ''r1''), (''status'', PStr ''blocked''), (''state'', PNone)]"

definition demo_snapshot :: pyval where
  "demo_snapshot = (case run_snapshot demo_components ''/w'' ''grouped'' of Inr v \<Rightarrow> v | Inl e \<Rightarrow> PNone)"

lemma demo_snapshot: "run_snapshot demo_components ''/w'' ''grouped'' = Inr demo_snapshot"
  unfolding demo_snapshot_def demo_components_def one_provider_def by code_simp

lemma demo_snapshot_reads: "json_loads True (json_ascii True demo_snapshot) \<noteq> None"
  unfolding demo_snapshot_def demo_components_def one_provider_def by code_simp

definition demo_database :: database where
  "demo_database = fst (demo_saver (project_migration old_database))"

lemma demo_initialized: "ensure_schema_initialized demo_database = Inr ()"
proof -
  have "initialized demo_database"
    unfolding demo_database_def demo_saver_def
    by (rule migrated_initialized [of old_database]) (simp_all add: widens_create has_table_create)
  then show ?thesis by (simp add: initialized_def)
qed

text \<open>
  C17: a run that is entered settles.  With an owner of its own, renewals that come in time and
  whatever other processes try meanwhile, entering a run either does no work at all and leaves
  every lease as it was, answering, if it answers, the recorded result of a finished run that was
  asked for; or no other lease was in force, exactly the work of the run is done under its own, its
  outcome is the answer, a terminal one is recorded, and the lease is free again.
\<close>

theorem entered_run_settles:
  assumes "good_table table" and "finished_recorded table" and "rv_owner E \<noteq> []"
    and "\<forall>r\<in>set table. rw_owner r \<noteq> Some (rv_owner E)" and "timely (rv_owner E) (rv_now E + lease_time) (rv_events E)"
    and "run_entry E ip_ok db url cf tool_cwd layout run_id goal recovery mode conv (table, w) = ((table', w'), res)"
  shows "w' = w \<and> sql_lease table' = sql_lease table
       \<and> (\<forall>v. res = Inr v \<longrightarrow> goal = None \<and> (\<exists>q. sql_get_run table run_id = Inr q \<and> ru_terminal q = Some v))
     \<or> guarded_work E run_id goal recovery mode conv w = (w', res) \<and> run_ended table' run_id res
       \<and> (case sql_lease table run_id of None \<Rightarrow> True | Some (p, e) \<Rightarrow> e \<le> rv_now E)"
  by (rule run_entry_cases [OF assms])

lemma demo_work: "guarded_work demo_run_env ''r1'' (Some ''g'') None (Some ''plan_execute'') conv 0 = (1, Inr blocked_value)"
proof -
  have "mk_agent_state ''g'' [] [] None = Inr \<lparr>as_goal = ''g'', as_plans = [], as_execs = [], as_memory = None\<rparr>"
    by code_simp
  then show ?thesis
    by (simp add: guarded_work_def run_work_def closing_def demo_run_env_def liftW_def run_result_value_def blocked_value_def)
qed

lemma demo_entry_answers:
  "\<exists>table' w'. run_entry demo_run_env (\<lambda>_. False) demo_database demo_url (Some demo_components) ''/w'' ''grouped''
     ''r1'' (Some ''g'') None (Some ''plan_execute'') conv ([], 0) = ((table', w'), Inr blocked_value)"
proof -
  obtain v where v: "json_loads True (json_ascii True demo_snapshot) = Some v" using demo_snapshot_reads by blast
  have env: "rv_owner demo_run_env = ''o1''" "rv_now demo_run_env = 0"
    "rv_events demo_run_env = [Tick 15000000 None, Foreign \<lparr>le_owner = ''o2'', le_time = 61000000, le_op = Acquire\<rparr>]"
    by (simp_all add: demo_run_env_def)
  have status: "get_item blocked_value ''status'' = Inr (PStr ''blocked'')" by (simp add: blocked_value_def)
  have answer: "record_result ''r1'' ''o1'' [\<lparr>rw_run_id = ''r1'', rw_thread_id = ''r1'', rw_status = ''running'',
       rw_snapshot = json_ascii True demo_snapshot, rw_fingerprint = configuration_fingerprint demo_snapshot,
       rw_terminal = None, rw_owner = Some ''o1'', rw_expires = Some e\<rparr>] (Inr blocked_value)
     = ([\<lparr>rw_run_id = ''r1'', rw_thread_id = ''r1'', rw_status = ''blocked'',
       rw_snapshot = json_ascii True demo_snapshot, rw_fingerprint = configuration_fingerprint demo_snapshot,
       rw_terminal = Some (json_ascii True blocked_value), rw_owner = Some ''o1'', rw_expires = Some e\<rparr>], Inr blocked_value)" for e
    by (simp add: record_result_def liftW_def status terminal_statuses_def sql_set_terminal_def sql_update_def status_text_def)
  show ?thesis
    by (simp add: run_entry_def liftW_def demo_snapshot demo_url_parses demo_initialized open_run_def sql_create_def
        sql_get_run_def v sql_acquire_def sql_update_def run_leased_def demo_work env lease_time_def renew_tick_def
        sql_renew_def lease_apply_def answer)
qed

theorem entered_run_settles_witness:
  "\<exists>table' r. run_entry demo_run_env (\<lambda>_. False) demo_database demo_url (Some demo_components) ''/w'' ''grouped''
       ''r1'' (Some ''g'') None (Some ''plan_execute'') None ([], 0) = ((table', 1), Inr blocked_value)
     \<and> sql_lease table' ''r1'' = None \<and> row_of table' ''r1'' = Some r
     \<and> rw_status r = ''blocked'' \<and> rw_terminal r = Some (json_ascii True blocked_value)"
proof -
  obtain table' w' where a: "run_entry demo_run_env (\<lambda>_. False) demo_database demo_url (Some demo_components) ''/w'' ''grouped''
       ''r1'' (Some ''g'') None (Some ''plan_execute'') None ([], 0) = ((table', w'), Inr blocked_value)"
    using demo_entry_answers by blast
  have "timely (rv_owner demo_run_env) (rv_now demo_run_env + lease_time) (rv_events demo_run_env)"
    by (simp add: demo_run_env_def lease_time_def)
  from entered_run_settles [OF _ _ _ _ this a]
  have e: "guarded_work demo_run_env ''r1'' (Some ''g'') None (Some ''plan_execute'') None 0 = (w', Inr blocked_value)"
    and r: "run_ended table' ''r1'' (Inr blocked_value)"
    by (auto simp: good_table_def finished_recorded_def demo_run_env_def)
  have "get_item blocked_value ''status'' = Inr (PStr ''blocked'')" by (simp add: blocked_value_def)
  with r obtain q where "sql_lease table' ''r1'' = None" "row_of table' ''r1'' = Some q"
    "rw_status q = ''blocked''" "rw_terminal q = Some (json_ascii True blocked_value)"
    by (auto simp: run_ended_def terminal_statuses_def)
  moreover have "w' = 1" using e demo_work by simp
  ultimately show ?thesis using a by blast
qed

text \<open>
  The result of a durable run survives the lifecycle.  The dictionary that the entry of a run
  returns and records, read again by the conversation, gives the answer of the run itself.
\<close>

theorem recorded_answer_read_back:
  assumes "case rn_state r of None \<Rightarrow> rn_status r \<noteq> ''completed'' | Some s \<Rightarrow> wf_state s"
  shows "durable_answer_of (run_result_value r) = durable_answer r"
  by (rule durable_answer_read_back [OF assms])

definition demo_run_answer :: run_answer where
  "demo_run_answer = \<lparr>rn_run_id = ''r1'', rn_status = ''completed'', rn_state = Some (demo_state (Some Completed))\<rparr>"

theorem recorded_answer_read_back_witness:
  "durable_answer_of (run_result_value demo_run_answer)
     = failed_answer ''plan-execute run completed without a step handoff''"
proof -
  have "case rn_state demo_run_answer of None \<Rightarrow> rn_status demo_run_answer \<noteq> ''completed'' | Some s \<Rightarrow> wf_state s"
    by (simp add: demo_run_answer_def)
  from recorded_answer_read_back [OF this] show ?thesis
    by (simp add: durable_answer_def demo_run_answer_def demo_state_def demo_exec_def step_handoff_def)
qed

end
