(* ===== verification/Cli.thy ===== *)
theory Cli
  imports Run_Entry Fingerprint
begin

section \<open>The command line\<close>

text \<open>
  \<open>agent/cli.py\<close>: what \<open>main\<close> does with parsed arguments, and the interactive chat.  The parser is
  \<open>argparse\<close>: its outcome is a parameter, the arguments or the message of its error.  A keyboard
  interrupt ends an operation like an exception of its own; every other operation answers a
  result.  Output is the list of printed lines.
\<close>

subsection \<open>Arguments\<close>

record cli_args =
  ca_command :: string
  ca_action :: "string option"
  ca_goal :: "string option"
  ca_run_id :: "string option"
  ca_recovery :: "string option"
  ca_cwd :: "string option"
  ca_log_level :: "string option"
  ca_config :: "string option"
  ca_execution :: "string option"
  ca_layout :: string
  ca_conv_id :: "string option"
  ca_input :: "string option"
  ca_json :: bool

text \<open>The truth of an optional text.\<close>

definition given :: "string option \<Rightarrow> bool" where
  "given x \<longleftrightarrow> or_str x [] \<noteq> []"

definition when_given :: "string option \<Rightarrow> string option" where
  "when_given x = (if given x then x else None)"

definition exit_completed :: int where "exit_completed = 0"
definition exit_blocked :: int where "exit_blocked = 1"
definition exit_busy :: int where "exit_busy = 2"
definition exit_configuration :: int where "exit_configuration = 3"
definition exit_persistence :: int where "exit_persistence = 4"
definition exit_invalid :: int where "exit_invalid = 5"

text \<open>The checks of the arguments, in their order: the message of the first that fails.\<close>

definition conversation_problem :: "cli_args \<Rightarrow> string option" where
  "conversation_problem a =
     (if ca_action a = Some ''run''
         \<and> (\<not> given (ca_input a) \<or> \<not> given (ca_config a) \<or> given (ca_goal a) \<or> given (ca_run_id a) \<or> given (ca_recovery a))
      then Some ''conversation run requires --input and --config''
      else if ca_action a = Some ''resume''
         \<and> (\<not> given (ca_conv_id a) \<or> \<not> given (ca_config a) \<or> given (ca_goal a) \<or> given (ca_run_id a) \<or> given (ca_input a)
            \<or> given (ca_cwd a) \<or> given (ca_log_level a) \<or> given (ca_execution a))
      then Some ''conversation resume requires --conv-id and --config''
      else if ca_action a = Some ''show''
         \<and> (\<not> given (ca_conv_id a) \<or> given (ca_goal a) \<or> given (ca_run_id a) \<or> given (ca_recovery a) \<or> given (ca_config a)
            \<or> given (ca_input a) \<or> given (ca_cwd a) \<or> given (ca_log_level a) \<or> given (ca_execution a))
      then Some ''conversation show requires --conv-id and does not accept run options''
      else if ca_action a = Some ''chat''
         \<and> (\<not> given (ca_config a) \<or> given (ca_goal a) \<or> given (ca_run_id a) \<or> given (ca_input a))
      then Some ''conversation chat requires --config and does not accept --goal, --run-id, or --input''
      else if ca_action a = None then Some ''conversation requires run or show''
      else None)"

definition invocation_problem :: "cli_args \<Rightarrow> string option" where
  "invocation_problem a =
     (if ca_json a \<and> (ca_command a \<noteq> ''conversation'' \<or> ca_action a \<noteq> Some ''chat'')
      then Some ''--json is only supported by conversation chat''
      else if ca_command a = ''run''
         \<and> (\<not> given (ca_goal a) \<or> given (ca_run_id a) \<or> given (ca_recovery a) \<or> \<not> given (ca_config a))
      then Some ''run requires --goal and --config and does not accept --run-id or --recovery''
      else if ca_command a = ''resume''
         \<and> (\<not> given (ca_run_id a) \<or> given (ca_goal a) \<or> \<not> given (ca_config a) \<or> given (ca_execution a))
      then Some ''resume requires --run-id and --config and does not accept --goal''
      else if ca_command a = ''resume'' \<and> \<not> is_uuid4 (or_str (ca_run_id a) [])
      then Some ''resume requires a UUIDv4 --run-id''
      else if ca_command a = ''migrate''
         \<and> (given (ca_goal a) \<or> given (ca_run_id a) \<or> given (ca_recovery a) \<or> given (ca_cwd a) \<or> given (ca_log_level a)
            \<or> given (ca_config a) \<or> given (ca_execution a) \<or> ca_layout a \<noteq> ''grouped'')
      then Some (''migrate does not accept --goal, --run-id, --recovery, --cwd, --log-level, --config, or ''
             @ ''--execution'')
      else if ca_command a = ''conversation'' then conversation_problem a
      else None)"

subsection \<open>Output\<close>

datatype 'a outcome = Ran "'a result" | Interrupted

definition emit :: "(string \<times> pyval) list \<Rightarrow> string" where
  "emit d = json_compact False (PDict d)"

definition failure_line :: "pyval \<Rightarrow> string \<Rightarrow> string \<Rightarrow> string" where
  "failure_line command status error =
     emit [(''command'', command), (''status'', PStr status), (''error'', PStr error)]"

text \<open>\<open>str(exc)\<close>; a \<open>KeyError\<close> shows the representation of its key.\<close>

definition error_text :: "exn \<Rightarrow> string" where
  "error_text e = (case e of KeyError m \<Rightarrow> repr_str m | _ \<Rightarrow> exn_str e)"

text \<open>The handlers of \<open>main\<close>; a cancellation is not an \<open>Exception\<close>.\<close>

definition exit_of_error :: "string \<Rightarrow> exn \<Rightarrow> (string \<times> int) option" where
  "exit_of_error command e =
     (let line = (\<lambda>status. failure_line (PStr command) status (error_text e)) in
      case e of
        MigrationConfigurationError m \<Rightarrow> Some (line ''configuration'', exit_configuration)
      | ConfigurationMismatchError m \<Rightarrow> Some (line ''configuration'', exit_configuration)
      | ConversationBusyError m conv n run_id \<Rightarrow>
          Some (emit [(''command'', PStr command), (''status'', PStr ''busy''), (''error'', PStr (error_text e)),
                  (''conv_id'', PStr conv), (''sequence'', PInt n), (''run_id'', PStr run_id)], exit_busy)
      | RunBusyError m \<Rightarrow> Some (line ''busy'', exit_busy)
      | ConversationNotFoundError m \<Rightarrow> Some (line ''invalid'', exit_invalid)
      | _ \<Rightarrow>
          if is_value_error e then Some (line ''invalid'', exit_invalid)
          else if is_exception e then Some (line ''persistence'', exit_persistence)
          else None)"

text \<open>A result without its state, and its exit code.\<close>

definition exit_of_result :: "(string \<times> pyval) list \<Rightarrow> string \<times> int" where
  "exit_of_result d =
     (let d = filter (\<lambda>(k, v). k \<noteq> ''state'') d
      in (emit d, if dict_value d ''status'' \<in> {PStr ''blocked'', PStr ''failed''} then exit_blocked else exit_completed))"

subsection \<open>The operations behind the commands\<close>

text \<open>
  A run takes a goal, a resume a run id and a recovery, both then the working directory, the log
  level, the mode (a run only) and the layout; an option that is not given has its default there.
  A conversation takes the input, its id, the working directory, the log level, the mode, whether
  it is created, and the layout.
\<close>

record 'w cli_env =
  ce_file :: "string \<Rightarrow> string + pyval"
  ce_url :: "string option"
  ce_migrate :: "'w \<Rightarrow> 'w \<times> unit outcome"
  ce_run :: "components option \<Rightarrow> string \<Rightarrow> string option \<Rightarrow> string option \<Rightarrow> string option \<Rightarrow> string
     \<Rightarrow> 'w \<Rightarrow> 'w \<times> pyval outcome"
  ce_resume :: "components option \<Rightarrow> string \<Rightarrow> string option \<Rightarrow> string option \<Rightarrow> string option \<Rightarrow> string
     \<Rightarrow> 'w \<Rightarrow> 'w \<times> pyval outcome"
  ce_show :: "string \<Rightarrow> 'w \<Rightarrow> 'w \<times> pyval list outcome"
  ce_conv_resume :: "components option \<Rightarrow> string \<Rightarrow> string option \<Rightarrow> string \<Rightarrow> 'w \<Rightarrow> 'w \<times> turn outcome"
  ce_conv_run :: "components option \<Rightarrow> string \<Rightarrow> string option \<Rightarrow> string option \<Rightarrow> string \<Rightarrow> string option \<Rightarrow> bool
     \<Rightarrow> string \<Rightarrow> 'w \<Rightarrow> 'w \<times> turn outcome"
  ce_fresh :: "'w \<Rightarrow> 'w \<times> string"

subsection \<open>Chat\<close>

datatype prompt = Typed string | Ended

text \<open>The dash between a turn and its status, UTF-8.\<close>

definition dash :: string where
  "dash = '' '' @ [CHR 0xE2, CHR 0x80, CHR 0x94] @ '' ''"

definition labelled :: "string \<Rightarrow> string option \<Rightarrow> string list" where
  "labelled label x = (case x of None \<Rightarrow> [] | Some t \<Rightarrow> [label @ t])"

definition chat_result :: "bool \<Rightarrow> turn \<Rightarrow> string list" where
  "chat_result json t =
     (if json then [emit ((''command'', PStr ''conversation'') # result_fields t)]
      else [''Conversation: '' @ ct_conv t, ''Turn '' @ show_int (ct_sequence t) @ '' ('' @ ct_mode t @ '')'' @ dash @ ct_status t]
        @ labelled [] (ct_answer t) @ labelled ''Error: '' (ct_error t))"

text \<open>The entries of a history all have the keys of \<open>turn_public\<close>.\<close>

definition history_field :: "pyval \<Rightarrow> string \<Rightarrow> string" where
  "history_field v k = (case get_item v k of Inr x \<Rightarrow> py_str x | Inl _ \<Rightarrow> [])"

definition history_optional :: "string \<Rightarrow> pyval \<Rightarrow> string \<Rightarrow> string list" where
  "history_optional label v k = (case dict_get v k PNone of Inr x \<Rightarrow> if x = PNone then [] else [label @ py_str x] | Inl _ \<Rightarrow> [])"

definition chat_history :: "bool \<Rightarrow> pyval list \<Rightarrow> string list" where
  "chat_history json history =
     (if history = [] then []
      else if json then [emit [(''command'', PStr ''conversation''), (''history'', PList history)]]
      else ''Conversation history:'' # concat (map (\<lambda>v.
        [''Turn '' @ history_field v ''sequence'' @ '' ('' @ history_field v ''execution_mode'' @ '')'' @ dash
           @ history_field v ''status'', ''User: '' @ history_field v ''user_input'']
        @ history_optional ''Answer: '' v ''answer'' @ history_optional ''Error: '' v ''error'') history))"

definition reconnect_guidance :: "string option \<Rightarrow> string list" where
  "reconnect_guidance conv = labelled ''Reconnect with: agent conversation chat --conv-id '' conv"

text \<open>The loop of a chat over what is typed; the end of the input ends it.\<close>

type_synonym 'w chat_end = "'w \<times> string list \<times> int outcome"

definition chat_over :: "string option \<Rightarrow> 'w \<Rightarrow> 'w chat_end" where
  "chat_over conv w = (w, reconnect_guidance conv, Ran (Inr exit_completed))"

fun printing :: "string list \<Rightarrow> 'w chat_end \<Rightarrow> 'w chat_end" where
  "printing ls (w, out, r) = (w, ls @ out, r)"

fun chat_loop ::
  "'w cli_env \<Rightarrow> components option \<Rightarrow> cli_args \<Rightarrow> string option \<Rightarrow> prompt list \<Rightarrow> 'w \<Rightarrow> 'w chat_end" where
  "chat_loop K cf a conv [] w = chat_over conv w"
| "chat_loop K cf a conv (Ended # ps) w = chat_over conv w"
| "chat_loop K cf a conv (Typed s # ps) w =
     (if s \<in> set [''/exit'', ''/quit''] then chat_over conv w
      else if blank s then chat_loop K cf a conv ps w
      else
        case (case conv of None \<Rightarrow> ce_fresh K w | Some c \<Rightarrow> (w, c)) of (w, c) \<Rightarrow>
        case ce_conv_run K cf s (Some c) (ca_cwd a) (or_str (ca_log_level a) ''info'')
               (when_given (ca_execution a)) (conv = None) (ca_layout a) w of
          (w, Interrupted) \<Rightarrow> chat_over (Some c) w
        | (w, Ran (Inl e)) \<Rightarrow>
            if is_exception e then chat_loop K cf a (Some c) ps w
            else (w, [], Ran (Inl e))
        | (w, Ran (Inr t)) \<Rightarrow>
            printing (chat_result (ca_json a) t) (chat_loop K cf a (Some (ct_conv t)) ps w))"

text \<open>Errors of the first resume that only say that there is nothing to resume.\<close>

definition nothing_to_resume :: "exn \<Rightarrow> bool" where
  "nothing_to_resume e \<longleftrightarrow> (case e of
       ConversationError m \<Rightarrow> m \<in> set [''conversation has no active turn'', ''only a plan_execute turn can be resumed'']
     | _ \<Rightarrow> False)"

definition run_chat :: "'w cli_env \<Rightarrow> components option \<Rightarrow> cli_args \<Rightarrow> prompt list \<Rightarrow> 'w \<Rightarrow> 'w chat_end" where
  "run_chat K cf a ps w =
     (let loop = chat_loop K cf a in
      case ca_conv_id a of
        None \<Rightarrow> loop None ps w
      | Some c \<Rightarrow>
          case ce_show K c w of
            (w, Interrupted) \<Rightarrow> (w, [], Interrupted)
          | (w, Ran (Inl e)) \<Rightarrow> (w, [], Ran (Inl e))
          | (w, Ran (Inr history)) \<Rightarrow>
              printing (chat_history (ca_json a) history)
                (case ce_conv_resume K cf c (ca_recovery a) (ca_layout a) w of
                   (w, Interrupted) \<Rightarrow> chat_over (Some c) w
                 | (w, Ran (Inl e)) \<Rightarrow> if nothing_to_resume e then loop (Some c) ps w else (w, [], Ran (Inl e))
                 | (w, Ran (Inr t)) \<Rightarrow> printing (chat_result (ca_json a) t) (loop (Some (ct_conv t)) ps w)))"

subsection \<open>The commands\<close>

text \<open>The dictionary a command prints.\<close>

definition run_fields :: "string \<Rightarrow> pyval \<Rightarrow> (string \<times> pyval) list result" where
  "run_fields command v = (case as_dict v of
       None \<Rightarrow> Inl (TypeError ''not a mapping'')
     | Some d \<Rightarrow> Inr (dict_update [(''command'', PStr command)] d))"

definition bind_outcome :: "'w \<times> 'a outcome \<Rightarrow> ('w \<Rightarrow> 'a \<Rightarrow> 'w \<times> 'b outcome) \<Rightarrow> 'w \<times> 'b outcome" where
  "bind_outcome r f = (case r of
       (w, Interrupted) \<Rightarrow> (w, Interrupted)
     | (w, Ran (Inl e)) \<Rightarrow> (w, Ran (Inl e))
     | (w, Ran (Inr x)) \<Rightarrow> f w x)"

definition perform :: "'w cli_env \<Rightarrow> components option \<Rightarrow> cli_args \<Rightarrow> 'w \<Rightarrow> 'w \<times> (string \<times> pyval) list outcome" where
  "perform K cf a w =
     (if ca_command a = ''migrate''
      then bind_outcome (ce_migrate K w) (\<lambda>w _.
        (w, Ran (Inr [(''command'', PStr ''migrate''), (''status'', PStr ''completed'')])))
      else if ca_command a = ''run''
      then bind_outcome (ce_run K cf (or_str (ca_goal a) []) (when_given (ca_cwd a)) (when_given (ca_log_level a))
             (when_given (ca_execution a)) (ca_layout a) w) (\<lambda>w v.
        bind_outcome (w, Ran (run_fields ''run'' v)) (\<lambda>w d.
        case ce_fresh K w of (w, fresh) \<Rightarrow>
          (w, Ran (Inr (if ''run_id'' \<in> fst ` set d then d else d @ [(''run_id'', PStr fresh)])))))
      else if ca_command a = ''resume''
      then bind_outcome (ce_resume K cf (or_str (ca_run_id a) []) (when_given (ca_recovery a)) (when_given (ca_cwd a))
             (when_given (ca_log_level a)) (ca_layout a) w) (\<lambda>w v. (w, Ran (run_fields ''resume'' v)))
      else if ca_action a = Some ''run''
      then bind_outcome (ce_conv_run K cf (or_str (ca_input a) []) (ca_conv_id a) (ca_cwd a)
             (or_str (ca_log_level a) ''info'') (when_given (ca_execution a)) False (ca_layout a) w) (\<lambda>w t.
        (w, Ran (Inr ((''command'', PStr ''conversation'') # result_fields t))))
      else if ca_action a = Some ''resume''
      then bind_outcome (ce_conv_resume K cf (or_str (ca_conv_id a) []) (ca_recovery a) (ca_layout a) w) (\<lambda>w t.
        (w, Ran (Inr ((''command'', PStr ''conversation'') # result_fields t))))
      else bind_outcome (ce_show K (or_str (ca_conv_id a) []) w) (\<lambda>w history.
        (w, Ran (Inr [(''command'', PStr ''conversation''), (''conv_id'', opt_str (ca_conv_id a)),
           (''history'', PList history)]))))"

text \<open>What \<open>main\<close> makes of the end of a command.\<close>

fun conclude :: "string \<Rightarrow> 'w chat_end \<Rightarrow> 'w chat_end" where
  "conclude command (w, out, Ran (Inl e)) = (case exit_of_error command e of
       None \<Rightarrow> (w, out, Ran (Inl e))
     | Some (line, code) \<Rightarrow> (w, out @ [line], Ran (Inr code)))"
| "conclude command r = r"

definition main :: "'w cli_env \<Rightarrow> string + cli_args \<Rightarrow> prompt list \<Rightarrow> 'w \<Rightarrow> 'w chat_end" where
  "main K parsed ps w = (case parsed of
       Inl message \<Rightarrow> (w, [failure_line PNone ''invalid'' message], Ran (Inr exit_invalid))
     | Inr a \<Rightarrow>
       (case invocation_problem a of
          Some message \<Rightarrow> (w, [failure_line (PStr (ca_command a)) ''invalid'' message], Ran (Inr exit_invalid))
        | None \<Rightarrow>
          (case (if given (ca_config a)
                 then bindE (load_configuration (ce_file K (or_str (ca_config a) []))) (\<lambda>c. Inr (Some c))
                 else Inr None) of
             Inl e \<Rightarrow> (w, [failure_line (PStr (ca_command a)) ''configuration'' (exn_str e)], Ran (Inr exit_configuration))
           | Inr cf \<Rightarrow>
             if \<not> given (ce_url K)
             then (w, [failure_line (PStr (ca_command a)) ''configuration'' ''CODEX_MYSQL_URL is required''],
                   Ran (Inr exit_configuration))
             else conclude (ca_command a)
               (if ca_command a = ''conversation'' \<and> ca_action a = Some ''chat'' then run_chat K cf a ps w
                else (case perform K cf a w of
                  (w, Interrupted) \<Rightarrow> (w, [], Interrupted)
                | (w, Ran (Inl e)) \<Rightarrow> (w, [], Ran (Inl e))
                | (w, Ran (Inr d)) \<Rightarrow> (case exit_of_result d of (line, code) \<Rightarrow> (w, [line], Ran (Inr code))))))))"

subsection \<open>The conversations behind the commands\<close>

text \<open>
  The commands wired to the conversation tables; everything else acts on the rest of the world.
  A cancelled operation is a keyboard interrupt to the caller when \<open>asyncio.run\<close> itself saw the
  signal.
\<close>

definition ended :: "('w \<Rightarrow> bool) \<Rightarrow> (conversation_tables \<times> 'w) \<times> 'a result \<Rightarrow> (conversation_tables \<times> 'w) \<times> 'a outcome" where
  "ended sigint r = (case r of (s, x) \<Rightarrow> (s, if x = Inl CancelledError \<and> sigint (snd s) then Interrupted else Ran x))"

definition on_world :: "('w \<Rightarrow> 'w \<times> 'a) \<Rightarrow> conversation_tables \<times> 'w \<Rightarrow> (conversation_tables \<times> 'w) \<times> 'a" where
  "on_world f s = (case f (snd s) of (w, x) \<Rightarrow> ((fst s, w), x))"

definition conversation_cli ::
  "'w cli_env \<Rightarrow> unit result \<Rightarrow> (components option \<Rightarrow> string option \<Rightarrow> string \<Rightarrow> string \<Rightarrow> 'w service_env) \<Rightarrow> ('w \<Rightarrow> bool)
     \<Rightarrow> (conversation_tables \<times> 'w) cli_env" where
  "conversation_cli K schema V sigint =
     \<lparr>ce_file = ce_file K, ce_url = ce_url K,
      ce_migrate = on_world (ce_migrate K),
      ce_run = (\<lambda>cf goal cwd level mode layout. on_world (ce_run K cf goal cwd level mode layout)),
      ce_resume = (\<lambda>cf run_id recovery cwd level layout. on_world (ce_resume K cf run_id recovery cwd level layout)),
      ce_show = (\<lambda>conv s. ended sigint (show_mysql_conversation schema conv s)),
      ce_conv_resume = (\<lambda>cf conv recovery layout s.
        ended sigint (resume_mysql_conversation schema (V cf None ''info'' layout) conv recovery s)),
      ce_conv_run = (\<lambda>cf input conv cwd level mode create layout s.
        ended sigint (run_mysql_conversation schema (V cf cwd level layout) input conv mode create layout s)),
      ce_fresh = on_world (ce_fresh K)\<rparr>"

end
