(* ===== verification/Cli_Correct.thy ===== *)
theory Cli_Correct
  imports Cli Conversation_Stores
begin

section \<open>The command line always answers, and keeps conversations\<close>

subsection \<open>Exit codes and lines\<close>

definition exit_codes :: "int set" where
  "exit_codes = {exit_completed, exit_blocked, exit_busy, exit_configuration, exit_persistence, exit_invalid}"

lemmas exit_defs = exit_completed_def exit_blocked_def exit_busy_def exit_configuration_def exit_persistence_def exit_invalid_def

lemma exit_of_error_some: "is_exception e \<Longrightarrow> \<exists>line code. exit_of_error command e = Some (line, code) \<and> code \<in> exit_codes"
  by (cases e) (auto simp: exit_of_error_def exit_codes_def Let_def)

lemma exit_of_error_code: "exit_of_error command e = Some (line, code) \<Longrightarrow> code \<in> exit_codes"
  by (cases e) (auto simp: exit_of_error_def exit_codes_def Let_def split: if_splits)

lemma exit_of_error_none: "exit_of_error command e = None \<Longrightarrow> e = CancelledError"
  using exit_of_error_some [of e command] by (auto simp: is_exception_def)

text \<open>How a command may end: with a code, or with what is no \<open>Exception\<close>.\<close>

definition settled_end :: "'w chat_end \<Rightarrow> bool" where
  "settled_end r \<longleftrightarrow> (case r of (w, out, x) \<Rightarrow> (case x of
       Interrupted \<Rightarrow> True
     | Ran (Inl e) \<Rightarrow> e = CancelledError
     | Ran (Inr code) \<Rightarrow> code \<in> exit_codes))"

lemma conclude_settled:
  assumes "\<And>w out code. r = (w, out, Ran (Inr code)) \<Longrightarrow> code \<in> exit_codes"
  shows "settled_end (conclude command r)"
proof -
  obtain w out x where r: "r = (w, out, x)" by (cases r)
  show ?thesis
  proof (cases x)
    case (Ran y)
    with assms r show ?thesis
      by (cases y) (auto simp: settled_end_def dest: exit_of_error_code exit_of_error_none split: option.split)
  qed (simp add: r settled_end_def)
qed

lemma printing_parts [simp]: "fst (printing ls r) = fst r" "fst (snd (printing ls r)) = ls @ fst (snd r)" "snd (snd (printing ls r)) = snd (snd r)"
  by (cases r; simp)+

text \<open>A chat ends completed, interrupted, or with an error of its first operations.\<close>

definition chat_code :: "'w chat_end \<Rightarrow> bool" where
  "chat_code r \<longleftrightarrow> (\<forall>code. snd (snd r) = Ran (Inr code) \<longrightarrow> code = exit_completed)"

lemma chat_over_code [simp]: "chat_code (chat_over conv w)"
  by (simp add: chat_code_def chat_over_def)

lemma chat_code_printing [simp]: "chat_code (printing ls r) = chat_code r"
  by (simp add: chat_code_def)

lemma chat_code_ended [simp]: "chat_code (w, out, Ran (Inl e))" "chat_code (w, out, Interrupted)"
  by (simp_all add: chat_code_def)

lemma chat_loop_code: "chat_code (chat_loop K cf a conv ps w)"
proof (induction K cf a conv ps w rule: chat_loop.induct)
  case (3 K cf a conv s ps w)
  then show ?case by (auto split: option.split prod.split outcome.split sum.split)
qed simp_all

lemma run_chat_code: "chat_code (run_chat K cf a ps w)"
  unfolding run_chat_def Let_def
  by (auto simp: chat_loop_code split: option.split prod.split outcome.split sum.split)

text \<open>Whether the arguments, the configuration and the environment let a command be performed.\<close>

definition runs_command :: "'w cli_env \<Rightarrow> cli_args \<Rightarrow> bool" where
  "runs_command K a \<longleftrightarrow> invocation_problem a = None
     \<and> (\<not> given (ca_config a) \<or> (\<exists>c. load_configuration (ce_file K (or_str (ca_config a) [])) = Inr c))
     \<and> given (ce_url K)"

definition chat_command :: "cli_args \<Rightarrow> bool" where
  "chat_command a \<longleftrightarrow> ca_command a = ''conversation'' \<and> ca_action a = Some ''chat''"

definition command_end :: "'w cli_env \<Rightarrow> components option \<Rightarrow> cli_args \<Rightarrow> prompt list \<Rightarrow> 'w \<Rightarrow> 'w chat_end" where
  "command_end K cf a ps w =
     (if chat_command a then run_chat K cf a ps w
      else (case perform K cf a w of
        (w, Interrupted) \<Rightarrow> (w, [], Interrupted)
      | (w, Ran (Inl e)) \<Rightarrow> (w, [], Ran (Inl e))
      | (w, Ran (Inr d)) \<Rightarrow> (case exit_of_result d of (line, code) \<Rightarrow> (w, [line], Ran (Inr code)))))"

lemma main_runs:
  assumes "runs_command K a"
  obtains cf where "main K (Inr a) ps w = conclude (ca_command a) (command_end K cf a ps w)"
  using assms unfolding runs_command_def main_def command_end_def chat_command_def
  by (cases "given (ca_config a)") auto

lemma main_refuses:
  assumes "\<not> runs_command K a"
  shows "\<exists>line code. main K (Inr a) ps w = (w, [line], Ran (Inr code)) \<and> code \<in> {exit_invalid, exit_configuration}"
  using assms unfolding runs_command_def main_def
  by (cases "load_configuration (ce_file K (or_str (ca_config a) []))") (auto split: option.split)

lemma command_end_code: "snd (snd (command_end K cf a ps w)) = Ran (Inr code) \<Longrightarrow> code \<in> exit_codes"
  using run_chat_code [of K cf a ps w]
  by (auto simp: command_end_def chat_code_def exit_codes_def exit_of_result_def Let_def
      split: if_splits prod.splits outcome.splits sum.splits)

lemma main_settled: "settled_end (main K parsed ps w)"
proof (cases parsed)
  case (Inl m)
  then show ?thesis by (simp add: main_def settled_end_def exit_codes_def)
next
  case (Inr a)
  show ?thesis
  proof (cases "runs_command K a")
    case True
    then obtain cf where m: "main K (Inr a) ps w = conclude (ca_command a) (command_end K cf a ps w)" by (rule main_runs)
    show ?thesis unfolding Inr m by (rule conclude_settled) (metis command_end_code snd_conv)
  next
    case False
    from main_refuses [OF this, of ps w] Inr show ?thesis by (auto simp: settled_end_def exit_codes_def)
  qed
qed

text \<open>Every command but a chat that ends with a code has printed one line.\<close>

lemma conclude_one_line:
  assumes "conclude command (w, out, x) = (w', out', Ran (Inr code))"
    and "\<And>code. x = Ran (Inr code) \<Longrightarrow> length out = 1" and "\<And>e. x = Ran (Inl e) \<Longrightarrow> out = []"
  shows "length out' = 1"
proof (cases x)
  case (Ran y)
  with assms show ?thesis by (cases y) (auto split: option.splits)
qed (use assms(1) in simp)

lemma main_one_line:
  assumes "main K (Inr a) ps w = (w', out, Ran (Inr code))" and "\<not> chat_command a"
  shows "length out = 1"
proof (cases "runs_command K a")
  case True
  then obtain cf where m: "main K (Inr a) ps w = conclude (ca_command a) (command_end K cf a ps w)" by (rule main_runs)
  obtain w1 o1 x where c: "command_end K cf a ps w = (w1, o1, x)" by (cases "command_end K cf a ps w")
  with assms(2) have "x = Ran (Inr code) \<Longrightarrow> length o1 = 1" "x = Ran (Inl e) \<Longrightarrow> o1 = []" for code e
    by (auto simp: command_end_def split: prod.splits outcome.splits sum.splits)
  with assms(1) show ?thesis unfolding m c by (rule conclude_one_line)
next
  case False
  from main_refuses [OF this, of ps w] assms(1) show ?thesis by auto
qed

subsection \<open>Conversations through the command line\<close>

text \<open>What an operation wired to the tables may do to them.\<close>

type_synonym 'w state = "conversation_tables \<times> 'w"

definition keeps_turns :: "'w state \<Rightarrow> 'w state \<Rightarrow> bool" where
  "keeps_turns s s' \<longleftrightarrow> (sound_store table_turns sql_good (fst s) \<longrightarrow>
     sound_store table_turns sql_good (fst s') \<and> turns_kept table_turns (fst s) (fst s'))"

lemma keeps_same: "fst s' = fst s \<Longrightarrow> keeps_turns s s'"
  by (simp add: keeps_turns_def)

lemma keeps_trans: "keeps_turns s s' \<Longrightarrow> keeps_turns s' s'' \<Longrightarrow> keeps_turns s s''"
  unfolding keeps_turns_def by (meson turns_kept_trans)

lemma keeps_with_service:
  assumes "\<And>sv. serves table_turns sql_good sv (act sv)"
  shows "keeps_turns s (fst (with_service schema act s))"
proof (cases schema)
  case (Inr u)
  let ?sv = "\<lparr>sv_store = fst s, sv_ephemeral = [], sv_world = snd s\<rparr>"
  from assms [of ?sv] Inr show ?thesis
    by (cases "act ?sv") (simp add: with_service_def keeps_turns_def serves_def)
qed (simp add: with_service_def keeps_turns_def)

lemma keeps_ended: "keeps_turns s (fst r) \<Longrightarrow> keeps_turns s (fst (ended sigint r))"
  by (cases r) (simp add: ended_def)

lemma keeps_on_world: "keeps_turns s (fst (on_world f s))"
  by (cases "f (snd s)") (simp add: on_world_def keeps_same)

lemma keeps_run: "keeps_turns s (fst (run_mysql_conversation schema V user_input conv mode create layout s))"
  unfolding run_mysql_conversation_def by (rule keeps_with_service [OF sql.service_run_serves])

lemma keeps_resume: "keeps_turns s (fst (resume_mysql_conversation schema V conv recovery s))"
  unfolding resume_mysql_conversation_def by (rule keeps_with_service [OF sql.service_resume_serves])

lemma keeps_show: "keeps_turns s (fst (show_mysql_conversation schema conv s))"
proof -
  have "fst (fst (show_mysql_conversation schema conv s)) = fst s"
    by (cases "validate_uuid4 conv"; cases schema; cases "so_get mysql_ops (fst s) conv")
      (simp_all add: show_mysql_conversation_def with_service_def service_show_def liftW_def)
  then show ?thesis by (rule keeps_same)
qed

text \<open>Operations behind the commands that keep a relation of the world before and after.\<close>

locale kept_operations =
  fixes K :: "'w cli_env" and R :: "'w \<Rightarrow> 'w \<Rightarrow> bool"
  assumes same: "R w w"
    and trans: "R w w' \<Longrightarrow> R w' w'' \<Longrightarrow> R w w''"
    and migrate_keeps: "R w (fst (ce_migrate K w))"
    and run_keeps: "R w (fst (ce_run K cf goal cwd level mode layout w))"
    and resume_keeps: "R w (fst (ce_resume K cf run_id recovery cwd level layout w))"
    and show_keeps: "R w (fst (ce_show K conv w))"
    and conv_resume_keeps: "R w (fst (ce_conv_resume K cf conv recovery layout w))"
    and conv_run_keeps: "R w (fst (ce_conv_run K cf user_input conv' cwd level' mode create layout w))"
    and fresh_keeps: "R w (fst (ce_fresh K w))"
begin

lemma chat_over_keeps: "R w (fst (chat_over conv w))"
  by (simp add: chat_over_def same)

lemma chat_loop_keeps: "R w (fst (chat_loop K cf a conv ps w))"
proof (induction ps arbitrary: conv w)
  case Nil
  show ?case by (simp add: chat_over_keeps)
next
  case (Cons p ps)
  show ?case
  proof (cases p)
    case (Typed s)
    obtain w1 c where f: "(case conv of None \<Rightarrow> ce_fresh K w | Some c \<Rightarrow> (w, c)) = (w1, c)"
      by (cases "case conv of None \<Rightarrow> ce_fresh K w | Some c \<Rightarrow> (w, c)")
    have w1: "R w w1" using f fresh_keeps [of w] same [of w] by (cases conv) auto
    obtain w2 x where r: "ce_conv_run K cf s (Some c) (ca_cwd a) (or_str (ca_log_level a) ''info'')
        (when_given (ca_execution a)) (conv = None) (ca_layout a) w1 = (w2, x)"
      by (cases "ce_conv_run K cf s (Some c) (ca_cwd a) (or_str (ca_log_level a) ''info'')
        (when_given (ca_execution a)) (conv = None) (ca_layout a) w1")
    have w2: "R w w2" using trans [OF w1] conv_run_keeps [of w1] r by (metis fst_conv)
    have go: "R w (fst (chat_loop K cf a conv' ps w2))" for conv' by (rule trans [OF w2 Cons])
    have "R w (fst (chat_over (Some c) w2))" by (rule trans [OF w2 chat_over_keeps])
    with Typed f r w2 go Cons chat_over_keeps show ?thesis
      by (cases x) (auto split: sum.split)
  qed (simp add: chat_over_keeps)
qed

lemma run_chat_keeps: "R w (fst (run_chat K cf a ps w))"
proof (cases "ca_conv_id a")
  case None
  then show ?thesis by (simp add: run_chat_def chat_loop_keeps)
next
  case (Some c)
  obtain w1 x where h: "ce_show K c w = (w1, x)" by (cases "ce_show K c w")
  have w1: "R w w1" using show_keeps [of w c] h by simp
  obtain w2 y where r: "ce_conv_resume K cf c (ca_recovery a) (ca_layout a) w1 = (w2, y)"
    by (cases "ce_conv_resume K cf c (ca_recovery a) (ca_layout a) w1")
  have w2: "R w w2" using trans [OF w1] conv_resume_keeps [of w1] r by (metis fst_conv)
  have go: "R w (fst (chat_loop K cf a conv' ps w2))" for conv' by (rule trans [OF w2 chat_loop_keeps])
  have "R w (fst (chat_over (Some c) w2))" by (rule trans [OF w2 chat_over_keeps])
  with Some h r w1 w2 go show ?thesis
    by (auto simp: run_chat_def Let_def split: outcome.split sum.split)
qed

lemma bind_outcome_keeps: "R w (fst r) \<Longrightarrow> (\<And>w' x. R w w' \<Longrightarrow> R w (fst (f w' x))) \<Longrightarrow> R w (fst (bind_outcome r f))"
  by (cases r) (auto simp: bind_outcome_def split: outcome.split sum.split)

lemma fresh_after: "R w w' \<Longrightarrow> ce_fresh K w' = (w'', x) \<Longrightarrow> R w w''"
  using trans [of w w' w''] fresh_keeps [of w'] by simp

lemma perform_keeps: "R w (fst (perform K cf a w))"
  unfolding perform_def
  by (auto intro!: bind_outcome_keeps migrate_keeps run_keeps resume_keeps show_keeps conv_resume_keeps conv_run_keeps
      intro: fresh_after split: prod.split)

lemma main_keeps: "R w (fst (main K parsed ps w))"
proof (cases parsed)
  case (Inr a)
  have c: "fst (conclude command r) = fst r" for command and r :: "'w chat_end"
    by (cases "(command, r)" rule: conclude.cases) (auto split: option.split)
  show ?thesis
  proof (cases "runs_command K a")
    case True
    then obtain cf where m: "main K (Inr a) ps w = conclude (ca_command a) (command_end K cf a ps w)" by (rule main_runs)
    have "R w (fst (command_end K cf a ps w))"
      using run_chat_keeps [of w cf a ps] perform_keeps [of w cf a]
      by (auto simp: command_end_def split: prod.split outcome.split sum.split)
    then show ?thesis by (simp add: Inr m c)
  next
    case False
    from main_refuses [OF this, of ps w] Inr same [of w] show ?thesis by auto
  qed
qed (simp add: main_def same)

end

interpretation conv_cli: kept_operations "conversation_cli K schema V sigint" keeps_turns for K schema V sigint
  by unfold_locales
    (auto simp: conversation_cli_def keeps_same keeps_ended keeps_on_world keeps_run keeps_resume keeps_show intro: keeps_trans)

subsection \<open>A chat whose first turn failed\<close>

text \<open>
  The chat has made up the id of its conversation before the turn that creates it, and keeps it when
  that turn fails: every later input goes to a conversation that does not exist.
\<close>

lemma unknown_conversation_run:
  assumes "table_turns (fst s) c = None"
  shows "\<exists>e. run_mysql_conversation (Inr ()) V user_input (Some c) mode False layout s = (s, Inl e) \<and> e \<noteq> CancelledError"
proof -
  have "so_get mysql_ops (fst s) c = Inl (unknown_conversation c)"
    using assms by (auto simp: mysql_ops_def sql_conversation_def table_turns_def split: if_splits)
  then show ?thesis
    by (cases s) (auto simp: run_mysql_conversation_def with_service_def service_run_def open_conversation_def
        validate_uuid4_def liftW_def unknown_conversation_def)
qed

lemma chat_stuck:
  assumes "table_turns (fst s) c = None"
  shows "chat_loop (conversation_cli K (Inr ()) V sigint) cf a (Some c) ps s
     = (s, reconnect_guidance (Some c), Ran (Inr exit_completed))"
proof (induction ps)
  case Nil
  show ?case by (simp add: chat_over_def)
next
  case (Cons p ps)
  show ?case
  proof (cases p)
    case (Typed t)
    from unknown_conversation_run [OF assms, of "V cf (ca_cwd a) (or_str (ca_log_level a) ''info'') (ca_layout a)" t
        "when_given (ca_execution a)" "ca_layout a"]
    obtain e where "ce_conv_run (conversation_cli K (Inr ()) V sigint) cf t (Some c) (ca_cwd a)
        (or_str (ca_log_level a) ''info'') (when_given (ca_execution a)) False (ca_layout a) s = (s, Ran (Inl e))"
      and "e \<noteq> CancelledError"
      by (auto simp: conversation_cli_def ended_def)
    with Typed Cons show ?thesis by (simp add: chat_over_def is_exception_def)
  qed (simp add: chat_over_def)
qed

lemma chat_stuck_after_failed_creation:
  assumes "ce_fresh (conversation_cli K (Inr ()) V sigint) s = (s1, c)" and "\<not> blank t" and "t \<notin> set [''/exit'', ''/quit'']"
    and "ce_conv_run (conversation_cli K (Inr ()) V sigint) cf t (Some c) (ca_cwd a) (or_str (ca_log_level a) ''info'')
           (when_given (ca_execution a)) True (ca_layout a) s1 = (s2, Ran (Inl e))"
    and "is_exception e" and "table_turns (fst s2) c = None"
  shows "chat_loop (conversation_cli K (Inr ()) V sigint) cf a None (Typed t # ps) s
     = (s2, reconnect_guidance (Some c), Ran (Inr exit_completed))"
  using assms by (simp add: chat_stuck)

text \<open>
  A turn that is cancelled through the signal handler of a durable run ends the chat without the
  guidance to reconnect.
\<close>

lemma cancelled_chat_without_guidance:
  assumes "ce_conv_run K cf t (Some c) (ca_cwd a) (or_str (ca_log_level a) ''info'') (when_given (ca_execution a))
       False (ca_layout a) w = (w', Ran (Inl CancelledError))"
    and "\<not> blank t" and "t \<notin> set [''/exit'', ''/quit'']"
  shows "chat_loop K cf a (Some c) (Typed t # ps) w = (w', [], Ran (Inl CancelledError))"
  using assms by (simp add: is_exception_def)

end
