(* ===== verification/Cli_Properties.thy ===== *)
theory Cli_Properties
  imports Cli_Correct Conversation_Properties
begin

section \<open>Properties of the command line\<close>


definition demo_document :: pyval where
  "demo_document = PDict [(''model'', PDict [(''base_url'', PStr ''u''), (''api_key'', PStr ''k''), (''model_name'', PStr ''m'')])]"

definition demo_commands :: "nat cli_env" where
  "demo_commands = \<lparr>ce_file = (\<lambda>path. Inr demo_document), ce_url = Some ''mysql://localhost/agents'',
     ce_migrate = (\<lambda>w. (w, Ran (Inr ()))), ce_run = (\<lambda>cf goal cwd level mode layout w. (w, Ran (Inr PNone))),
     ce_resume = (\<lambda>cf run_id recovery cwd level layout w. (w, Ran (Inr PNone))), ce_show = (\<lambda>conv w. (w, Ran (Inr []))),
     ce_conv_resume = (\<lambda>cf conv recovery layout w. (w, Interrupted)),
     ce_conv_run = (\<lambda>cf user_input conv cwd level mode create layout w. (w, Interrupted)),
     ce_fresh = (\<lambda>w. (w + 1, ''id''))\<rparr>"

definition demo_cli :: "(conversation_tables \<times> nat) cli_env" where
  "demo_cli = conversation_cli demo_commands (Inr ()) (\<lambda>cf cwd level layout. demo_service_env) (\<lambda>w. False)"

definition next_args :: cli_args where
  "next_args = \<lparr>ca_command = ''conversation'', ca_action = Some ''run'', ca_goal = None, ca_run_id = None, ca_recovery = None,
     ca_cwd = None, ca_log_level = None, ca_config = Some ''c.yml'', ca_execution = None, ca_layout = ''grouped'',
     ca_conv_id = Some demo_conv, ca_input = Some ''Next'', ca_json = False\<rparr>"

lemma demo_document_loads: "\<exists>c. load_configuration (Inr demo_document) = Inr c"
proof -
  let ?p = "\<lparr>pv_base_url = ''u'', pv_api_key = ''k'', pv_model_name = ''m'', pv_stream = False\<rparr>"
  have "load_configuration (Inr demo_document) = Inr \<lparr>cf_planner = ?p, cf_executor = ?p, cf_task_analyzer = ?p,
     cf_runtime_context = None, cf_direct = ?p, cf_tool_agent = ?p, cf_react = ?p\<rparr>"
    by code_simp
  then show ?thesis by blast
qed

lemma demo_command: "\<exists>line. main demo_cli (Inr next_args) [] (demo_tables, 0)
   = ((\<lparr>tb_conversations = [demo_conv], tb_turns = [first_turn, second_turn]\<rparr>, 2), [line], Ran (Inr 0))"
proof -
  obtain c where c: "load_configuration (Inr demo_document) = Inr c" using demo_document_loads by blast
  have run: "ce_conv_run demo_cli cf ''Next'' (Some demo_conv) None ''info'' None False ''grouped'' (demo_tables, 0)
     = ((\<lparr>tb_conversations = [demo_conv], tb_turns = [first_turn, second_turn]\<rparr>, 2), Ran (Inr second_turn))" for cf
    using demo_service_run
    by (simp add: demo_cli_def conversation_cli_def ended_def run_mysql_conversation_def with_service_def demo_service_def)
  have env: "ce_file demo_cli = (\<lambda>path. Inr demo_document)" "ce_url demo_cli = Some ''mysql://localhost/agents''"
    by (simp_all add: demo_cli_def conversation_cli_def demo_commands_def)
  have problem: "invocation_problem next_args = None"
    by (simp add: invocation_problem_def conversation_problem_def next_args_def given_def or_str_def)
  have perform: "perform demo_cli (Some c) next_args (demo_tables, 0)
     = ((\<lparr>tb_conversations = [demo_conv], tb_turns = [first_turn, second_turn]\<rparr>, 2),
        Ran (Inr ((''command'', PStr ''conversation'') # result_fields second_turn)))"
    by (simp add: perform_def next_args_def run or_str_def when_given_def given_def bind_outcome_def)
  have code: "snd (exit_of_result ((''command'', PStr ''conversation'') # result_fields second_turn)) = 0"
    by (simp add: exit_of_result_def result_fields_def second_turn_def dict_value_def exit_defs)
  obtain line where e: "exit_of_result ((''command'', PStr ''conversation'') # result_fields second_turn) = (line, 0)"
    using code by (metis surjective_pairing)
  have args: "given (ca_config next_args)" "ca_action next_args \<noteq> Some ''chat''"
    by (simp_all add: next_args_def given_def or_str_def)
  have url: "given (Some ''mysql://localhost/agents'')" by (simp add: given_def or_str_def)
  show ?thesis by (simp add: main_def problem env c perform args url e)
qed

text \<open>
  C20: conversations are safe behind the command line.  Whatever is typed into a chat or asked of a
  command, however runners, selectors and other operations behave and whenever they are
  interrupted, the tables stay sound: turns that have ended stay as they are and no conversation has
  an active turn before its last.
\<close>

theorem commands_keep_conversations:
  assumes "sound_store table_turns sql_good tables"
    and "main (conversation_cli K schema V sigint) parsed ps (tables, w) = ((tables', w'), out, r)"
  shows "sound_store table_turns sql_good tables' \<and> turns_kept table_turns tables tables'"
  using conv_cli.main_keeps [of "(tables, w)" K schema V sigint parsed ps] assms by (simp add: keeps_turns_def)

theorem commands_keep_conversations_witness:
  "sound_store table_turns sql_good \<lparr>tb_conversations = [demo_conv], tb_turns = [first_turn, second_turn]\<rparr>
     \<and> turns_kept table_turns demo_tables \<lparr>tb_conversations = [demo_conv], tb_turns = [first_turn, second_turn]\<rparr>"
proof -
  obtain line where "main (conversation_cli demo_commands (Inr ()) (\<lambda>cf cwd level layout. demo_service_env) (\<lambda>w. False))
      (Inr next_args) [] (demo_tables, 0)
    = ((\<lparr>tb_conversations = [demo_conv], tb_turns = [first_turn, second_turn]\<rparr>, 2), [line], Ran (Inr 0))"
    using demo_command unfolding demo_cli_def by blast
  from commands_keep_conversations [OF demo_sound this] show ?thesis .
qed

end
