(* ===== verification/Conversation_Runs.thy ===== *)
theory Conversation_Runs
  imports Run_Entry_Correct Conversation_Stores Cli
begin

section \<open>Conversations over registered runs\<close>

text \<open>
  The parts that \<open>_run_mysql_conversation\<close> and \<open>_resume_mysql_conversation\<close> put together: the
  service, its conversation tables, and for a turn in the durable mode a run entered in the registry.
  The world of the service is the table of the runs beside everything else; only the entry of a run
  and the reconciliation of a turn look at that table.
\<close>

type_synonym 'w registry_world = "run_row list \<times> 'w"

record 'w runs_env =
  cr_entry :: "string \<Rightarrow> 'w run_env"
  cr_ip :: "string \<Rightarrow> bool"
  cr_expand :: "string option \<Rightarrow> string"
  cr_db :: database
  cr_url :: string
  cr_modes :: "'w mode_env"
  cr_analyzer :: "'w text_model"
  cr_close :: "'w \<Rightarrow> 'w \<times> unit result"
  cr_fresh :: "'w \<Rightarrow> 'w \<times> string"

definition beside :: "('w \<Rightarrow> 'w \<times> 'a) \<Rightarrow> 'w registry_world \<Rightarrow> 'w registry_world \<times> 'a" where
  "beside f s = (case f (snd s) of (w, x) \<Rightarrow> ((fst s, w), x))"

text \<open>\<open>DurableConversationRunner.run\<close> over the adapter: the answer is read outside its handler.\<close>

definition registered_answer :: "'w \<times> pyval result \<Rightarrow> 'w \<times> execution_answer result" where
  "registered_answer r = (case r of
       (w, Inl e) \<Rightarrow> (w, if is_exception e then failed_answer (plan_execute_failure_message e) else Inl e)
     | (w, Inr v) \<Rightarrow> (w, durable_answer_of v))"

definition registered_run ::
  "'w runs_env \<Rightarrow> components option \<Rightarrow> string option \<Rightarrow> string \<Rightarrow> string \<Rightarrow> 'w registry_world runner" where
  "registered_run C cf cwd layout run_id history user_input s =
     registered_answer
       (bindW (liftW s (mk_agent_state user_input [] [] None)) (\<lambda>s st.
        mysql_durable_agent_run (cr_entry C run_id) (cr_ip C) (cr_expand C) (cr_db C) (cr_url C) cf cwd False
          layout run_id (Some (as_goal st)) None (durable_input (ConversationGoal history user_input)) s))"

text \<open>The runner factory of a run: the other modes do not touch the registry.\<close>

definition mysql_conversation_runner ::
  "'w runs_env \<Rightarrow> components option \<Rightarrow> string option \<Rightarrow> string \<Rightarrow> string \<Rightarrow> string list \<Rightarrow> string
     \<Rightarrow> 'w registry_world \<Rightarrow> 'w registry_world \<times> 'w registry_world runner result" where
  "mysql_conversation_runner C cf cwd mode run_id criteria layout s =
     (if mode = ''plan_execute'' then (s, Inr (registered_run C cf cwd layout run_id))
      else case ephemeral_runner (cr_modes C) mode criteria layout (snd s) of
        (w, r) \<Rightarrow> ((fst s, w),
          bindE r (\<lambda>runner. Inr (\<lambda>history user_input. beside (runner history user_input)))))"

text \<open>
  The recovery factory of \<open>_resume_mysql_conversation\<close> names \<open>DurableConversationRunner\<close>, which only
  \<open>_run_mysql_conversation\<close> imports, as a local name of its own: the name is not defined.
\<close>

definition undefined_runner :: exn where
  "undefined_runner = NameError (''name '' @ [CHR 0x27] @ ''DurableConversationRunner'' @ [CHR 0x27] @ '' is not defined'')"

definition mysql_recovery_runner ::
  "string \<Rightarrow> 'w registry_world
     \<Rightarrow> 'w registry_world \<times> (string option \<Rightarrow> 'w registry_world \<Rightarrow> 'w registry_world \<times> execution_answer result) result" where
  "mysql_recovery_runner run_id s = (s, Inl undefined_runner)"

definition mysql_mode_selector ::
  "'w runs_env \<Rightarrow> pyval list \<Rightarrow> string \<Rightarrow> string \<Rightarrow> 'w registry_world
     \<Rightarrow> 'w registry_world \<times> (string \<times> task_analysis option) result" where
  "mysql_mode_selector C history user_input run_id =
     beside (\<lambda>w. closing (cr_close C) (select_conversation_mode (cr_analyzer C) history user_input run_id w))"

definition mysql_service_env ::
  "'w runs_env \<Rightarrow> components option \<Rightarrow> string option \<Rightarrow> 'w registry_world service_env" where
  "mysql_service_env C cf cwd =
     \<lparr>cv_fresh_id = beside (cr_fresh C),
      cv_runner = mysql_conversation_runner C cf cwd,
      cv_recovery = mysql_recovery_runner,
      cv_result = Some (\<lambda>run_id s. (s, mysql_run_result (fst s) run_id)),
      cv_select = Some (mysql_mode_selector C)\<rparr>"

lemma service_env_simps [simp]:
  "cv_fresh_id (mysql_service_env C cf cwd) = beside (cr_fresh C)"
  "cv_runner (mysql_service_env C cf cwd) = mysql_conversation_runner C cf cwd"
  "cv_recovery (mysql_service_env C cf cwd) = mysql_recovery_runner"
  "cv_result (mysql_service_env C cf cwd) = Some (\<lambda>run_id s. (s, mysql_run_result (fst s) run_id))"
  "cv_select (mysql_service_env C cf cwd) = Some (mysql_mode_selector C)"
  by (simp_all add: mysql_service_env_def)

subsection \<open>The call of a factory\<close>

text \<open>
  \<open>_call_factory\<close> passes a factory as many of its arguments as its signature takes; a signature that
  cannot be inspected is \<open>None\<close>.
\<close>

record factory_signature =
  fs_variadic :: bool
  fs_positional :: nat
  fs_required :: nat

definition factory_arguments :: "factory_signature option \<Rightarrow> 'a list \<Rightarrow> 'a option \<Rightarrow> 'a list" where
  "factory_arguments sig args one_argument = (case sig of
       None \<Rightarrow> args
     | Some f \<Rightarrow>
         if fs_variadic f then args
         else if fs_required f \<le> length args \<and> length args \<le> fs_positional f then args
         else if fs_positional f = 1 \<and> fs_required f \<le> 1
         then [case one_argument of None \<Rightarrow> last args | Some x \<Rightarrow> x]
         else if fs_required f + 1 \<le> length args \<and> length args \<le> fs_positional f + 1 then butlast args
         else take (fs_positional f) args)"

text \<open>\<open>_make_runner\<close>: the criteria and the layout are passed only where they are not the defaults.\<close>

definition runner_arguments :: "string \<Rightarrow> string \<Rightarrow> string list \<Rightarrow> string \<Rightarrow> pyval list" where
  "runner_arguments mode run_id criteria layout =
     (let all = [PStr mode, PStr run_id, PList (map PStr criteria), PStr layout]
      in if layout \<noteq> ''grouped'' then all else if mode \<noteq> ''react'' then take 2 all else take 3 all)"

text \<open>The parameters of the runner factory of \<open>_run_mysql_conversation\<close>, with their defaults.\<close>

fun factory_parameters :: "pyval list \<Rightarrow> (pyval \<times> pyval \<times> pyval \<times> pyval) option" where
  "factory_parameters [m, r] = Some (m, r, PList [], PStr ''grouped'')"
| "factory_parameters [m, r, c] = Some (m, r, c, PStr ''grouped'')"
| "factory_parameters [m, r, c, l] = Some (m, r, c, l)"
| "factory_parameters args = None"

text \<open>Nothing is lost on the way: a mode other than ReAct has no criteria.\<close>

lemma runner_factory_receives:
  assumes "criteria = [] \<or> mode = ''react''" and "\<not> fs_variadic f" and "fs_positional f = 4" and "fs_required f = 2"
  shows "factory_parameters (factory_arguments (Some f) (runner_arguments mode run_id criteria layout) one_argument)
     = Some (PStr mode, PStr run_id, PList (map PStr criteria), PStr layout)"
  using assms by (auto simp: factory_arguments_def runner_arguments_def Let_def)

lemma chosen_criteria:
  "choose_mode V s mode history user_input run_id = (s', Inr (m, criteria)) \<Longrightarrow> criteria = [] \<or> m = ''react''"
  unfolding choose_mode_def by (auto split: option.splits if_splits elim!: bindW_InrE)

subsection \<open>The answer of a run\<close>

text \<open>Reading the dictionary of a run gives the answer of the run.\<close>

lemma registered_answer_reads:
  assumes "case r of Inl e \<Rightarrow> True | Inr a \<Rightarrow> (case rn_state a of None \<Rightarrow> rn_status a \<noteq> ''completed'' | Some s \<Rightarrow> wf_state s)"
  shows "registered_answer (w, bindE r (\<lambda>a. Inr (run_result_value a))) = durable_conversation_answer (w, r)"
  using assms by (cases r) (simp_all add: registered_answer_def durable_conversation_answer_def durable_answer_read_back)

subsection \<open>A settled durable turn is backed by its run\<close>

lemma beside_table [simp]: "fst (fst (beside f s)) = fst s"
  by (simp add: beside_def split: prod.split)

lemma setup_keeps_table: "setup_keeps (mysql_service_env C cf cwd) (\<lambda>s. fst s = table)"
  by (simp add: setup_keeps_def mysql_mode_selector_def)

text \<open>What entering a run asks of its owner and of the renewals while it works.\<close>

definition entry_ready :: "run_row list \<Rightarrow> 'w run_env \<Rightarrow> bool" where
  "entry_ready table E \<longleftrightarrow> rv_owner E \<noteq> [] \<and> (\<forall>r\<in>set table. rw_owner r \<noteq> Some (rv_owner E))
     \<and> timely (rv_owner E) (rv_now E + lease_time) (rv_events E)"

text \<open>The row of a run that ended with an answer, its result recorded and its lease free.\<close>

definition recorded_run :: "run_row list \<Rightarrow> string \<Rightarrow> execution_answer \<Rightarrow> bool" where
  "recorded_run table run_id a \<longleftrightarrow> sql_lease table run_id = None
     \<and> (\<exists>r v. row_of table run_id = Some r \<and> rw_status r = ea_status a
          \<and> rw_terminal r = Some (json_ascii True v) \<and> durable_answer_of v = Inr a)"

lemma dict_get_item: "get_item v k = Inr x \<Longrightarrow> dict_get v k d = Inr x"
  by (cases v) (auto split: option.splits)

lemma failed_answer_status: "failed_answer m = Inr a \<Longrightarrow> ea_status a = ''failed''"
  by (auto simp: failed_answer_def mk_execution_answer_def split: if_splits)

lemma durable_answer_status:
  assumes "get_item v ''status'' = Inr (PStr st)" and "durable_answer_of v = Inr a" and "ea_status a \<noteq> ''failed''"
  shows "st = ea_status a \<and> st \<in> set terminal_statuses"
  using assms
  by (auto simp: durable_answer_of_def dict_get_item terminal_statuses_def mk_execution_answer_def completed_answer_def
      failed_answer_def split: if_splits pyval.splits option.splits)

lemma exception_answer_status [simp]: "ea_status (exception_answer m e) = ''failed''"
  by (simp add: exception_answer_def)

lemma registered_run_recorded:
  assumes "good_table table" and "finished_recorded table" and "entry_ready table (cr_entry C run_id)"
    and "answered_by (snd (registered_run C cf cwd layout run_id history user_input (table, w))) a"
    and "ea_status a \<noteq> ''failed''"
  shows "recorded_run (fst (fst (registered_run C cf cwd layout run_id history user_input (table, w)))) run_id a"
proof (cases "mk_agent_state user_input [] [] None")
  case (Inl e)
  with assms(4,5) show ?thesis
    by (auto simp: registered_run_def registered_answer_def liftW_def answered_by_def failed_answer_def
        mk_execution_answer_def split: if_splits)
next
  case (Inr st)
  let ?entry = "run_entry (cr_entry C run_id) (cr_ip C) (cr_db C) (cr_url C) cf (cr_expand C cwd) layout run_id
    (Some (as_goal st)) None (Some ''plan_execute'') (durable_input (ConversationGoal history user_input)) (table, w)"
  obtain t' w' r where entry: "?entry = ((t', w'), r)" by (metis prod.collapse)
  have run: "registered_run C cf cwd layout run_id history user_input (table, w) = registered_answer ((t', w'), r)"
    using Inr entry by (simp add: registered_run_def mysql_durable_agent_run_def liftW_def)
  show ?thesis
  proof (cases r)
    case (Inl e)
    with assms(4,5) run show ?thesis
      by (auto simp: registered_answer_def answered_by_def failed_answer_def mk_execution_answer_def split: if_splits)
  next
    case v: (Inr v)
    from v assms(4,5) run have a: "durable_answer_of v = Inr a"
      by (auto simp: registered_answer_def answered_by_def split: sum.splits)
    from run_entry_cases [OF assms(1,2) _ _ _ entry] assms(3) v
    have g: "guarded_work (cr_entry C run_id) run_id (Some (as_goal st)) None (Some ''plan_execute'')
        (durable_input (ConversationGoal history user_input)) w = (w', Inr v)" and ended: "run_ended t' run_id (Inr v)"
      by (auto simp: entry_ready_def)
    from guarded_work_status [OF g] obtain x where x: "get_item v ''status'' = Inr (PStr x)" by blast
    with durable_answer_status [OF x a assms(5)] ended a v run show ?thesis
      by (auto simp: run_ended_def recorded_run_def registered_answer_def)
  qed
qed

text \<open>
  A turn that the durable mode completed or blocked has a run of its own in the registry, which
  ended the same way and recorded the answer that the turn shows.
\<close>

lemma durable_turn_recorded:
  assumes "run_mysql_conversation (Inr ()) (mysql_service_env C cf cwd) user_input conv mode create layout (tb, table, w)
      = ((tb', table', w'), Inr b)"
    and "sound_store table_turns sql_good tb" and "good_table table" and "finished_recorded table"
    and "entry_ready table (cr_entry C (ct_run b))" and "ct_mode b = ''plan_execute''" and "ct_status b \<noteq> ''failed''"
  shows "(\<exists>us. table_turns tb' (ct_conv b) = Some (us @ [b]))
     \<and> recorded_run table' (ct_run b) \<lparr>ea_answer = ct_answer b, ea_status = ct_status b, ea_error = ct_error b\<rparr>"
proof -
  let ?s = "\<lparr>sv_store = tb, sv_ephemeral = [], sv_world = (table, w)\<rparr>"
  obtain s' where run: "service_run mysql_ops (mysql_service_env C cf cwd) user_input mode conv create layout ?s = (s', Inr b)"
    and s': "sv_store s' = tb'" "sv_world s' = (table', w')"
    using assms(1) by (auto simp: run_mysql_conversation_def with_service_def split: prod.splits)
  have sound: "sound_store table_turns sql_good (sv_store ?s)" using assms(2) by simp
  let ?V = "mysql_service_env C cf cwd"
  obtain us a m run_id criteria w1 w2 runner where
    last: "table_turns (sv_store s') (ct_conv b) = Some (us @ [b])" and "ct_input b = user_input"
    and id: "ct_run b = run_id" "ct_mode b = m"
    and a: "ct_status b = ea_status a" "ct_answer b = ea_answer a" "ct_error b = ea_error a"
    and "\<forall>c. conv = Some c \<longrightarrow> ct_conv b = c"
    and before: "\<forall>P. setup_keeps ?V P \<longrightarrow> P (sv_world ?s) \<longrightarrow> P w1" and "\<forall>x. mode = Some x \<longrightarrow> m = x"
    and made: "cv_runner ?V m run_id criteria layout w1 = (w2, Inr runner)"
    and ans: "answered_by (snd (runner (map turn_public us) user_input w2)) a"
    and world: "sv_world s' = fst (runner (map turn_public us) user_input w2)"
    by (rule sql.service_run_answers [OF run sound])
  from made id assms(6) have w2: "w2 = w1" and runner: "runner = registered_run C cf cwd layout (ct_run b)"
    by (simp_all add: mysql_conversation_runner_def)
  obtain u where w1: "w1 = (table, u)"
    using before setup_keeps_table [of C cf cwd table] by (cases w1) fastforce
  have "recorded_run (fst (sv_world s')) (ct_run b) a"
    unfolding world runner w2 w1
    by (rule registered_run_recorded) (use assms(3-5,7) a ans runner w2 w1 in auto)
  with last s' show ?thesis unfolding a by (cases a) auto
qed

subsection \<open>An interrupted durable turn\<close>

text \<open>The run of a turn has no result: it is not in the registry, or has not ended.\<close>

definition unfinished_run :: "run_row list \<Rightarrow> string \<Rightarrow> bool" where
  "unfinished_run table run_id \<longleftrightarrow> (case sql_get_run table run_id of
       Inl e \<Rightarrow> True
     | Inr q \<Rightarrow> ru_terminal q = None \<and> ru_status q \<notin> set terminal_statuses)"

definition interrupted_turn :: "conversation_tables \<Rightarrow> run_row list \<Rightarrow> string \<Rightarrow> turn \<Rightarrow> bool" where
  "interrupted_turn tb table c a \<longleftrightarrow>
     (\<exists>ts. table_turns tb c = Some ts \<and> find_active ts = Some a)
     \<and> ct_mode a = ''plan_execute'' \<and> unfinished_run table (ct_run a)"

lemma unfinished_result:
  "unfinished_run table r \<Longrightarrow> (\<exists>e. mysql_run_result table r = Inl e)
     \<or> (\<exists>st. mysql_run_result table r = Inr (PDict [(''status'', PStr st)]) \<and> st \<notin> set terminal_statuses)"
  by (auto simp: unfinished_run_def mysql_run_result_def split: sum.splits)

lemma active_sound:
  assumes "sound_store table_turns sql_good tb" and "table_turns tb c = Some ts" and "find_active ts = Some a"
  shows "so_get mysql_ops tb c = Inr ts"
  using assms sql.get_law [of tb c] by (simp add: sound_store_def)

lemma mysql_result_error: "mysql_run_result table r = Inl e \<Longrightarrow> e \<noteq> CancelledError"
  by (auto simp: mysql_run_result_def sql_get_run_def split: option.splits if_splits)

lemma undefined_runner_simps [simp]: "undefined_runner \<noteq> CancelledError" "\<not> nothing_to_resume undefined_runner"
  by (simp_all add: undefined_runner_def nothing_to_resume_def)

text \<open>No command of a conversation gets it past such a turn, and nothing is changed.\<close>

lemma interrupted_resume:
  assumes "sound_store table_turns sql_good tb" and "interrupted_turn tb table c a" and "is_uuid4 c"
  shows "resume_mysql_conversation (Inr ()) (mysql_service_env C cf cwd) c recovery (tb, table, w)
     = ((tb, table, w), Inl undefined_runner)"
proof -
  obtain ts where ts: "table_turns tb c = Some ts" "find_active ts = Some a" "ct_mode a = ''plan_execute''"
    using assms(2) by (auto simp: interrupted_turn_def)
  with active_sound [OF assms(1)] assms(3) show ?thesis
    by (simp add: resume_mysql_conversation_def with_service_def service_resume_def liftW_def validate_uuid4_def
        in_world_def mysql_recovery_runner_def)
qed

lemma interrupted_run:
  assumes "sound_store table_turns sql_good tb" and "interrupted_turn tb table c a"
  shows "\<exists>e. run_mysql_conversation (Inr ()) (mysql_service_env C cf cwd) user_input (Some c) mode False layout (tb, table, w)
     = ((tb, table, w), Inl e) \<and> e \<noteq> CancelledError"
proof -
  let ?s = "\<lparr>sv_store = tb, sv_ephemeral = [], sv_world = (table, w)\<rparr>"
  obtain ts where ts: "table_turns tb c = Some ts" "find_active ts = Some a" "ct_mode a = ''plan_execute''"
    and u: "unfinished_run table (ct_run a)"
    using assms(2) by (auto simp: interrupted_turn_def)
  note get = active_sound [OF assms(1) ts(1,2)]
  have reconciled: "reconcile_active mysql_ops (mysql_service_env C cf cwd) ?s ts
      = (case mysql_run_result table (ct_run a) of Inl e \<Rightarrow> (?s, Inl e) | Inr v \<Rightarrow> (?s, Inr ()))"
    using unfinished_result [OF u] ts(2,3)
    by (auto simp: reconcile_active_def ephemeral_modes_def in_world_def dict_value_def terminal_statuses_def)
  have "\<exists>e. open_conversation mysql_ops (mysql_service_env C cf cwd) ?s (Some c) False = (?s, Inl e) \<and> e \<noteq> CancelledError"
    using get ts(2) reconciled unfinished_result [OF u] mysql_result_error
    by (cases "is_uuid4 c") (auto simp: open_conversation_def validate_uuid4_def liftW_def busy_error_def)
  then show ?thesis
    by (auto simp: run_mysql_conversation_def with_service_def service_run_def)
qed

definition mysql_cli :: "'w runs_env \<Rightarrow> 'w registry_world cli_env \<Rightarrow> ('w registry_world \<Rightarrow> bool)
    \<Rightarrow> (conversation_tables \<times> 'w registry_world) cli_env" where
  "mysql_cli C K sigint = conversation_cli K (Inr ()) (\<lambda>cf cwd level layout. mysql_service_env C cf cwd) sigint"

lemma interrupted_chat:
  assumes "sound_store table_turns sql_good tb" and "interrupted_turn tb table c a" and "is_uuid4 c" and "ca_conv_id args = Some c"
  shows "\<exists>out. run_chat (mysql_cli C K sigint) cf args ps
       (tb, table, w) = ((tb, table, w), out, Ran (Inl undefined_runner))"
proof -
  obtain ts where ts: "table_turns tb c = Some ts" "find_active ts = Some a"
    using assms(2) by (auto simp: interrupted_turn_def)
  from active_sound [OF assms(1) ts] assms(3)
  have "show_mysql_conversation (Inr ()) c (tb, table, w) = ((tb, table, w), Inr (map turn_public ts))"
    by (simp add: show_mysql_conversation_def with_service_def service_show_def liftW_def validate_uuid4_def)
  then have "ce_show (mysql_cli C K sigint) c (tb, table, w) = ((tb, table, w), Ran (Inr (map turn_public ts)))"
    by (simp add: mysql_cli_def conversation_cli_def ended_def)
  moreover have "ce_conv_resume (mysql_cli C K sigint) cf c (ca_recovery args) (ca_layout args) (tb, table, w)
      = ((tb, table, w), Ran (Inl undefined_runner))"
    by (simp add: mysql_cli_def conversation_cli_def ended_def interrupted_resume [OF assms(1-3)])
  ultimately show ?thesis
    using assms(4) by (simp add: run_chat_def)
qed

end
