(* ===== verification/Runs_Properties.thy ===== *)
theory Runs_Properties
  imports Conversation_Runs Conversation_Properties Entry_Properties Routing_Properties
    Cli_Properties
begin

section \<open>Properties of conversations over registered runs\<close>

text \<open>
  An example: a conversation whose first turn is durable, over an empty registry, with the run of
  \<open>Entry_Properties\<close> that blocks.
\<close>

definition demo_runs_env :: "nat runs_env" where
  "demo_runs_env = \<lparr>cr_entry = (\<lambda>run_id. demo_run_env), cr_ip = (\<lambda>host. False), cr_expand = (\<lambda>cwd. ''/w''),
     cr_db = demo_database, cr_url = demo_url, cr_modes = demo_modes, cr_analyzer = demo_analyzer,
     cr_close = (\<lambda>w. (w, Inr ())), cr_fresh = (\<lambda>w. (w, ''r1''))\<rparr>"

definition durable_turn :: "string \<Rightarrow> string option \<Rightarrow> turn" where
  "durable_turn status error = \<lparr>ct_conv = demo_conv, ct_sequence = 1, ct_run = ''r1'', ct_mode = ''plan_execute'',
     ct_input = ''g'', ct_status = status, ct_answer = None, ct_error = error\<rparr>"

definition blocked_turn :: turn where
  "blocked_turn = durable_turn ''blocked'' (Some ''plan-execute run blocked'')"

definition no_tables :: conversation_tables where
  "no_tables = \<lparr>tb_conversations = [], tb_turns = []\<rparr>"

lemma no_tables_sound: "sound_store table_turns sql_good no_tables"
  by (simp add: sound_store_def sql_good_def table_turns_def turns_of_def no_tables_def)

lemma demo_registered:
  "\<exists>table' w'. registered_run demo_runs_env (Some demo_components) None ''grouped'' ''r1'' [] ''g'' ([], 0)
     = ((table', w'), Inr \<lparr>ea_answer = None, ea_status = ''blocked'', ea_error = Some ''plan-execute run blocked''\<rparr>)"
proof -
  have "mk_agent_state ''g'' [] [] None = Inr \<lparr>as_goal = ''g'', as_plans = [], as_execs = [], as_memory = None\<rparr>"
    by code_simp
  moreover have "durable_answer_of blocked_value
      = Inr \<lparr>ea_answer = None, ea_status = ''blocked'', ea_error = Some ''plan-execute run blocked''\<rparr>"
    by (simp add: durable_answer_of_def blocked_value_def mk_execution_answer_def) code_simp
  ultimately show ?thesis
    using demo_entry_answers [of "durable_input (ConversationGoal [] ''g'')"]
    by (auto simp: registered_run_def mysql_durable_agent_run_def liftW_def demo_runs_env_def registered_answer_def)
qed

text \<open>
  C18: a settled durable turn is backed by its run.  When a turn in the durable mode ends completed
  or blocked, the registry has a run under the turn's run id that ended with the same status, its
  recorded result is one whose answer is the answer and error of the turn, and its lease is free.
\<close>

theorem durable_turn_has_run:
  assumes "run_mysql_conversation (Inr ()) (mysql_service_env C cf cwd) user_input conv mode create layout (tb, table, w)
      = ((tb', table', w'), Inr b)"
    and "sound_store table_turns sql_good tb" and "good_table table" and "finished_recorded table"
    and "entry_ready table (cr_entry C (ct_run b))" and "ct_mode b = ''plan_execute''" and "ct_status b \<noteq> ''failed''"
  shows "(\<exists>us. table_turns tb' (ct_conv b) = Some (us @ [b]))
     \<and> recorded_run table' (ct_run b) \<lparr>ea_answer = ct_answer b, ea_status = ct_status b, ea_error = ct_error b\<rparr>"
  by (rule durable_turn_recorded [OF assms])

lemma demo_durable_conversation:
  "\<exists>tb' table' w'. run_mysql_conversation (Inr ()) (mysql_service_env demo_runs_env (Some demo_components) None) ''g''
     (Some demo_conv) (Some ''plan_execute'') True ''grouped'' (no_tables, [], 0) = ((tb', table', w'), Inr blocked_turn)"
proof -
  obtain table' w' where r: "registered_run demo_runs_env (Some demo_components) None ''grouped'' ''r1'' [] ''g'' ([], 0)
     = ((table', w'), Inr \<lparr>ea_answer = None, ea_status = ''blocked'', ea_error = Some ''plan-execute run blocked''\<rparr>)"
    using demo_registered by blast
  have fresh: "beside (cr_fresh demo_runs_env) s = (s, ''r1'')" for s
    by (simp add: beside_def demo_runs_env_def)
  show ?thesis
    by (simp add: run_mysql_conversation_def with_service_def service_run_def blank_iff is_space_def open_conversation_def
        demo_uuid validate_uuid4_def liftW_def in_world_def fresh choose_mode_def in_store_def mysql_ops_def no_tables_def
        sql_append_def turns_of_def find_active_def max_sequence_def sql_update_turn_def sql_update_def ephemeral_modes_def
        mysql_conversation_runner_def run_turn_def r finish_turn_def settle_turn_def blocked_turn_def durable_turn_def modes_def)
qed

theorem durable_turn_has_run_witness:
  "\<exists>tb' table' w'. run_mysql_conversation (Inr ()) (mysql_service_env demo_runs_env (Some demo_components) None) ''g''
     (Some demo_conv) (Some ''plan_execute'') True ''grouped'' (no_tables, [], 0) = ((tb', table', w'), Inr blocked_turn)
     \<and> recorded_run table' ''r1'' \<lparr>ea_answer = None, ea_status = ''blocked'', ea_error = Some ''plan-execute run blocked''\<rparr>"
proof -
  obtain tb' table' w' where run: "run_mysql_conversation (Inr ()) (mysql_service_env demo_runs_env (Some demo_components) None) ''g''
     (Some demo_conv) (Some ''plan_execute'') True ''grouped'' (no_tables, [], 0) = ((tb', table', w'), Inr blocked_turn)"
    using demo_durable_conversation by blast
  have "entry_ready [] (cr_entry demo_runs_env (ct_run blocked_turn))"
    by (simp add: entry_ready_def demo_runs_env_def demo_run_env_def lease_time_def)
  from durable_turn_has_run [OF run no_tables_sound _ _ this] run show ?thesis
    by (auto simp: good_table_def finished_recorded_def blocked_turn_def durable_turn_def)
qed

text \<open>
  C19: an interrupted durable turn holds its conversation.  While the run of the active turn has no
  recorded result, no command of the conversation changes anything: resuming it always fails with
  the same error, since the runner that recovery needs is not defined there; every new input is
  refused; and a chat on the conversation ends with that error before it reads an input.
\<close>

theorem interrupted_turn_stays:
  assumes "sound_store table_turns sql_good tb" and "interrupted_turn tb table c a" and "is_uuid4 c"
    and "ca_conv_id args = Some c"
  shows "resume_mysql_conversation (Inr ()) (mysql_service_env C cf cwd) c recovery (tb, table, w)
      = ((tb, table, w), Inl undefined_runner)
     \<and> (\<exists>e. run_mysql_conversation (Inr ()) (mysql_service_env C cf cwd) user_input (Some c) mode False layout (tb, table, w)
          = ((tb, table, w), Inl e))
     \<and> (\<exists>out. run_chat (mysql_cli C K sigint) cf args ps (tb, table, w) = ((tb, table, w), out, Ran (Inl undefined_runner)))"
proof (intro conjI)
  show "\<exists>e. run_mysql_conversation (Inr ()) (mysql_service_env C cf cwd) user_input (Some c) mode False layout (tb, table, w)
      = ((tb, table, w), Inl e)"
    using interrupted_run [OF assms(1,2), of C cf cwd user_input mode layout w] by blast
qed (rule interrupted_resume [OF assms(1-3)] interrupted_chat [OF assms])+

definition running_tables :: conversation_tables where
  "running_tables = \<lparr>tb_conversations = [demo_conv], tb_turns = [durable_turn ''running'' None]\<rparr>"

lemma running_tables_sound: "sound_store table_turns sql_good running_tables"
proof -
  have t: "turns_of running_tables c = (if c = demo_conv then [durable_turn ''running'' None] else [])" for c
    by (simp add: turns_of_def running_tables_def durable_turn_def)
  have "sequential [durable_turn ''running'' None]" by (simp add: sequential_def durable_turn_def)
  moreover have "ct_conv (durable_turn ''running'' None) = demo_conv" by (simp add: durable_turn_def)
  ultimately have "sql_good running_tables" by (simp add: sql_good_def t) (simp add: running_tables_def)
  moreover have "serial ts" if "table_turns running_tables c = Some ts" for c ts
    using that by (auto simp: table_turns_def t serial_def split: if_splits)
  ultimately show ?thesis by (auto simp: sound_store_def)
qed

definition runs_commands :: "nat registry_world cli_env" where
  "runs_commands = \<lparr>ce_file = (\<lambda>path. Inr demo_document), ce_url = Some demo_url,
     ce_migrate = (\<lambda>w. (w, Ran (Inr ()))), ce_run = (\<lambda>cf goal cwd level mode layout w. (w, Ran (Inr PNone))),
     ce_resume = (\<lambda>cf run_id recovery cwd level layout w. (w, Ran (Inr PNone))), ce_show = (\<lambda>conv w. (w, Ran (Inr []))),
     ce_conv_resume = (\<lambda>cf conv recovery layout w. (w, Interrupted)),
     ce_conv_run = (\<lambda>cf user_input conv cwd level mode create layout w. (w, Interrupted)),
     ce_fresh = (\<lambda>w. (w, ''id''))\<rparr>"

definition chat_args :: cli_args where
  "chat_args = next_args\<lparr>ca_action := Some ''chat'', ca_input := None\<rparr>"

theorem interrupted_turn_stays_witness:
  "snd (resume_mysql_conversation (Inr ()) (mysql_service_env demo_runs_env (Some demo_components) None) demo_conv None
       (running_tables, [], 0)) = Inl undefined_runner
     \<and> (\<exists>out. run_chat (mysql_cli demo_runs_env runs_commands (\<lambda>s. False)) (Some demo_components) chat_args [Typed ''Next'']
          (running_tables, [], 0) = ((running_tables, [], 0), out, Ran (Inl undefined_runner)))"
proof -
  have t: "table_turns running_tables demo_conv = Some [durable_turn ''running'' None]"
    by (simp add: table_turns_def turns_of_def running_tables_def durable_turn_def)
  have i: "interrupted_turn running_tables [] demo_conv (durable_turn ''running'' None)"
    unfolding interrupted_turn_def t
    by (simp add: find_active_def active_turn_def durable_turn_def unfinished_run_def sql_get_run_def)
  have "ca_conv_id chat_args = Some demo_conv" by (simp add: chat_args_def next_args_def)
  from interrupted_turn_stays [OF running_tables_sound i demo_uuid this, of demo_runs_env "Some demo_components" None None 0
      "''Next''" None "''grouped''" runs_commands "\<lambda>s. False" "[Typed ''Next'']"]
  show ?thesis by simp
qed

end
