(* ===== verification/Trace.thy ===== *)
theory Trace
  imports Messages Fingerprint Complex_Main
begin

section \<open>The trace of a run\<close>

text \<open>
  \<open>agent/trace.py\<close>.  Traced values are mappings, lists and objects of the provider's library over
  scalars; an object has attributes, its model dump is the mapping of them, and a text of its own.
  A reading of the clock is an argument of the operation that takes it; readings and what is
  computed from them are exact rationals.  The output is the list of lines without the prefix of the
  run; a line of usage or timing is kept as its values.
\<close>

datatype tvalue =
    Atom pyval
  | Fields "(string \<times> tvalue) list"
  | Items "tvalue list"
  | Object string "(string \<times> tvalue) list"

abbreviation t_none :: tvalue where
  "t_none \<equiv> Atom PNone"

subsection \<open>Reading values\<close>

definition lookup :: "(string \<times> tvalue) list \<Rightarrow> string \<Rightarrow> tvalue" where
  "lookup d k = (case map_of d k of None \<Rightarrow> t_none | Some v \<Rightarrow> v)"

text \<open>\<open>getattr(value, name, None)\<close> and \<open>_get_field\<close>.\<close>

fun attr :: "tvalue \<Rightarrow> string \<Rightarrow> tvalue" where
  "attr (Object t fs) k = lookup fs k"
| "attr v k = t_none"

fun get_field :: "tvalue \<Rightarrow> string \<Rightarrow> tvalue" where
  "get_field (Fields d) k = lookup d k"
| "get_field v k = attr v k"

fun t_truthy :: "tvalue \<Rightarrow> bool" where
  "t_truthy (Atom p) = truthy p"
| "t_truthy (Fields d) = (d \<noteq> [])"
| "t_truthy (Items xs) = (xs \<noteq> [])"
| "t_truthy (Object t fs) = True"

definition or_else :: "tvalue \<Rightarrow> tvalue \<Rightarrow> tvalue" where
  "or_else v w = (if t_truthy v then v else w)"

definition t_text :: "tvalue \<Rightarrow> string option" where
  "t_text v = (case v of Atom (PStr s) \<Rightarrow> Some s | _ \<Rightarrow> None)"

text \<open>\<open>_first_defined\<close>.\<close>

definition first_defined :: "tvalue list \<Rightarrow> tvalue" where
  "first_defined vs = (case List.find (\<lambda>v. v \<noteq> t_none) vs of None \<Rightarrow> t_none | Some v \<Rightarrow> v)"

text \<open>\<open>_as_serializable\<close>.\<close>

lemma size_tvalue [termination_simp]: "(k, v) \<in> set d \<Longrightarrow> size v < Suc (size_list (size_prod (\<lambda>_. 0) size) d)"
  by (induction d) auto

fun serializable :: "tvalue \<Rightarrow> pyval" where
  "serializable (Atom p) = p"
| "serializable (Fields d) = PDict (map (\<lambda>(k, v). (k, serializable v)) d)"
| "serializable (Items xs) = PList (map serializable xs)"
| "serializable (Object t fs) = PDict (map (\<lambda>(k, v). (k, serializable v)) fs)"

definition compact_text :: "tvalue \<Rightarrow> string" where
  "compact_text v = (case serializable v of
       PDict d \<Rightarrow> json_dumps True (PDict d)
     | PList xs \<Rightarrow> json_dumps True (PList xs)
     | p \<Rightarrow> py_str p)"

text \<open>\<open>str(value)\<close>.\<close>

definition t_str :: "tvalue \<Rightarrow> string" where
  "t_str v = (case v of Object t fs \<Rightarrow> t | _ \<Rightarrow> py_str (serializable v))"

subsection \<open>Text\<close>

text \<open>\<open>value[:100] + "..."\<close> when the value has more than 100 code points.\<close>

definition starts_point :: "char \<Rightarrow> bool" where
  "starts_point c \<longleftrightarrow> (let n = (of_char c :: nat) in n < 128 \<or> 192 \<le> n)"

definition point_count :: "string \<Rightarrow> nat" where
  "point_count s = length (filter starts_point s)"

fun take_points :: "nat \<Rightarrow> string \<Rightarrow> string" where
  "take_points n [] = []"
| "take_points n (c # s) =
     (if \<not> starts_point c then c # take_points n s
      else case n of 0 \<Rightarrow> [] | Suc m \<Rightarrow> c # take_points m s)"

definition truncate_log_text :: "string \<Rightarrow> string" where
  "truncate_log_text s = (if point_count s \<le> 100 then s else take_points 100 s @ ''...'')"

text \<open>\<open>str.splitlines\<close>: the rest after a line break at the start of a text.\<close>

fun line_break :: "string \<Rightarrow> string option" where
  "line_break [] = None"
| "line_break (a # s) =
     (if a = CHR 0x0D then Some (if startswith s [nl] then drop 1 s else s)
      else if a \<in> set [nl, CHR 0x0B, CHR 0x0C, CHR 0x1C, CHR 0x1D, CHR 0x1E] then Some s
      else if a = CHR 0xC2 \<and> startswith s [CHR 0x85] then Some (drop 1 s)
      else if a = CHR 0xE2 \<and> (startswith s [CHR 0x80, CHR 0xA8] \<or> startswith s [CHR 0x80, CHR 0xA9]) then Some (drop 2 s)
      else None)"

lemma line_break_shorter: "line_break s = Some r \<Longrightarrow> length r < length s"
  by (cases s) (auto split: if_split_asm)

function split_lines :: "string \<Rightarrow> string \<Rightarrow> string list" where
  "split_lines cur s = (case s of
       [] \<Rightarrow> if cur = [] then [] else [rev cur]
     | c # t \<Rightarrow> (case line_break s of
           Some r \<Rightarrow> rev cur # split_lines [] r
         | None \<Rightarrow> split_lines (c # cur) t))"
  by pat_completeness auto
termination
  by (relation "measure (\<lambda>(cur, s). length s)") (auto dest: line_break_shorter simp del: line_break.simps)

declare split_lines.simps [simp del]

definition splitlines :: "string \<Rightarrow> string list" where
  "splitlines s = split_lines [] s"

text \<open>\<open>f"{x:.2f}"\<close>.\<close>

definition round_even :: "rat \<Rightarrow> int" where
  "round_even x = (let n = \<lfloor>x\<rfloor>; d = x - of_int n
     in if d < 1 / 2 \<or> d = 1 / 2 \<and> even n then n else n + 1)"

definition fixed2 :: "rat \<Rightarrow> string" where
  "fixed2 x = (let n = nat (round_even (\<bar>x\<bar> * 100))
     in (if x < 0 then ''-'' else []) @ show_nat (n div 100) @ ''.'' @ show_nat (n mod 100 div 10) @ show_nat (n mod 10))"

definition number_text :: "rat option \<Rightarrow> string" where
  "number_text x = (case x of None \<Rightarrow> ''None'' | Some x \<Rightarrow> fixed2 x)"

definition milliseconds :: "rat option \<Rightarrow> string" where
  "milliseconds x = number_text (map_option (\<lambda>x. x * 1000) x)"

text \<open>\<open>_positive_number\<close>; token counts are integers.\<close>

definition positive_number :: "tvalue \<Rightarrow> rat option" where
  "positive_number v = (case v of Atom (PInt i) \<Rightarrow> if i > 0 then Some (of_int i) else None | _ \<Rightarrow> None)"

subsection \<open>The model context\<close>

text \<open>\<open>_context_value\<close>: messages show their role and content, long texts are cut.\<close>

definition has_attr :: "(string \<times> tvalue) list \<Rightarrow> string \<Rightarrow> bool" where
  "has_attr fs k \<longleftrightarrow> k \<in> fst ` set fs"

fun context_value :: "tvalue \<Rightarrow> tvalue" where
  "context_value (Object t fs) =
     (if has_attr fs ''content'' \<and> has_attr fs ''type''
      then Fields ([(''role'', lookup fs ''type''), (''content'', lookup fs ''content'')]
        @ concat (map (\<lambda>k. if t_truthy (lookup fs k) then [(k, lookup fs k)] else [])
            [''name'', ''tool_calls'', ''additional_kwargs'']))
      else Object t fs)"
| "context_value (Fields d) = Fields (map (\<lambda>(k, v). (k, context_value v)) d)"
| "context_value (Items xs) = Items (map context_value xs)"
| "context_value (Atom p) = Atom (case p of PStr s \<Rightarrow> PStr (truncate_log_text s) | _ \<Rightarrow> p)"

definition indent :: "nat \<Rightarrow> string" where
  "indent n = replicate (2 * n) CHR '' ''"

definition format_context_scalar :: "string \<Rightarrow> tvalue \<Rightarrow> nat \<Rightarrow> string list" where
  "format_context_scalar prefix v depth =
     (case splitlines (t_str v) of
        [] \<Rightarrow> [prefix]
      | row # rows \<Rightarrow> (prefix @ row) # map (\<lambda>row. indent (depth + 1) @ row) rows)"

definition nested :: "tvalue \<Rightarrow> bool" where
  "nested v = (case v of Fields d \<Rightarrow> True | Items xs \<Rightarrow> True | _ \<Rightarrow> False)"

fun format_context_node :: "tvalue \<Rightarrow> nat \<Rightarrow> string list" where
  "format_context_node (Fields d) depth =
     (let ls = concat (map (\<lambda>(k, v).
            if nested v then (indent depth @ k @ '':'') # format_context_node v (depth + 1)
            else format_context_scalar (indent depth @ k @ '': '') v depth) d)
      in if ls = [] then [indent depth @ [CHR 0x7B, CHR 0x7D]] else ls)"
| "format_context_node (Items xs) depth =
     (let ls = concat (map (\<lambda>v.
            if nested v then (indent depth @ ''-'') # format_context_node v (depth + 1)
            else format_context_scalar (indent depth @ ''- '') v depth) xs)
      in if ls = [] then [indent depth @ ''[]''] else ls)"
| "format_context_node v depth = format_context_scalar (indent depth) v depth"

definition format_llm_context :: "tvalue \<Rightarrow> string" where
  "format_llm_context v = join [nl] (format_context_node (context_value v) 0)"

subsection \<open>Request families\<close>

definition cache_relevant_shape :: "tvalue \<Rightarrow> tvalue" where
  "cache_relevant_shape request = (case request of
       Fields d \<Rightarrow> Fields (concat (map (\<lambda>k. case map_of d k of None \<Rightarrow> [] | Some v \<Rightarrow> [(k, Atom (serializable v))])
         [''model'', ''instructions'', ''tools'', ''text'']))
     | _ \<Rightarrow> Fields [])"

definition request_family :: "tvalue \<Rightarrow> string" where
  "request_family shape = ''sha256:'' @ sha256_hex (json_compact True (serializable shape))"

definition label_of :: "string \<Rightarrow> string" where
  "label_of component = (if blank component then ''unknown'' else strip component)"

subsection \<open>Streams\<close>

definition has_stream_output :: "tvalue \<Rightarrow> bool" where
  "has_stream_output v =
     (case attr v ''content'' of
        Atom (PStr s) \<Rightarrow> s \<noteq> []
      | c \<Rightarrow> t_truthy c \<or> t_truthy (attr v ''tool_calls'') \<or> t_truthy (attr v ''tool_call_chunks'')
          \<or> t_truthy (attr v ''delta''))"

definition stream_fragment :: "tvalue \<Rightarrow> string option" where
  "stream_fragment v =
     (case (t_text v, t_text (attr v ''delta''), attr v ''content'') of
        (Some s, _, _) \<Rightarrow> Some s
      | (None, Some s, _) \<Rightarrow> Some s
      | (None, None, Atom (PStr s)) \<Rightarrow> Some s
      | (None, None, Items xs) \<Rightarrow>
          (let texts = List.map_filter (\<lambda>x. t_text (get_field x ''text'')) xs
           in if texts = [] then None else Some (concat texts))
      | _ \<Rightarrow> None)"

type_synonym attribution = "(string \<times> string) option"

record stream_timing =
  sg_duration :: rat
  sg_first_token :: "rat option"
  sg_generation :: "rat option"
  sg_status :: string
  sg_attribution :: attribution

datatype trace_line =
    Note string
  | Usage attribution tvalue tvalue tvalue tvalue tvalue
  | Timing attribution string "rat option" rat "rat option" "rat option"

record run_trace =
  rt_level :: string
  rt_run_id :: "string option"
  rt_buffer :: string
  rt_attribution :: attribution
  rt_started :: "rat option"
  rt_first :: "rat option"
  rt_last :: "rat option"
  rt_completed :: "stream_timing list"
  rt_lines :: "trace_line list"

definition mk_run_trace :: "string \<Rightarrow> string option \<Rightarrow> run_trace result" where
  "mk_run_trace level run_id =
     (if level \<notin> set [''debug'', ''info'', ''error'']
      then Inl (ValueError (''level must be one of '' @ repr_str ''debug'' @ '', '' @ repr_str ''info'' @ '', or ''
        @ repr_str ''error''))
      else Inr \<lparr>rt_level = level, rt_run_id = run_id, rt_buffer = [], rt_attribution = None, rt_started = None,
             rt_first = None, rt_last = None, rt_completed = [], rt_lines = []\<rparr>)"

subsection \<open>Operations\<close>

definition write_line :: "trace_line \<Rightarrow> run_trace \<Rightarrow> run_trace" where
  "write_line l t = t\<lparr>rt_lines := rt_lines t @ [l]\<rparr>"

abbreviation say :: "string \<Rightarrow> run_trace \<Rightarrow> run_trace" where
  "say s \<equiv> write_line (Note s)"

definition llm_context :: "tvalue \<Rightarrow> run_trace \<Rightarrow> run_trace" where
  "llm_context context t =
     (if rt_level t \<noteq> ''info'' then t
      else case splitlines (format_llm_context context) of
        [] \<Rightarrow> say ''[llm context] '' t
      | l # ls \<Rightarrow> fold (\<lambda>l. say (''[llm context]   '' @ l)) ls (say (''[llm context] '' @ l) t))"

definition llm_stream_start :: "rat \<Rightarrow> run_trace \<Rightarrow> run_trace" where
  "llm_stream_start now t = t\<lparr>rt_started := Some now, rt_first := None, rt_last := None\<rparr>"

definition llm_request :: "rat \<Rightarrow> string \<Rightarrow> tvalue \<Rightarrow> tvalue option \<Rightarrow> run_trace \<Rightarrow> run_trace" where
  "llm_request now component request static_shape t =
     (let shape = (case static_shape of None \<Rightarrow> cache_relevant_shape request | Some s \<Rightarrow> s)
      in llm_context request (llm_stream_start now
           (t\<lparr>rt_attribution := Some (label_of component, request_family shape)\<rparr>)))"

definition llm_stream_chunk :: "rat \<Rightarrow> tvalue \<Rightarrow> run_trace \<Rightarrow> run_trace" where
  "llm_stream_chunk now chunk t =
     (let t = (if rt_started t = None then llm_stream_start now t else t);
          t = (if has_stream_output chunk
               then t\<lparr>rt_first := (case rt_first t of None \<Rightarrow> Some now | x \<Rightarrow> x), rt_last := Some now\<rparr> else t)
      in if rt_level t \<noteq> ''debug'' then t
         else case stream_fragment chunk of
           None \<Rightarrow> t
         | Some s \<Rightarrow> if s = [] then t else say (''[llm stream] chunk='' @ json_string s) t)"

definition timing_of :: "rat \<Rightarrow> rat \<Rightarrow> string \<Rightarrow> run_trace \<Rightarrow> stream_timing" where
  "timing_of started now status t =
     \<lparr>sg_duration = now - started, sg_first_token = map_option (\<lambda>x. x - started) (rt_first t),
      sg_generation = (case (rt_first t, rt_last t) of (Some a, Some b) \<Rightarrow> Some (b - a) | _ \<Rightarrow> None),
      sg_status = status, sg_attribution = rt_attribution t\<rparr>"

definition timing_line :: "stream_timing \<Rightarrow> tvalue \<Rightarrow> trace_line" where
  "timing_line s output_tokens =
     (case (positive_number output_tokens, sg_generation s) of
        (Some n, Some d) \<Rightarrow>
          if n - 1 > 0 \<and> d > 0
          then Timing (sg_attribution s) (sg_status s) (sg_first_token s) (sg_duration s) (Some (d / (n - 1))) (Some ((n - 1) / d))
          else Timing (sg_attribution s) (sg_status s) (sg_first_token s) (sg_duration s) None None
      | _ \<Rightarrow> Timing (sg_attribution s) (sg_status s) (sg_first_token s) (sg_duration s) None None)"

text \<open>\<open>_write_stream_timing\<close>: the oldest completed stream.\<close>

definition write_stream_timing :: "tvalue \<Rightarrow> run_trace \<Rightarrow> run_trace" where
  "write_stream_timing output_tokens t = (case rt_completed t of
       [] \<Rightarrow> t
     | s # ss \<Rightarrow> write_line (timing_line s output_tokens) (t\<lparr>rt_completed := ss\<rparr>))"

definition llm_stream_end :: "rat \<Rightarrow> string \<Rightarrow> run_trace \<Rightarrow> run_trace" where
  "llm_stream_end now status t = (case rt_started t of
       None \<Rightarrow> t
     | Some started \<Rightarrow>
         let t = t\<lparr>rt_completed := rt_completed t @ [timing_of started now status t],
                   rt_started := None, rt_first := None, rt_last := None\<rparr>
         in if status = ''failed'' then write_stream_timing t_none t else t)"

definition write_llm_usage :: "tvalue \<Rightarrow> attribution \<Rightarrow> run_trace \<Rightarrow> run_trace" where
  "write_llm_usage usage attribution t =
     (let f = get_field usage;
          input_details = or_else (f ''input_tokens_details'') (or_else (f ''input_token_details'')
            (or_else (f ''prompt_tokens_details'') (Fields [])));
          output_details = or_else (f ''output_tokens_details'') (or_else (f ''output_token_details'')
            (or_else (f ''completion_tokens_details'') (Fields [])));
          input_tokens = first_defined [f ''input_tokens'', f ''prompt_tokens''];
          output_tokens = first_defined [f ''output_tokens'', f ''completion_tokens''];
          cached = first_defined [get_field input_details ''cached_tokens'', get_field input_details ''cache_read''];
          selected = (case attribution of None \<Rightarrow> rt_attribution t | a \<Rightarrow> a)
      in write_stream_timing output_tokens
           (write_line (Usage selected input_tokens output_tokens (f ''total_tokens'') cached
              (get_field output_details ''reasoning_tokens'')) t))"

text \<open>The usage an event carries, \<open>None\<close> when it has none.\<close>

definition response_of :: "tvalue \<Rightarrow> tvalue" where
  "response_of event = (case event of
       Object t fs \<Rightarrow> if has_attr fs ''response'' then lookup fs ''response'' else event
     | _ \<Rightarrow> event)"

definition usage_of :: "tvalue \<Rightarrow> tvalue" where
  "usage_of event =
     first_defined [get_field (response_of event) ''usage'', get_field event ''usage_metadata'',
       (let metadata = or_else (get_field event ''response_metadata'') (Fields [])
        in or_else (get_field metadata ''token_usage'') (get_field metadata ''usage''))]"

definition record_usage :: "tvalue \<Rightarrow> attribution \<Rightarrow> run_trace \<Rightarrow> run_trace \<times> bool" where
  "record_usage event attribution t =
     (if usage_of event = t_none then (t, False) else (write_llm_usage (usage_of event) attribution t, True))"

text \<open>Usage with its timing, or the timing alone.\<close>

definition usage_or_timing :: "tvalue \<Rightarrow> attribution \<Rightarrow> run_trace \<Rightarrow> run_trace" where
  "usage_or_timing event attribution t = (case record_usage event attribution t of
       (t, has_usage) \<Rightarrow> if has_usage then t else write_stream_timing t_none t)"

definition llm_final :: "tvalue \<Rightarrow> run_trace \<Rightarrow> run_trace" where
  "llm_final response t =
     (if rt_level t \<noteq> ''info'' then t else say (''[llm final] data='' @ compact_text response) t)"

definition llm_usage :: "tvalue \<Rightarrow> run_trace \<Rightarrow> run_trace" where
  "llm_usage message t = (fst (record_usage message None t))\<lparr>rt_attribution := None\<rparr>"

definition event_type :: "tvalue \<Rightarrow> string" where
  "event_type event = (case t_text (attr event ''type'') of None \<Rightarrow> [] | Some s \<Rightarrow> s)"

definition event_delta :: "tvalue \<Rightarrow> string" where
  "event_delta event = (case t_text (attr event ''delta'') of None \<Rightarrow> [] | Some s \<Rightarrow> s)"

definition reasoning_deltas :: "string list" where
  "reasoning_deltas = [''response.reasoning.delta'', ''response.reasoning_text.delta'', ''response.reasoning_summary_text.delta'']"

definition output_delta :: string where
  "output_delta = ''response.output_text.delta''"

definition llm_event :: "rat \<Rightarrow> tvalue \<Rightarrow> run_trace \<Rightarrow> run_trace" where
  "llm_event now event t =
     (let type = event_type event in
      if rt_level t = ''error'' then
        (if type = ''response.created'' then t\<lparr>rt_buffer := []\<rparr>
         else if type = output_delta then llm_stream_chunk now event (t\<lparr>rt_buffer := rt_buffer t @ event_delta event\<rparr>)
         else if type = ''response.completed''
         then (usage_or_timing event None (llm_stream_end now ''completed'' t))\<lparr>rt_buffer := [], rt_attribution := None\<rparr>
         else t)
      else
        let t = (if type \<notin> set (output_delta # reasoning_deltas) then say (''[llm event] data='' @ compact_text event) t else t);
            t = (if type \<in> set reasoning_deltas then llm_stream_chunk now event t
                 else if type = output_delta then llm_stream_chunk now event (t\<lparr>rt_buffer := rt_buffer t @ event_delta event\<rparr>)
                 else if type = ''response.created'' then t\<lparr>rt_buffer := []\<rparr> else t)
        in if type = ''response.completed''
           then (llm_final (response_of event) (usage_or_timing event None (llm_stream_end now ''completed'' t)))
                  \<lparr>rt_buffer := [], rt_attribution := None\<rparr>
           else t)"

definition llm_response :: "rat \<Rightarrow> tvalue \<Rightarrow> string option \<Rightarrow> tvalue option \<Rightarrow> run_trace \<Rightarrow> run_trace" where
  "llm_response now response component static_shape t =
     (let attribution = map_option (\<lambda>c. (label_of c, request_family (case static_shape of None \<Rightarrow> Fields []
              | Some s \<Rightarrow> or_else s (Fields [])))) component;
          t = llm_final response (usage_or_timing response attribution (llm_stream_end now ''completed'' t))
      in if component = None then t\<lparr>rt_attribution := None\<rparr> else t)"

definition runtime_context_llm_request :: "tvalue \<Rightarrow> run_trace \<Rightarrow> run_trace" where
  "runtime_context_llm_request request t = llm_context request t"

definition runtime_context_llm_response :: "rat \<Rightarrow> tvalue \<Rightarrow> tvalue \<Rightarrow> run_trace \<Rightarrow> run_trace" where
  "runtime_context_llm_response now response static_shape t =
     llm_response now response (Some ''runtime_context'') (Some static_shape) t"

subsection \<open>Progress lines\<close>

definition id_suffix :: "string option \<Rightarrow> string" where
  "id_suffix cid = (if or_str cid [] = [] then [] else '' id='' @ or_str cid [])"

definition runtime_context_observation :: "tvalue \<Rightarrow> run_trace \<Rightarrow> run_trace" where
  "runtime_context_observation outcome =
     (let field = (\<lambda>k. case outcome of Object t fs \<Rightarrow> if has_attr fs k then t_str (lookup fs k) else ''unknown'' | _ \<Rightarrow> ''unknown'');
          error = attr outcome ''error''
      in say (''[runtime context observation] round='' @ field ''round'' @ '' status='' @ field ''status''
           @ (if t_truthy error then '' error='' @ t_str error else [])))"

definition llm_text :: "string \<Rightarrow> tvalue \<Rightarrow> run_trace \<Rightarrow> run_trace" where
  "llm_text label v t =
     (if rt_level t = ''error'' \<or> t_str v = [] then t else say (''[llm '' @ label @ ''] '' @ t_str v) t)"

definition llm_complete :: "int \<Rightarrow> string \<Rightarrow> tvalue \<Rightarrow> run_trace \<Rightarrow> run_trace" where
  "llm_complete revision step_id message t =
     (if rt_level t \<noteq> ''info'' then t
      else say (''[llm complete] revision='' @ show_int revision @ '' step='' @ step_id @ '' data='' @ compact_text message) t)"

definition llm_completion_invalid :: "int \<Rightarrow> string \<Rightarrow> exn \<Rightarrow> run_trace \<Rightarrow> run_trace" where
  "llm_completion_invalid revision step_id e =
     say (''[llm complete invalid] revision='' @ show_int revision @ '' step='' @ step_id @ '' error='' @ exn_str e)"

definition llm_validation_retry :: "string \<Rightarrow> exn \<Rightarrow> run_trace \<Rightarrow> run_trace" where
  "llm_validation_retry component e =
     say (''[llm validation retry] component='' @ component @ '' attempt=2 error='' @ exn_str e)"

definition trace_plan :: "string \<Rightarrow> int option \<Rightarrow> run_trace \<Rightarrow> run_trace" where
  "trace_plan status revision =
     say (''[plan] '' @ status @ (case revision of None \<Rightarrow> [] | Some r \<Rightarrow> '' revision='' @ show_int r))"

definition task_route :: "string \<Rightarrow> bool \<Rightarrow> run_trace \<Rightarrow> run_trace" where
  "task_route mode analysis_failed =
     say (''[task route] mode='' @ mode @ (if analysis_failed then '' reason=task_analysis_failed'' else []))"

definition trace_execute ::
  "string \<Rightarrow> int \<Rightarrow> string \<Rightarrow> string option \<Rightarrow> nat option \<Rightarrow> nat option \<Rightarrow> run_trace \<Rightarrow> run_trace" where
  "trace_execute status revision step_id detail step_number step_total =
     say (''[execute] '' @ status @ '' revision='' @ show_int revision @ '' step='' @ step_id
       @ (case (step_number, step_total) of
            (Some n, Some m) \<Rightarrow> '' plan_step='' @ show_nat n @ ''/'' @ show_nat m
          | _ \<Rightarrow> [])
       @ (if or_str detail [] = [] then [] else '' '' @ or_str detail []))"

definition recovery_context :: "string list \<Rightarrow> string list \<Rightarrow> string list \<Rightarrow> run_trace \<Rightarrow> run_trace" where
  "recovery_context files_read files_modified observations =
     say (''[recovery context] data='' @ compact_text (Fields [(''files_read'', Items (map (\<lambda>s. Atom (PStr s)) files_read)),
       (''files_modified'', Items (map (\<lambda>s. Atom (PStr s)) files_modified)),
       (''observations'', Items (map (\<lambda>s. Atom (PStr s)) observations))]))"

definition trace_tool_call :: "string \<Rightarrow> tvalue \<Rightarrow> string option \<Rightarrow> run_trace \<Rightarrow> run_trace" where
  "trace_tool_call name arguments cid =
     say (''[tool call] '' @ name @ id_suffix cid @ '' args='' @ compact_text arguments)"

definition tool_ignored :: "string \<Rightarrow> string option \<Rightarrow> run_trace \<Rightarrow> run_trace" where
  "tool_ignored name cid =
     say (''[tool call ignored] '' @ name @ id_suffix cid @ '' reason=single-call limit'')"

definition trace_tool_result :: "string \<Rightarrow> tvalue \<Rightarrow> bool \<Rightarrow> run_trace \<Rightarrow> run_trace" where
  "trace_tool_result name v error t =
     (let label = (if error then ''tool result error'' else ''tool result'')
      in if rt_level t = ''error'' \<and> \<not> error then say (''['' @ label @ ''] '' @ name) t
         else say (''['' @ label @ ''] '' @ name @ '' result='' @ truncate_log_text (compact_text v)) t)"

text \<open>The formatted traceback is a parameter, the parts of \<open>traceback.format_exception\<close>.\<close>

definition rstrip_newlines :: "string \<Rightarrow> string" where
  "rstrip_newlines s = rev (dropWhile (\<lambda>c. c = nl) (rev s))"

definition execution_error ::
  "string \<Rightarrow> string \<Rightarrow> string \<Rightarrow> string list \<Rightarrow> string option \<Rightarrow> int option \<Rightarrow> run_trace \<Rightarrow> run_trace" where
  "execution_error component error_type message traceback phase round_number t =
     (let context = '' component='' @ label_of component
            @ (if or_str phase [] = [] then [] else '' phase='' @ or_str phase [])
            @ (case round_number of None \<Rightarrow> [] | Some n \<Rightarrow> '' round='' @ show_int n)
      in fold (\<lambda>l. fold (\<lambda>d. say (''[execution traceback] '' @ d)) (splitlines (rstrip_newlines l))) traceback
           (say (''[execution error]'' @ context @ '' error='' @ error_type @ '': '' @ message) t))"

subsection \<open>Lines as text\<close>

definition attribution_text :: "attribution \<Rightarrow> string" where
  "attribution_text a = (case a of None \<Rightarrow> []
     | Some (component, family) \<Rightarrow> ''component='' @ component @ '' request_family='' @ family @ '' '')"

fun line_text :: "trace_line \<Rightarrow> string" where
  "line_text (Note s) = s"
| "line_text (Usage a input_tokens output_tokens total_tokens cached reasoning) =
     ''[llm usage] '' @ attribution_text a @ ''input_tokens='' @ t_str input_tokens @ '' output_tokens='' @ t_str output_tokens
     @ '' total_tokens='' @ t_str total_tokens @ '' cached_tokens='' @ t_str cached @ '' reasoning_tokens='' @ t_str reasoning"
| "line_text (Timing a status first duration per_token per_second) =
     ''[llm timing] '' @ attribution_text a @ ''request_status='' @ status @ '' first_token_ms='' @ milliseconds first
     @ '' stream_duration_ms='' @ milliseconds (Some duration) @ '' time_per_output_token_ms='' @ milliseconds per_token
     @ '' tokens_per_second='' @ number_text per_second"

definition trace_output :: "run_trace \<Rightarrow> string list" where
  "trace_output t = map (\<lambda>l. (case rt_run_id t of None \<Rightarrow> [] | Some r \<Rightarrow> if r = [] then [] else ''['' @ r @ ''] '') @ line_text l)
     (rt_lines t)"

end
