(* ===== verification/Model_Client.thy ===== *)
theory Model_Client
  imports Trace
begin

section \<open>The model client and its callbacks\<close>

text \<open>
  \<open>llm/llm.py\<close> and \<open>agent/model_request.py\<close>.  The SDK client is a parameter: what a request
  streams, the events in order and the error that ended the stream if any, and what it answers at
  once.  Callbacks act on the world.
\<close>

subsection \<open>Requests\<close>

record 'w llm =
  lm_model_name :: string
  lm_streaming :: bool
  lm_reasoning :: "tvalue option"
  lm_on_event :: "tvalue \<Rightarrow> 'w \<Rightarrow> 'w"
  lm_on_stream_end :: "'w \<Rightarrow> 'w"
  lm_on_request :: "tvalue \<Rightarrow> 'w \<Rightarrow> 'w"
  lm_on_response :: "tvalue \<Rightarrow> 'w \<Rightarrow> 'w"
  lm_stream :: "tvalue \<Rightarrow> 'w \<Rightarrow> 'w \<times> tvalue list \<times> exn option"
  lm_create :: "tvalue \<Rightarrow> 'w \<Rightarrow> 'w \<times> tvalue result"

text \<open>The keys of a request; options that are \<open>None\<close> are left out.\<close>

definition given_field :: "string \<Rightarrow> tvalue option \<Rightarrow> (string \<times> tvalue) list" where
  "given_field k v = (case v of None \<Rightarrow> [] | Some v \<Rightarrow> [(k, v)])"

definition llm_request_value :: "'w llm \<Rightarrow> tvalue \<Rightarrow> string option \<Rightarrow> tvalue option \<Rightarrow> tvalue" where
  "llm_request_value L user_input instructions tools =
     Fields ([(''model'', Atom (PStr (lm_model_name L))), (''input'', user_input)]
       @ given_field ''instructions'' (map_option (\<lambda>s. Atom (PStr s)) instructions)
       @ given_field ''tools'' tools @ given_field ''reasoning'' (lm_reasoning L))"

definition completed_type :: string where
  "completed_type = ''response.completed''"

subsection \<open>Streams\<close>

text \<open>
  \<open>stream_events\<close> with what its consumer does on each event; the consumer may raise, which closes
  the generator.  The flag is the one the code keeps: whether the last event seen was the completed one.
\<close>

fun stream_loop ::
  "('w \<Rightarrow> tvalue \<Rightarrow> 'w) \<Rightarrow> ('w \<Rightarrow> 'a \<Rightarrow> tvalue \<Rightarrow> 'w \<times> 'a result) \<Rightarrow> exn option \<Rightarrow> bool \<Rightarrow> tvalue list \<Rightarrow> 'a \<Rightarrow> 'w
     \<Rightarrow> 'w \<times> bool \<times> 'a result" where
  "stream_loop on_event consume failure completed [] acc w =
     (w, completed, case failure of None \<Rightarrow> Inr acc | Some e \<Rightarrow> Inl e)"
| "stream_loop on_event consume failure completed (ev # evs) acc w =
     (let w = on_event w ev; completed = (event_type ev = completed_type)
      in case consume w acc ev of
           (w, Inl e) \<Rightarrow> (w, completed, Inl e)
         | (w, Inr acc) \<Rightarrow> stream_loop on_event consume failure completed evs acc w)"

definition stream_events ::
  "'w llm \<Rightarrow> tvalue \<Rightarrow> string option \<Rightarrow> tvalue option \<Rightarrow> ('w \<Rightarrow> 'a \<Rightarrow> tvalue \<Rightarrow> 'w \<times> 'a result) \<Rightarrow> 'a \<Rightarrow> 'w \<Rightarrow> 'w \<times> 'a result" where
  "stream_events L user_input instructions tools consume acc w =
     (let request = llm_request_value L user_input instructions tools;
          w = lm_on_request L request w
      in case lm_stream L request w of (w, evs, failure) \<Rightarrow>
         case stream_loop (\<lambda>w ev. lm_on_event L ev w) consume failure False evs acc w of (w, completed, r) \<Rightarrow>
           (if completed then w else lm_on_stream_end L w, r))"

definition complete_response ::
  "'w llm \<Rightarrow> tvalue \<Rightarrow> string option \<Rightarrow> tvalue option \<Rightarrow> 'w \<Rightarrow> 'w \<times> tvalue result" where
  "complete_response L user_input instructions tools w =
     (let request = llm_request_value L user_input instructions tools
      in bindW (lm_create L request (lm_on_request L request w)) (\<lambda>w response.
         (lm_on_response L response w, Inr response)))"

text \<open>The last completed response of a stream; both callbacks see every event.\<close>

fun completed_response :: "tvalue list \<Rightarrow> tvalue option" where
  "completed_response [] = None"
| "completed_response (ev # evs) = (case completed_response evs of
       Some r \<Rightarrow> Some r
     | None \<Rightarrow> if event_type ev = completed_type then Some (attr ev ''response'') else None)"

definition request_response ::
  "'w llm \<Rightarrow> tvalue \<Rightarrow> string option \<Rightarrow> tvalue option \<Rightarrow> (tvalue \<Rightarrow> 'w \<Rightarrow> 'w) \<Rightarrow> ('w \<Rightarrow> 'w) \<Rightarrow> 'w \<Rightarrow> 'w \<times> tvalue result" where
  "request_response L user_input instructions tools on_event on_stream_end w =
     (if \<not> lm_streaming L then complete_response L user_input instructions tools w
      else
        let request = llm_request_value L user_input instructions tools;
            w = lm_on_request L request w
        in case lm_stream L request w of (w, evs, failure) \<Rightarrow>
           let w = fold (\<lambda>ev w. on_event ev (lm_on_event L ev w)) evs w
           in case completed_response evs of
                None \<Rightarrow> (on_stream_end (lm_on_stream_end L w), Inl (case failure of
                    None \<Rightarrow> RuntimeError ''Responses stream ended without a completed response'' | Some e \<Rightarrow> e))
              | Some response \<Rightarrow> (case failure of
                    Some e \<Rightarrow> (w, Inl e)
                  | None \<Rightarrow> (lm_on_response L response w, Inr response)))"

definition stream_text :: "'w llm \<Rightarrow> tvalue \<Rightarrow> string option \<Rightarrow> tvalue option \<Rightarrow> 'w \<Rightarrow> 'w \<times> string list result" where
  "stream_text L user_input instructions tools =
     stream_events L user_input instructions tools
       (\<lambda>w acc ev. (w, Inr (if event_type ev = output_delta then acc @ [event_delta ev] else acc))) []"

definition complete_text :: "'w llm \<Rightarrow> tvalue \<Rightarrow> string option \<Rightarrow> tvalue option \<Rightarrow> 'w \<Rightarrow> 'w \<times> string result" where
  "complete_text L user_input instructions tools w =
     bindW (complete_response L user_input instructions tools w) (\<lambda>w response.
     (w, Inr (case t_text (attr response ''output_text'') of None \<Rightarrow> [] | Some s \<Rightarrow> s)))"

subsection \<open>Traced requests\<close>

text \<open>
  \<open>agent/model_request.py\<close> for the trace of the program.  The clock is read from the world.
\<close>

record 'w traced =
  tc_clock :: "'w \<Rightarrow> rat"
  tc_trace :: "'w \<Rightarrow> run_trace"
  tc_put :: "run_trace \<Rightarrow> 'w \<Rightarrow> 'w"

definition with_trace :: "'w traced option \<Rightarrow> (rat \<Rightarrow> run_trace \<Rightarrow> run_trace) \<Rightarrow> 'w \<Rightarrow> 'w" where
  "with_trace T f w = (case T of None \<Rightarrow> w | Some T \<Rightarrow> tc_put T (f (tc_clock T w) (tc_trace T w)) w)"

text \<open>
  \<open>stream_model_response\<close>: \<open>glue\<close> joins two chunks, \<open>chunks\<close> is what the model streams, each with
  the world at its arrival.
\<close>

fun join_chunks ::
  "'w traced option \<Rightarrow> (tvalue \<Rightarrow> tvalue \<Rightarrow> tvalue) \<Rightarrow> tvalue option \<Rightarrow> tvalue list \<Rightarrow> ('w \<Rightarrow> 'w) \<Rightarrow> 'w \<Rightarrow> 'w \<times> tvalue option" where
  "join_chunks T glue response [] elapse w = (w, response)"
| "join_chunks T glue response (c # cs) elapse w =
     join_chunks T glue (Some (case response of None \<Rightarrow> c | Some r \<Rightarrow> glue r c)) cs elapse
       (with_trace T (\<lambda>now. llm_stream_chunk now c) (elapse w))"

definition stream_model_response ::
  "'w traced option \<Rightarrow> (tvalue \<Rightarrow> tvalue \<Rightarrow> tvalue) \<Rightarrow> ('w \<Rightarrow> 'w)
     \<Rightarrow> ('w \<Rightarrow> 'w \<times> tvalue list \<times> exn option) \<Rightarrow> 'w \<Rightarrow> 'w \<times> tvalue option result" where
  "stream_model_response T glue elapse astream w =
     (case astream (with_trace T llm_stream_start w) of (w, chunks, failure) \<Rightarrow>
      case join_chunks T glue None chunks elapse w of (w, response) \<Rightarrow>
        (case failure of
           None \<Rightarrow> (with_trace T (\<lambda>now. llm_stream_end now ''completed'') w, Inr response)
         | Some e \<Rightarrow>
             (if is_exception e then with_trace T (\<lambda>now. llm_stream_end now ''failed'') w else w, Inl e)))"

definition trace_llm_request :: "'w traced option \<Rightarrow> string \<Rightarrow> tvalue \<Rightarrow> tvalue \<Rightarrow> 'w \<Rightarrow> 'w" where
  "trace_llm_request T component context static_shape =
     with_trace T (\<lambda>now. llm_request now component context (Some static_shape))"

definition trace_llm_validation_retry :: "'w traced option \<Rightarrow> string \<Rightarrow> exn \<Rightarrow> 'w \<Rightarrow> 'w" where
  "trace_llm_validation_retry T component e = with_trace T (\<lambda>now. llm_validation_retry component e)"

text \<open>The schema of a tool: what its model's \<open>model_json_schema\<close> gives, or the schema itself.\<close>

definition traced_tool_schema :: "(tvalue \<Rightarrow> tvalue option) \<Rightarrow> tvalue \<Rightarrow> tvalue" where
  "traced_tool_schema json_schema tool = (case json_schema (attr tool ''args_schema'') of
       Some s \<Rightarrow> s | None \<Rightarrow> attr tool ''args_schema'')"

definition tool_request_shape :: "(tvalue \<Rightarrow> tvalue option) \<Rightarrow> tvalue list \<Rightarrow> tvalue" where
  "tool_request_shape json_schema tools = Items (map (\<lambda>tool. Fields
     [(''name'', attr tool ''name''), (''description'', attr tool ''description''), (''schema'', traced_tool_schema json_schema tool)]) tools)"

end
