(* ===== verification/Trace_Correct.thy ===== *)
theory Trace_Correct
  imports Model_Client
begin

section \<open>What a trace shows\<close>

subsection \<open>Levels\<close>

text \<open>At level \<open>error\<close> the operations on model requests leave statistics only.\<close>

fun statistics :: "trace_line \<Rightarrow> bool" where
  "statistics (Note s) = False"
| "statistics l = True"

definition adds :: "(trace_line \<Rightarrow> bool) \<Rightarrow> run_trace \<Rightarrow> run_trace \<Rightarrow> bool" where
  "adds P t t' \<longleftrightarrow> rt_level t' = rt_level t \<and> (\<exists>ls. rt_lines t' = rt_lines t @ ls \<and> (\<forall>l\<in>set ls. P l))"

named_theorems adds_intros

lemma adds_same [adds_intros]: "rt_level t' = rt_level t \<Longrightarrow> rt_lines t' = rt_lines t \<Longrightarrow> adds P t t'"
  by (simp add: adds_def)

lemma adds_trans: "adds P t t' \<Longrightarrow> adds P t' t'' \<Longrightarrow> adds P t t''"
  by (fastforce simp: adds_def)

lemma adds_write: "P l \<Longrightarrow> adds P t (write_line l t)"
  by (simp add: adds_def write_line_def)

lemma timing_statistics [simp]: "statistics (timing_line s v)"
  by (simp add: timing_line_def split: option.split)

lemma adds_timing [adds_intros]: "adds statistics t (write_stream_timing v t)"
  by (cases "rt_completed t") (simp_all add: write_stream_timing_def write_line_def adds_def)

lemma adds_end [adds_intros]: "adds statistics t (llm_stream_end now status t)"
  using adds_timing [of "t\<lparr>rt_completed := c, rt_started := None, rt_first := None, rt_last := None\<rparr>" t_none for c]
  by (auto simp: llm_stream_end_def Let_def adds_def split: option.split)

lemma adds_usage [adds_intros]: "adds statistics t (write_llm_usage usage a t)"
  unfolding write_llm_usage_def Let_def by (rule adds_trans [OF adds_write adds_timing]) simp

lemma adds_usage_or_timing [adds_intros]: "adds statistics t (usage_or_timing event a t)"
  by (simp add: usage_or_timing_def record_usage_def adds_intros)

lemma adds_context: "rt_level t \<noteq> ''info'' \<Longrightarrow> llm_context c t = t"
  by (simp add: llm_context_def)

lemma adds_final: "rt_level t \<noteq> ''info'' \<Longrightarrow> llm_final c t = t"
  by (simp add: llm_final_def)

lemma adds_chunk: "rt_level t \<noteq> ''debug'' \<Longrightarrow> adds statistics t (llm_stream_chunk now c t)"
  by (simp add: llm_stream_chunk_def llm_stream_start_def Let_def adds_def)

subsection \<open>The model operations of a trace\<close>

datatype trace_op =
    Request string tvalue "tvalue option"
  | StreamStart
  | StreamChunk tvalue
  | StreamEnd string
  | Event tvalue
  | Response tvalue "string option" "tvalue option"
  | ContextRequest tvalue
  | ContextResponse tvalue tvalue
  | MessageUsage tvalue
  | Progress string

fun trace_step :: "rat \<Rightarrow> trace_op \<Rightarrow> run_trace \<Rightarrow> run_trace" where
  "trace_step now (Request component request shape) t = llm_request now component request shape t"
| "trace_step now StreamStart t = llm_stream_start now t"
| "trace_step now (StreamChunk chunk) t = llm_stream_chunk now chunk t"
| "trace_step now (StreamEnd status) t = llm_stream_end now status t"
| "trace_step now (Event event) t = llm_event now event t"
| "trace_step now (Response response component shape) t = llm_response now response component shape t"
| "trace_step now (ContextRequest request) t = runtime_context_llm_request request t"
| "trace_step now (ContextResponse response shape) t = runtime_context_llm_response now response shape t"
| "trace_step now (MessageUsage message) t = llm_usage message t"
| "trace_step now (Progress line) t = write_line (Note line) t"

lemma adds_upd: "adds P t t' \<Longrightarrow> rt_level t'' = rt_level t' \<Longrightarrow> rt_lines t'' = rt_lines t' \<Longrightarrow> adds P t t''"
  by (simp add: adds_def)

lemma adds_level: "adds P t t' \<Longrightarrow> rt_level t' = rt_level t"
  by (simp add: adds_def)

lemma error_response: "rt_level t = ''error'' \<Longrightarrow> adds statistics t (llm_response now response component shape t)"
proof -
  assume e: "rt_level t = ''error''"
  let ?t1 = "llm_stream_end now ''completed'' t"
  have u: "adds statistics t (usage_or_timing response a ?t1)" for a
    by (rule adds_trans [OF adds_end adds_usage_or_timing])
  have "llm_final response (usage_or_timing response a ?t1) = usage_or_timing response a ?t1" for a
    using adds_level [OF u] e by (simp add: llm_final_def)
  with u show ?thesis by (simp add: llm_response_def Let_def adds_def)
qed

lemma error_event: "rt_level t = ''error'' \<Longrightarrow> adds statistics t (llm_event now event t)"
proof -
  assume e: "rt_level t = ''error''"
  have c: "adds statistics t (llm_stream_chunk now event (t\<lparr>rt_buffer := b\<rparr>))" for b
    using adds_chunk [of "t\<lparr>rt_buffer := b\<rparr>" now event] e by (simp add: adds_def)
  have "adds statistics t (usage_or_timing event None (llm_stream_end now ''completed'' t))"
    by (rule adds_trans [OF adds_end adds_usage_or_timing])
  with c e show ?thesis
    unfolding llm_event_def Let_def by (simp add: adds_def)
qed

text \<open>At level \<open>error\<close> nothing of a request or a response is shown but its statistics.\<close>

lemma error_shows_statistics:
  assumes "rt_level t = ''error''" and "\<forall>l. op \<noteq> Progress l"
  shows "adds statistics t (trace_step now op t)"
  using assms
proof (cases op)
  case (Request component request shape)
  with assms show ?thesis by (simp add: llm_request_def Let_def llm_stream_start_def adds_context adds_same)
next
  case (MessageUsage message)
  then show ?thesis
    using adds_usage [of t "usage_of message" None] by (simp add: llm_usage_def record_usage_def adds_def)
qed (auto simp: llm_stream_start_def adds_same adds_chunk adds_end error_event error_response
    runtime_context_llm_request_def adds_context runtime_context_llm_response_def)

text \<open>Below level \<open>info\<close> the input of a request leaves no mark at all.\<close>

lemma request_input_hidden:
  assumes "rt_level t \<noteq> ''info''" and "shape = None \<Longrightarrow> cache_relevant_shape r = cache_relevant_shape r'"
  shows "llm_request now component r shape t = llm_request now component r' shape t"
  using assms by (cases shape) (simp_all add: llm_request_def Let_def llm_stream_start_def llm_context_def)

text \<open>
  \<open>README.md\<close> announces request contexts and final answers at level \<open>debug\<close> as well.
\<close>

lemma debug_hides_context: "rt_level t = ''debug'' \<Longrightarrow> llm_context c t = t \<and> llm_final r t = t"
  by (simp add: llm_context_def llm_final_def)

subsection \<open>Streams are reported once, in order\<close>

type_synonym stream_report = "attribution \<times> string \<times> rat option \<times> rat"

fun timing_key :: "trace_line \<Rightarrow> stream_report option" where
  "timing_key (Timing a status first duration x y) = Some (a, status, first, duration)"
| "timing_key l = None"

definition stream_key :: "stream_timing \<Rightarrow> stream_report" where
  "stream_key s = (sg_attribution s, sg_status s, sg_first_token s, sg_duration s)"

text \<open>The streams reported and still to be reported.\<close>

definition reported :: "run_trace \<Rightarrow> stream_report list" where
  "reported t = List.map_filter timing_key (rt_lines t)"

definition accounted :: "run_trace \<Rightarrow> stream_report list" where
  "accounted t = reported t @ map stream_key (rt_completed t)"

text \<open>The stream that an operation ends, with the attribution, the first token and the start of the moment.\<close>

definition ends_open :: "rat \<Rightarrow> string \<Rightarrow> run_trace \<Rightarrow> stream_report list" where
  "ends_open now status t = (case rt_started t of
       None \<Rightarrow> []
     | Some started \<Rightarrow> [(rt_attribution t, status, map_option (\<lambda>x. x - started) (rt_first t), now - started)])"

definition ended_stream :: "rat \<Rightarrow> trace_op \<Rightarrow> run_trace \<Rightarrow> stream_report list" where
  "ended_stream now op t = (case op of
       StreamEnd status \<Rightarrow> ends_open now status t
     | Event event \<Rightarrow> if event_type event = ''response.completed'' then ends_open now ''completed'' t else []
     | Response response component shape \<Rightarrow> ends_open now ''completed'' t
     | ContextResponse response shape \<Rightarrow> ends_open now ''completed'' t
     | _ \<Rightarrow> [])"

named_theorems account

lemma map_filter_append [simp]: "List.map_filter f (xs @ ys) = List.map_filter f xs @ List.map_filter f ys"
  by (simp add: List.map_filter_def)

lemma account_fields [account]:
  "accounted (t\<lparr>rt_attribution := a\<rparr>) = accounted t" "accounted (t\<lparr>rt_buffer := b\<rparr>) = accounted t"
  "accounted (t\<lparr>rt_started := s\<rparr>) = accounted t" "accounted (t\<lparr>rt_first := s\<rparr>) = accounted t"
  "accounted (t\<lparr>rt_last := s\<rparr>) = accounted t" "accounted (t\<lparr>rt_first := x, rt_last := y\<rparr>) = accounted t"
  "accounted (t\<lparr>rt_started := s, rt_first := x, rt_last := y\<rparr>) = accounted t"
  "accounted (t\<lparr>rt_buffer := b, rt_attribution := a\<rparr>) = accounted t"
  by (simp_all add: accounted_def reported_def)

lemma timing_key_line [simp]: "timing_key (timing_line s v) = Some (stream_key s)"
  by (cases s) (simp add: timing_line_def stream_key_def split: option.split)

lemma account_write: "timing_key l = None \<Longrightarrow> accounted (write_line l t) = accounted t"
  by (simp add: accounted_def reported_def write_line_def List.map_filter_def)

lemma account_timing [account]: "accounted (write_stream_timing v t) = accounted t"
  by (cases "rt_completed t")
    (simp_all del: split_paired_Ex split_paired_All add: write_stream_timing_def accounted_def reported_def write_line_def
      List.map_filter_def)

lemma account_end: "accounted (llm_stream_end now status t) = accounted t @ ends_open now status t"
proof (cases "rt_started t")
  case (Some s)
  let ?t = "t\<lparr>rt_completed := rt_completed t @ [timing_of s now status t], rt_started := None, rt_first := None, rt_last := None\<rparr>"
  have "accounted ?t = accounted t @ ends_open now status t"
    using Some by (simp add: accounted_def reported_def ends_open_def stream_key_def timing_of_def)
  with Some show ?thesis
    by (cases "status = ''failed''") (simp_all add: llm_stream_end_def Let_def account_timing)
qed (simp add: llm_stream_end_def ends_open_def)

lemma account_usage [account]: "accounted (write_llm_usage usage a t) = accounted t"
  by (simp add: write_llm_usage_def Let_def account_timing account_write)

lemma account_usage_or_timing [account]: "accounted (usage_or_timing event a t) = accounted t"
  by (simp add: usage_or_timing_def record_usage_def account)

lemma account_final [account]: "accounted (llm_final r t) = accounted t"
  by (simp add: llm_final_def account_write)

lemma account_fold: "accounted (fold (\<lambda>l. write_line (Note (f l))) ls t) = accounted t"
  by (induction ls arbitrary: t) (simp_all add: account_write)

lemma account_context [account]: "accounted (llm_context c t) = accounted t"
  by (simp add: llm_context_def account_fold account_write split: list.split)

lemma account_start [account]: "accounted (llm_stream_start now t) = accounted t"
  by (simp add: llm_stream_start_def account_fields)

lemma account_chunk [account]: "accounted (llm_stream_chunk now c t) = accounted t"
  by (auto simp: llm_stream_chunk_def Let_def account_write account_start account_fields split: option.split)

lemma account_response: "accounted (llm_response now r component shape t) = accounted t @ ends_open now ''completed'' t"
  by (simp add: llm_response_def Let_def account_fields account_final account_usage_or_timing account_end)

lemma account_event: "accounted (llm_event now event t)
   = accounted t @ (if event_type event = ''response.completed'' then ends_open now ''completed'' t else [])"
proof -
  have e: "ends_open now ''completed'' (write_line l t) = ends_open now ''completed'' t" for l
    by (simp add: ends_open_def write_line_def split: option.split)
  show ?thesis
    unfolding llm_event_def Let_def
    by (simp add: account account_write account_end e output_delta_def reasoning_deltas_def)
qed

lemma account_step: "accounted (trace_step now op t) = accounted t @ ended_stream now op t"
  by (cases op)
    (simp_all add: ended_stream_def account account_write account_end account_event account_response llm_request_def Let_def
      runtime_context_llm_request_def runtime_context_llm_response_def llm_usage_def record_usage_def)

text \<open>A run of operations, each at its reading of the clock, and the streams it ends.\<close>

fun trace_run :: "(rat \<times> trace_op) list \<Rightarrow> run_trace \<Rightarrow> run_trace" where
  "trace_run [] t = t"
| "trace_run ((now, op) # ops) t = trace_run ops (trace_step now op t)"

fun ended_streams :: "(rat \<times> trace_op) list \<Rightarrow> run_trace \<Rightarrow> stream_report list" where
  "ended_streams [] t = []"
| "ended_streams ((now, op) # ops) t = ended_stream now op t @ ended_streams ops (trace_step now op t)"

lemma account_run: "accounted (trace_run ops t) = accounted t @ ended_streams ops t"
  by (induction ops t rule: trace_run.induct) (simp_all add: account_step)

lemma error_run: "rt_level t = ''error'' \<Longrightarrow> \<forall>(now, op)\<in>set ops. \<forall>l. op \<noteq> Progress l \<Longrightarrow> adds statistics t (trace_run ops t)"
proof (induction ops t rule: trace_run.induct)
  case (2 now op ops t)
  then have s: "adds statistics t (trace_step now op t)" by (intro error_shows_statistics) auto
  with 2 show ?case by (auto intro: adds_trans [OF s] simp: adds_level [OF s])
qed (simp add: adds_same)

subsection \<open>A concurrent response\<close>

text \<open>
  The Runtime context makes its requests while the program waits for another answer, on the same
  trace.  The stream of the foreground is then timed from the start of the concurrent one and ended
  by it: its timing is reported with the attribution of the foreground, and the end of the
  foreground's own stream reports nothing.
\<close>

lemma concurrent_response_takes_timing:
  assumes "rt_completed t = []" and "rt_level t \<noteq> ''info''"
    and "t1 = llm_request now component request shape t"
    and "t2 = llm_stream_end later ''completed'' (llm_stream_start between t1)"
    and "t3 = runtime_context_llm_response later response shape' t2"
  shows "reported t3 = reported t @ [(rt_attribution t1, ''completed'', None, later - between)]"
    and "llm_stream_end now' status t3 = t3"
proof -
  have t1: "rt_completed t1 = []" "rt_lines t1 = rt_lines t" "rt_level t1 = rt_level t"
    using assms(1,2) by (simp_all add: assms(3) llm_request_def Let_def llm_stream_start_def llm_context_def)
  have t2: "rt_started t2 = None" "rt_lines t2 = rt_lines t" "rt_level t2 = rt_level t"
    "map stream_key (rt_completed t2) = [(rt_attribution t1, ''completed'', None, later - between)]"
    using t1 by (simp_all add: assms(4) llm_stream_end_def llm_stream_start_def Let_def timing_of_def stream_key_def)
  have empty: "llm_stream_end x s t2 = t2" for x s using t2(1) by (simp add: llm_stream_end_def)
  have final: "llm_final r (usage_or_timing r a t2) = usage_or_timing r a t2" for r a
    using adds_level [OF adds_usage_or_timing, of r a t2] t2(3) assms(2) by (simp add: llm_final_def)
  obtain a where t3: "t3 = usage_or_timing response (Some a) t2"
    by (simp add: assms(5) runtime_context_llm_response_def llm_response_def Let_def empty final)
  have rest: "rt_completed t3 = []" "rt_started t3 = None"
    using t2 by (auto simp: t3 usage_or_timing_def record_usage_def write_llm_usage_def write_stream_timing_def write_line_def
        Let_def split: list.split)
  have "accounted t3 = accounted t2" by (simp add: t3 account)
  with rest t2 show "reported t3 = reported t @ [(rt_attribution t1, ''completed'', None, later - between)]"
    by (simp add: accounted_def) (simp add: reported_def)
  show "llm_stream_end now' status t3 = t3" using rest(2) by (simp add: llm_stream_end_def)
qed

end
