(* ===== verification/Trace_Properties.thy ===== *)
theory Trace_Properties
  imports Trace_Correct
begin

section \<open>Properties of the trace\<close>


definition demo_trace_ops :: "(rat \<times> trace_op) list" where
  "demo_trace_ops = [(0, Request ''planner'' (Fields []) None), (1, StreamChunk (Object [] [(''delta'', Atom (PStr ''x''))])),
     (3, Event (Object [] [(''type'', Atom (PStr ''response.completed''))]))]"


end
