(* ===== verification/Context_Requests.thy ===== *)
theory Context_Requests
  imports Context_Rendering Model_Client
begin

section \<open>The requests of the Runtime context\<close>

text \<open>
  \<open>agent/runtime_context.py\<close>: what an Observation and a merge ask of the model, the request itself
  on the trace, and what becomes of its answer.  The model streams chunks, which \<open>glue\<close> joins; a
  request is made in the world of the trace, and \<open>elapse\<close> is the world moving on between chunks.
\<close>

subsection \<open>Contracts and payloads\<close>

definition observation_contract :: string where
  "observation_contract = join [nl]
    [''Return exactly one UTF-8 Line Protocol block:'',
     ''BEGIN OBSERVATION ... END OBSERVATION.'',
     ''Create the Observation for the settled Tool round in the next message.'',
     ''Assess whether the evidence changes the active decision. Set'',
     ''AFFECTS_CURRENT_DECISION to true or false and repeat AFFECTED_TARGETS for any of'',
     ''confirmed_facts, summary, or durable_state affected. Positive impact requires at'',
     ''least one target; negative impact requires none.'',
     ''Set ROUND to the source round. Every EVIDENCE block MUST contain CATEGORY, TEXT, and'',
     ''at least one TOOL_CALL_ID. Copy TOOL_CALL_ID exactly from the input tool-call ID;'',
     ''never omit it and never invent one. Classify tool-confirmed output as confirmed_facts,'',
     ''every raw error as reported_errors, and interpretations as model_inferences. Use JSON'',
     ''literals after '' @ [CHR 0x27, CHR ''='', CHR 0x27] @ '' and do not output prose.'',
     [],
     ''Example:'',
     ''BEGIN OBSERVATION'',
     ''ROUND=4'',
     ''AFFECTS_CURRENT_DECISION=true'',
     ''AFFECTED_TARGETS='' @ json_string ''confirmed_facts'',
     ''BEGIN EVIDENCE'',
     ''CATEGORY='' @ json_string ''confirmed_facts'',
     ''TEXT='' @ json_string ''The requested files were found'',
     ''TOOL_CALL_ID='' @ json_string ''call_123'',
     ''END EVIDENCE'',
     ''END OBSERVATION'']"

definition merge_observation_contract :: string where
  "merge_observation_contract = join [nl]
    [''Return exactly one UTF-8 Line Protocol block:'',
     ''BEGIN OBSERVATION ... END OBSERVATION.'',
     ''Merge the Observations in the next message into one Observation. Set ROUND to the'',
     ''latest source round and preserve source-round metadata with SOURCE_ROUND_START and'',
     ''SOURCE_ROUND_END. Preserve positive decision impact and the union of all affected'',
     ''targets. Preserve every source tool-call ID. Each evidence entry is one'',
     ''nested EVIDENCE block with CATEGORY, TEXT, and repeated TOOL_CALL_ID fields. Use JSON'',
     ''literals after '' @ [CHR 0x27, CHR ''='', CHR 0x27] @ '' and do not output prose.'']"

definition strings_value :: "string list \<Rightarrow> pyval" where
  "strings_value xs = PList (map PStr xs)"

definition evidence_payload :: "evidence \<Rightarrow> pyval" where
  "evidence_payload e = PDict [(''text'', PStr (ev_text e)), (''tool_call_ids'', strings_value (ev_ids e))]"

definition observation_payload :: "observation \<Rightarrow> pyval" where
  "observation_payload ob = PDict
     [(''round'', PInt (ob_round ob)), (''affects_current_decision'', PBool (ob_affects ob)),
      (''affected_targets'', strings_value (ob_targets ob)),
      (''source_round_start'', PInt (first_round ob)), (''source_round_end'', PInt (last_round ob)),
      (''confirmed_facts'', PList (map evidence_payload (ob_facts ob))),
      (''reported_errors'', PList (map evidence_payload (ob_errors ob))),
      (''model_inferences'', PList (map evidence_payload (ob_inferences ob)))]"

definition raw_payload :: "raw_round \<Rightarrow> (string \<times> pyval) list" where
  "raw_payload item =
     [(''round'', PInt (rt_round item)),
      (''calls'', PList (map (\<lambda>c. PDict [(''id'', PStr (rc_id c)), (''name'', PStr (rc_name c)), (''args'', PDict (rc_args c)),
          (''result'', rc_result c), (''error'', opt_str (rc_error c))]) (rt_calls item)))]"

text \<open>The two messages of a request: the contract and its data.\<close>

definition observation_request :: "int \<Rightarrow> raw_call \<Rightarrow> (string \<times> pyval) list \<Rightarrow> string list" where
  "observation_request rnd call summary =
     [observation_contract,
      json_ascii True (PDict (raw_payload \<lparr>rt_round = rnd, rt_calls = [call]\<rparr> @ [(''decision_summary'', PDict summary)]))]"

definition merge_request :: "observation \<Rightarrow> observation \<Rightarrow> string list" where
  "merge_request first second =
     [merge_observation_contract, json_ascii False (PList [observation_payload first, observation_payload second])]"

definition human_message :: "string \<Rightarrow> tvalue" where
  "human_message s = Object (''content='' @ s) [(''content'', Atom (PStr s)), (''type'', Atom (PStr ''human''))]"

subsection \<open>The request\<close>

text \<open>\<open>_structured_invoke\<close>: every error but a cancellation is a provider error.\<close>

definition provider_failure :: "exn \<Rightarrow> exn" where
  "provider_failure e = (if is_exception e
     then ObservationProviderError (if exn_str e = [] then ''Runtime context model request failed'' else exn_str e) else e)"

definition structured_invoke ::
  "'w traced option \<Rightarrow> (tvalue \<Rightarrow> tvalue \<Rightarrow> tvalue) \<Rightarrow> ('w \<Rightarrow> 'w) \<Rightarrow> (tvalue list \<Rightarrow> 'w \<Rightarrow> 'w \<times> tvalue list \<times> exn option)
     \<Rightarrow> string list \<Rightarrow> string \<Rightarrow> 'w \<Rightarrow> 'w \<times> tvalue result" where
  "structured_invoke T glue elapse model request kind w =
     (let messages = map human_message request;
          w = with_trace T (\<lambda>now. runtime_context_llm_request (Items messages)) w
      in case stream_model_response T glue elapse (model messages) w of
           (w, Inl e) \<Rightarrow> (w, Inl (provider_failure e))
         | (w, Inr response) \<Rightarrow>
             let response = (case response of None \<Rightarrow> t_none | Some r \<Rightarrow> r);
                 shape = Fields [(''instructions'', Atom (PStr (hd request))), (''request_kind'', Atom (PStr kind))]
             in (with_trace T (\<lambda>now. runtime_context_llm_response now response shape) w, Inr response))"

text \<open>\<open>getattr(response, "content", response)\<close>; only text is read on.\<close>

definition response_content :: "tvalue \<Rightarrow> pyval" where
  "response_content response =
     (let content = (case response of Object t fs \<Rightarrow> if has_attr fs ''content'' then lookup fs ''content'' else response
                                    | _ \<Rightarrow> response)
      in case t_text content of Some s \<Rightarrow> PStr s | None \<Rightarrow> PNone)"

definition invoke_content ::
  "'w traced option \<Rightarrow> (tvalue \<Rightarrow> tvalue \<Rightarrow> tvalue) \<Rightarrow> ('w \<Rightarrow> 'w) \<Rightarrow> (tvalue list \<Rightarrow> 'w \<Rightarrow> 'w \<times> tvalue list \<times> exn option)
     \<Rightarrow> string list \<Rightarrow> string \<Rightarrow> 'w \<Rightarrow> 'w \<times> pyval result" where
  "invoke_content T glue elapse model request kind w =
     bindW (structured_invoke T glue elapse model request kind w) (\<lambda>w r. (w, Inr (response_content r)))"

subsection \<open>An Observation task and a merge\<close>

definition outcome_status :: "observation_status \<Rightarrow> string" where
  "outcome_status st = (case st of OPending \<Rightarrow> ''pending'' | OSucceeded \<Rightarrow> ''succeeded'' | OProviderError \<Rightarrow> ''provider_error''
     | OInvalid \<Rightarrow> ''invalid'' | OCancelled \<Rightarrow> ''cancelled'')"

definition outcome_value :: "int \<Rightarrow> observation_outcome \<Rightarrow> tvalue" where
  "outcome_value rnd oc = Object ''ObservationOutcome''
     [(''round'', Atom (PInt rnd)), (''status'', Atom (PStr (outcome_status (oo_status oc)))), (''error'', Atom (opt_str (oo_error oc)))]"

text \<open>\<open>_observe\<close>: request, reading of the answer, and the outcome, which is traced.\<close>

definition observe ::
  "'w traced option \<Rightarrow> (tvalue \<Rightarrow> tvalue \<Rightarrow> tvalue) \<Rightarrow> ('w \<Rightarrow> 'w) \<Rightarrow> (tvalue list \<Rightarrow> 'w \<Rightarrow> 'w \<times> tvalue list \<times> exn option)
     \<Rightarrow> int \<Rightarrow> raw_call \<Rightarrow> policy \<times> 'w \<Rightarrow> policy \<times> 'w" where
  "observe T glue elapse model rnd call s =
     (case s of (p, w) \<Rightarrow>
      let key = (rnd, rc_id call);
          summary = (case map_of (po_summaries p) key of None \<Rightarrow> [] | Some d \<Rightarrow> d)
      in case invoke_content T glue elapse model (observation_request rnd call summary) ''observation'' w of
           (w, answer) \<Rightarrow>
             let p = finish_observation key answer p
             in (p, case map_of (po_outcomes p) key of
                      None \<Rightarrow> w | Some oc \<Rightarrow> with_trace T (\<lambda>now. runtime_context_observation (outcome_value rnd oc)) w))"

text \<open>The merger of \<open>maintain\<close>; Observation tasks that finish meanwhile are \<open>events\<close> of the world.\<close>

definition merge_model ::
  "'w traced option \<Rightarrow> (tvalue \<Rightarrow> tvalue \<Rightarrow> tvalue) \<Rightarrow> ('w \<Rightarrow> 'w) \<Rightarrow> (tvalue list \<Rightarrow> 'w \<Rightarrow> 'w \<times> tvalue list \<times> exn option)
     \<Rightarrow> ('w \<Rightarrow> ((int \<times> string) \<times> pyval result) list) \<Rightarrow> 'w merger" where
  "merge_model T glue elapse model events w first second =
     (case invoke_content T glue elapse model (merge_request first second) ''observation_merge'' w of
        (w, answer) \<Rightarrow> (w, events w, answer))"

subsection \<open>The cost of a context\<close>

text \<open>
  \<open>_estimate_tokens\<close> of what is sent: neither a context nor a message is a JSON value, so
  \<open>default=str\<close> encodes their texts, which belong to the libraries.
\<close>

definition estimate_tokens :: "pyval \<Rightarrow> int" where
  "estimate_tokens v = max 1 (int (point_count (json_dumps False v) div 4))"

definition context_token_cost :: "(runtime_context \<Rightarrow> string) \<Rightarrow> (runtime_context \<Rightarrow> string list) \<Rightarrow> runtime_context \<Rightarrow> int" where
  "context_token_cost context_text message_texts context =
     estimate_tokens (if rx_messages context then strings_value (message_texts context) else PStr (context_text context))"

subsection \<open>Lemmas\<close>

text \<open>A request ends with an answer, a provider error or a cancellation.\<close>

lemma structured_invoke_errors:
  "structured_invoke T glue elapse model request kind w = (w', Inl e) \<Longrightarrow>
   e = CancelledError \<or> (\<exists>m. e = ObservationProviderError m \<and> m \<noteq> [])"
  by (auto simp: structured_invoke_def Let_def provider_failure_def is_exception_def split: prod.splits sum.splits if_splits)

text \<open>Once observed, a call is no longer pending there, and its outcome says how it ended.\<close>

lemma observe_settles:
  assumes "observe T glue elapse model rnd call (p, w) = (p', w')"
  shows "\<exists>oc. map_of (po_outcomes p') (rnd, rc_id call) = Some oc \<and> oo_status oc \<noteq> OPending
     \<and> (oo_status oc = OSucceeded \<longleftrightarrow> oo_error oc = None)"
proof -
  obtain w1 answer where "p' = finish_observation (rnd, rc_id call) answer p"
    using assms unfolding observe_def Let_def by (auto split: prod.splits)
  then show ?thesis
    by (cases "observation_result (rnd, rc_id call) answer")
      (auto simp: finish_observation_def Let_def set_outcome_def update_Some_unfold split: exn.splits)
qed

end
