(* ===== verification/Spec2Isabelle.thy ===== *)
theory Spec2Isabelle
  imports Agent_Properties Persistence_Properties Protocol_Properties Context_Properties
    Registry_Properties Mode_Properties Routing_Properties Conversation_Properties
    Entry_Properties Cli_Properties Runs_Properties Trace_Properties Context_Requests
begin

text \<open>
  A verification development for \<open>codex-py\<close>, a Python coding agent.  A user's goal is planned,
  executed step by step with model and tool calls, judged, recorded and resumed; what passes
  between the program and its models is a small line-oriented protocol.

  Parts and theories (sources are under \<open>src/\<close>).

  \<^item> \<open>Prelude\<close>, \<open>PyValue\<close>, \<open>Json\<close>: exceptions as a datatype, raising computations as sums
    (\<open>bindE\<close>) and world-passing computations (\<open>bindW\<close>), Python text, dictionaries, dynamic
    values, and the part of the \<open>json\<close> module that the program uses.
  \<^item> \<open>State\<close>, \<open>State_Codec\<close>: \<open>memory/state.py\<close>.  Each dataclass is a record, each
    \<open>__post_init__\<close> a constructor \<open>mk_...\<close>, with a well-formedness predicate that is exactly what
    the constructor accepts; \<open>serialize_agent_state\<close> and its inverse.
  \<^item> \<open>Contracts\<close>: \<open>PlannerLike\<close> and \<open>ExecutorLike\<close> as locales, with the laws the coordinators use.
  \<^item> \<open>Agent_Loop\<close>: \<open>agent/agent.py\<close>, the recovery decisions and the \<open>while True\<close> loop of
    \<open>Agent.run\<close> as a partial function, verified inside the contracts.
  \<^item> \<open>Recovery\<close>, \<open>Recovery_Correct\<close>: \<open>agent/recovery.py\<close>, the in-memory store over its list and
    the MySQL store over its table; the locale \<open>recovery_store\<close> is interpreted for both.
  \<^item> \<open>Durable\<close>, \<open>Durable_Correct\<close>, \<open>Durable_System\<close>: \<open>agent/durable.py\<close>, the nodes and edges of
    the graph as functions on the graph state and run, resume and interrupt around it; the graph
    invariant, its progress measure, and the assembled durable agent.
  \<^item> \<open>Line_Protocol\<close>, \<open>Decoders\<close>: \<open>llm/line_protocol.py\<close>, registry, parser and decoders, with a
    printer as the reference for the parser.
  \<^item> \<open>Planner\<close>: \<open>agent/planner.py\<close> and the validated request of \<open>llm/text_stream.py\<close>.
  \<^item> \<open>Messages\<close>, \<open>Executor\<close>, \<open>Executor_Correct\<close>: \<open>agent/tool_results.py\<close> and
    \<open>agent/executor.py\<close>: rounds of model and tool calls, the completion judge, and the outcome
    of a step.
  \<^item> \<open>Runtime_Context\<close>, \<open>Runtime_Context_Correct\<close>, \<open>Context_Rendering\<close>:
    \<open>agent/runtime_context.py\<close>, the evidence window as a state machine (\<open>policy_step\<close>), its
    maintenance under a budget, and the two layouts.
  \<^item> \<open>Context_Requests\<close>: what the Runtime context asks of its model, and what becomes of the answer.
  \<^item> \<open>Responses\<close>: \<open>agent/responses_adapter.py\<close> and \<open>agent/tool_binding.py\<close>, messages and tools as
    values of the Responses API and the reading of its stream.
  \<^item> \<open>Execution\<close>, \<open>React\<close>, \<open>React_Correct\<close>: \<open>agent/execution.py\<close>, execution answers, the direct,
    tool-agent and ReAct modes, the tool runtime and the choice of a mode.
  \<^item> \<open>Task_Routing\<close>: \<open>agent/task_analyzer.py\<close> and \<open>TaskRouter\<close>, the parser of an analysis, the
    deterministic route, and the run of a goal in the mode of its analysis.
  \<^item> \<open>Fingerprint\<close>, \<open>Registry\<close>, \<open>Registry_Correct\<close>: \<open>agent/registry.py\<close>, the canonical JSON and
    SHA-256 of a configuration snapshot, the in-memory and the MySQL registry with their leases; the
    locale \<open>lease_store\<close> is interpreted for both.
  \<^item> \<open>Conversation\<close>, \<open>Conversation_Correct\<close>, \<open>Conversation_Stores\<close>: \<open>agent/conversation.py\<close>, the
    two stores, the service with run, resume, show and reconciliation, and its runners; the locale
    \<open>conversation_store\<close> carries the proofs of the service and is interpreted for both stores.
  \<^item> \<open>Configuration\<close>: \<open>agent/configuration.py\<close>, with the layers of a section as the reference for
    the merge.
  \<^item> \<open>Migration\<close>, \<open>Migration_Correct\<close>: \<open>agent/migration.py\<close>, server versions, database URLs, the
    statements of a migration over tables and columns, and the check of the schema.
  \<^item> \<open>Run_Entry\<close>, \<open>Run_Entry_Correct\<close>: \<open>_run\<close>, \<open>run_agent\<close> and \<open>resume_agent\<close> of
    \<open>agent/durable.py\<close>: snapshot, schema check, registry row, lease and its renewals, work,
    recorded result and release, while other processes act on the registry.
  \<^item> \<open>Cli\<close>, \<open>Cli_Correct\<close>: \<open>agent/cli.py\<close>, checks of the arguments, commands, exit codes, printed
    lines and the chat; the locale \<open>kept_operations\<close> is interpreted for the commands wired to the
    conversation tables.
  \<^item> \<open>Conversation_Runs\<close>: \<open>_run_mysql_conversation\<close> and \<open>_resume_mysql_conversation\<close> of
    \<open>agent/conversation.py\<close> put together, the service over its tables with the registry of runs as
    part of its world: a settled durable turn is backed by its recorded run.
  \<^item> \<open>Trace\<close>, \<open>Model_Client\<close>, \<open>Trace_Correct\<close>: \<open>agent/trace.py\<close>, \<open>llm/llm.py\<close> and
    \<open>agent/model_request.py\<close>: the state and the lines of a trace, and requests with their callbacks.
  \<^item> \<open>Examples\<close> and the \<open>..._Properties\<close> theories: concrete inputs, and the properties with
    their witnesses.

  Interaction.  The command line performs a run (\<open>run_entry\<close>) or a turn of a conversation
  (\<open>service_run\<close>); a turn in the durable mode enters a registered run in its turn (\<open>registered_run\<close>).  A run works
  under a lease: the durable graph, or the router with the execution modes.  The durable graph calls
  the Planner and the Executor through the contracts, and a recovery store through \<open>recovery_ops\<close>;
  the Executor and the ReAct mode call the Runtime context through \<open>context_ops\<close>.  Model providers,
  MCP tool sessions, checkpointers and cost functions are code outside the repository and
  parameters: functions of an arbitrary world that may raise.

  What the lemmas show.  Each store refines or keeps an abstract reading of its tables
  (\<open>sql_refines_memory\<close>, \<open>conversation_store_refines\<close>, \<open>lease_is_exclusive\<close>); each loop ends with an
  answer that is justified (\<open>durable_run_settles\<close>, \<open>react_completion_is_judged\<close>,
  \<open>maintained_context_fits\<close>); what is written reads back (\<open>payload_round_trip\<close>, \<open>parse_of_rendered\<close>,
  \<open>quoted_url_round_trip\<close>); a run and a command settle whatever others do (\<open>entered_run_settles\<close>,
  \<open>command_is_answered\<close>, \<open>commands_keep_conversations\<close>), and what a conversation shows is what the
  registry recorded (\<open>durable_turn_has_run\<close>).  Lemmas that show a behaviour against the
  intent of the code say so in their text: \<open>interrupted_turn_stays\<close>, \<open>failed_renewal_discards_result\<close>,
  \<open>reconciled_turn_without_answer\<close>, \<open>chat_stuck_after_failed_creation\<close>,
  \<open>cancelled_chat_without_guidance\<close>, \<open>concurrent_response_takes_timing\<close>, \<open>debug_hides_context\<close>.

  Bounds.  The only fuel is the recursion limit of the graph engine (\<open>graph_run\<close>), a parameter of
  the engine itself; \<open>graph_terminates\<close> shows that a finite limit suffices from every invariant
  state.  The loops of \<open>Agent.run\<close> and of \<open>maintain\<close> are partial functions whose returning is a
  theorem; every other loop is structural or has its measure.

  Not modelled.  Connections, signals as such (a cancellation is an exception of its own), HTTP and
  SDK calls and the construction of provider clients are I/O; \<open>argparse\<close> and the YAML reader are
  parameters.  The components are modelled without their trace calls, which only observe; the trace
  is modelled by itself.  The tool calls of one batch are made in order, and an Observation task is
  an event at its end.  Column types and widths, and the collation of MySQL (identifiers are compared
  as texts), are left out.  Readings of the clock in the trace are exact rationals.  A \<open>str\<close> is its
  UTF-8 byte string; blanks and letters outside ASCII are not folded, and invalid UTF-8 does not
  occur.
\<close>


definition native_ops :: "nat context_ops" where
  "native_ops = \<lparr>cp_messages = True, cp_fresh = id, cp_use = id,
     cp_maintain = (\<lambda>w durable fixed feedback status. (w, Inr \<lparr>rx_durable = durable, rx_observations = [],
        rx_raw = [], rx_messages = True\<rparr>)),
     cp_record = (\<lambda>w n calls results errors ctx failed. (w, Inr ()))\<rparr>"


end
